(* ===== verification/Prelude.thy ===== *)
theory Prelude
  imports Complex_Main "HOL-Library.Word" "HOL-Library.Product_Lexorder"
begin

text \<open>
  Shared vocabulary of the development. Go values that every component uses
  (results that are either an error or a value, pointers, byte strings), the
  collections of simplification rules the component proofs draw on, and the
  generic facts on lists, association lists and sums that more than one
  component needs.

  Conventions.
  \<^item> A Go function returning \<open>(T, error)\<close> whose value is meaningless when the
    error is set is a function into the sum \<open>'e + 'a\<close>: \<open>Inl\<close> is the error.
    Where the code reads the value although the error is set, the model returns
    the pair itself.
  \<^item> A Go pointer that may be nil is an \<open>option\<close>.
  \<^item> A Go string is a list of bytes, which is what \<open>string\<close> is in HOL.
  \<^item> A Go map is an association list read with \<open>map_of\<close> where the model has to
    iterate over it, and a map \<open>'k \<rightharpoonup> 'v\<close> where it only looks keys up.
\<close>

named_theorems cfg_simps "unfolding rules for the configuration compilers"
named_theorems eval_simps "unfolding rules for the evaluator"
named_theorems store_simps "unfolding rules for the store"
named_theorems http_simps "unfolding rules for the request handlers"

subsection \<open>Results\<close>

definition bindE :: "'e + 'a \<Rightarrow> ('a \<Rightarrow> 'e + 'b) \<Rightarrow> 'e + 'b" where
  "bindE m f = (case m of Inl e \<Rightarrow> Inl e | Inr x \<Rightarrow> f x)"

lemma bindE_simps [simp]:
  "bindE (Inl e) f = Inl e"
  "bindE (Inr x) f = f x"
  by (simp_all add: bindE_def)

lemma bindE_cong [fundef_cong]:
  assumes "m = m'" and "\<And>x. m' = Inr x \<Longrightarrow> f x = g x"
  shows "bindE m f = bindE m' g"
  using assms by (cases m') auto

lemma bindE_eq_Inr: "bindE m f = Inr y \<longleftrightarrow> (\<exists>x. m = Inr x \<and> f x = Inr y)"
  by (cases m) auto

lemma bindE_eq_Inl: "bindE m f = Inl e \<longleftrightarrow> m = Inl e \<or> (\<exists>x. m = Inr x \<and> f x = Inl e)"
  by (cases m) auto

definition is_ok :: "'e + 'a \<Rightarrow> bool" where
  "is_ok r = (case r of Inl _ \<Rightarrow> False | Inr _ \<Rightarrow> True)"

lemma is_ok_simps [simp]: "is_ok (Inr x)" "\<not> is_ok (Inl e)"
  by (simp_all add: is_ok_def)

lemma is_ok_iff: "is_ok r \<longleftrightarrow> (\<exists>x. r = Inr x)"
  by (cases r) auto

text \<open>A loop that stops at the first error and collects the results.\<close>

fun mapE :: "('a \<Rightarrow> 'e + 'b) \<Rightarrow> 'a list \<Rightarrow> 'e + 'b list" where
  "mapE f [] = Inr []"
| "mapE f (x # xs) = bindE (f x) (\<lambda>y. bindE (mapE f xs) (\<lambda>ys. Inr (y # ys)))"

lemma mapE_cong [fundef_cong]:
  assumes "xs = ys" and "\<And>x. x \<in> set ys \<Longrightarrow> f x = g x"
  shows "mapE f xs = mapE g ys"
  using assms(2) unfolding assms(1) by (induction ys) auto

lemma mapE_eq_Inr:
  "mapE f xs = Inr ys \<longleftrightarrow> list_all2 (\<lambda>x y. f x = Inr y) xs ys"
proof (induction xs arbitrary: ys)
  case Nil
  then show ?case by auto
next
  case (Cons x xs)
  then show ?case by (cases ys) (auto simp: bindE_eq_Inr)
qed

lemma mapE_map: "mapE f (map g xs) = mapE (\<lambda>x. f (g x)) xs"
  by (induction xs) auto

lemma mapE_Inr: "(\<And>x. x \<in> set xs \<Longrightarrow> f x = Inr (g x)) \<Longrightarrow> mapE f xs = Inr (map g xs)"
  by (induction xs) auto

fun foldE :: "('a \<Rightarrow> 'b \<Rightarrow> 'e + 'a) \<Rightarrow> 'b list \<Rightarrow> 'a \<Rightarrow> 'e + 'a" where
  "foldE f [] a = Inr a"
| "foldE f (x # xs) a = bindE (f a x) (foldE f xs)"

lemma foldE_invariant:
  "foldE f xs a = Inr b \<Longrightarrow> P a \<Longrightarrow> (\<And>x c c'. x \<in> set xs \<Longrightarrow> P c \<Longrightarrow> f c x = Inr c' \<Longrightarrow> P c') \<Longrightarrow> P b"
proof (induction xs arbitrary: a)
  case (Cons x xs)
  from Cons.prems(1) obtain c where c: "f a x = Inr c" "foldE f xs c = Inr b"
    by (auto simp: bindE_eq_Inr)
  have "P c" by (rule Cons.prems(3) [OF _ Cons.prems(2) c(1)]) simp
  then show ?case by (rule Cons.IH [OF c(2)]) (rule Cons.prems(3), simp_all)
qed simp

lemma mapE_set: "mapE f xs = Inr ys \<Longrightarrow> y \<in> set ys \<Longrightarrow> \<exists>x \<in> set xs. f x = Inr y"
  by (induction xs arbitrary: ys) (auto simp: bindE_eq_Inr)

lemma those_eq_Some: "those xs = Some ys \<longleftrightarrow> xs = map Some ys"
  by (induction xs arbitrary: ys) (auto split: option.splits simp: Cons_eq_map_conv)

subsection \<open>Bytes and strings\<close>

definition is_digit :: "char \<Rightarrow> bool" where
  "is_digit c \<longleftrightarrow> 48 \<le> (of_char c :: nat) \<and> (of_char c :: nat) \<le> 57"

definition fmt_q :: "string \<Rightarrow> string" where
  "fmt_q s = CHR 0x22 # s @ [CHR 0x22]"

definition has_prefix :: "string \<Rightarrow> string \<Rightarrow> bool" where
  "has_prefix s p \<longleftrightarrow> take (length p) s = p"

lemma has_prefix_iff: "has_prefix s p \<longleftrightarrow> (\<exists>t. s = p @ t)"
  unfolding has_prefix_def by (metis append_eq_conv_conj append_take_drop_id)

text \<open>\<open>strings.Split\<close> on a one-byte separator.\<close>

fun split_on :: "char \<Rightarrow> string \<Rightarrow> string list" where
  "split_on c [] = [[]]"
| "split_on c (x # xs) =
     (case split_on c xs of
        [] \<Rightarrow> []
      | w # ws \<Rightarrow> if x = c then [] # w # ws else (x # w) # ws)"

lemma split_on_not_Nil [simp]: "split_on c s \<noteq> []"
  by (induction s) (auto split: list.splits)

subsection \<open>Association lists\<close>

lemma map_of_SomeD_set: "map_of kvs k = Some v \<Longrightarrow> (k, v) \<in> set kvs"
  by (rule map_of_SomeD)

lemma size_in_kvs:
  "(k, v) \<in> set kvs \<Longrightarrow> size v < size_list (size_prod (\<lambda>_. 0) size) kvs"
  by (induction kvs) auto

lemma last_in_set_filter: "filter P xs \<noteq> [] \<Longrightarrow> last (filter P xs) \<in> set xs"
  by (metis filter_is_subset last_in_set subsetD)

subsection \<open>Lists\<close>

lemma find_map_Some: "find P xs = Some x \<Longrightarrow> x \<in> set xs \<and> P x"
  by (induction xs) (auto split: if_splits)

lemma find_None_iff_all: "find P xs = None \<longleftrightarrow> (\<forall>x \<in> set xs. \<not> P x)"
  by (induction xs) auto

end
