(* ===== verification/Rollout.thy ===== *)
theory Rollout
  imports Prelude
begin

text \<open>
  Percentage rollouts, \<open>internal/eval/rollout.go\<close>: a 64-bit FNV-1a hash of salt
  and attribute value picks one of 10000 buckets, and a gate of \<open>percent\<close> admits
  the first \<open>100 * percent\<close> of them. The arithmetic is on 64-bit words and wraps.
\<close>

unbundle bit_operations_syntax

subsection \<open>The hash\<close>

definition fnv_offset64 :: "64 word" where "fnv_offset64 = 14695981039346656037"

definition fnv_prime64 :: "64 word" where "fnv_prime64 = 1099511628211"

definition fnv_step :: "64 word \<Rightarrow> char \<Rightarrow> 64 word" where
  "fnv_step h c = (h XOR word_of_nat (of_char c)) * fnv_prime64"

text \<open>\<open>h.Write(bytes)\<close> on the running sum.\<close>

definition fnv_write :: "64 word \<Rightarrow> string \<Rightarrow> 64 word" where
  "fnv_write h s = foldl fnv_step h s"

definition rolloutBucket :: "string \<Rightarrow> string \<Rightarrow> int" where
  "rolloutBucket salt attrValue =
     (let h0 = fnv_offset64;
          h1 = fnv_write h0 salt;
          h2 = fnv_write h1 '':'';
          h3 = fnv_write h2 attrValue
      in uint (h3 mod 10000))"

definition inBucket :: "string \<Rightarrow> string \<Rightarrow> int \<Rightarrow> bool" where
  "inBucket salt attrValue percent =
     (if percent \<le> 0 then False
      else if percent \<ge> 100 then True
      else rolloutBucket salt attrValue < percent * 100)"

subsection \<open>Properties\<close>

lemma fnv_write_append: "fnv_write h (s @ t) = fnv_write (fnv_write h s) t"
  by (simp add: fnv_write_def)

lemma rolloutBucket_concat:
  "rolloutBucket salt v = uint (fnv_write fnv_offset64 (salt @ '':'' @ v) mod 10000)"
  by (simp add: rolloutBucket_def Let_def fnv_write_append [symmetric] del: append_Cons append_Nil)

lemma rolloutBucket_range: "0 \<le> rolloutBucket salt v \<and> rolloutBucket salt v < 10000"
  by (simp add: rolloutBucket_def Let_def uint_mod)

lemma inBucket_iff:
  "0 \<le> percent \<Longrightarrow> percent \<le> 100 \<Longrightarrow> inBucket salt v percent \<longleftrightarrow> rolloutBucket salt v < percent * 100"
  using rolloutBucket_range [of salt v] by (auto simp: inBucket_def)

text \<open>
  C9. The bucket of any salt and value lies in the 10000 buckets, it depends only
  on the bytes of salt, colon and value, and a gate of \<open>percent\<close> between 0
  and 100 admits exactly the buckets below \<open>100 * percent\<close>: nobody at 0, everybody
  at 100.
\<close>

theorem rollout_gate:
  assumes "0 \<le> percent" "percent \<le> 100"
  shows "rolloutBucket salt v \<in> {0..<10000} \<and>
    rolloutBucket salt v = uint (fnv_write fnv_offset64 (salt @ '':'' @ v) mod 10000) \<and>
    (inBucket salt v percent \<longleftrightarrow> rolloutBucket salt v \<in> {0..<percent * 100})"
  using assms rolloutBucket_range [of salt v] rolloutBucket_concat [of salt v]
  by (simp add: inBucket_iff)

theorem rollout_gate_witness:
  "rolloutBucket ''checkout-v2'' ''user-0'' \<in> {0..<10000} \<and>
   (inBucket ''checkout-v2'' ''user-0'' 25 \<longleftrightarrow> rolloutBucket ''checkout-v2'' ''user-0'' \<in> {0..<25 * 100})"
  using rollout_gate [of 25 "''checkout-v2''" "''user-0''"] by simp

text \<open>
  Raising the percentage of a rollout never takes a user out of it.
\<close>

theorem rollout_monotone:
  assumes "inBucket salt v p" "p \<le> q"
  shows "inBucket salt v q"
  using assms by (auto simp: inBucket_def split: if_splits)

lemma sample_bucket: "rolloutBucket ''checkout-v2'' ''user-0'' = 2688"
  by code_simp

theorem rollout_monotone_witness:
  "\<not> inBucket ''checkout-v2'' ''user-0'' 26 \<and> inBucket ''checkout-v2'' ''user-0'' 27 \<and>
   inBucket ''checkout-v2'' ''user-0'' 50"
proof -
  have "\<not> inBucket ''checkout-v2'' ''user-0'' 26" "inBucket ''checkout-v2'' ''user-0'' 27"
    by (simp_all add: inBucket_def sample_bucket)
  then show ?thesis using rollout_monotone [of "''checkout-v2''" "''user-0''" 27 50] by simp
qed

end
