(* ===== verification/Go_Json.thy ===== *)
theory Go_Json
  imports Prelude
begin

text \<open>
  The part of Go's standard library that every component relies on: JSON
  documents and their decoding (\<open>encoding/json\<close>), the values a decoded document
  or an evaluation context holds (\<open>any\<close>), and 64-bit floating point numbers.

  A JSON text is modelled by its syntax tree; a number keeps the text of its
  literal, because \<open>encoding/json\<close> decodes the same literal differently into a
  \<open>float64\<close>, into an \<open>int\<close> and into a \<open>json.RawMessage\<close>. A
  \<open>json.RawMessage\<close> is empty, a document, or bytes that are no JSON text.
  Two encodings are equal as byte strings exactly when they are equal as syntax
  trees, as \<open>json.Marshal\<close> emits no white space and sorts the keys of a map.
\<close>

subsection \<open>Documents\<close>

datatype json =
    JNull
  | JBool bool
  | JNum string
  | JStr string
  | JArr "json list"
  | JObj "(string \<times> json) list"

datatype raw = RawNil | RawDoc json | RawBytes string

text \<open>\<open>len(raw) == 0\<close>\<close>

definition raw_empty :: "raw \<Rightarrow> bool" where
  "raw_empty r = (case r of RawNil \<Rightarrow> True | RawDoc _ \<Rightarrow> False | RawBytes s \<Rightarrow> s = [])"

lemma raw_empty_simps [simp]:
  "raw_empty RawNil" "\<not> raw_empty (RawDoc j)" "raw_empty (RawBytes s) \<longleftrightarrow> s = []"
  by (simp_all add: raw_empty_def)

subsection \<open>Number literals\<close>

definition int_of_digits :: "string \<Rightarrow> int" where
  "int_of_digits ds = foldl (\<lambda>a c. 10 * a + (int (of_char c) - 48)) 0 ds"

function show_digits :: "int \<Rightarrow> string" where
  "show_digits n = (if n < 10 then [char_of (48 + nat n)]
                    else show_digits (n div 10) @ [char_of (48 + nat (n mod 10))])"
  by auto
termination by (relation "measure nat") auto

declare show_digits.simps [simp del]

definition show_int :: "int \<Rightarrow> string" where
  "show_int i = (if i < 0 then CHR ''-'' # show_digits (- i) else show_digits i)"

text \<open>
  The grammar of a JSON number: sign, integer part, fraction, exponent. The
  value is \<open>coefficient * 10 ^ exponent\<close>; \<open>lit_plain\<close> says that the literal
  has neither fraction nor exponent.
\<close>

record literal =
  lit_neg :: bool
  lit_coeff :: int
  lit_exp :: int
  lit_plain :: bool

definition split_sign :: "string \<Rightarrow> bool \<times> string" where
  "split_sign s = (case s of [] \<Rightarrow> (False, s)
                   | c # cs \<Rightarrow> if c = CHR ''-'' then (True, cs) else (False, s))"

definition parse_frac :: "string \<Rightarrow> (string \<times> string) option" where
  "parse_frac s = (case s of [] \<Rightarrow> Some ([], [])
     | c # cs \<Rightarrow> if c \<noteq> CHR ''.'' then Some ([], s)
                else if takeWhile is_digit cs = [] then None
                else Some (takeWhile is_digit cs, dropWhile is_digit cs))"

definition parse_exp :: "string \<Rightarrow> int option option" where
  "parse_exp s = (case s of [] \<Rightarrow> Some None
     | c # cs \<Rightarrow>
        if c \<noteq> CHR ''e'' \<and> c \<noteq> CHR ''E'' then None
        else let (neg, ds) = (case cs of [] \<Rightarrow> (False, [])
                              | d # ds \<Rightarrow> if d = CHR ''-'' then (True, ds)
                                         else if d = CHR ''+'' then (False, ds) else (False, cs))
             in if ds = [] \<or> \<not> list_all is_digit ds then None
                else Some (Some (if neg then - int_of_digits ds else int_of_digits ds)))"

definition parse_literal :: "string \<Rightarrow> literal option" where
  "parse_literal s =
     (let (neg, s1) = split_sign s; ip = takeWhile is_digit s1; r = dropWhile is_digit s1
      in if ip = [] \<or> (length ip > 1 \<and> hd ip = CHR ''0'') then None
         else case parse_frac r of None \<Rightarrow> None
         | Some (fp, r') \<Rightarrow>
            (case parse_exp r' of None \<Rightarrow> None
             | Some e \<Rightarrow> Some \<lparr>lit_neg = neg, lit_coeff = int_of_digits (ip @ fp),
                               lit_exp = (case e of None \<Rightarrow> 0 | Some k \<Rightarrow> k) - int (length fp),
                               lit_plain = (fp = [] \<and> e = None)\<rparr>))"

definition int64_range :: "int \<Rightarrow> bool" where
  "int64_range i \<longleftrightarrow> - (2 ^ 63) \<le> i \<and> i < 2 ^ 63"

text \<open>Decoding into a Go \<open>int\<close>: a plain literal that fits 64 bits.\<close>

definition int_of_literal :: "string \<Rightarrow> int option" where
  "int_of_literal s = (case parse_literal s of None \<Rightarrow> None
     | Some l \<Rightarrow> let i = (if lit_neg l then - lit_coeff l else lit_coeff l)
                 in if lit_plain l \<and> int64_range i then Some i else None)"

text \<open>Printing an integer and reading it back.\<close>

lemma digit_cases: "0 \<le> (d :: int) \<Longrightarrow> d < 10 \<Longrightarrow> nat d \<in> {0, 1, 2, 3, 4, 5, 6, 7, 8, 9}"
  by (simp; arith)

lemma is_digit_char_of: "0 \<le> (d :: int) \<Longrightarrow> d < 10 \<Longrightarrow> is_digit (char_of (48 + nat d))"
  by (drule (1) digit_cases) (auto simp: is_digit_def)

lemma of_char_digit:
  "0 \<le> d \<Longrightarrow> d < 10 \<Longrightarrow> (of_char (char_of (48 + nat d)) :: nat) = 48 + nat d"
  by (drule (1) digit_cases) auto

lemma char_of_digit_0: "0 \<le> (d :: int) \<Longrightarrow> d < 10 \<Longrightarrow> char_of (48 + nat d) = CHR ''0'' \<longleftrightarrow> d = 0"
  by (frule (1) digit_cases) (auto simp: char_of_def bit_0)

lemma show_digits_digits: "0 \<le> n \<Longrightarrow> list_all is_digit (show_digits n)"
proof (induction n rule: show_digits.induct)
  case (1 n)
  then show ?case by (subst show_digits.simps) (auto simp: is_digit_char_of)
qed

lemma show_digits_not_Nil [simp]: "show_digits n \<noteq> []"
  by (subst show_digits.simps) simp

lemma int_of_digits_show: "0 \<le> n \<Longrightarrow> int_of_digits (show_digits n) = n"
proof (induction n rule: show_digits.induct)
  case (1 n)
  then show ?case
    by (subst show_digits.simps) (auto simp: int_of_digits_def of_char_digit)
qed

lemma hd_show_digits: "0 \<le> n \<Longrightarrow> hd (show_digits n) = CHR ''0'' \<longleftrightarrow> n = 0"
proof (induction n rule: show_digits.induct)
  case (1 n)
  show ?case
  proof (cases "n < 10")
    case True
    then show ?thesis using 1 by (subst show_digits.simps) (simp add: char_of_digit_0)
  next
    case False
    then have "hd (show_digits n) = hd (show_digits (n div 10))"
      by (subst show_digits.simps) simp
    then show ?thesis using False 1 by auto
  qed
qed

lemma length_show_digits_0 [simp]: "show_digits 0 = ''0''"
  by (subst show_digits.simps) (simp add: char_of_def bit_0)

lemma parse_literal_show_digits:
  assumes "0 \<le> n"
  shows "parse_literal (show_digits n) =
           Some \<lparr>lit_neg = False, lit_coeff = n, lit_exp = 0, lit_plain = True\<rparr>"
proof -
  have d: "list_all is_digit (show_digits n)" using assms by (rule show_digits_digits)
  then have t: "takeWhile is_digit (show_digits n) = show_digits n"
      and r: "dropWhile is_digit (show_digits n) = []"
    by (auto simp: list_all_iff)
  have "hd (show_digits n) \<noteq> CHR ''-''"
    using d by (cases "show_digits n") (auto simp: is_digit_def)
  then have "split_sign (show_digits n) = (False, show_digits n)"
    by (cases "show_digits n") (auto simp: split_sign_def)
  moreover have "\<not> (length (show_digits n) > 1 \<and> hd (show_digits n) = CHR ''0'')"
    using hd_show_digits [OF assms] by auto
  ultimately show ?thesis
    using assms
    by (auto simp: parse_literal_def t r parse_frac_def parse_exp_def int_of_digits_show)
qed

lemma parse_literal_minus:
  assumes "parse_literal s = Some l" "\<not> lit_neg l"
  shows "parse_literal (CHR ''-'' # s) = Some (l\<lparr>lit_neg := True\<rparr>)"
  using assms
  by (auto simp: parse_literal_def split_sign_def Let_def split: list.splits if_splits option.splits prod.splits)

lemma int_of_literal_show_int: "int64_range i \<Longrightarrow> int_of_literal (show_int i) = Some i"
  by (cases "i < 0")
     (auto simp: int_of_literal_def show_int_def parse_literal_show_digits parse_literal_minus)

subsection \<open>Floating point\<close>

text \<open>
  A finite IEEE double: a sign and the exact magnitude. NaN and the infinities
  are not JSON values and do not occur in a decoded document.
\<close>

datatype float64 = F64 (f_neg: bool) (f_mag: rat)

definition f_val :: "float64 \<Rightarrow> rat" where
  "f_val x = (if f_neg x then - f_mag x else f_mag x)"

definition pow_int :: "int \<Rightarrow> int \<Rightarrow> rat" where
  "pow_int b k = (if 0 \<le> k then of_int (b ^ nat k) else 1 / of_int (b ^ nat (- k)))"

definition round_even :: "rat \<Rightarrow> int" where
  "round_even r = (let f = \<lfloor>r\<rfloor>; d = r - of_int f in
     if d < 1 / 2 then f else if d > 1 / 2 then f + 1 else if even f then f else f + 1)"

function int_log :: "int \<Rightarrow> int \<Rightarrow> int" where
  "int_log b n = (if b < 2 \<or> n < b then 0 else 1 + int_log b (n div b))"
  by auto
termination
  by (relation "measure (\<lambda>(b, n). nat n)") (auto intro!: int_div_less_self simp: nat_less_eq_zless)

declare int_log.simps [simp del]

text \<open>\<open>ilog b r\<close> is the exponent of the leading base-\<open>b\<close> digit of \<open>r > 0\<close>.\<close>

definition ilog :: "int \<Rightarrow> rat \<Rightarrow> int" where
  "ilog b r = (let (n, d) = quotient_of r;
                   k = int_log b n - int_log b d
               in if pow_int b k \<le> r then k else k - 1)"

text \<open>
  Round to nearest, ties to even: a significand of \<open>p\<close> bits, exponents from
  \<open>emin\<close> (gradual underflow below) to \<open>emax\<close> (\<open>None\<close> is overflow).
\<close>

definition round_float :: "nat \<Rightarrow> int \<Rightarrow> int \<Rightarrow> rat \<Rightarrow> rat option" where
  "round_float p emin emax r =
     (if r = 0 then Some 0
      else let e = max (ilog 2 r) emin; u = pow_int 2 (e - int p + 1);
               m = of_int (round_even (r / u)) * u
           in if m = 0 \<or> ilog 2 m \<le> emax then Some m else None)"

abbreviation round64 :: "rat \<Rightarrow> rat option" where
  "round64 \<equiv> round_float 53 (- 1022) 1023"

abbreviation round32 :: "rat \<Rightarrow> rat option" where
  "round32 \<equiv> round_float 24 (- 126) 127"

definition float_of_literal :: "string \<Rightarrow> float64 option" where
  "float_of_literal s = (case parse_literal s of None \<Rightarrow> None
     | Some l \<Rightarrow> map_option (F64 (lit_neg l))
                   (round64 (of_int (lit_coeff l) * pow_int 10 (lit_exp l))))"

text \<open>The conversion \<open>float64(n)\<close> of a 64-bit integer.\<close>

definition float_of_int :: "int \<Rightarrow> float64" where
  "float_of_int i = F64 (i < 0) (case round64 (of_int \<bar>i\<bar>) of None \<Rightarrow> 0 | Some m \<Rightarrow> m)"

text \<open>
  Shortest decimal that reads back as the same number, the digits
  \<open>strconv.AppendFloat\<close> prints: the first precision at which one of the two
  neighbouring decimals rounds to the number, the nearer one if both do.
\<close>

fun shortest :: "(rat \<Rightarrow> rat option) \<Rightarrow> rat \<Rightarrow> nat \<Rightarrow> nat \<Rightarrow> int \<times> int" where
  "shortest rnd r p 0 = (round_even (r / pow_int 10 (ilog 10 r - int p + 1)), ilog 10 r - int p + 1)"
| "shortest rnd r p (Suc fuel) =
     (let x = ilog 10 r - int p + 1; s = pow_int 10 x; lo = \<lfloor>r / s\<rfloor>; near = round_even (r / s);
          ok = (\<lambda>d. rnd (of_int d * s) = Some r)
      in if ok near then (near, x)
         else if ok lo then (lo, x)
         else if ok (lo + 1) then (lo + 1, x)
         else shortest rnd r (Suc p) fuel)"

text \<open>The layout \<open>encoding/json\<close> gives the digits: plain, or with an exponent
  below \<open>1e-6\<close> and from \<open>1e21\<close> on.\<close>

definition strip_zeros :: "string \<Rightarrow> string" where
  "strip_zeros s = rev (dropWhile (\<lambda>c. c = CHR ''0'') (rev s))"

definition layout_digits :: "string \<Rightarrow> int \<Rightarrow> string" where
  "layout_digits ds pt =
     (if pt \<le> 0 then ''0.'' @ replicate (nat (- pt)) (CHR ''0'') @ ds
      else if int (length ds) \<le> pt then ds @ replicate (nat pt - length ds) (CHR ''0'')
      else take (nat pt) ds @ ''.'' @ drop (nat pt) ds)"

text \<open>The bounds are themselves rounded to the type of the number.\<close>

definition less_opt :: "rat \<Rightarrow> rat option \<Rightarrow> bool" where
  "less_opt r b = (case b of None \<Rightarrow> True | Some x \<Rightarrow> r < x)"

definition fmt_mag :: "(rat \<Rightarrow> rat option) \<Rightarrow> nat \<Rightarrow> rat \<Rightarrow> string" where
  "fmt_mag rnd digs r =
     (if r = 0 then ''0''
      else let (d, x) = shortest rnd r 1 digs; ds = strip_zeros (show_digits d);
               pt = x + int (length (show_digits d))
           in if less_opt r (rnd (pow_int 10 (- 6))) \<or> \<not> less_opt r (rnd (pow_int 10 21))
              then (case ds of [] \<Rightarrow> []
                    | c # cs \<Rightarrow> [c] @ (if cs = [] then [] else CHR ''.'' # cs) @
                                ''e'' @ (if pt - 1 < 0 then ''-'' else ''+'') @ show_digits \<bar>pt - 1\<bar>)
              else layout_digits ds pt)"

definition fmt_float64 :: "float64 \<Rightarrow> string" where
  "fmt_float64 x = (if f_neg x then ''-'' else []) @ fmt_mag round64 17 (f_mag x)"

definition fmt_float32 :: "float64 \<Rightarrow> string" where
  "fmt_float32 x = (if f_neg x then ''-'' else []) @ fmt_mag round32 9 (f_mag x)"

subsection \<open>Values\<close>

text \<open>
  What an \<open>any\<close> holds: the types decoding produces (nil, bool, string, float64,
  map, slice) and the number types a caller of the Go SDK may put into an
  evaluation context.
\<close>

datatype any =
    ANil
  | ABool bool
  | AStr string
  | AF64 float64
  | AF32 float64
  | AInt int
  | AInt64 int
  | ANumber string
  | AMap "(string \<times> any) list"
  | ASlice "any list"

type_synonym ctx = "(string \<times> any) list"

text \<open>A Go map keeps one entry per key: assigning again overwrites.\<close>

definition map_put :: "'k \<Rightarrow> 'v \<Rightarrow> ('k \<times> 'v) list \<Rightarrow> ('k \<times> 'v) list" where
  "map_put k v m = (k, v) # filter (\<lambda>(k', _). k' \<noteq> k) m"

lemma map_of_filter_key: "k \<noteq> k' \<Longrightarrow> map_of (filter (\<lambda>(x, _). x \<noteq> k) m) k' = map_of m k'"
  by (induction m) auto

lemma map_of_map_put [simp]: "map_of (map_put k v m) k' = (if k' = k then Some v else map_of m k')"
  by (auto simp: map_put_def map_of_filter_key)

text \<open>\<open>json.Unmarshal(raw, &v)\<close> for \<open>var v any\<close>: objects become maps in which
  the last of several equal keys wins, numbers become doubles or an error.\<close>

fun any_of_json :: "json \<Rightarrow> string + any" where
  "any_of_json JNull = Inr ANil"
| "any_of_json (JBool b) = Inr (ABool b)"
| "any_of_json (JNum s) =
     (case float_of_literal s of None \<Rightarrow> Inl ''number out of range'' | Some x \<Rightarrow> Inr (AF64 x))"
| "any_of_json (JStr s) = Inr (AStr s)"
| "any_of_json (JArr js) = bindE (mapE any_of_json js) (\<lambda>vs. Inr (ASlice vs))"
| "any_of_json (JObj kvs) =
     bindE (mapE (\<lambda>(k, j). bindE (any_of_json j) (\<lambda>v. Inr (k, v))) kvs)
           (\<lambda>m. Inr (AMap (fold (\<lambda>(k, v). map_put k v) m [])))"

definition unmarshal_any :: "raw \<Rightarrow> string + any" where
  "unmarshal_any r = (case r of
     RawNil \<Rightarrow> Inl ''unexpected end of JSON input''
   | RawBytes _ \<Rightarrow> Inl ''invalid character''
   | RawDoc j \<Rightarrow> any_of_json j)"

text \<open>Insertion of a key into the sorted list \<open>json.Marshal\<close> writes for a map.\<close>

fun str_less :: "string \<Rightarrow> string \<Rightarrow> bool" where
  "str_less [] [] = False"
| "str_less [] (_ # _) = True"
| "str_less (_ # _) [] = False"
| "str_less (x # xs) (y # ys) =
     ((of_char x :: nat) < of_char y \<or> (x = y \<and> str_less xs ys))"

fun insert_key :: "string \<Rightarrow> 'v \<Rightarrow> (string \<times> 'v) list \<Rightarrow> (string \<times> 'v) list" where
  "insert_key k v [] = [(k, v)]"
| "insert_key k v ((k', v') # m) =
     (if str_less k k' then (k, v) # (k', v') # m else (k', v') # insert_key k v m)"

text \<open>\<open>json.Marshal\<close> of a value; \<open>None\<close> is the error (an invalid \<open>json.Number\<close>).\<close>

fun marshal_any :: "any \<Rightarrow> json option" where
  "marshal_any ANil = Some JNull"
| "marshal_any (ABool b) = Some (JBool b)"
| "marshal_any (AStr s) = Some (JStr s)"
| "marshal_any (AF64 x) = Some (JNum (fmt_float64 x))"
| "marshal_any (AF32 x) = Some (JNum (fmt_float32 x))"
| "marshal_any (AInt i) = Some (JNum (show_int i))"
| "marshal_any (AInt64 i) = Some (JNum (show_int i))"
| "marshal_any (ANumber s) =
     (if s = [] then Some (JNum ''0'')
      else if parse_literal s = None then None else Some (JNum s))"
| "marshal_any (AMap m) =
     map_option (\<lambda>kvs. JObj (fold (\<lambda>(k, j). insert_key k j) kvs []))
       (those (map (\<lambda>(k, v). map_option (Pair k) (marshal_any v)) m))"
| "marshal_any (ASlice vs) = map_option JArr (those (map marshal_any vs))"

end
