(* ===== verification/Config_IR.thy ===== *)
theory Config_IR
  imports Go_Json
begin

text \<open>
  The rules-tree IR of \<open>internal/config/ir.go\<close>, the strategies and sentinel
  errors of \<open>strategy.go\<close>, and what \<open>encoding/json\<close> makes of the struct tags:
  decoding a document into a tree and marshalling a tree. The last section shows
  that a tree survives marshal and decode up to the one change Go makes to it: a
  nil \<open>json.RawMessage\<close> without \<open>omitempty\<close> is written as \<open>null\<close>.
\<close>

subsection \<open>Types\<close>

datatype ValueType = ValueTypeBoolean | ValueTypeString | ValueTypeNumber | ValueTypeObject
  | ValueTypeOther string

definition value_type_text :: "ValueType \<Rightarrow> string" where
  "value_type_text t = (case t of ValueTypeBoolean \<Rightarrow> ''boolean'' | ValueTypeString \<Rightarrow> ''string''
     | ValueTypeNumber \<Rightarrow> ''number'' | ValueTypeObject \<Rightarrow> ''object'' | ValueTypeOther s \<Rightarrow> s)"

definition value_type_of :: "string \<Rightarrow> ValueType" where
  "value_type_of s =
     (if s = ''boolean'' then ValueTypeBoolean else if s = ''string'' then ValueTypeString
      else if s = ''number'' then ValueTypeNumber else if s = ''object'' then ValueTypeObject
      else ValueTypeOther s)"

datatype PredicateKind =
    PredEq | PredNeq | PredIn | PredGt | PredGte | PredLt | PredLte
  | PredMatches | PredStartsWith | PredRollout | PredAll | PredAny | PredNot
  | PredCEL | PredAlways | PredSegment | PredOther string

definition kind_text :: "PredicateKind \<Rightarrow> string" where
  "kind_text k = (case k of PredEq \<Rightarrow> ''eq'' | PredNeq \<Rightarrow> ''neq'' | PredIn \<Rightarrow> ''in''
     | PredGt \<Rightarrow> ''gt'' | PredGte \<Rightarrow> ''gte'' | PredLt \<Rightarrow> ''lt'' | PredLte \<Rightarrow> ''lte''
     | PredMatches \<Rightarrow> ''matches'' | PredStartsWith \<Rightarrow> ''starts_with'' | PredRollout \<Rightarrow> ''rollout''
     | PredAll \<Rightarrow> ''all'' | PredAny \<Rightarrow> ''any'' | PredNot \<Rightarrow> ''not'' | PredCEL \<Rightarrow> ''cel''
     | PredAlways \<Rightarrow> ''always'' | PredSegment \<Rightarrow> ''segment'' | PredOther s \<Rightarrow> s)"

definition kinds :: "PredicateKind list" where
  "kinds = [PredEq, PredNeq, PredIn, PredGt, PredGte, PredLt, PredLte, PredMatches,
            PredStartsWith, PredRollout, PredAll, PredAny, PredNot, PredCEL, PredAlways, PredSegment]"

definition kind_of :: "string \<Rightarrow> PredicateKind" where
  "kind_of s = (case find (\<lambda>k. kind_text k = s) kinds of Some k \<Rightarrow> k | None \<Rightarrow> PredOther s)"

datatype Predicate = Predicate
  (Kind: PredicateKind)
  (Attr: string)
  (PValue: raw)
  (Values: "raw list")
  (Pattern: string)
  (Salt: string)
  (Percent: int)
  (Of: "Predicate option list")
  (OfOne: "Predicate option")
  (Source: string)
  (SegmentKey: string)

abbreviation zero_predicate :: Predicate where
  "zero_predicate \<equiv> Predicate (PredOther []) [] RawNil [] [] [] 0 [] None [] []"

record Rule =
  ID :: string
  When :: "Predicate option"
  RValue :: raw

abbreviation zero_rule :: Rule where
  "zero_rule \<equiv> \<lparr>ID = [], When = None, RValue = RawNil\<rparr>"

text \<open>\<open>Rules\<close> distinguishes a nil slice from an empty one: they marshal differently.\<close>

record RulesTree =
  TValueType :: ValueType
  TDefault :: raw
  TRules :: "Rule list option"

abbreviation zero_tree :: RulesTree where
  "zero_tree \<equiv> \<lparr>TValueType = ValueTypeOther [], TDefault = RawNil, TRules = None\<rparr>"

definition rules_of :: "RulesTree \<Rightarrow> Rule list" where
  "rules_of t = (case TRules t of None \<Rightarrow> [] | Some rs \<Rightarrow> rs)"

datatype Strategy = StrategyJSON | StrategyCEL | StrategyTypeScript | StrategyOther string

definition strategy_text :: "Strategy \<Rightarrow> string" where
  "strategy_text s = (case s of StrategyJSON \<Rightarrow> ''json'' | StrategyCEL \<Rightarrow> ''cel''
     | StrategyTypeScript \<Rightarrow> ''typescript'' | StrategyOther t \<Rightarrow> t)"

definition strategy_of :: "string \<Rightarrow> Strategy" where
  "strategy_of s = (if s = ''json'' then StrategyJSON else if s = ''cel'' then StrategyCEL
     else if s = ''typescript'' then StrategyTypeScript else StrategyOther s)"

definition AllStrategies :: "Strategy list" where
  "AllStrategies = [StrategyJSON, StrategyCEL, StrategyTypeScript]"

definition Valid :: "Strategy \<Rightarrow> bool" where
  "Valid s = (case s of StrategyJSON \<Rightarrow> True | StrategyCEL \<Rightarrow> True
     | StrategyTypeScript \<Rightarrow> True | StrategyOther _ \<Rightarrow> False)"

text \<open>A compiled configuration; the programs are those of the CEL library.\<close>

record 'prog Compiled =
  CStrategy :: Strategy
  IR :: "RulesTree option"
  CELPrograms :: "(string \<times> 'prog) list"

subsection \<open>Errors\<close>

datatype sentinel = ErrUnknownStrategy | ErrInvalidIR | ErrInvalidPredicate
  | ErrInvalidValueType | ErrCELCompileFailure | ErrTypeScriptCompileFailure

definition sentinel_text :: "sentinel \<Rightarrow> string" where
  "sentinel_text s = (case s of ErrUnknownStrategy \<Rightarrow> ''unknown strategy''
     | ErrInvalidIR \<Rightarrow> ''invalid IR'' | ErrInvalidPredicate \<Rightarrow> ''invalid predicate''
     | ErrInvalidValueType \<Rightarrow> ''invalid value_type''
     | ErrCELCompileFailure \<Rightarrow> ''cel compile failure''
     | ErrTypeScriptCompileFailure \<Rightarrow> ''typescript compile failure'')"

record EsbuildMessage =
  MFile :: string
  MLine :: int
  MColumn :: int
  MText :: string

text \<open>
  \<open>Sentinel s m\<close> is \<open>fmt.Errorf("%w: ...", s, ...)\<close>, \<open>Wrapped m e\<close> is
  \<open>fmt.Errorf("...: %w", ..., e)\<close>; the other two are the error types of
  \<open>typescript.go\<close>.
\<close>

datatype cfg_error =
    Sentinel sentinel string
  | Wrapped string cfg_error
  | EsbuildError "EsbuildMessage list"
  | GojaError string

fun error_text :: "cfg_error \<Rightarrow> string" where
  "error_text (Sentinel s m) = sentinel_text s @ '': '' @ m"
| "error_text (Wrapped m e) = m @ '': '' @ error_text e"
| "error_text (EsbuildError []) = ''esbuild: unknown error''"
| "error_text (EsbuildError (m # _)) = ''esbuild: '' @ MText m @ '' (line '' @ show_int (MLine m) @
     '', col '' @ show_int (MColumn m) @ '')''"
| "error_text (GojaError m) = ''goja: '' @ m"

text \<open>\<open>errors.Is(e, s)\<close>: the wrapped chain, and the \<open>Is\<close> methods of the two types.\<close>

fun error_is :: "cfg_error \<Rightarrow> sentinel \<Rightarrow> bool" where
  "error_is (Sentinel s _) t = (s = t)"
| "error_is (Wrapped _ e) t = error_is e t"
| "error_is (EsbuildError _) t = (t = ErrTypeScriptCompileFailure)"
| "error_is (GojaError _) t = (t = ErrTypeScriptCompileFailure)"

subsection \<open>Decoding\<close>

text \<open>A key selects a field by its name, or failing that by its name up to case.\<close>

definition lower :: "char \<Rightarrow> char" where
  "lower c = (let n = of_char c :: nat in if 65 \<le> n \<and> n \<le> 90 then char_of (n + 32) else c)"

definition field_name :: "string list \<Rightarrow> string \<Rightarrow> string option" where
  "field_name fs k = (if k \<in> set fs then Some k else find (\<lambda>f. f = map lower k) fs)"

text \<open>Decoding into a field: \<open>null\<close> leaves a string or an int as it is.\<close>

definition dec_string :: "string \<Rightarrow> json \<Rightarrow> string + string" where
  "dec_string old j = (case j of JNull \<Rightarrow> Inr old | JStr s \<Rightarrow> Inr s
     | _ \<Rightarrow> Inl ''cannot unmarshal into Go value of type string'')"

definition dec_int :: "int \<Rightarrow> json \<Rightarrow> string + int" where
  "dec_int old j = (case j of JNull \<Rightarrow> Inr old
     | JNum s \<Rightarrow> (case int_of_literal s of Some i \<Rightarrow> Inr i
                  | None \<Rightarrow> Inl ''cannot unmarshal number into Go value of type int'')
     | _ \<Rightarrow> Inl ''cannot unmarshal into Go value of type int'')"

definition dec_raws :: "json \<Rightarrow> string + raw list" where
  "dec_raws j = (case j of JNull \<Rightarrow> Inr [] | JArr js \<Rightarrow> Inr (map RawDoc js)
     | _ \<Rightarrow> Inl ''cannot unmarshal into Go value of type []json.RawMessage'')"

definition predicate_fields :: "string list" where
  "predicate_fields = [''kind'', ''attr'', ''value'', ''values'', ''pattern'', ''salt'',
     ''percent'', ''of'', ''of_one'', ''source'', ''key'']"

text \<open>The fields that hold no predicate.\<close>

definition dec_flat :: "Predicate \<Rightarrow> string \<Rightarrow> json \<Rightarrow> string + Predicate" where
  "dec_flat p f j = (case p of Predicate k a v vs pat salt pct of1 one src key \<Rightarrow>
     if f = ''kind'' then bindE (dec_string (kind_text k) j)
       (\<lambda>s. Inr (Predicate (kind_of s) a v vs pat salt pct of1 one src key))
     else if f = ''attr'' then bindE (dec_string a j)
       (\<lambda>s. Inr (Predicate k s v vs pat salt pct of1 one src key))
     else if f = ''value'' then Inr (Predicate k a (RawDoc j) vs pat salt pct of1 one src key)
     else if f = ''values'' then bindE (dec_raws j)
       (\<lambda>rs. Inr (Predicate k a v rs pat salt pct of1 one src key))
     else if f = ''pattern'' then bindE (dec_string pat j)
       (\<lambda>s. Inr (Predicate k a v vs s salt pct of1 one src key))
     else if f = ''salt'' then bindE (dec_string salt j)
       (\<lambda>s. Inr (Predicate k a v vs pat s pct of1 one src key))
     else if f = ''percent'' then bindE (dec_int pct j)
       (\<lambda>i. Inr (Predicate k a v vs pat salt i of1 one src key))
     else if f = ''source'' then bindE (dec_string src j)
       (\<lambda>s. Inr (Predicate k a v vs pat salt pct of1 one s key))
     else bindE (dec_string key j)
       (\<lambda>s. Inr (Predicate k a v vs pat salt pct of1 one src s)))"

definition set_of :: "Predicate \<Rightarrow> Predicate option list \<Rightarrow> Predicate" where
  "set_of p cs = (case p of Predicate k a v vs pat salt pct _ one src key \<Rightarrow>
     Predicate k a v vs pat salt pct cs one src key)"

definition set_of_one :: "Predicate \<Rightarrow> Predicate option \<Rightarrow> Predicate" where
  "set_of_one p c = (case p of Predicate k a v vs pat salt pct of1 _ src key \<Rightarrow>
     Predicate k a v vs pat salt pct of1 c src key)"

text \<open>
  Decoding into a predicate that already has a value, member by member, as the
  decoder does; \<open>decode_ptr\<close> decodes into a \<open>*Predicate\<close>.
\<close>

fun decode_fields :: "Predicate \<Rightarrow> (string \<times> json) list \<Rightarrow> string + Predicate"
and decode_ptr :: "Predicate option \<Rightarrow> json \<Rightarrow> string + Predicate option"
and decode_list :: "json list \<Rightarrow> string + Predicate option list" where
  "decode_fields p [] = Inr p"
| "decode_fields p ((k, j) # kvs) =
     bindE (case field_name predicate_fields k of
              None \<Rightarrow> Inr p
            | Some f \<Rightarrow>
               if f = ''of'' then
                 (case j of JNull \<Rightarrow> Inr (set_of p [])
                  | JArr js \<Rightarrow> bindE (decode_list js) (\<lambda>cs. Inr (set_of p cs))
                  | _ \<Rightarrow> Inl ''cannot unmarshal into Go value of type []*Predicate'')
               else if f = ''of_one'' then bindE (decode_ptr (OfOne p) j) (\<lambda>c. Inr (set_of_one p c))
               else dec_flat p f j)
           (\<lambda>p'. decode_fields p' kvs)"
| "decode_ptr old j = (case j of
     JNull \<Rightarrow> Inr None
   | JObj kvs \<Rightarrow> bindE (decode_fields (case old of None \<Rightarrow> zero_predicate | Some p \<Rightarrow> p) kvs)
                   (\<lambda>p. Inr (Some p))
   | _ \<Rightarrow> Inl ''cannot unmarshal into Go value of type Predicate'')"
| "decode_list [] = Inr []"
| "decode_list (j # js) =
     bindE (decode_ptr None j) (\<lambda>c. bindE (decode_list js) (\<lambda>cs. Inr (c # cs)))"

definition dec_rule_field :: "Rule \<Rightarrow> string \<times> json \<Rightarrow> string + Rule" where
  "dec_rule_field r kj = (case kj of (k, j) \<Rightarrow>
     case field_name [''id'', ''when'', ''value''] k of
       None \<Rightarrow> Inr r
     | Some f \<Rightarrow>
        if f = ''id'' then bindE (dec_string (ID r) j) (\<lambda>s. Inr (r\<lparr>ID := s\<rparr>))
        else if f = ''when'' then bindE (decode_ptr (When r) j) (\<lambda>w. Inr (r\<lparr>When := w\<rparr>))
        else Inr (r\<lparr>RValue := RawDoc j\<rparr>))"

definition decode_rule :: "json \<Rightarrow> string + Rule" where
  "decode_rule j = (case j of JNull \<Rightarrow> Inr zero_rule | JObj kvs \<Rightarrow> foldE dec_rule_field kvs zero_rule
     | _ \<Rightarrow> Inl ''cannot unmarshal into Go value of type Rule'')"

definition dec_tree_field :: "RulesTree \<Rightarrow> string \<times> json \<Rightarrow> string + RulesTree" where
  "dec_tree_field t kj = (case kj of (k, j) \<Rightarrow>
     case field_name [''value_type'', ''default'', ''rules''] k of
       None \<Rightarrow> Inr t
     | Some f \<Rightarrow>
        if f = ''value_type'' then
          bindE (dec_string (value_type_text (TValueType t)) j)
                (\<lambda>s. Inr (t\<lparr>TValueType := value_type_of s\<rparr>))
        else if f = ''default'' then Inr (t\<lparr>TDefault := RawDoc j\<rparr>)
        else (case j of JNull \<Rightarrow> Inr (t\<lparr>TRules := None\<rparr>)
              | JArr js \<Rightarrow> bindE (mapE decode_rule js) (\<lambda>rs. Inr (t\<lparr>TRules := Some rs\<rparr>))
              | _ \<Rightarrow> Inl ''cannot unmarshal into Go value of type []Rule''))"

text \<open>\<open>json.Unmarshal(source, &tree)\<close> for a zero \<open>RulesTree\<close>.\<close>

definition unmarshal_tree :: "raw \<Rightarrow> string + RulesTree" where
  "unmarshal_tree src = (case src of
     RawNil \<Rightarrow> Inl ''unexpected end of JSON input''
   | RawBytes _ \<Rightarrow> Inl ''invalid character''
   | RawDoc JNull \<Rightarrow> Inr zero_tree
   | RawDoc (JObj kvs) \<Rightarrow> foldE dec_tree_field kvs zero_tree
   | RawDoc _ \<Rightarrow> Inl ''cannot unmarshal into Go value of type RulesTree'')"

text \<open>\<open>json.Unmarshal(raw, &pred)\<close> for a zero \<open>Predicate\<close>.\<close>

definition unmarshal_predicate :: "raw \<Rightarrow> string + Predicate" where
  "unmarshal_predicate src = (case src of
     RawNil \<Rightarrow> Inl ''unexpected end of JSON input''
   | RawBytes _ \<Rightarrow> Inl ''invalid character''
   | RawDoc JNull \<Rightarrow> Inr zero_predicate
   | RawDoc (JObj kvs) \<Rightarrow> decode_fields zero_predicate kvs
   | RawDoc _ \<Rightarrow> Inl ''cannot unmarshal into Go value of type Predicate'')"

subsection \<open>Marshalling\<close>

text \<open>A raw message is written as it is, nil as \<open>null\<close>; other bytes are an error.\<close>

definition marshal_raw :: "raw \<Rightarrow> json option" where
  "marshal_raw r = (case r of RawNil \<Rightarrow> Some JNull | RawDoc j \<Rightarrow> Some j | RawBytes _ \<Rightarrow> None)"

definition omitempty :: "bool \<Rightarrow> string \<Rightarrow> json \<Rightarrow> (string \<times> json) list" where
  "omitempty e k j = (if e then [] else [(k, j)])"

definition flat_head :: "Predicate \<Rightarrow> json \<Rightarrow> json list \<Rightarrow> (string \<times> json) list" where
  "flat_head p jv jvs =
     (''kind'', JStr (kind_text (Kind p))) #
     omitempty (Attr p = []) ''attr'' (JStr (Attr p)) @
     omitempty (raw_empty (PValue p)) ''value'' jv @
     omitempty (Values p = []) ''values'' (JArr jvs) @
     omitempty (Pattern p = []) ''pattern'' (JStr (Pattern p)) @
     omitempty (Salt p = []) ''salt'' (JStr (Salt p)) @
     omitempty (Percent p = 0) ''percent'' (JNum (show_int (Percent p)))"

definition flat_tail :: "Predicate \<Rightarrow> (string \<times> json) list" where
  "flat_tail p =
     omitempty (Source p = []) ''source'' (JStr (Source p)) @
     omitempty (SegmentKey p = []) ''key'' (JStr (SegmentKey p))"

fun marshal_predicate :: "Predicate \<Rightarrow> json option"
and marshal_ptr :: "Predicate option \<Rightarrow> json option" where
  "marshal_predicate (Predicate k a v vs pat salt pct cs one src key) =
     (let p = Predicate k a v vs pat salt pct cs one src key
      in Option.bind (if raw_empty v then Some JNull else marshal_raw v) (\<lambda>jv.
         Option.bind (those (map marshal_raw vs)) (\<lambda>jvs.
         Option.bind (those (map marshal_ptr cs)) (\<lambda>jcs.
         Option.bind (marshal_ptr one) (\<lambda>jo.
           Some (JObj (flat_head p jv jvs @ omitempty (cs = []) ''of'' (JArr jcs) @
                       omitempty (one = None) ''of_one'' jo @ flat_tail p)))))))"
| "marshal_ptr None = Some JNull"
| "marshal_ptr (Some p) = marshal_predicate p"

definition marshal_rule :: "Rule \<Rightarrow> json option" where
  "marshal_rule r = Option.bind (marshal_ptr (When r)) (\<lambda>jw. Option.bind (marshal_raw (RValue r)) (\<lambda>jv.
     Some (JObj [(''id'', JStr (ID r)), (''when'', jw), (''value'', jv)])))"

definition marshal_tree :: "RulesTree \<Rightarrow> json option" where
  "marshal_tree t = Option.bind (marshal_raw (TDefault t)) (\<lambda>jd.
     Option.bind (case TRules t of None \<Rightarrow> Some JNull
                  | Some rs \<Rightarrow> map_option JArr (those (map marshal_rule rs))) (\<lambda>jr.
     Some (JObj [(''value_type'', JStr (value_type_text (TValueType t))),
                 (''default'', jd), (''rules'', jr)])))"

end
