(* ===== verification/Config_Validate.thy ===== *)
theory Config_Validate
  imports Config_IR
begin

text \<open>
  Structural validation of the IR: \<open>validateTree\<close> and \<open>validatePredicate\<close> of
  \<open>internal/config/json.go\<close>, \<open>validateTreeWith\<close> of \<open>cel.go\<close>, and the
  re-export of \<open>predicate.go\<close>. The regular expression engine and the CEL engine
  (\<open>regexp\<close>, \<open>github.com/google/cel-go\<close>) are the fields of a record the
  definitions take as an argument.
\<close>

subsection \<open>The engines\<close>

datatype cel_val = CelBool bool | CelOther

record ('ast, 'prog) engines =
  re_compile :: "string \<Rightarrow> string + (string \<Rightarrow> bool)"
  cel_new_env :: "string option"
  cel_compile :: "string \<Rightarrow> string + 'ast"
  cel_is_bool :: "'ast \<Rightarrow> bool"
  cel_type_text :: "'ast \<Rightarrow> string"
  cel_program :: "'ast \<Rightarrow> string + 'prog"
  cel_eval :: "'prog \<Rightarrow> ctx \<Rightarrow> string + cel_val"

subsection \<open>Predicates\<close>

abbreviation invalid :: "string \<Rightarrow> cfg_error option" where
  "invalid m \<equiv> Some (Sentinel ErrInvalidPredicate m)"

definition validate_operand :: "PredicateKind \<Rightarrow> string \<Rightarrow> raw \<Rightarrow> cfg_error option" where
  "validate_operand k attr v =
     (if attr = [] then invalid (kind_text k @ '' missing attr'')
      else if raw_empty v then invalid (kind_text k @ '' missing value'')
      else None)"

definition validate_matches :: "('ast, 'prog) engines \<Rightarrow> string \<Rightarrow> string \<Rightarrow> cfg_error option" where
  "validate_matches E attr pat =
     (if attr = [] \<or> pat = [] then invalid ''matches missing attr or pattern''
      else case re_compile E pat of
             Inl e \<Rightarrow> invalid (''matches pattern: '' @ e)
           | Inr _ \<Rightarrow> None)"

definition validate_rollout :: "string \<Rightarrow> string \<Rightarrow> int \<Rightarrow> cfg_error option" where
  "validate_rollout attr salt pct =
     (if attr = [] \<or> salt = [] then invalid ''rollout missing attr or salt''
      else if pct < 0 \<or> pct > 100 then invalid ''rollout percent out of [0,100]''
      else None)"

fun validatePredicate :: "('ast, 'prog) engines \<Rightarrow> bool \<Rightarrow> Predicate option \<Rightarrow> cfg_error option"
and validateChildren :: "('ast, 'prog) engines \<Rightarrow> bool \<Rightarrow> Predicate option list \<Rightarrow> cfg_error option" where
  "validatePredicate E allowCEL None = invalid ''nil predicate''"
| "validatePredicate E allowCEL (Some (Predicate k attr v vs pat salt pct cs one src key)) =
     (case k of
        PredEq \<Rightarrow> validate_operand k attr v
      | PredNeq \<Rightarrow> validate_operand k attr v
      | PredGt \<Rightarrow> validate_operand k attr v
      | PredGte \<Rightarrow> validate_operand k attr v
      | PredLt \<Rightarrow> validate_operand k attr v
      | PredLte \<Rightarrow> validate_operand k attr v
      | PredStartsWith \<Rightarrow> validate_operand k attr v
      | PredIn \<Rightarrow>
          if attr = [] then invalid ''in missing attr''
          else if vs = [] then invalid ''in needs non-empty values''
          else None
      | PredMatches \<Rightarrow> validate_matches E attr pat
      | PredRollout \<Rightarrow> validate_rollout attr salt pct
      | PredAll \<Rightarrow> if cs = [] then invalid (kind_text k @ '' requires of[]'')
                   else validateChildren E allowCEL cs
      | PredAny \<Rightarrow> if cs = [] then invalid (kind_text k @ '' requires of[]'')
                   else validateChildren E allowCEL cs
      | PredNot \<Rightarrow> if one = None then invalid ''not requires of_one''
                   else validatePredicate E allowCEL one
      | PredCEL \<Rightarrow>
          if \<not> allowCEL then invalid ''cel predicate not permitted in this strategy''
          else if src = [] then invalid ''cel missing source''
          else None
      | PredAlways \<Rightarrow> None
      | PredSegment \<Rightarrow> if key = [] then invalid ''segment missing key'' else None
      | PredOther s \<Rightarrow> invalid (''unknown kind '' @ fmt_q s))"
| "validateChildren E allowCEL [] = None"
| "validateChildren E allowCEL (c # cs) =
     (case validatePredicate E allowCEL c of
        Some e \<Rightarrow> Some e
      | None \<Rightarrow> validateChildren E allowCEL cs)"

definition ValidatePredicate :: "('ast, 'prog) engines \<Rightarrow> Predicate option \<Rightarrow> bool \<Rightarrow> cfg_error option" where
  "ValidatePredicate E p allowCEL = validatePredicate E allowCEL p"

subsection \<open>Trees\<close>

text \<open>The loop over the rules; the index only occurs in a message.\<close>

fun validate_rules :: "('ast, 'prog) engines \<Rightarrow> bool \<Rightarrow> nat \<Rightarrow> Rule list \<Rightarrow> cfg_error option" where
  "validate_rules E allowCEL i [] = None"
| "validate_rules E allowCEL i (r # rs) =
     (if ID r = [] then Some (Sentinel ErrInvalidIR (''rule '' @ show_int (int i) @ '' missing id''))
      else if raw_empty (RValue r)
        then Some (Sentinel ErrInvalidIR (''rule '' @ fmt_q (ID r) @ '' missing value''))
      else if When r = None
        then Some (Sentinel ErrInvalidIR (''rule '' @ fmt_q (ID r) @ '' missing when''))
      else case validatePredicate E allowCEL (When r) of
             Some e \<Rightarrow> Some (Wrapped (''rule '' @ fmt_q (ID r)) e)
           | None \<Rightarrow> validate_rules E allowCEL (Suc i) rs)"

definition validateTreeWith :: "('ast, 'prog) engines \<Rightarrow> RulesTree \<Rightarrow> bool \<Rightarrow> cfg_error option" where
  "validateTreeWith E t allowCEL =
     (case TValueType t of
        ValueTypeOther s \<Rightarrow> Some (Sentinel ErrInvalidValueType (fmt_q s))
      | _ \<Rightarrow> if raw_empty (TDefault t) then Some (Sentinel ErrInvalidIR ''missing default'')
             else validate_rules E allowCEL 0 (rules_of t))"

definition validateTree :: "('ast, 'prog) engines \<Rightarrow> RulesTree \<Rightarrow> cfg_error option" where
  "validateTree E t =
     (case TValueType t of
        ValueTypeOther s \<Rightarrow> Some (Sentinel ErrInvalidValueType (fmt_q s))
      | _ \<Rightarrow> if raw_empty (TDefault t) then Some (Sentinel ErrInvalidIR ''missing default'')
             else validate_rules E False 0 (rules_of t))"

lemma validateTree_With: "validateTree E t = validateTreeWith E t False"
  by (simp add: validateTree_def validateTreeWith_def)

subsection \<open>What validation guarantees\<close>

text \<open>
  The nodes of a predicate that evaluation can reach: the children of an
  \<open>all\<close>, \<open>any\<close> or \<open>not\<close> node, and the node itself.
\<close>

fun nodes :: "Predicate \<Rightarrow> Predicate list" where
  "nodes (Predicate k attr v vs pat salt pct cs one src key) =
     Predicate k attr v vs pat salt pct cs one src key #
     (if k = PredAll \<or> k = PredAny
      then concat (map (\<lambda>c. case c of None \<Rightarrow> [] | Some p \<Rightarrow> nodes p) cs)
      else if k = PredNot then (case one of None \<Rightarrow> [] | Some p \<Rightarrow> nodes p)
      else [])"

text \<open>What a single node must look like.\<close>

definition node_ok :: "('ast, 'prog) engines \<Rightarrow> bool \<Rightarrow> Predicate \<Rightarrow> bool" where
  "node_ok E allowCEL p =
     (case Kind p of
        PredIn \<Rightarrow> Attr p \<noteq> [] \<and> Values p \<noteq> []
      | PredMatches \<Rightarrow> Attr p \<noteq> [] \<and> Pattern p \<noteq> [] \<and> (\<exists>m. re_compile E (Pattern p) = Inr m)
      | PredRollout \<Rightarrow> Attr p \<noteq> [] \<and> Salt p \<noteq> [] \<and> 0 \<le> Percent p \<and> Percent p \<le> 100
      | PredAll \<Rightarrow> Of p \<noteq> [] \<and> None \<notin> set (Of p)
      | PredAny \<Rightarrow> Of p \<noteq> [] \<and> None \<notin> set (Of p)
      | PredNot \<Rightarrow> OfOne p \<noteq> None
      | PredCEL \<Rightarrow> allowCEL \<and> Source p \<noteq> []
      | PredAlways \<Rightarrow> True
      | PredSegment \<Rightarrow> SegmentKey p \<noteq> []
      | PredOther _ \<Rightarrow> False
      | _ \<Rightarrow> Attr p \<noteq> [] \<and> \<not> raw_empty (PValue p))"

definition all_nodes_ok :: "('ast, 'prog) engines \<Rightarrow> bool \<Rightarrow> Predicate \<Rightarrow> bool" where
  "all_nodes_ok E allowCEL p \<longleftrightarrow> (\<forall>n \<in> set (nodes p). node_ok E allowCEL n)"

lemma nodes_children:
  "n \<in> set (concat (map (\<lambda>c. case c of None \<Rightarrow> [] | Some p \<Rightarrow> nodes p) cs)) \<longleftrightarrow>
     (\<exists>p. Some p \<in> set cs \<and> n \<in> set (nodes p))"
  by (induction cs) (auto split: option.splits)

lemma validate_operand_None: "validate_operand k attr v = None \<longleftrightarrow> attr \<noteq> [] \<and> \<not> raw_empty v"
  by (simp add: validate_operand_def)

lemma validate_matches_None:
  "validate_matches E attr pat = None \<longleftrightarrow> attr \<noteq> [] \<and> pat \<noteq> [] \<and> (\<exists>m. re_compile E pat = Inr m)"
  by (auto simp: validate_matches_def split: sum.splits)

lemma validate_rollout_None:
  "validate_rollout attr salt pct = None \<longleftrightarrow> attr \<noteq> [] \<and> salt \<noteq> [] \<and> 0 \<le> pct \<and> pct \<le> 100"
  by (auto simp: validate_rollout_def)

lemmas validate_leaf = validate_operand_None validate_matches_None validate_rollout_None

lemma nodes_iff:
  "n \<in> set (nodes q) \<longleftrightarrow> n = q \<or>
     (Kind q = PredAll \<or> Kind q = PredAny) \<and> (\<exists>p. Some p \<in> set (Of q) \<and> n \<in> set (nodes p)) \<or>
     Kind q = PredNot \<and> (\<exists>p. OfOne q = Some p \<and> n \<in> set (nodes p))"
proof (cases q)
  case (Predicate k attr v vs pat salt pct cs one src key)
  have "n \<in> set (nodes q) \<longleftrightarrow> n = q \<or> n \<in> set (if k = PredAll \<or> k = PredAny
      then concat (map (\<lambda>c. case c of None \<Rightarrow> [] | Some p \<Rightarrow> nodes p) cs)
      else if k = PredNot then (case one of None \<Rightarrow> [] | Some p \<Rightarrow> nodes p) else [])"
    unfolding Predicate by (subst nodes.simps) (simp only: set_simps insert_iff)
  also have "\<dots> \<longleftrightarrow> n = q \<or>
      (k = PredAll \<or> k = PredAny) \<and> (\<exists>p. Some p \<in> set cs \<and> n \<in> set (nodes p)) \<or>
      k = PredNot \<and> (\<exists>p. one = Some p \<and> n \<in> set (nodes p))"
    by (cases one) (simp_all only: nodes_children split: if_splits, simp_all)
  finally show ?thesis unfolding Predicate by simp
qed

lemma all_nodes_ok_iff:
  "all_nodes_ok E a q \<longleftrightarrow> node_ok E a q \<and>
     (Kind q = PredAll \<or> Kind q = PredAny \<longrightarrow> (\<forall>p. Some p \<in> set (Of q) \<longrightarrow> all_nodes_ok E a p)) \<and>
     (Kind q = PredNot \<longrightarrow> (\<forall>p. OfOne q = Some p \<longrightarrow> all_nodes_ok E a p))"
  unfolding all_nodes_ok_def Ball_def by (subst nodes_iff) blast

lemmas all_nodes_ok_Predicate =
  all_nodes_ok_iff [where q = "Predicate k attr v vs pat salt pct cs one src key", simplified]
  for k attr v vs pat salt pct cs one src key

lemma validatePredicate_iff:
  "validatePredicate E a po = None \<longleftrightarrow> (\<exists>p. po = Some p \<and> all_nodes_ok E a p)"
  "validateChildren E a cs = None \<longleftrightarrow>
     None \<notin> set cs \<and> (\<forall>p. Some p \<in> set cs \<longrightarrow> all_nodes_ok E a p)"
proof (induction E a po and E a cs rule: validatePredicate_validateChildren.induct)
  case (2 E a k attr v vs pat salt pct cs one src key)
  show ?case
  proof (cases k)
    case PredNot
    then show ?thesis using 2(3) by (cases one) (auto simp: all_nodes_ok_Predicate node_ok_def)
  qed (use 2(1,2) in \<open>auto simp: all_nodes_ok_Predicate node_ok_def validate_leaf\<close>)
next
  case (4 E a c cs)
  then show ?case by (cases c; cases "validatePredicate E a c") auto
qed simp_all

lemma validatePredicate_error:
  "validatePredicate E a po = Some e \<Longrightarrow> error_is e ErrInvalidPredicate"
  "validateChildren E a cs = Some e \<Longrightarrow> error_is e ErrInvalidPredicate"
proof (induction E a po and E a cs rule: validatePredicate_validateChildren.induct)
  case (2 E a k attr v vs pat salt pct cs one src key)
  then show ?case
    by (cases k) (auto simp: validate_operand_def validate_matches_def validate_rollout_def
                       split: if_splits sum.splits)
next
  case (4 E a c cs)
  then show ?case by (auto split: option.splits)
qed auto

lemma node_ok_mono: "node_ok E a p \<Longrightarrow> a \<longrightarrow> b \<Longrightarrow> node_ok E b p"
  by (auto simp: node_ok_def split: PredicateKind.splits)

definition rule_ok :: "('ast, 'prog) engines \<Rightarrow> bool \<Rightarrow> Rule \<Rightarrow> bool" where
  "rule_ok E allowCEL r \<longleftrightarrow> ID r \<noteq> [] \<and> \<not> raw_empty (RValue r) \<and>
     (case When r of None \<Rightarrow> False | Some p \<Rightarrow> all_nodes_ok E allowCEL p)"

definition tree_ok :: "('ast, 'prog) engines \<Rightarrow> bool \<Rightarrow> RulesTree \<Rightarrow> bool" where
  "tree_ok E allowCEL t \<longleftrightarrow>
     TValueType t \<in> {ValueTypeBoolean, ValueTypeString, ValueTypeNumber, ValueTypeObject} \<and>
     \<not> raw_empty (TDefault t) \<and> list_all (rule_ok E allowCEL) (rules_of t)"

lemma validate_rules_iff: "validate_rules E a i rs = None \<longleftrightarrow> list_all (rule_ok E a) rs"
proof (induction E a i rs rule: validate_rules.induct)
  case (2 E a i r rs)
  have "validatePredicate E a (When r) = None \<longleftrightarrow>
      (case When r of None \<Rightarrow> False | Some p \<Rightarrow> all_nodes_ok E a p)"
    by (auto simp: validatePredicate_iff split: option.splits)
  then show ?case
    using 2 by (cases "validatePredicate E a (When r)") (auto simp: rule_ok_def split: option.splits)
qed simp

lemma rule_ok_mono: "rule_ok E a r \<Longrightarrow> a \<longrightarrow> b \<Longrightarrow> rule_ok E b r"
  by (auto simp: rule_ok_def all_nodes_ok_def split: option.splits intro: node_ok_mono)

lemma tree_ok_mono: "tree_ok E a t \<Longrightarrow> a \<longrightarrow> b \<Longrightarrow> tree_ok E b t"
  by (auto simp: tree_ok_def list_all_iff intro: rule_ok_mono)

lemma validateTreeWith_ok: "validateTreeWith E t allowCEL = None \<longleftrightarrow> tree_ok E allowCEL t"
  by (auto simp: validateTreeWith_def tree_ok_def validate_rules_iff split: ValueType.splits)

text \<open>
  C5. Validation accepts exactly the well-formed trees: a known value type, a
  default, and rules with an id, a value and a predicate all of whose nodes have
  the fields their kind needs. CEL nodes count as well formed only where the
  strategy permits them.
\<close>

theorem validateTreeWith_iff: "validateTreeWith E t allowCEL = None \<longleftrightarrow> tree_ok E allowCEL t"
  by (rule validateTreeWith_ok)

end
