(* ===== verification/Config_Json.thy ===== *)
theory Config_Json
  imports Config_IR
begin

text \<open>
  What decoding and marshalling do to the IR. \<open>wf_predicate\<close> and \<open>wf_tree\<close>
  describe the values decoding produces; every such value marshals, and decoding
  the result gives the value back, a nil raw message of a field without
  \<open>omitempty\<close> having become \<open>null\<close>. The publish handlers decode, resolve
  segments and marshal again, so this change reaches the compilers.
\<close>

subsection \<open>What decoding produces\<close>

definition raw_is_doc :: "raw \<Rightarrow> bool" where
  "raw_is_doc r = (case r of RawDoc _ \<Rightarrow> True | _ \<Rightarrow> False)"

fun wf_predicate :: "Predicate \<Rightarrow> bool"
and wf_ptr :: "Predicate option \<Rightarrow> bool" where
  "wf_predicate (Predicate k a v vs pat salt pct cs one src key) \<longleftrightarrow>
     kind_of (kind_text k) = k \<and> (v = RawNil \<or> raw_is_doc v) \<and> list_all raw_is_doc vs \<and>
     int64_range pct \<and> list_all wf_ptr cs \<and> wf_ptr one"
| "wf_ptr None = True"
| "wf_ptr (Some p) = wf_predicate p"

definition wf_rule :: "Rule \<Rightarrow> bool" where
  "wf_rule r \<longleftrightarrow> wf_ptr (When r) \<and> (RValue r = RawNil \<or> raw_is_doc (RValue r))"

definition wf_tree :: "RulesTree \<Rightarrow> bool" where
  "wf_tree t \<longleftrightarrow> value_type_of (value_type_text (TValueType t)) = TValueType t \<and>
     (TDefault t = RawNil \<or> raw_is_doc (TDefault t)) \<and> list_all wf_rule (rules_of t)"

lemma raw_is_doc_simps [simp]: "raw_is_doc (RawDoc j)" "\<not> raw_is_doc RawNil" "\<not> raw_is_doc (RawBytes s)"
  by (simp_all add: raw_is_doc_def)

lemma raw_is_docE: "raw_is_doc r \<Longrightarrow> (\<And>j. r = RawDoc j \<Longrightarrow> P) \<Longrightarrow> P"
  by (cases r) auto

lemma kind_text_other [simp]: "kind_text (PredOther s) = s"
  by (simp add: kind_text_def)

lemma int64_range_0 [simp]: "int64_range 0"
  by (simp add: int64_range_def)

lemma kind_text_of [simp]: "kind_text (kind_of s) = s"
proof (cases "find (\<lambda>k. kind_text k = s) kinds")
  case None
  then show ?thesis by (simp add: kind_of_def)
next
  case (Some k)
  then have "kind_text k = s" by (auto simp: find_Some_iff)
  then show ?thesis by (simp add: kind_of_def Some)
qed

lemma value_type_text_of [simp]: "value_type_text (value_type_of s) = s"
  by (simp add: value_type_of_def value_type_text_def)

lemma int_of_literal_range: "int_of_literal s = Some i \<Longrightarrow> int64_range i"
  by (auto simp: int_of_literal_def Let_def split: option.splits if_splits)

lemma kind_of_empty [simp]: "kind_of [] = PredOther []"
  by (simp add: kind_of_def kinds_def kind_text_def)

lemma wf_zero_predicate [simp]: "wf_predicate zero_predicate"
  by simp

lemma dec_flat_wf: "dec_flat p f j = Inr q \<Longrightarrow> wf_predicate p \<Longrightarrow> wf_predicate q"
  by (cases p)
     (auto simp: dec_flat_def bindE_eq_Inr dec_string_def dec_int_def dec_raws_def list_all_iff
           split: if_splits json.splits option.splits dest: int_of_literal_range)

lemma set_of_wf: "wf_predicate p \<Longrightarrow> list_all wf_ptr cs \<Longrightarrow> wf_predicate (set_of p cs)"
  by (cases p) (simp add: set_of_def)

lemma set_of_one_wf: "wf_predicate p \<Longrightarrow> wf_ptr c \<Longrightarrow> wf_predicate (set_of_one p c)"
  by (cases p) (simp add: set_of_one_def)

lemma OfOne_wf: "wf_predicate p \<Longrightarrow> wf_ptr (OfOne p)"
  by (cases p) simp

text \<open>One member of an object, as a function of its own.\<close>

definition decode_member :: "Predicate \<Rightarrow> string option \<Rightarrow> json \<Rightarrow> string + Predicate" where
  "decode_member p fo j = (case fo of None \<Rightarrow> Inr p
     | Some f \<Rightarrow>
        if f = ''of'' then
          (case j of JNull \<Rightarrow> Inr (set_of p [])
           | JArr js \<Rightarrow> bindE (decode_list js) (\<lambda>cs. Inr (set_of p cs))
           | _ \<Rightarrow> Inl ''cannot unmarshal into Go value of type []*Predicate'')
        else if f = ''of_one'' then bindE (decode_ptr (OfOne p) j) (\<lambda>c. Inr (set_of_one p c))
        else dec_flat p f j)"

lemma decode_fields_Cons:
  "decode_fields p ((k, j) # kvs) =
     bindE (decode_member p (field_name predicate_fields k) j) (\<lambda>p'. decode_fields p' kvs)"
  unfolding decode_member_def by (subst decode_fields.simps) (rule refl)

lemma decode_fields_append:
  "decode_fields p (xs @ ys) = bindE (decode_fields p xs) (\<lambda>q. decode_fields q ys)"
proof (induction xs arbitrary: p)
  case (Cons x xs)
  then show ?case
    by (cases x; cases "decode_member p (field_name predicate_fields (fst x)) (snd x)")
       (simp_all add: decode_fields_Cons del: decode_fields.simps(2))
qed simp

lemma decode_ptr_JNull [simp]: "decode_ptr old JNull = Inr None"
  by simp

lemma decode_ptr_JObj [simp]:
  "decode_ptr old (JObj kvs) =
     bindE (decode_fields (case old of None \<Rightarrow> zero_predicate | Some p \<Rightarrow> p) kvs) (\<lambda>p. Inr (Some p))"
  by simp

declare decode_ptr.simps [simp del] decode_fields.simps(2) [simp del]

lemma decode_wf:
  "wf_predicate p \<Longrightarrow> decode_fields p kvs = Inr q \<Longrightarrow> wf_predicate q"
  "wf_ptr old \<Longrightarrow> decode_ptr old j = Inr c \<Longrightarrow> wf_ptr c"
  "decode_list js = Inr cs \<Longrightarrow> list_all wf_ptr cs"
proof (induction p kvs and old j and js arbitrary: q and c and cs
       rule: decode_fields_decode_ptr_decode_list.induct)
  case (2 p k j kvs)
  from 2(5) obtain p' where p': "decode_member p (field_name predicate_fields k) j = Inr p'"
    and q: "decode_fields p' kvs = Inr q"
    unfolding decode_fields_Cons bindE_eq_Inr by blast
  have "wf_predicate p'"
  proof (cases "field_name predicate_fields k")
    case None
    then show ?thesis using p' 2(4) by (simp add: decode_member_def)
  next
    case (Some f)
    show ?thesis
    proof (cases "f = ''of''")
      case True
      then show ?thesis using p' 2(4) 2(1) [OF Some True]
        by (auto simp: decode_member_def Some bindE_eq_Inr set_of_wf split: json.splits)
    next
      case False
      then show ?thesis using p' 2(4) 2(2) [OF Some False] OfOne_wf [OF 2(4)]
        by (auto simp: decode_member_def Some bindE_eq_Inr set_of_one_wf dec_flat_wf
                 split: if_splits)
    qed
  qed
  then show ?case using q 2(3) p' unfolding decode_member_def by blast
next
  case (3 old j)
  then show ?case by (auto simp: decode_ptr.simps bindE_eq_Inr split: json.splits option.splits)
next
  case (5 j js)
  then show ?case by (auto simp: bindE_eq_Inr)
qed simp_all


lemma dec_rule_field_wf: "dec_rule_field r kj = Inr r' \<Longrightarrow> wf_rule r \<Longrightarrow> wf_rule r'"
  by (auto simp: dec_rule_field_def bindE_eq_Inr wf_rule_def
           split: prod.splits option.splits if_splits intro: decode_wf(2))

lemma decode_rule_wf: "decode_rule j = Inr r \<Longrightarrow> wf_rule r"
proof -
  have z: "wf_rule zero_rule" by (simp add: wf_rule_def)
  have "foldE dec_rule_field kvs a = Inr b \<Longrightarrow> wf_rule a \<Longrightarrow> wf_rule b" for kvs a b
    by (rule foldE_invariant [where P = wf_rule]) (auto intro: dec_rule_field_wf)
  then show "decode_rule j = Inr r \<Longrightarrow> wf_rule r"
    using z by (auto simp: decode_rule_def split: json.splits)
qed

lemma rules_of_update [simp]:
  "rules_of (t\<lparr>TRules := None\<rparr>) = []" "rules_of (t\<lparr>TRules := Some rs\<rparr>) = rs"
  "rules_of (t\<lparr>TDefault := d\<rparr>) = rules_of t" "rules_of (t\<lparr>TValueType := vt\<rparr>) = rules_of t"
  "rules_of \<lparr>TValueType = vt, TDefault = d, TRules = None\<rparr> = []"
  "rules_of \<lparr>TValueType = vt, TDefault = d, TRules = Some rs\<rparr> = rs"
  by (simp_all add: rules_of_def)

lemma decode_rules_wf: "mapE decode_rule js = Inr rs \<Longrightarrow> list_all wf_rule rs"
  by (auto simp: list_all_iff dest!: mapE_set intro: decode_rule_wf)

lemma dec_tree_field_wf: "dec_tree_field t kj = Inr t' \<Longrightarrow> wf_tree t \<Longrightarrow> wf_tree t'"
  by (auto simp: dec_tree_field_def bindE_eq_Inr wf_tree_def decode_rules_wf
           split: prod.splits option.splits if_splits json.splits)

lemma unmarshal_tree_wf: "unmarshal_tree src = Inr t \<Longrightarrow> wf_tree t"
proof -
  have z: "wf_tree zero_tree" by (simp add: wf_tree_def value_type_text_def value_type_of_def)
  have "foldE dec_tree_field kvs a = Inr b \<Longrightarrow> wf_tree a \<Longrightarrow> wf_tree b" for kvs a b
    by (rule foldE_invariant [where P = wf_tree]) (auto intro: dec_tree_field_wf)
  then show "unmarshal_tree src = Inr t \<Longrightarrow> wf_tree t"
    using z by (auto simp: unmarshal_tree_def split: raw.splits json.splits)
qed

lemma unmarshal_predicate_wf: "unmarshal_predicate src = Inr p \<Longrightarrow> wf_predicate p"
  by (auto simp: unmarshal_predicate_def split: raw.splits json.splits intro: decode_wf(1) [OF wf_zero_predicate])

subsection \<open>Round trip\<close>

lemma field_name_self: "k \<in> set fs \<Longrightarrow> field_name fs k = Some k"
  by (simp add: field_name_def)

lemma decode_omitempty:
  "k \<in> set predicate_fields \<Longrightarrow>
   decode_fields p (omitempty e k j @ kvs) =
     (if e then decode_fields p kvs
      else bindE (decode_member p (Some k) j) (\<lambda>p'. decode_fields p' kvs))"
  by (simp add: omitempty_def decode_fields_Cons field_name_self)

lemma decode_head_members:
  "decode_fields (Predicate k [] v vs pat salt pct cs one src key)
     (omitempty (a = []) ''attr'' (JStr a) @ kvs) =
   decode_fields (Predicate k a v vs pat salt pct cs one src key) kvs"
  "decode_fields (Predicate k a v vs [] salt pct cs one src key)
     (omitempty (pat = []) ''pattern'' (JStr pat) @ kvs) =
   decode_fields (Predicate k a v vs pat salt pct cs one src key) kvs"
  "decode_fields (Predicate k a v vs pat [] pct cs one src key)
     (omitempty (salt = []) ''salt'' (JStr salt) @ kvs) =
   decode_fields (Predicate k a v vs pat salt pct cs one src key) kvs"
  "int64_range pct \<Longrightarrow> decode_fields (Predicate k a v vs pat salt 0 cs one src key)
     (omitempty (pct = 0) ''percent'' (JNum (show_int pct)) @ kvs) =
   decode_fields (Predicate k a v vs pat salt pct cs one src key) kvs"
  "decode_fields (Predicate k a v vs pat salt pct cs one [] key)
     (omitempty (src = []) ''source'' (JStr src) @ kvs) =
   decode_fields (Predicate k a v vs pat salt pct cs one src key) kvs"
  "decode_fields (Predicate k a v vs pat salt pct cs one src [])
     (omitempty (key = []) ''key'' (JStr key) @ kvs) =
   decode_fields (Predicate k a v vs pat salt pct cs one src key) kvs"
  by (simp_all add: decode_omitempty predicate_fields_def decode_member_def dec_flat_def
        dec_string_def dec_int_def int_of_literal_show_int)

lemma decode_value_member:
  assumes "v = RawNil \<or> raw_is_doc v" "(if raw_empty v then Some JNull else marshal_raw v) = Some jv"
  shows "decode_fields (Predicate k a RawNil vs pat salt pct cs one src key)
           (omitempty (raw_empty v) ''value'' jv @ kvs) =
         decode_fields (Predicate k a v vs pat salt pct cs one src key) kvs"
  using assms
  by (cases v) (simp_all add: decode_omitempty predicate_fields_def decode_member_def dec_flat_def
        marshal_raw_def)

lemma marshal_raws: "list_all raw_is_doc vs \<Longrightarrow> those (map marshal_raw vs) = Some jvs \<Longrightarrow> map RawDoc jvs = vs"
proof (induction vs arbitrary: jvs)
  case (Cons v vs)
  then show ?case by (auto simp: marshal_raw_def elim!: raw_is_docE split: option.splits)
qed simp

lemma marshal_raws_total: "list_all raw_is_doc vs \<Longrightarrow> \<exists>jvs. those (map marshal_raw vs) = Some jvs"
  by (induction vs) (auto simp: marshal_raw_def elim!: raw_is_docE)

lemma decode_values_member:
  assumes "list_all raw_is_doc vs" "those (map marshal_raw vs) = Some jvs"
  shows "decode_fields (Predicate k a v [] pat salt pct cs one src key)
           (omitempty (vs = []) ''values'' (JArr jvs) @ kvs) =
         decode_fields (Predicate k a v vs pat salt pct cs one src key) kvs"
  using marshal_raws [OF assms]
  by (simp add: decode_omitempty predicate_fields_def decode_member_def dec_flat_def dec_raws_def)

lemma decode_kind_member:
  "kind_of (kind_text k) = k \<Longrightarrow>
   decode_fields (Predicate k0 a v vs pat salt pct cs one src key) ((''kind'', JStr (kind_text k)) # kvs) =
   decode_fields (Predicate k a v vs pat salt pct cs one src key) kvs"
  by (simp add: decode_fields_Cons field_name_self predicate_fields_def decode_member_def dec_flat_def
        dec_string_def)

lemma decode_flat_head:
  assumes "kind_of (kind_text k) = k" "v = RawNil \<or> raw_is_doc v" "list_all raw_is_doc vs" "int64_range pct"
    and "(if raw_empty v then Some JNull else marshal_raw v) = Some jv"
    and "those (map marshal_raw vs) = Some jvs"
  shows "decode_fields zero_predicate
           (flat_head (Predicate k a v vs pat salt pct cs one src key) jv jvs @ kvs) =
         decode_fields (Predicate k a v vs pat salt pct [] None [] []) kvs"
  using assms
  by (simp add: flat_head_def decode_kind_member decode_head_members decode_value_member
        decode_values_member)

lemma decode_flat_tail:
  "decode_fields (Predicate k a v vs pat salt pct cs one [] [])
     (flat_tail (Predicate k a v vs pat salt pct cs one src key)) =
   Inr (Predicate k a v vs pat salt pct cs one src key)"
  using decode_head_members(5,6) [where kvs = "[]"] decode_head_members(5)
  by (simp add: flat_tail_def)

lemma decode_list_map:
  "(\<And>c. c \<in> set cs \<Longrightarrow> \<exists>j. marshal_ptr c = Some j \<and> decode_ptr None j = Inr c) \<Longrightarrow>
   \<exists>js. those (map marshal_ptr cs) = Some js \<and> decode_list js = Inr cs"
proof (induction cs)
  case (Cons c cs)
  then obtain j js where "marshal_ptr c = Some j" "decode_ptr None j = Inr c"
    "those (map marshal_ptr cs) = Some js" "decode_list js = Inr cs" by fastforce
  then show ?case by auto
qed simp

lemma marshal_decode:
  "wf_predicate p \<Longrightarrow> \<exists>j. marshal_predicate p = Some j \<and> decode_ptr None j = Inr (Some p)"
  "wf_ptr c \<Longrightarrow> \<exists>j. marshal_ptr c = Some j \<and> decode_ptr None j = Inr c"
proof (induction p and c rule: marshal_predicate_marshal_ptr.induct)
  case (1 k a v vs pat salt pct cs one src key)
  let ?p = "Predicate k a v vs pat salt pct cs one src key"
  obtain jv where jv: "(if raw_empty v then Some JNull else marshal_raw v) = Some jv"
    using 1(3) by (auto simp: marshal_raw_def elim!: raw_is_docE)
  obtain jvs where jvs: "those (map marshal_raw vs) = Some jvs"
    using 1(3) marshal_raws_total by auto
  obtain jcs where jcs: "those (map marshal_ptr cs) = Some jcs" "decode_list jcs = Inr cs"
    using decode_list_map [of cs] 1(1) [OF refl jv jvs] 1(3) by (auto simp: list_all_iff)
  obtain jo where jo: "marshal_ptr one = Some jo" "decode_ptr None jo = Inr one"
    using 1(2) [OF refl jv jvs jcs(1)] 1(3) by auto
  have m: "marshal_predicate ?p = Some (JObj (flat_head ?p jv jvs @
      omitempty (cs = []) ''of'' (JArr jcs) @ omitempty (one = None) ''of_one'' jo @ flat_tail ?p))"
    using jv jvs jcs(1) jo(1) by (simp add: Let_def)
  have "decode_fields zero_predicate (flat_head ?p jv jvs @
      omitempty (cs = []) ''of'' (JArr jcs) @ omitempty (one = None) ''of_one'' jo @ flat_tail ?p) = Inr ?p"
    using 1(3) jv jvs jcs(2) jo(2)
    by (subst decode_flat_head)
       (auto simp: decode_omitempty predicate_fields_def decode_member_def set_of_def set_of_one_def
          decode_flat_tail)
  then show ?case unfolding m by simp
next
  case 2
  show ?case by simp
next
  case (3 p)
  then show ?case by simp
qed

definition null_raw :: "raw \<Rightarrow> raw" where
  "null_raw r = (if r = RawNil then RawDoc JNull else r)"

definition nil_to_null :: "RulesTree \<Rightarrow> RulesTree" where
  "nil_to_null t = t\<lparr>TDefault := null_raw (TDefault t),
     TRules := map_option (map (\<lambda>r. r\<lparr>RValue := null_raw (RValue r)\<rparr>)) (TRules t)\<rparr>"

lemma marshal_null_raw:
  "r = RawNil \<or> raw_is_doc r \<Longrightarrow> \<exists>j. marshal_raw r = Some j \<and> null_raw r = RawDoc j"
  by (auto simp: marshal_raw_def null_raw_def elim!: raw_is_docE)

lemma marshal_rule_decode:
  assumes "wf_rule r"
  shows "\<exists>j. marshal_rule r = Some j \<and> decode_rule j = Inr (r\<lparr>RValue := null_raw (RValue r)\<rparr>)"
proof -
  obtain jw where "marshal_ptr (When r) = Some jw" "decode_ptr None jw = Inr (When r)"
    using marshal_decode(2) assms unfolding wf_rule_def by blast
  moreover obtain jv where "marshal_raw (RValue r) = Some jv" "null_raw (RValue r) = RawDoc jv"
    using marshal_null_raw assms unfolding wf_rule_def by blast
  ultimately show ?thesis
    by (simp add: marshal_rule_def decode_rule_def dec_rule_field_def field_name_def dec_string_def)
qed

lemma marshal_rules_decode:
  "list_all wf_rule rs \<Longrightarrow> \<exists>js. those (map marshal_rule rs) = Some js \<and>
     mapE decode_rule js = Inr (map (\<lambda>r. r\<lparr>RValue := null_raw (RValue r)\<rparr>) rs)"
proof (induction rs)
  case (Cons r rs)
  then show ?case using marshal_rule_decode [of r] by auto
qed simp

lemma marshal_tree_decode:
  assumes "wf_tree t"
  shows "\<exists>j. marshal_tree t = Some j \<and> unmarshal_tree (RawDoc j) = Inr (nil_to_null t)"
proof -
  obtain jd where d: "marshal_raw (TDefault t) = Some jd" "null_raw (TDefault t) = RawDoc jd"
    using marshal_null_raw assms unfolding wf_tree_def by blast
  show ?thesis
  proof (cases "TRules t")
    case None
    then show ?thesis using d assms
      by (simp add: marshal_tree_def unmarshal_tree_def dec_tree_field_def field_name_def
            dec_string_def nil_to_null_def wf_tree_def)
  next
    case (Some rs)
    then obtain js where "those (map marshal_rule rs) = Some js"
      "mapE decode_rule js = Inr (map (\<lambda>r. r\<lparr>RValue := null_raw (RValue r)\<rparr>) rs)"
      using assms marshal_rules_decode [of rs] by (auto simp: wf_tree_def rules_of_def)
    then show ?thesis using d assms Some
      by (simp add: marshal_tree_def unmarshal_tree_def dec_tree_field_def field_name_def
            dec_string_def nil_to_null_def wf_tree_def)
  qed
qed

text \<open>
  C10. Decoding a document into a rules tree, marshalling the tree and decoding
  it again always succeeds and gives the same tree, in which a missing default
  or rule value has become the JSON value \<open>null\<close>.
\<close>

theorem tree_roundtrip:
  assumes "unmarshal_tree src = Inr t"
  shows "\<exists>j. marshal_tree t = Some j \<and> unmarshal_tree (RawDoc j) = Inr (nil_to_null t)"
  by (rule marshal_tree_decode [OF unmarshal_tree_wf [OF assms]])

definition sample_source :: raw where
  "sample_source = RawDoc (JObj [(''value_type'', JStr ''boolean''),
     (''rules'', JArr [JObj [(''id'', JStr ''r1''), (''value'', JBool True),
        (''when'', JObj [(''kind'', JStr ''not''),
           (''of_one'', JObj [(''kind'', JStr ''rollout''), (''attr'', JStr ''user.id''),
              (''salt'', JStr ''s''), (''percent'', JNum ''25'')])])]])])"

theorem tree_roundtrip_witness:
  "\<exists>t j. unmarshal_tree sample_source = Inr t \<and> marshal_tree t = Some j \<and>
     TDefault t = RawNil \<and> unmarshal_tree (RawDoc j) = Inr (nil_to_null t) \<and>
     TDefault (nil_to_null t) = RawDoc JNull"
proof -
  have "case unmarshal_tree sample_source of Inl _ \<Rightarrow> False | Inr t \<Rightarrow> TDefault t = RawNil"
    by code_simp
  then obtain t where "unmarshal_tree sample_source = Inr t" "TDefault t = RawNil"
    by (auto split: sum.splits)
  then show ?thesis
    using tree_roundtrip [of sample_source t] by (auto simp: nil_to_null_def null_raw_def)
qed

end
