(* ===== verification/Config_Compile.thy ===== *)
theory Config_Compile
  imports Config_Validate Json_Text Config_Json
begin

text \<open>
  The strategy compilers of \<open>internal/config\<close>: \<open>json.go\<close>, \<open>cel.go\<close>,
  \<open>typescript.go\<close> and the dispatch of \<open>strategy.go\<close>. esbuild and goja, which
  bundle and run TypeScript, are fields of a record. The locale \<open>compiler\<close> is
  the contract the rest of the system relies on: whatever the strategy, a compiled
  configuration carries a validated tree and a program for every CEL source in it.
\<close>

subsection \<open>CEL programs\<close>

definition compile_cel :: "('ast, 'prog) engines \<Rightarrow> string \<Rightarrow> cfg_error + 'prog" where
  "compile_cel E src =
     (case cel_compile E src of
        Inl e \<Rightarrow> Inl (Sentinel ErrCELCompileFailure e)
      | Inr ast \<Rightarrow>
          if \<not> cel_is_bool E ast
          then Inl (Sentinel ErrCELCompileFailure
                 (''cel expression must return bool, got '' @ cel_type_text E ast))
          else (case cel_program E ast of
                  Inl e \<Rightarrow> Inl (Sentinel ErrCELCompileFailure e)
                | Inr prog \<Rightarrow> Inr prog))"

fun walkAndCompile :: "('ast, 'prog) engines \<Rightarrow> Predicate option \<Rightarrow> (string \<times> 'prog) list
    \<Rightarrow> cfg_error + (string \<times> 'prog) list"
and walkChildren :: "('ast, 'prog) engines \<Rightarrow> Predicate option list \<Rightarrow> (string \<times> 'prog) list
    \<Rightarrow> cfg_error + (string \<times> 'prog) list" where
  "walkAndCompile E None out = Inr out"
| "walkAndCompile E (Some (Predicate k attr v vs pat salt pct cs one src key)) out =
     (case k of
        PredCEL \<Rightarrow>
          (case map_of out src of
             Some _ \<Rightarrow> Inr out
           | None \<Rightarrow> bindE (compile_cel E src) (\<lambda>prog. Inr (map_put src prog out)))
      | PredAll \<Rightarrow> walkChildren E cs out
      | PredAny \<Rightarrow> walkChildren E cs out
      | PredNot \<Rightarrow> walkAndCompile E one out
      | _ \<Rightarrow> Inr out)"
| "walkChildren E [] out = Inr out"
| "walkChildren E (c # cs) out = bindE (walkAndCompile E c out) (\<lambda>out'. walkChildren E cs out')"

text \<open>\<open>fmt.Errorf("rule %q: %w", id, err)\<close>\<close>

definition wrap_rule :: "Rule \<Rightarrow> cfg_error + 'a \<Rightarrow> cfg_error + 'a" where
  "wrap_rule r x = (case x of Inl e \<Rightarrow> Inl (Wrapped (''rule '' @ fmt_q (ID r)) e) | Inr a \<Rightarrow> Inr a)"

fun compilePredicates :: "('ast, 'prog) engines \<Rightarrow> Rule list \<Rightarrow> (string \<times> 'prog) list
    \<Rightarrow> cfg_error + (string \<times> 'prog) list" where
  "compilePredicates E [] out = Inr out"
| "compilePredicates E (r # rs) out =
     bindE (wrap_rule r (walkAndCompile E (When r) out)) (\<lambda>out'. compilePredicates E rs out')"

definition celEnv :: "('ast, 'prog) engines \<Rightarrow> string + unit" where
  "celEnv E = (case cel_new_env E of Some e \<Rightarrow> Inl e | None \<Rightarrow> Inr ())"

text \<open>\<open>EvalCEL\<close>: an output that is no bool counts as false.\<close>

definition celRefToBool :: "cel_val \<Rightarrow> bool" where
  "celRefToBool v = (case v of CelBool b \<Rightarrow> b | CelOther \<Rightarrow> False)"

definition EvalCEL :: "('ast, 'prog) engines \<Rightarrow> 'prog \<Rightarrow> ctx \<Rightarrow> string + bool" where
  "EvalCEL E prog ctx = bindE (cel_eval E prog ctx) (\<lambda>v. Inr (celRefToBool v))"

subsection \<open>The JSON and CEL compilers\<close>

definition invalid_ir :: "string + 'a \<Rightarrow> cfg_error + 'a" where
  "invalid_ir x = (case x of Inl e \<Rightarrow> Inl (Sentinel ErrInvalidIR e) | Inr a \<Rightarrow> Inr a)"

definition check_error :: "'e option \<Rightarrow> 'e + unit" where
  "check_error x = (case x of Some e \<Rightarrow> Inl e | None \<Rightarrow> Inr ())"

definition json_Compile :: "('ast, 'prog) engines \<Rightarrow> raw \<Rightarrow> cfg_error + 'prog Compiled" where
  "json_Compile E src =
     bindE (invalid_ir (unmarshal_tree src)) (\<lambda>tree.
     bindE (check_error (validateTree E tree)) (\<lambda>_.
     Inr \<lparr>CStrategy = StrategyJSON, IR = Some tree, CELPrograms = []\<rparr>))"

text \<open>The steps the CEL and TypeScript compilers share after decoding.\<close>

definition validate_and_compile ::
    "('ast, 'prog) engines \<Rightarrow> Strategy \<Rightarrow> RulesTree \<Rightarrow> cfg_error + 'prog Compiled" where
  "validate_and_compile E s tree =
     bindE (check_error (validateTreeWith E tree True)) (\<lambda>_.
     bindE (case celEnv E of Inl e \<Rightarrow> Inl (Sentinel ErrCELCompileFailure e) | Inr u \<Rightarrow> Inr u) (\<lambda>_.
     bindE (compilePredicates E (rules_of tree) []) (\<lambda>programs.
     Inr \<lparr>CStrategy = s, IR = Some tree, CELPrograms = programs\<rparr>)))"

definition cel_Compile :: "('ast, 'prog) engines \<Rightarrow> raw \<Rightarrow> cfg_error + 'prog Compiled" where
  "cel_Compile E src =
     bindE (invalid_ir (unmarshal_tree src)) (validate_and_compile E StrategyCEL)"

subsection \<open>TypeScript\<close>

definition raw_text :: "raw \<Rightarrow> string" where
  "raw_text r = (case r of RawNil \<Rightarrow> [] | RawDoc j \<Rightarrow> json_text j | RawBytes s \<Rightarrow> s)"

definition maxSourceTextBytes :: int where "maxSourceTextBytes = 32 * 1024"

definition maxIRBytes :: int where "maxIRBytes = 32 * 1024"

text \<open>What goja reports: an interrupt (its value being a context error or not) or an exception.\<close>

datatype js_error =
    Interrupted (by_context: bool) (value_text: string) (interrupt_text: string)
  | Exception (exception_text: string)

record esbuild_message =
  em_text :: string
  em_location :: "(string \<times> int \<times> int) option"

record js_module =
  jm_module :: bool
  jm_exports :: bool
  jm_default :: "any option"

record ts_engine =
  es_build :: "string \<Rightarrow> esbuild_message list \<times> string list"
  vm_run_shim :: "string option"
  vm_shim :: bool
  vm_set :: "string \<Rightarrow> string option"
  vm_run :: "string \<Rightarrow> js_error + js_module"

abbreviation ts_fail :: "string \<Rightarrow> cfg_error" where
  "ts_fail m \<equiv> Sentinel ErrTypeScriptCompileFailure m"

definition newEsbuildError :: "esbuild_message list \<Rightarrow> cfg_error" where
  "newEsbuildError msgs = EsbuildError (map (\<lambda>m. case em_location m of
       None \<Rightarrow> \<lparr>MFile = [], MLine = 0, MColumn = 0, MText = em_text m\<rparr>
     | Some (f, l, c) \<Rightarrow> \<lparr>MFile = f, MLine = l, MColumn = c, MText = em_text m\<rparr>) msgs)"

definition mapGojaError :: "js_error \<Rightarrow> cfg_error" where
  "mapGojaError e = (case e of
     Interrupted ctx_err v t \<Rightarrow> if ctx_err then ts_fail v else ts_fail t
   | Exception t \<Rightarrow> GojaError t)"

definition extractDefaultExport :: "js_module \<Rightarrow> cfg_error + any" where
  "extractDefaultExport m =
     (if \<not> jm_module m then Inl (ts_fail ''module not set'')
      else if \<not> jm_exports m then Inl (ts_fail ''module.exports missing'')
      else case jm_default m of
             None \<Rightarrow> Inl (ts_fail ''missing default export'')
           | Some v \<Rightarrow> Inr v)"

text \<open>The set-up of the runtime: the shim, then \<open>module\<close>, \<open>exports\<close> and \<open>require\<close>.\<close>

definition vm_setup :: "ts_engine \<Rightarrow> cfg_error + unit" where
  "vm_setup T =
     (let set_or = (\<lambda>name what. case vm_set T name of
                      Some e \<Rightarrow> Inl (ts_fail (what @ '' setup: '' @ e)) | None \<Rightarrow> Inr ())
      in bindE (case vm_run_shim T of Some e \<Rightarrow> Inl (ts_fail (''shim load: '' @ e)) | None \<Rightarrow> Inr ()) (\<lambda>_.
         if \<not> vm_shim T then Inl (ts_fail ''shim did not register globalThis.__falseflag_dsl'')
         else bindE (set_or ''module.exports'' ''module'') (\<lambda>_.
              bindE (set_or ''module'' ''module'') (\<lambda>_.
              bindE (set_or ''exports'' ''exports'') (\<lambda>_.
              set_or ''require'' ''require'')))))"

definition tryRehydrateIR :: "('ast, 'prog) engines \<Rightarrow> raw \<Rightarrow> 'prog Compiled option" where
  "tryRehydrateIR E src = (case unmarshal_tree src of
     Inl _ \<Rightarrow> None
   | Inr tree \<Rightarrow>
      if TValueType tree = ValueTypeOther [] then None
      else (case validate_and_compile E StrategyTypeScript tree of Inl _ \<Rightarrow> None | Inr c \<Rightarrow> Some c))"

definition compileTypescript ::
    "('ast, 'prog) engines \<Rightarrow> ts_engine \<Rightarrow> raw \<Rightarrow> cfg_error + 'prog Compiled" where
  "compileTypescript E T src =
     (if raw_empty src then Inl (ts_fail ''empty source'')
      else case tryRehydrateIR E src of
        Some c \<Rightarrow> Inr c
      | None \<Rightarrow>
         if int (length (raw_text src)) > maxSourceTextBytes
         then Inl (ts_fail (''source exceeds '' @ show_int maxSourceTextBytes @ '' bytes''))
         else case es_build T (raw_text src) of (errs, outs) \<Rightarrow>
           if errs \<noteq> [] then Inl (newEsbuildError errs)
           else if length outs \<noteq> 1
             then Inl (ts_fail (''esbuild produced '' @ show_int (int (length outs)) @ '' output files''))
           else bindE (vm_setup T) (\<lambda>_.
                bindE (case vm_run T (hd outs) of Inl e \<Rightarrow> Inl (mapGojaError e) | Inr m \<Rightarrow> Inr m) (\<lambda>m.
                bindE (extractDefaultExport m) (\<lambda>def.
                case marshal_any def of
                  None \<Rightarrow> Inl (ts_fail ''marshal IR: unsupported value'')
                | Some ir \<Rightarrow>
                    if int (length (json_text ir)) > maxIRBytes
                    then Inl (ts_fail (''IR exceeds '' @ show_int maxIRBytes @ '' bytes''))
                    else bindE (invalid_ir (unmarshal_tree (RawDoc ir)))
                           (validate_and_compile E StrategyTypeScript)))))"

definition typescript_Compile ::
    "('ast, 'prog) engines \<Rightarrow> ts_engine \<Rightarrow> raw \<Rightarrow> cfg_error + 'prog Compiled" where
  "typescript_Compile E T src = compileTypescript E T src"

subsection \<open>Dispatch\<close>

definition CompilerFor :: "('ast, 'prog) engines \<Rightarrow> ts_engine \<Rightarrow> Strategy
    \<Rightarrow> cfg_error + (raw \<Rightarrow> cfg_error + 'prog Compiled)" where
  "CompilerFor E T s = (case s of
     StrategyJSON \<Rightarrow> Inr (json_Compile E)
   | StrategyCEL \<Rightarrow> Inr (cel_Compile E)
   | StrategyTypeScript \<Rightarrow> Inr (typescript_Compile E T)
   | StrategyOther t \<Rightarrow> Inl (Sentinel ErrUnknownStrategy (fmt_q t)))"

definition Compile :: "('ast, 'prog) engines \<Rightarrow> ts_engine \<Rightarrow> Strategy \<Rightarrow> raw
    \<Rightarrow> cfg_error + 'prog Compiled" where
  "Compile E T s src = bindE (CompilerFor E T s) (\<lambda>c. c src)"

subsection \<open>The contract of a compiler\<close>

definition cel_nodes :: "Predicate \<Rightarrow> Predicate list" where
  "cel_nodes p = filter (\<lambda>n. Kind n = PredCEL) (nodes p)"

text \<open>Every CEL source of the tree has a program, and each program is that of its source.\<close>

definition programs_cover :: "(string \<times> 'prog) list \<Rightarrow> Predicate option \<Rightarrow> bool" where
  "programs_cover out po =
     (case po of None \<Rightarrow> True | Some p \<Rightarrow> list_all (\<lambda>n. map_of out (Source n) \<noteq> None) (cel_nodes p))"

definition programs_sound :: "('ast, 'prog) engines \<Rightarrow> (string \<times> 'prog) list \<Rightarrow> bool" where
  "programs_sound E out = (\<forall>src prog. map_of out src = Some prog \<longrightarrow> compile_cel E src = Inr prog)"

definition compiled_ok :: "('ast, 'prog) engines \<Rightarrow> 'prog Compiled \<Rightarrow> bool" where
  "compiled_ok E c =
     (case IR c of None \<Rightarrow> False
      | Some t \<Rightarrow> tree_ok E True t \<and> wf_tree t \<and> programs_sound E (CELPrograms c) \<and>
                 list_all (\<lambda>r. programs_cover (CELPrograms c) (When r)) (rules_of t))"

lemma programs_cover_iff:
  "programs_cover out (Some p) \<longleftrightarrow>
     (\<forall>n \<in> set (nodes p). Kind n = PredCEL \<longrightarrow> map_of out (Source n) \<noteq> None)"
  by (auto simp: programs_cover_def cel_nodes_def list_all_iff)

lemma programs_cover_Predicate:
  "programs_cover out (Some q) \<longleftrightarrow>
     (Kind q = PredCEL \<longrightarrow> map_of out (Source q) \<noteq> None) \<and>
     (Kind q = PredAll \<or> Kind q = PredAny \<longrightarrow> (\<forall>c \<in> set (Of q). programs_cover out c)) \<and>
     (Kind q = PredNot \<longrightarrow> programs_cover out (OfOne q))"
proof -
  have n: "programs_cover out c \<longleftrightarrow> (\<forall>p. c = Some p \<longrightarrow> programs_cover out (Some p))" for c
    by (cases c) (simp_all add: programs_cover_def)
  show ?thesis
    unfolding Ball_def n [of "OfOne q"] programs_cover_iff
    apply (subst nodes_iff)
    apply (subst n)
    unfolding programs_cover_iff by blast
qed

lemma programs_cover_mono: "programs_cover out c \<Longrightarrow> map_of out \<subseteq>\<^sub>m map_of out' \<Longrightarrow> programs_cover out' c"
  by (cases c) (fastforce simp: programs_cover_def list_all_iff map_le_def dom_def)+

lemma programs_sound_put:
  "programs_sound E out \<Longrightarrow> compile_cel E src = Inr prog \<Longrightarrow> programs_sound E (map_put src prog out)"
  by (auto simp: programs_sound_def)

lemma map_le_put: "map_of out src = None \<Longrightarrow> map_of out \<subseteq>\<^sub>m map_of (map_put src prog out)"
  by (auto simp: map_le_def)

lemma walk_ok:
  "walkAndCompile E po out = Inr out' \<Longrightarrow> programs_sound E out \<Longrightarrow>
     programs_sound E out' \<and> map_of out \<subseteq>\<^sub>m map_of out' \<and> programs_cover out' po"
  "walkChildren E cs out = Inr out' \<Longrightarrow> programs_sound E out \<Longrightarrow>
     programs_sound E out' \<and> map_of out \<subseteq>\<^sub>m map_of out' \<and> (\<forall>c \<in> set cs. programs_cover out' c)"
proof (induction E po out and E cs out arbitrary: out' and out' rule: walkAndCompile_walkChildren.induct)
  case (2 E k attr v vs pat salt pct cs one src key out)
  then show ?case
    by (cases k) (auto simp: programs_cover_Predicate bindE_eq_Inr programs_sound_put map_le_put
                       split: option.splits)
next
  case (4 E c cs out)
  from 4(3) obtain o1 where o1: "walkAndCompile E c out = Inr o1" "walkChildren E cs o1 = Inr out'"
    by (auto simp: bindE_eq_Inr)
  then show ?case using 4(1) [OF o1(1) 4(4)] 4(2) [OF o1]
    by (auto intro: map_le_trans programs_cover_mono)
qed (auto simp: programs_cover_def)

lemma compilePredicates_ok:
  "compilePredicates E rs out = Inr out' \<Longrightarrow> programs_sound E out \<Longrightarrow>
     programs_sound E out' \<and> map_of out \<subseteq>\<^sub>m map_of out' \<and> (\<forall>r \<in> set rs. programs_cover out' (When r))"
proof (induction rs arbitrary: out)
  case (Cons r rs)
  from Cons.prems(1) obtain o1 where o1: "walkAndCompile E (When r) out = Inr o1"
      "compilePredicates E rs o1 = Inr out'"
    by (auto simp: bindE_eq_Inr wrap_rule_def split: sum.splits)
  from walk_ok(1) [OF o1(1) Cons.prems(2)] Cons.IH [OF o1(2)]
  show ?case by (auto intro: map_le_trans programs_cover_mono)
qed simp

lemma validate_and_compile_ok:
  assumes "validate_and_compile E s t = Inr c" "wf_tree t"
  shows "CStrategy c = s \<and> IR c = Some t \<and> compiled_ok E c"
proof -
  from assms(1) obtain out where v: "validateTreeWith E t True = None"
    and out: "compilePredicates E (rules_of t) [] = Inr out"
    and c: "c = \<lparr>CStrategy = s, IR = Some t, CELPrograms = out\<rparr>"
    by (auto simp: validate_and_compile_def bindE_eq_Inr check_error_def split: option.splits)
  have "programs_sound E []" by (simp add: programs_sound_def)
  from compilePredicates_ok [OF out this] v assms(2) show ?thesis
    by (simp add: c compiled_ok_def validateTreeWith_ok list_all_iff)
qed

lemma no_cel_cover:
  assumes "all_nodes_ok E False p"
  shows "programs_cover out (Some p)"
  using assms by (auto simp: programs_cover_iff all_nodes_ok_def node_ok_def)

lemma rule_ok_cover: "rule_ok E False r \<Longrightarrow> programs_cover out (When r)"
  by (cases "When r") (auto simp: rule_ok_def no_cel_cover)

lemma invalid_ir_Inr [simp]: "invalid_ir x = Inr a \<longleftrightarrow> x = Inr a"
  by (cases x) (auto simp: invalid_ir_def)

lemma check_error_Inr [simp]: "check_error x = Inr u \<longleftrightarrow> x = None"
  by (cases x) (auto simp: check_error_def)

lemma json_Compile_ok:
  assumes "json_Compile E src = Inr c"
  shows "CStrategy c = StrategyJSON \<and> compiled_ok E c"
proof -
  from assms obtain t where t: "unmarshal_tree src = Inr t" and v: "validateTree E t = None"
    and c: "c = \<lparr>CStrategy = StrategyJSON, IR = Some t, CELPrograms = []\<rparr>"
    by (auto simp: json_Compile_def bindE_eq_Inr)
  from v have ok: "tree_ok E False t" by (simp add: validateTree_With validateTreeWith_ok)
  then have "list_all (\<lambda>r. programs_cover [] (When r)) (rules_of t)"
    by (auto simp: tree_ok_def list_all_iff intro: rule_ok_cover)
  then show ?thesis
    using ok tree_ok_mono [of E False t True] unmarshal_tree_wf [OF t]
    by (simp add: c compiled_ok_def programs_sound_def)
qed

lemma cel_Compile_ok:
  "cel_Compile E src = Inr c \<Longrightarrow> CStrategy c = StrategyCEL \<and> compiled_ok E c"
  by (auto simp: cel_Compile_def bindE_eq_Inr split: sum.splits
           dest!: unmarshal_tree_wf dest: validate_and_compile_ok)

lemma tryRehydrateIR_ok:
  "tryRehydrateIR E src = Some c \<Longrightarrow> CStrategy c = StrategyTypeScript \<and> compiled_ok E c"
  by (auto simp: tryRehydrateIR_def split: sum.splits if_splits
           dest!: unmarshal_tree_wf dest: validate_and_compile_ok)

lemma typescript_Compile_ok:
  "typescript_Compile E T src = Inr c \<Longrightarrow> CStrategy c = StrategyTypeScript \<and> compiled_ok E c"
  by (auto simp: typescript_Compile_def compileTypescript_def bindE_eq_Inr
           split: sum.splits if_splits option.splits option.split_asm prod.splits
           dest!: unmarshal_tree_wf dest: validate_and_compile_ok tryRehydrateIR_ok)

text \<open>
  The tree of a compiled configuration is stored as JSON and compiled again when
  a flag is evaluated: the contract includes that this gives the same result.
\<close>

locale compiler =
  fixes E :: "('ast, 'prog) engines"
    and strategy :: Strategy
    and compile :: "raw \<Rightarrow> cfg_error + 'prog Compiled"
  assumes compile_ok: "compile src = Inr c \<Longrightarrow> CStrategy c = strategy \<and> compiled_ok E c"
    and rehydrate: "compile src = Inr c \<Longrightarrow> IR c = Some t \<Longrightarrow> marshal_tree t = Some j
                    \<Longrightarrow> compile (RawDoc j) = Inr c"
begin

lemma compiled_tree: "compile src = Inr c \<Longrightarrow> \<exists>t. IR c = Some t \<and> tree_ok E True t \<and> wf_tree t"
  by (drule compile_ok) (auto simp: compiled_ok_def split: option.splits)

lemma stored_tree_compiles:
  assumes "compile src = Inr c"
  shows "\<exists>t j. IR c = Some t \<and> marshal_tree t = Some j \<and> compile (RawDoc j) = Inr c"
proof -
  obtain t where t: "IR c = Some t" "wf_tree t" using compiled_tree [OF assms] by blast
  then obtain j where "marshal_tree t = Some j" using marshal_tree_decode by blast
  then show ?thesis using t(1) rehydrate [OF assms t(1)] by blast
qed

lemma program_present:
  assumes "compile src = Inr c" "IR c = Some t" "r \<in> set (rules_of t)" "When r = Some p"
    and "n \<in> set (nodes p)" "Kind n = PredCEL"
  shows "\<exists>prog. map_of (CELPrograms c) (Source n) = Some prog \<and> compile_cel E (Source n) = Inr prog"
proof -
  from compile_ok [OF assms(1)] assms(2-4) have "programs_cover (CELPrograms c) (Some p)"
      and "programs_sound E (CELPrograms c)"
    by (auto simp: compiled_ok_def list_all_iff)
  then show ?thesis using assms(5,6) by (auto simp: programs_cover_iff programs_sound_def)
qed

end

lemma null_raw_id: "\<not> raw_empty r \<Longrightarrow> null_raw r = r"
  by (cases r) (auto simp: null_raw_def)

lemma tree_ok_no_nil: "tree_ok E a t \<Longrightarrow> nil_to_null t = t"
  by (cases "TRules t")
     (auto simp: nil_to_null_def tree_ok_def rules_of_def rule_ok_def list_all_iff null_raw_id
           intro!: map_idI RulesTree.equality Rule.equality)

lemma unmarshal_marshal:
  assumes "wf_tree t" "tree_ok E a t" "marshal_tree t = Some j"
  shows "unmarshal_tree (RawDoc j) = Inr t"
  using marshal_tree_decode [OF assms(1)] assms(3) tree_ok_no_nil [OF assms(2)] by auto

lemma json_rehydrate:
  assumes "json_Compile E src = Inr c" "IR c = Some t" "marshal_tree t = Some j"
  shows "json_Compile E (RawDoc j) = Inr c"
proof -
  have "compiled_ok E c" using json_Compile_ok [OF assms(1)] by simp
  then have "unmarshal_tree (RawDoc j) = Inr t"
    using assms(2,3) by (auto simp: compiled_ok_def intro: unmarshal_marshal)
  then show ?thesis using assms(1,2) by (auto simp: json_Compile_def bindE_eq_Inr invalid_ir_def check_error_def)
qed

lemma validate_and_compile_IR:
  "validate_and_compile E s t0 = Inr c \<Longrightarrow> IR c = Some t \<Longrightarrow> t0 = t"
  by (auto simp: validate_and_compile_def bindE_eq_Inr)

lemma cel_rehydrate:
  assumes "cel_Compile E src = Inr c" "IR c = Some t" "marshal_tree t = Some j"
  shows "cel_Compile E (RawDoc j) = Inr c"
proof -
  have "compiled_ok E c" using cel_Compile_ok [OF assms(1)] by simp
  then have "unmarshal_tree (RawDoc j) = Inr t"
    using assms(2,3) by (auto simp: compiled_ok_def intro: unmarshal_marshal)
  then show ?thesis
    using assms(1) validate_and_compile_IR [OF _ assms(2)]
    by (auto simp: cel_Compile_def bindE_eq_Inr invalid_ir_def)
qed

lemma typescript_source:
  assumes "typescript_Compile E T src = Inr c"
  shows "\<exists>t. validate_and_compile E StrategyTypeScript t = Inr c"
  using assms
  by (auto simp: typescript_Compile_def compileTypescript_def tryRehydrateIR_def bindE_eq_Inr
           split: sum.splits if_splits option.splits option.split_asm prod.splits)

lemma typescript_rehydrate:
  assumes "typescript_Compile E T src = Inr c" "IR c = Some t" "marshal_tree t = Some j"
  shows "typescript_Compile E T (RawDoc j) = Inr c"
proof -
  have ok: "compiled_ok E c" using typescript_Compile_ok [OF assms(1)] by simp
  then have "unmarshal_tree (RawDoc j) = Inr t"
    using assms(2,3) by (auto simp: compiled_ok_def intro: unmarshal_marshal)
  moreover have "validate_and_compile E StrategyTypeScript t = Inr c"
    using typescript_source [OF assms(1)] validate_and_compile_IR [OF _ assms(2)] by auto
  moreover have "TValueType t \<noteq> ValueTypeOther []"
    using ok assms(2) by (auto simp: compiled_ok_def tree_ok_def)
  ultimately have "tryRehydrateIR E (RawDoc j) = Some c" by (simp add: tryRehydrateIR_def)
  then show ?thesis by (simp add: typescript_Compile_def compileTypescript_def)
qed

interpretation json_compiler: compiler E StrategyJSON "json_Compile E" for E
  by unfold_locales (auto intro: json_Compile_ok [THEN conjunct1] json_Compile_ok [THEN conjunct2] json_rehydrate)

interpretation cel_compiler: compiler E StrategyCEL "cel_Compile E" for E
  by unfold_locales (auto intro: cel_Compile_ok [THEN conjunct1] cel_Compile_ok [THEN conjunct2] cel_rehydrate)

interpretation typescript_compiler: compiler E StrategyTypeScript "typescript_Compile E T" for E T
  by unfold_locales
     (auto intro: typescript_Compile_ok [THEN conjunct1] typescript_Compile_ok [THEN conjunct2] typescript_rehydrate)

lemma Compile_cases:
  "Compile E T StrategyJSON = json_Compile E"
  "Compile E T StrategyCEL = cel_Compile E"
  "Compile E T StrategyTypeScript = typescript_Compile E T"
  "Compile E T (StrategyOther u) src = Inl (Sentinel ErrUnknownStrategy (fmt_q u))"
  by (simp_all add: Compile_def CompilerFor_def fun_eq_iff)

interpretation strategy_compiler: compiler E s "Compile E T s" for E T s
proof unfold_locales
  show "CStrategy c = s \<and> compiled_ok E c" if "Compile E T s src = Inr c" for src c
    using that
    by (cases s) (auto simp: Compile_cases dest: json_compiler.compile_ok cel_compiler.compile_ok
                       typescript_compiler.compile_ok)
  show "Compile E T s (RawDoc j) = Inr c"
    if "Compile E T s src = Inr c" "IR c = Some t" "marshal_tree t = Some j" for src c t j
    using that
    by (cases s) (auto simp: Compile_cases intro: json_compiler.rehydrate cel_compiler.rehydrate
                       typescript_compiler.rehydrate)
qed

text \<open>A stored tree may be written differently, as long as it decodes to the same tree.\<close>

lemma Compile_same_tree:
  assumes "Compile E T s (RawDoc j) = Inr c" "unmarshal_tree (RawDoc j') = unmarshal_tree (RawDoc j)"
    and "IR c = Some t" "marshal_tree t = Some j"
  shows "Compile E T s (RawDoc j') = Inr c"
proof (cases s)
  case StrategyTypeScript
  have ok: "compiled_ok E c" using strategy_compiler.compile_ok [OF assms(1)] by simp
  have "unmarshal_tree (RawDoc j') = Inr t"
    using ok assms(2,3,4) by (auto simp: compiled_ok_def intro: unmarshal_marshal)
  moreover have "validate_and_compile E StrategyTypeScript t = Inr c"
    using assms(1) StrategyTypeScript typescript_source validate_and_compile_IR [OF _ assms(3)]
    by (fastforce simp: Compile_cases)
  moreover have "TValueType t \<noteq> ValueTypeOther []" using ok assms(3) by (auto simp: compiled_ok_def tree_ok_def)
  ultimately have "tryRehydrateIR E (RawDoc j') = Some c" by (simp add: tryRehydrateIR_def)
  then show ?thesis by (simp add: StrategyTypeScript Compile_cases typescript_Compile_def compileTypescript_def)
qed (use assms(1,2) in \<open>auto simp: Compile_cases json_Compile_def cel_Compile_def\<close>)

subsection \<open>Engines for examples\<close>

text \<open>
  A regular expression that matches itself only, and a CEL language of the two
  literals. They are used to evaluate the model on concrete inputs.
\<close>

definition sample_engines :: "(string, bool) engines" where
  "sample_engines = \<lparr>re_compile = (\<lambda>p. if p = ''('' then Inl ''missing )'' else Inr (\<lambda>s. s = p)),
     cel_new_env = None,
     cel_compile = (\<lambda>s. if s = ''true'' \<or> s = ''false'' \<or> s = ''1'' then Inr s else Inl ''undeclared reference''),
     cel_is_bool = (\<lambda>a. a \<noteq> ''1''), cel_type_text = (\<lambda>_. ''int''),
     cel_program = (\<lambda>a. Inr (a = ''true'')), cel_eval = (\<lambda>b _. Inr (CelBool b))\<rparr>"

definition sample_ts :: ts_engine where
  "sample_ts = \<lparr>es_build = (\<lambda>_. ([], [''js''])), vm_run_shim = None, vm_shim = True,
     vm_set = (\<lambda>_. None),
     vm_run = (\<lambda>_. Inr \<lparr>jm_module = True, jm_exports = True,
        jm_default = Some (AMap [(''value_type'', AStr ''boolean''), (''default'', ABool False),
          (''rules'', ASlice [AMap [(''id'', AStr ''r1''), (''value'', ABool True),
             (''when'', AMap [(''kind'', AStr ''cel''), (''source'', AStr ''true'')])]])])\<rparr>)\<rparr>"

lemma sample_compiles:
  "case Compile sample_engines sample_ts StrategyTypeScript (RawBytes ''export default ...'') of
     Inl _ \<Rightarrow> False | Inr c \<Rightarrow> CELPrograms c = [(''true'', True)]"
  by code_simp

text \<open>
  C2. Rehydration. Whatever the strategy, the tree of a compiled configuration
  marshals to JSON, and compiling that JSON under the same strategy gives the same
  configuration again: what publishing stores is what evaluation loads.
\<close>

theorem compile_rehydrates:
  assumes "Compile E T s src = Inr c"
  shows "\<exists>t j. IR c = Some t \<and> marshal_tree t = Some j \<and> Compile E T s (RawDoc j) = Inr c"
  using assms by (rule strategy_compiler.stored_tree_compiles)

theorem compile_rehydrates_witness:
  "\<exists>c t j. Compile sample_engines sample_ts StrategyTypeScript (RawBytes ''export default ...'') = Inr c \<and>
     CELPrograms c = [(''true'', True)] \<and> IR c = Some t \<and> marshal_tree t = Some j \<and>
     Compile sample_engines sample_ts StrategyTypeScript (RawDoc j) = Inr c"
proof -
  obtain c where "Compile sample_engines sample_ts StrategyTypeScript (RawBytes ''export default ...'') = Inr c"
      "CELPrograms c = [(''true'', True)]"
    using sample_compiles by (auto split: sum.splits)
  then show ?thesis using compile_rehydrates by blast
qed

text \<open>
  C4. A compiled configuration, whatever the strategy, carries the strategy it was
  compiled under, a well-formed tree, and for every CEL node of every rule the
  program that the CEL engine makes of the source of that node.
\<close>

theorem compile_contract:
  assumes "Compile E T s src = Inr c"
  shows "CStrategy c = s \<and> (\<exists>t. IR c = Some t \<and> tree_ok E True t \<and>
    (\<forall>r p n. r \<in> set (rules_of t) \<and> When r = Some p \<and> n \<in> set (nodes p) \<and> Kind n = PredCEL \<longrightarrow>
       (\<exists>prog. map_of (CELPrograms c) (Source n) = Some prog \<and> compile_cel E (Source n) = Inr prog)))"
proof -
  obtain t where t: "IR c = Some t" "tree_ok E True t"
    using strategy_compiler.compiled_tree [OF assms] by blast
  then show ?thesis
    using strategy_compiler.compile_ok [OF assms] strategy_compiler.program_present [OF assms t(1)]
    by blast
qed

theorem compile_contract_witness:
  "\<exists>c t. Compile sample_engines sample_ts StrategyTypeScript (RawBytes ''export default ...'') = Inr c \<and>
     CStrategy c = StrategyTypeScript \<and> IR c = Some t \<and> tree_ok sample_engines True t"
proof -
  obtain c where "Compile sample_engines sample_ts StrategyTypeScript (RawBytes ''export default ...'') = Inr c"
    using sample_compiles by (auto split: sum.splits)
  then show ?thesis using compile_contract by blast
qed

end
