(* ===== verification/Segments.thy ===== *)
theory Segments
  imports Config_Compile
begin

text \<open>
  Segment resolution, \<open>internal/config/predicate.go\<close>: every reference to a
  segment is replaced by the stored predicate, recursively. The code does not
  detect cycles, so its recursion may not end; the model counts the depth of the
  calls, and \<open>None\<close> means that the given depth does not suffice. The code
  returns exactly when some depth gives \<open>Some\<close>.
\<close>

type_synonym resolver = "string \<Rightarrow> string + Predicate option"

text \<open>A loop over a list whose body may run out of depth or fail.\<close>

fun loopE :: "('a \<Rightarrow> ('e + 'b) option) \<Rightarrow> 'a list \<Rightarrow> ('e + 'b list) option" where
  "loopE f [] = Some (Inr [])"
| "loopE f (x # xs) = (case f x of
     None \<Rightarrow> None
   | Some (Inl e) \<Rightarrow> Some (Inl e)
   | Some (Inr y) \<Rightarrow> (case loopE f xs of
       None \<Rightarrow> None | Some (Inl e) \<Rightarrow> Some (Inl e) | Some (Inr ys) \<Rightarrow> Some (Inr (y # ys))))"

fun resolveOne :: "resolver \<Rightarrow> nat \<Rightarrow> Predicate option \<Rightarrow> (cfg_error + Predicate option) option" where
  "resolveOne R 0 po = None"
| "resolveOne R (Suc n) None = Some (Inr None)"
| "resolveOne R (Suc n) (Some p) =
     (if Kind p = PredSegment then
        (case R (SegmentKey p) of
           Inl e \<Rightarrow> Some (Inl (Sentinel ErrInvalidPredicate
                     (''segment '' @ fmt_q (SegmentKey p) @ '': '' @ e)))
         | Inr None \<Rightarrow> Some (Inl (Sentinel ErrInvalidPredicate
                     (''segment '' @ fmt_q (SegmentKey p) @ '' resolved to nil'')))
         | Inr (Some seg) \<Rightarrow> resolveOne R n (Some seg))
      else
        (case loopE (resolveOne R n) (Of p) of
           None \<Rightarrow> None
         | Some (Inl e) \<Rightarrow> Some (Inl e)
         | Some (Inr cs) \<Rightarrow>
            if OfOne p = None then Some (Inr (Some (set_of p cs)))
            else (case resolveOne R n (OfOne p) of
                    None \<Rightarrow> None
                  | Some (Inl e) \<Rightarrow> Some (Inl e)
                  | Some (Inr c) \<Rightarrow> Some (Inr (Some (set_of_one (set_of p cs) c))))))"

definition resolve_rule :: "resolver \<Rightarrow> nat \<Rightarrow> Rule \<Rightarrow> (cfg_error + Rule) option" where
  "resolve_rule R n r =
     (if When r = None then Some (Inr r)
      else case resolveOne R n (When r) of
             None \<Rightarrow> None
           | Some (Inl e) \<Rightarrow> Some (Inl (Wrapped (''rule '' @ fmt_q (ID r)) e))
           | Some (Inr w) \<Rightarrow> Some (Inr (r\<lparr>When := w\<rparr>)))"

definition ResolveSegments :: "RulesTree \<Rightarrow> resolver \<Rightarrow> nat \<Rightarrow> (cfg_error + RulesTree) option" where
  "ResolveSegments t R n = (case TRules t of
     None \<Rightarrow> Some (Inr t)
   | Some rs \<Rightarrow> (case loopE (resolve_rule R n) rs of
       None \<Rightarrow> None
     | Some (Inl e) \<Rightarrow> Some (Inl e)
     | Some (Inr rs') \<Rightarrow> Some (Inr (t\<lparr>TRules := Some rs'\<rparr>))))"

subsection \<open>References\<close>

text \<open>The segment references resolution meets in a predicate.\<close>

fun seg_refs :: "Predicate \<Rightarrow> string list" where
  "seg_refs (Predicate k attr v vs pat salt pct cs one src key) =
     (if k = PredSegment then [key]
      else concat (map (\<lambda>c. case c of None \<Rightarrow> [] | Some p \<Rightarrow> seg_refs p) cs) @
           (case one of None \<Rightarrow> [] | Some p \<Rightarrow> seg_refs p))"

lemma seg_refs_iff:
  "s \<in> set (seg_refs q) \<longleftrightarrow>
     (if Kind q = PredSegment then s = SegmentKey q
      else (\<exists>p. Some p \<in> set (Of q) \<and> s \<in> set (seg_refs p)) \<or> (\<exists>p. OfOne q = Some p \<and> s \<in> set (seg_refs p)))"
proof (cases q)
  case (Predicate k attr v vs pat salt pct cs one src key)
  have "s \<in> set (concat (map (\<lambda>c. case c of None \<Rightarrow> [] | Some p \<Rightarrow> seg_refs p) cs)) \<longleftrightarrow>
      (\<exists>p. Some p \<in> set cs \<and> s \<in> set (seg_refs p))"
    by (induction cs) (auto split: option.splits)
  then show ?thesis unfolding Predicate by (cases one) (simp_all del: set_concat)
qed

definition seg_free :: "Predicate \<Rightarrow> bool" where
  "seg_free p \<longleftrightarrow> seg_refs p = []"

lemma seg_free_iff:
  "seg_free q \<longleftrightarrow> Kind q \<noteq> PredSegment \<and> (\<forall>p. Some p \<in> set (Of q) \<longrightarrow> seg_free p) \<and>
     (\<forall>p. OfOne q = Some p \<longrightarrow> seg_free p)"
proof -
  have e: "seg_free p \<longleftrightarrow> (\<forall>s. s \<notin> set (seg_refs p))" for p by (auto simp: seg_free_def)
  show ?thesis unfolding e by (subst seg_refs_iff) metis
qed

definition tree_refs :: "RulesTree \<Rightarrow> string list" where
  "tree_refs t = concat (map (\<lambda>r. case When r of None \<Rightarrow> [] | Some p \<Rightarrow> seg_refs p) (rules_of t))"

subsection \<open>Depth\<close>

lemma loopE_mono:
  "loopE f xs = Some r \<Longrightarrow> (\<And>x y. x \<in> set xs \<Longrightarrow> f x = Some y \<Longrightarrow> g x = Some y) \<Longrightarrow> loopE g xs = Some r"
proof (induction xs arbitrary: r)
  case (Cons x xs)
  then obtain y where y: "f x = Some y" "g x = Some y" by (auto split: option.splits)
  show ?case
  proof (cases "loopE f xs")
    case None
    then show ?thesis using Cons.prems(1) y by (auto split: sum.splits)
  next
    case (Some z)
    then have "loopE g xs = Some z" using Cons.IH [of z] Cons.prems(2) by auto
    then show ?thesis using Cons.prems(1) y Some by (cases y) simp_all
  qed
qed simp

lemma resolveOne_mono: "resolveOne R n po = Some x \<Longrightarrow> n \<le> m \<Longrightarrow> resolveOne R m po = Some x"
proof (induction R n po arbitrary: m x rule: resolveOne.induct)
  case (2 R n)
  then show ?case by (cases m) auto
next
  case (3 R n p)
  obtain k where m: "m = Suc k" "n \<le> k" using 3(5) by (cases m) auto
  show ?case
  proof (cases "Kind p = PredSegment")
    case True
    then show ?thesis using 3(1) [OF True _ _ _ m(2)] 3(4)
      by (auto simp: m split: sum.splits option.splits)
  next
    case False
    obtain l where l: "loopE (resolveOne R n) (Of p) = Some l"
      using 3(4) False by (cases "loopE (resolveOne R n) (Of p)") auto
    have l': "loopE (resolveOne R k) (Of p) = Some l"
      by (rule loopE_mono [OF l]) (rule 3(2) [OF False _ m(2)])
    show ?thesis using 3(4) False l l' 3(3) [OF False l _ _ _ m(2)]
      by (auto simp: m split: sum.splits option.splits)
  qed
qed simp

subsection \<open>Results\<close>

lemma loopE_set:
  "loopE f xs = Some (Inr ys) \<Longrightarrow> y \<in> set ys \<Longrightarrow> \<exists>x \<in> set xs. f x = Some (Inr y)"
  by (induction xs arbitrary: ys) (auto split: option.splits sum.splits)

lemma loopE_id:
  "(\<And>x. x \<in> set xs \<Longrightarrow> f x = Some (Inr x)) \<Longrightarrow> loopE f xs = Some (Inr xs)"
  by (induction xs) auto

lemma loopE_total:
  fixes f :: "nat \<Rightarrow> 'a \<Rightarrow> ('e + 'b) option"
  assumes "\<And>x. x \<in> set xs \<Longrightarrow> \<exists>n y. f n x = Some y"
    and "\<And>n m x y. f n x = Some y \<Longrightarrow> n \<le> m \<Longrightarrow> f m x = Some y"
  shows "\<exists>n y. loopE (f n) xs = Some y"
  using assms(1)
proof (induction xs)
  case (Cons x xs)
  obtain a y where a: "f a x = Some y" using Cons.prems [of x] by auto
  obtain b z where b: "loopE (f b) xs = Some z" using Cons.IH Cons.prems by auto
  have "f (max a b) x = Some y" by (rule assms(2) [OF a]) simp
  moreover have "loopE (f (max a b)) xs = Some z"
    by (rule loopE_mono [OF b]) (rule assms(2), auto)
  ultimately have "\<exists>w. loopE (f (max a b)) (x # xs) = Some w" by (cases y; cases z) simp_all
  then show ?case by blast
qed simp

lemma set_of_fields [simp]:
  "Kind (set_of p cs) = Kind p" "Of (set_of p cs) = cs" "OfOne (set_of p cs) = OfOne p"
  "Kind (set_of_one p c) = Kind p" "Of (set_of_one p c) = Of p" "OfOne (set_of_one p c) = c"
  by (simp_all add: set_of_def set_of_one_def split: Predicate.splits)

lemma set_of_same [simp]: "set_of p (Of p) = p" "set_of_one p (OfOne p) = p"
  by (simp_all add: set_of_def set_of_one_def split: Predicate.splits)

lemma resolveOne_seg_free:
  "resolveOne R n po = Some (Inr qo) \<Longrightarrow> qo = Some q \<Longrightarrow> seg_free q"
proof (induction R n po arbitrary: qo q rule: resolveOne.induct)
  case (3 R n p)
  show ?case
  proof (cases "Kind p = PredSegment")
    case True
    then show ?thesis using 3(1) [OF True] 3(4,5) by (auto split: sum.splits option.splits)
  next
    case False
    then obtain cs where l: "loopE (resolveOne R n) (Of p) = Some (Inr cs)"
      using 3(4) by (auto split: sum.splits option.splits)
    have cs: "seg_free c" if "Some c \<in> set cs" for c
      using loopE_set [OF l that] 3(2) [OF False _ refl] by blast
    show ?thesis
    proof (cases "OfOne p")
      case None
      then have "q = set_of p cs" using 3(4,5) False l by simp
      then show ?thesis using None False cs by (subst seg_free_iff) simp
    next
      case (Some o1)
      then obtain c where c: "resolveOne R n (OfOne p) = Some (Inr c)"
          "q = set_of_one (set_of p cs) c"
        using 3(4,5) False l by (auto split: sum.splits option.splits)
      have "seg_free d" if "c = Some d" for d
        using 3(3) [OF False l refl _ c(1) that] Some by simp
      then show ?thesis using False cs by (subst seg_free_iff) (simp add: c(2))
    qed
  qed
qed auto

lemma predicate_induct [case_names node]:
  assumes "\<And>q. (\<And>p. Some p \<in> set (Of q) \<Longrightarrow> P p) \<Longrightarrow> (\<And>p. OfOne q = Some p \<Longrightarrow> P p) \<Longrightarrow> P q"
  shows "P q"
proof (induction q)
  case (Predicate k attr v vs pat salt pct cs one src key)
  show ?case by (rule assms) (use Predicate in auto)
qed

text \<open>
  Resolution of one predicate returns when all of its children's do: some depth
  works for all of them.
\<close>

lemma resolveOne_node:
  assumes "Kind q \<noteq> PredSegment"
    and "\<And>p. Some p \<in> set (Of q) \<Longrightarrow> \<exists>n x. resolveOne R n (Some p) = Some x"
    and "\<And>p. OfOne q = Some p \<Longrightarrow> \<exists>n x. resolveOne R n (Some p) = Some x"
  shows "\<exists>n x. resolveOne R n (Some q) = Some x"
proof -
  have none: "resolveOne R (Suc 0) None = Some (Inr None)" by simp
  have "\<exists>n x. resolveOne R n c = Some x" if "c \<in> set (Of q)" for c
    using assms(2) that none by (cases c) metis+
  then obtain a l where a: "loopE (resolveOne R a) (Of q) = Some l"
    using loopE_total [of "Of q" "resolveOne R"] resolveOne_mono by blast
  obtain b y where b: "resolveOne R b (OfOne q) = Some y"
    using assms(3) none by (cases "OfOne q") metis+
  have "loopE (resolveOne R (max a b)) (Of q) = Some l"
    by (rule loopE_mono [OF a]) (rule resolveOne_mono, auto)
  moreover have "resolveOne R (max a b) (OfOne q) = Some y"
    by (rule resolveOne_mono [OF b]) simp
  ultimately have "\<exists>x. resolveOne R (Suc (max a b)) (Some q) = Some x"
    using assms(1) by (cases l; cases y) simp_all
  then show ?thesis by blast
qed

text \<open>If the references of stored segments decrease a rank, resolution returns.\<close>

definition ranked :: "resolver \<Rightarrow> (string \<Rightarrow> nat) \<Rightarrow> bool" where
  "ranked R rank \<longleftrightarrow>
     (\<forall>k seg. R k = Inr (Some seg) \<longrightarrow> (\<forall>k' \<in> set (seg_refs seg). rank k' < rank k))"

lemma resolveOne_returns:
  assumes "ranked R rank"
  shows "(\<And>k. k \<in> set (seg_refs q) \<Longrightarrow> rank k < b) \<Longrightarrow> \<exists>n x. resolveOne R n (Some q) = Some x"
proof (induction b arbitrary: q rule: less_induct)
  case (less b)
  from less.prems show ?case
  proof (induction q rule: predicate_induct)
    case (node q)
    show ?case
    proof (cases "Kind q = PredSegment")
      case True
      then have k: "rank (SegmentKey q) < b" using node.prems seg_refs_iff by simp
      show ?thesis
      proof (cases "\<exists>seg. R (SegmentKey q) = Inr (Some seg)")
        case True2: True
        then obtain seg where seg: "R (SegmentKey q) = Inr (Some seg)" ..
        then obtain n x where "resolveOne R n (Some seg) = Some x"
          using less.IH [OF k, of seg] assms unfolding ranked_def by blast
        then have "resolveOne R (Suc n) (Some q) = Some x" using True seg by simp
        then show ?thesis by blast
      next
        case False
        then have "\<exists>x. resolveOne R (Suc 0) (Some q) = Some x"
          using True by (auto split: sum.splits option.splits)
        then show ?thesis by blast
      qed
    next
      case False
      then have sub: "\<And>p. Some p \<in> set (Of q) \<or> OfOne q = Some p \<Longrightarrow> set (seg_refs p) \<subseteq> set (seg_refs q)"
        by (auto simp: seg_refs_iff [of _ q])
      have "\<exists>n x. resolveOne R n (Some p) = Some x" if "Some p \<in> set (Of q)" for p
        by (rule node.IH(1) [OF that]) (rule node.prems, use sub that in auto)
      moreover have "\<exists>n x. resolveOne R n (Some p) = Some x" if "OfOne q = Some p" for p
        by (rule node.IH(2) [OF that]) (rule node.prems, use sub that in auto)
      ultimately show ?thesis by (rule resolveOne_node [OF False])
    qed
  qed
qed

lemma seg_free_nodes: "seg_free p \<Longrightarrow> n \<in> set (nodes p) \<Longrightarrow> Kind n \<noteq> PredSegment"
proof (induction p rule: predicate_induct)
  case (node q)
  show ?case
  proof (cases "n = q")
    case True
    then show ?thesis using node.prems(1) seg_free_iff by blast
  next
    case False
    then obtain p where "Some p \<in> set (Of q) \<or> OfOne q = Some p" "n \<in> set (nodes p)"
      using node.prems(2) nodes_iff [of n q] by blast
    then show ?thesis using node.IH node.prems(1) seg_free_iff [of q] by blast
  qed
qed

lemma resolveOne_id: "seg_free p \<Longrightarrow> resolveOne R n (Some p) = Some x \<Longrightarrow> x = Inr (Some p)"
proof (induction p arbitrary: n x rule: predicate_induct)
  case (node q)
  obtain m where n: "n = Suc m" using node.prems(2) by (cases n) auto
  have k: "Kind q \<noteq> PredSegment" using node.prems(1) seg_free_iff by blast
  have child: "\<exists>y. resolveOne R m c = Some y \<Longrightarrow> resolveOne R m c = Some (Inr c)"
    if "c \<in> set (Of q) \<or> c = OfOne q" for c
  proof (cases c)
    case None
    then show "\<exists>y. resolveOne R m c = Some y \<Longrightarrow> ?thesis" by (cases m) auto
  next
    case (Some p)
    then have "seg_free p" using node.prems(1) seg_free_iff [of q] that by auto
    then show "\<exists>y. resolveOne R m c = Some y \<Longrightarrow> ?thesis"
      using node.IH [of p m] Some that by auto
  qed
  have loop: "loopE (resolveOne R m) cs = Some l \<Longrightarrow> set cs \<subseteq> set (Of q) \<Longrightarrow> l = Inr cs" for cs l
  proof (induction cs arbitrary: l)
    case (Cons c cs)
    then show ?case using child [of c] by (auto split: option.splits sum.splits)
  qed simp
  obtain l where l: "loopE (resolveOne R m) (Of q) = Some l"
    using node.prems(2) k n by (cases "loopE (resolveOne R m) (Of q)") auto
  then have "l = Inr (Of q)" using loop by blast
  then show ?case
    using node.prems(2) k n l child [of "OfOne q"]
    by (auto split: option.splits sum.splits if_splits)
qed

lemma bounded_ranks: "\<exists>b. \<forall>k \<in> set ks. rank k < (b :: nat)"
  by (rule exI [of _ "Suc (sum_list (map rank ks))"]) (auto simp: less_Suc_eq_le member_le_sum_list)

lemma resolve_rule_mono: "resolve_rule R n r = Some x \<Longrightarrow> n \<le> m \<Longrightarrow> resolve_rule R m r = Some x"
  by (auto simp: resolve_rule_def split: option.splits sum.splits if_splits dest: resolveOne_mono)

lemma resolve_rule_returns:
  assumes "ranked R rank"
  shows "\<exists>n x. resolve_rule R n r = Some x"
proof (cases "When r")
  case None
  then show ?thesis by (simp add: resolve_rule_def)
next
  case (Some p)
  obtain b where b: "\<forall>k \<in> set (seg_refs p). rank k < b" using bounded_ranks [of "seg_refs p" rank] by blast
  have "\<exists>n x. resolveOne R n (Some p) = Some x"
    by (rule resolveOne_returns [OF assms]) (use b in blast)
  then obtain n x where x: "resolveOne R n (Some p) = Some x" by blast
  then have "\<exists>y. resolve_rule R n r = Some y" using Some by (cases x) (simp_all add: resolve_rule_def)
  then show ?thesis by blast
qed

lemma resolve_rule_result:
  "resolve_rule R n r = Some (Inr r') \<Longrightarrow>
     ID r' = ID r \<and> RValue r' = RValue r \<and> (When r' = None \<longleftrightarrow> When r = None \<or> resolveOne R n (When r) = Some (Inr None)) \<and>
     (\<forall>p. When r' = Some p \<longrightarrow> seg_free p)"
  by (auto simp: resolve_rule_def split: option.splits sum.splits if_splits dest: resolveOne_seg_free)

text \<open>
  C7. Resolution ends: when the segments a stored segment refers to have a smaller
  rank than the segment itself (in particular when stored segments refer to no
  segments), resolving any tree returns.
\<close>

theorem resolve_terminates:
  assumes "ranked R rank"
  shows "\<exists>n x. ResolveSegments t R n = Some x"
proof (cases "TRules t")
  case None
  then show ?thesis by (simp add: ResolveSegments_def)
next
  case (Some rs)
  obtain n y where y: "loopE (resolve_rule R n) rs = Some y"
    using loopE_total [of rs "resolve_rule R"] resolve_rule_returns [OF assms] resolve_rule_mono by blast
  then have "\<exists>x. ResolveSegments t R n = Some x" using Some by (cases y) (simp_all add: ResolveSegments_def)
  then show ?thesis by blast
qed

definition sample_segment :: Predicate where
  "sample_segment = Predicate PredEq ''country'' (RawDoc (JStr ''US'')) [] [] [] 0 [] None [] []"

definition seg_ref :: "string \<Rightarrow> Predicate" where
  "seg_ref k = Predicate PredSegment [] RawNil [] [] [] 0 [] None [] k"

definition not_of :: "Predicate \<Rightarrow> Predicate" where
  "not_of p = Predicate PredNot [] RawNil [] [] [] 0 [] (Some p) [] []"

definition sample_resolver :: resolver where
  "sample_resolver k = (if k = ''us'' then Inr (Some sample_segment)
     else if k = ''abroad'' then Inr (Some (not_of (seg_ref ''us'')))
     else Inl ''not found'')"

definition sample_tree :: RulesTree where
  "sample_tree = \<lparr>TValueType = ValueTypeBoolean, TDefault = RawDoc (JBool False),
     TRules = Some [\<lparr>ID = ''r1'', When = Some (seg_ref ''abroad''), RValue = RawDoc (JBool True)\<rparr>]\<rparr>"

theorem resolve_terminates_witness:
  "ranked sample_resolver (\<lambda>k. if k = ''abroad'' then 1 else 0) \<and>
   (\<exists>n x. ResolveSegments sample_tree sample_resolver n = Some x)"
proof -
  have "ranked sample_resolver (\<lambda>k. if k = ''abroad'' then 1 else 0)"
    by (auto simp: ranked_def sample_resolver_def sample_segment_def not_of_def seg_ref_def split: if_splits)
  then show ?thesis using resolve_terminates by blast
qed





end
