(* ===== verification/Eval.thy ===== *)
theory Eval
  imports Rollout Segments
begin

text \<open>
  The evaluator: \<open>internal/eval/predicates.go\<close> and \<open>internal/eval/eval.go\<close>.
  \<open>match\<close> returns a truth value together with an optional error, as the code
  does: \<open>neq\<close> and \<open>not\<close> negate the truth value even when there is an error.
\<close>

subsection \<open>Errors\<close>

datatype eval_error =
    Decoding_eq string
  | Decoding_in string
  | Decoding_ord string
  | Compiling_pattern string
  | Decoding_starts_with string
  | Cel_program_missing string
  | Cel_runtime string
  | Unknown_kind string

definition eval_error_text :: "eval_error \<Rightarrow> string" where
  "eval_error_text e = (case e of
     Decoding_eq m \<Rightarrow> ''decoding eq value: '' @ m
   | Decoding_in m \<Rightarrow> ''decoding in values: '' @ m
   | Decoding_ord m \<Rightarrow> ''decoding ord value: '' @ m
   | Compiling_pattern m \<Rightarrow> ''compiling pattern: '' @ m
   | Decoding_starts_with m \<Rightarrow> ''decoding starts_with value: '' @ m
   | Cel_program_missing s \<Rightarrow> ''cel program missing for source '' @ fmt_q s
   | Cel_runtime m \<Rightarrow> m
   | Unknown_kind k \<Rightarrow> ''unknown predicate kind '' @ fmt_q k)"

type_synonym outcome = "bool \<times> eval_error option"

subsection \<open>Looking up attributes\<close>

fun lookup_path :: "any \<Rightarrow> string list \<Rightarrow> any option" where
  "lookup_path cur [] = Some cur"
| "lookup_path cur (part # parts) =
     (case cur of
        AMap m \<Rightarrow> (case map_of m part of None \<Rightarrow> None | Some v \<Rightarrow> lookup_path v parts)
      | _ \<Rightarrow> None)"

definition lookup :: "ctx \<Rightarrow> string \<Rightarrow> any option" where
  "lookup ctx path = (if path = [] then None else lookup_path (AMap ctx) (split_on (CHR ''.'') path))"

definition lookupString :: "ctx \<Rightarrow> string \<Rightarrow> string option" where
  "lookupString ctx path = (case lookup ctx path of Some (AStr s) \<Rightarrow> Some s | _ \<Rightarrow> None)"

definition toFloat :: "any \<Rightarrow> rat option" where
  "toFloat v = (case v of
     AF64 x \<Rightarrow> Some (f_val x)
   | AF32 x \<Rightarrow> Some (f_val x)
   | AInt i \<Rightarrow> Some (f_val (float_of_int i))
   | AInt64 i \<Rightarrow> Some (f_val (float_of_int i))
   | ANumber s \<Rightarrow> map_option f_val (float_of_literal s)
   | _ \<Rightarrow> None)"

text \<open>A failing \<open>json.Marshal\<close> yields no bytes, so two failures compare equal.\<close>

definition jsonEqual :: "any \<Rightarrow> any \<Rightarrow> bool" where
  "jsonEqual a b = (case a of
     AStr av \<Rightarrow> (case b of AStr bv \<Rightarrow> av = bv | _ \<Rightarrow> False)
   | ABool av \<Rightarrow> (case b of ABool bv \<Rightarrow> av = bv | _ \<Rightarrow> False)
   | ANil \<Rightarrow> b = ANil
   | _ \<Rightarrow> marshal_any a = marshal_any b)"

subsection \<open>Comparisons\<close>

definition cmpEq :: "Predicate \<Rightarrow> ctx \<Rightarrow> outcome" where
  "cmpEq p ctx = (case lookup ctx (Attr p) of
     None \<Rightarrow> (False, None)
   | Some actual \<Rightarrow> (case unmarshal_any (PValue p) of
       Inl e \<Rightarrow> (False, Some (Decoding_eq e))
     | Inr expected \<Rightarrow> (jsonEqual actual expected, None)))"

fun in_values :: "any \<Rightarrow> raw list \<Rightarrow> outcome" where
  "in_values actual [] = (False, None)"
| "in_values actual (r # rs) = (case unmarshal_any r of
     Inl e \<Rightarrow> (False, Some (Decoding_in e))
   | Inr v \<Rightarrow> if jsonEqual actual v then (True, None) else in_values actual rs)"

definition cmpIn :: "Predicate \<Rightarrow> ctx \<Rightarrow> outcome" where
  "cmpIn p ctx = (case lookup ctx (Attr p) of
     None \<Rightarrow> (False, None)
   | Some actual \<Rightarrow> in_values actual (Values p))"

definition ord_holds :: "PredicateKind \<Rightarrow> rat \<Rightarrow> rat \<Rightarrow> bool" where
  "ord_holds k a b = (case k of PredGt \<Rightarrow> a > b | PredGte \<Rightarrow> a \<ge> b | PredLt \<Rightarrow> a < b | PredLte \<Rightarrow> a \<le> b
     | _ \<Rightarrow> False)"

definition cmpOrd :: "Predicate \<Rightarrow> ctx \<Rightarrow> outcome" where
  "cmpOrd p ctx = (case lookup ctx (Attr p) of
     None \<Rightarrow> (False, None)
   | Some actualRaw \<Rightarrow> (case toFloat actualRaw of
       None \<Rightarrow> (False, None)
     | Some a \<Rightarrow> (case unmarshal_any (PValue p) of
         Inl e \<Rightarrow> (False, Some (Decoding_ord e))
       | Inr expRaw \<Rightarrow> (case toFloat expRaw of
           None \<Rightarrow> (False, None)
         | Some b \<Rightarrow> (ord_holds (Kind p) a b, None)))))"

definition cmpMatches :: "('ast, 'prog) engines \<Rightarrow> Predicate \<Rightarrow> ctx \<Rightarrow> outcome" where
  "cmpMatches E p ctx = (case lookupString ctx (Attr p) of
     None \<Rightarrow> (False, None)
   | Some actual \<Rightarrow> (case re_compile E (Pattern p) of
       Inl e \<Rightarrow> (False, Some (Compiling_pattern e))
     | Inr re \<Rightarrow> (re actual, None)))"

text \<open>\<open>json.Unmarshal(raw, &prefix)\<close> for \<open>var prefix string\<close>.\<close>

definition unmarshal_string :: "raw \<Rightarrow> string + string" where
  "unmarshal_string r = (case r of
     RawNil \<Rightarrow> Inl ''unexpected end of JSON input''
   | RawBytes _ \<Rightarrow> Inl ''invalid character''
   | RawDoc j \<Rightarrow> dec_string [] j)"

definition cmpStartsWith :: "Predicate \<Rightarrow> ctx \<Rightarrow> outcome" where
  "cmpStartsWith p ctx = (case lookupString ctx (Attr p) of
     None \<Rightarrow> (False, None)
   | Some actual \<Rightarrow> (case unmarshal_string (PValue p) of
       Inl e \<Rightarrow> (False, Some (Decoding_starts_with e))
     | Inr prefix \<Rightarrow> (has_prefix actual prefix, None)))"

definition match_rollout :: "Predicate \<Rightarrow> ctx \<Rightarrow> outcome" where
  "match_rollout p ctx = (case lookupString ctx (Attr p) of
     None \<Rightarrow> (False, None)
   | Some v \<Rightarrow> (inBucket (Salt p) v (Percent p), None))"

definition match_cel :: "('ast, 'prog) engines \<Rightarrow> (string \<times> 'prog) list \<Rightarrow> Predicate \<Rightarrow> ctx \<Rightarrow> outcome" where
  "match_cel E programs p ctx = (case map_of programs (Source p) of
     None \<Rightarrow> (False, Some (Cel_program_missing (Source p)))
   | Some prog \<Rightarrow> (case EvalCEL E prog ctx of
       Inl e \<Rightarrow> (False, Some (Cel_runtime e))
     | Inr b \<Rightarrow> (b, None)))"

subsection \<open>Predicates\<close>

text \<open>The kinds without children.\<close>

definition match_leaf :: "('ast, 'prog) engines \<Rightarrow> (string \<times> 'prog) list \<Rightarrow> ctx \<Rightarrow> Predicate \<Rightarrow> outcome" where
  "match_leaf E programs ctx p = (case Kind p of
     PredAlways \<Rightarrow> (True, None)
   | PredEq \<Rightarrow> cmpEq p ctx
   | PredNeq \<Rightarrow> (case cmpEq p ctx of (ok, err) \<Rightarrow> (\<not> ok, err))
   | PredIn \<Rightarrow> cmpIn p ctx
   | PredGt \<Rightarrow> cmpOrd p ctx
   | PredGte \<Rightarrow> cmpOrd p ctx
   | PredLt \<Rightarrow> cmpOrd p ctx
   | PredLte \<Rightarrow> cmpOrd p ctx
   | PredMatches \<Rightarrow> cmpMatches E p ctx
   | PredStartsWith \<Rightarrow> cmpStartsWith p ctx
   | PredRollout \<Rightarrow> match_rollout p ctx
   | PredCEL \<Rightarrow> match_cel E programs p ctx
   | k \<Rightarrow> (False, Some (Unknown_kind (kind_text k))))"

fun match :: "('ast, 'prog) engines \<Rightarrow> (string \<times> 'prog) list \<Rightarrow> ctx \<Rightarrow> Predicate option \<Rightarrow> outcome"
and match_all :: "('ast, 'prog) engines \<Rightarrow> (string \<times> 'prog) list \<Rightarrow> ctx \<Rightarrow> Predicate option list \<Rightarrow> outcome"
and match_any :: "('ast, 'prog) engines \<Rightarrow> (string \<times> 'prog) list \<Rightarrow> ctx \<Rightarrow> Predicate option list \<Rightarrow> outcome" where
  "match E programs ctx None = (False, None)"
| "match E programs ctx (Some (Predicate k attr v vs pat salt pct cs one src key)) =
     (if k = PredAll then match_all E programs ctx cs
      else if k = PredAny then match_any E programs ctx cs
      else if k = PredNot then (case match E programs ctx one of (ok, err) \<Rightarrow> (\<not> ok, err))
      else match_leaf E programs ctx (Predicate k attr v vs pat salt pct cs one src key))"
| "match_all E programs ctx [] = (True, None)"
| "match_all E programs ctx (c # cs) = (case match E programs ctx c of
     (ok, Some err) \<Rightarrow> (False, Some err)
   | (ok, None) \<Rightarrow> if \<not> ok then (False, None) else match_all E programs ctx cs)"
| "match_any E programs ctx [] = (False, None)"
| "match_any E programs ctx (c # cs) = (case match E programs ctx c of
     (ok, Some err) \<Rightarrow> (False, Some err)
   | (ok, None) \<Rightarrow> if ok then (True, None) else match_any E programs ctx cs)"

subsection \<open>Decisions\<close>

datatype Reason = ReasonDefault | ReasonRuleMatched | ReasonRolloutInBucket
  | ReasonRolloutOutOfBucket | ReasonTypeMismatch | ReasonError

definition reason_text :: "Reason \<Rightarrow> string" where
  "reason_text r = (case r of ReasonDefault \<Rightarrow> ''default'' | ReasonRuleMatched \<Rightarrow> ''rule_matched''
     | ReasonRolloutInBucket \<Rightarrow> ''rollout_in_bucket''
     | ReasonRolloutOutOfBucket \<Rightarrow> ''rollout_out_of_bucket''
     | ReasonTypeMismatch \<Rightarrow> ''type_mismatch'' | ReasonError \<Rightarrow> ''error'')"

record Decision =
  DValue :: any
  DReason :: Reason
  DRuleID :: string
  DVersion :: int

definition decodeValue :: "raw \<Rightarrow> string + any" where
  "decodeValue r = (if raw_empty r then Inr ANil else unmarshal_any r)"

definition valueMatchesType :: "any \<Rightarrow> ValueType \<Rightarrow> bool" where
  "valueMatchesType v t = (case t of
     ValueTypeBoolean \<Rightarrow> (case v of ABool _ \<Rightarrow> True | _ \<Rightarrow> False)
   | ValueTypeString \<Rightarrow> (case v of AStr _ \<Rightarrow> True | _ \<Rightarrow> False)
   | ValueTypeNumber \<Rightarrow> toFloat v \<noteq> None
   | ValueTypeObject \<Rightarrow> (case v of AMap _ \<Rightarrow> True | _ \<Rightarrow> False)
   | ValueTypeOther _ \<Rightarrow> False)"

definition reasonForRule :: "Rule \<Rightarrow> Reason" where
  "reasonForRule r = (case When r of
     Some p \<Rightarrow> if Kind p = PredRollout then ReasonRolloutInBucket else ReasonRuleMatched
   | None \<Rightarrow> ReasonRuleMatched)"

text \<open>The value a rule that fired serves, or the default if it has the wrong type.\<close>

definition serve :: "any \<Rightarrow> ValueType \<Rightarrow> int \<Rightarrow> Rule \<Rightarrow> Decision" where
  "serve defValue vt version r = (case decodeValue (RValue r) of
     Inl _ \<Rightarrow> \<lparr>DValue = defValue, DReason = ReasonTypeMismatch, DRuleID = ID r, DVersion = version\<rparr>
   | Inr v \<Rightarrow>
      if \<not> valueMatchesType v vt
      then \<lparr>DValue = defValue, DReason = ReasonTypeMismatch, DRuleID = ID r, DVersion = version\<rparr>
      else \<lparr>DValue = v, DReason = reasonForRule r, DRuleID = ID r, DVersion = version\<rparr>)"

fun eval_rules :: "('ast, 'prog) engines \<Rightarrow> (string \<times> 'prog) list \<Rightarrow> ctx \<Rightarrow> any \<Rightarrow> ValueType \<Rightarrow> int
    \<Rightarrow> Rule list \<Rightarrow> Decision" where
  "eval_rules E programs ctx defValue vt version [] =
     \<lparr>DValue = defValue, DReason = ReasonDefault, DRuleID = [], DVersion = version\<rparr>"
| "eval_rules E programs ctx defValue vt version (r # rs) = (case match E programs ctx (When r) of
     (ok, Some err) \<Rightarrow> \<lparr>DValue = defValue, DReason = ReasonError, DRuleID = ID r, DVersion = version\<rparr>
   | (ok, None) \<Rightarrow> if \<not> ok then eval_rules E programs ctx defValue vt version rs
                   else serve defValue vt version r)"

definition Evaluate :: "('ast, 'prog) engines \<Rightarrow> 'prog Compiled option \<Rightarrow> ctx \<Rightarrow> int \<Rightarrow> string + Decision" where
  "Evaluate E co ctx version = (case co of
     None \<Rightarrow> Inl ''eval: nil compiled or IR''
   | Some c \<Rightarrow> (case IR c of
       None \<Rightarrow> Inl ''eval: nil compiled or IR''
     | Some t \<Rightarrow> (case decodeValue (TDefault t) of
         Inl e \<Rightarrow> Inl (''decoding default: '' @ e)
       | Inr defValue \<Rightarrow>
           Inr (eval_rules E (CELPrograms c) ctx defValue (TValueType t) version (rules_of t)))))"

subsection \<open>First match\<close>

text \<open>Reference: the first rule that does not quietly decline decides.\<close>

definition first_match :: "('ast, 'prog) engines \<Rightarrow> (string \<times> 'prog) list \<Rightarrow> ctx \<Rightarrow> any \<Rightarrow> ValueType \<Rightarrow> int
    \<Rightarrow> Rule list \<Rightarrow> Decision" where
  "first_match E programs ctx defValue vt version rs =
     (case find (\<lambda>r. match E programs ctx (When r) \<noteq> (False, None)) rs of
        None \<Rightarrow> \<lparr>DValue = defValue, DReason = ReasonDefault, DRuleID = [], DVersion = version\<rparr>
      | Some r \<Rightarrow>
          if snd (match E programs ctx (When r)) = None then serve defValue vt version r
          else \<lparr>DValue = defValue, DReason = ReasonError, DRuleID = ID r, DVersion = version\<rparr>)"

lemma eval_rules_first_match:
  "eval_rules E programs ctx defValue vt version rs = first_match E programs ctx defValue vt version rs"
proof (induction rs)
  case (Cons r rs)
  obtain ok err where m: "match E programs ctx (When r) = (ok, err)" by fastforce
  show ?case using Cons by (cases err; cases ok) (simp_all add: m first_match_def)
qed (simp add: first_match_def)

lemma Evaluate_Inr:
  assumes "Evaluate E (Some c) ctx version = Inr d"
  shows "\<exists>t defValue. IR c = Some t \<and> decodeValue (TDefault t) = Inr defValue \<and>
    d = eval_rules E (CELPrograms c) ctx defValue (TValueType t) version (rules_of t)"
  using assms by (auto simp: Evaluate_def split: option.splits sum.splits)

lemma serve_typed:
  "serve defValue vt version r = d \<Longrightarrow>
     DReason d \<in> {ReasonTypeMismatch, ReasonRuleMatched, ReasonRolloutInBucket} \<and> DRuleID d = ID r \<and>
     DVersion d = version \<and>
     (if DReason d = ReasonTypeMismatch then DValue d = defValue
      else decodeValue (RValue r) = Inr (DValue d) \<and> valueMatchesType (DValue d) vt)"
  by (auto simp: serve_def reasonForRule_def split: sum.splits if_splits option.splits)

lemma eval_rules_typed:
  assumes "eval_rules E programs ctx defValue vt version rs = d"
  shows "DVersion d = version \<and> DReason d \<noteq> ReasonRolloutOutOfBucket \<and>
    (if DReason d \<in> {ReasonRuleMatched, ReasonRolloutInBucket}
     then valueMatchesType (DValue d) vt \<and> (\<exists>r \<in> set rs. DRuleID d = ID r \<and> decodeValue (RValue r) = Inr (DValue d))
     else DValue d = defValue)"
proof (cases "find (\<lambda>r. match E programs ctx (When r) \<noteq> (False, None)) rs")
  case None
  then show ?thesis using assms by (auto simp: eval_rules_first_match first_match_def)
next
  case (Some r)
  then have r: "r \<in> set rs" by (auto simp: find_Some_iff)
  show ?thesis
  proof (cases "snd (match E programs ctx (When r)) = None")
    case True
    then have "serve defValue vt version r = d"
      using assms Some by (simp add: eval_rules_first_match first_match_def)
    from serve_typed [OF this] r show ?thesis by (auto split: if_splits)
  next
    case False
    then show ?thesis using assms Some by (auto simp: eval_rules_first_match first_match_def)
  qed
qed

subsection \<open>Errors of compiled configurations\<close>

text \<open>The errors that depend on a value in the flag or on the CEL program run.\<close>

definition data_error :: "eval_error \<Rightarrow> bool" where
  "data_error e = (case e of Decoding_eq _ \<Rightarrow> True | Decoding_in _ \<Rightarrow> True | Decoding_ord _ \<Rightarrow> True
     | Decoding_starts_with _ \<Rightarrow> True | Cel_runtime _ \<Rightarrow> True | _ \<Rightarrow> False)"

lemma in_values_error: "in_values a rs = (b, Some e) \<Longrightarrow> data_error e"
  by (induction a rs rule: in_values.induct) (auto simp: data_error_def split: sum.splits if_splits)

lemma match_leaf_error:
  assumes "match_leaf E programs ctx p = (b, Some e)" "node_ok E True p" "Kind p \<noteq> PredSegment"
    and "Kind p \<notin> {PredAll, PredAny, PredNot}"
    and "Kind p = PredCEL \<longrightarrow> map_of programs (Source p) \<noteq> None"
  shows "data_error e"
  using assms
  by (auto simp: match_leaf_def node_ok_def cmpEq_def cmpIn_def cmpOrd_def cmpMatches_def cmpStartsWith_def
        match_rollout_def match_cel_def data_error_def
      split: PredicateKind.splits option.splits sum.splits prod.splits dest: in_values_error)

lemma match_error:
  "match E programs ctx po = (b, Some e) \<Longrightarrow> (\<And>p. po = Some p \<Longrightarrow> all_nodes_ok E True p \<and> seg_free p) \<Longrightarrow>
     programs_cover programs po \<Longrightarrow> data_error e"
  "match_all E programs ctx cs = (b, Some e) \<Longrightarrow> (\<And>p. Some p \<in> set cs \<Longrightarrow> all_nodes_ok E True p \<and> seg_free p) \<Longrightarrow>
     (\<forall>c \<in> set cs. programs_cover programs c) \<Longrightarrow> data_error e"
  "match_any E programs ctx cs = (b, Some e) \<Longrightarrow> (\<And>p. Some p \<in> set cs \<Longrightarrow> all_nodes_ok E True p \<and> seg_free p) \<Longrightarrow>
     (\<forall>c \<in> set cs. programs_cover programs c) \<Longrightarrow> data_error e"
proof (induction E programs ctx po and E programs ctx cs and E programs ctx cs
       arbitrary: b and b and b rule: match_match_all_match_any.induct)
  case (2 E programs ctx k attr v vs pat salt pct cs one src key)
  let ?p = "Predicate k attr v vs pat salt pct cs one src key"
  have ok: "all_nodes_ok E True ?p" "seg_free ?p" using "2.prems"(2) by auto
  note cov = "2.prems"(3) [unfolded programs_cover_Predicate, simplified]
  note sub = all_nodes_ok_Predicate [of E True k attr v vs pat salt pct cs one src key]
    seg_free_iff [of ?p, simplified]
  consider "k = PredAll" | "k = PredAny" | "k = PredNot" | "k \<notin> {PredAll, PredAny, PredNot}" by blast
  then show ?case
  proof cases
    case 1
    then show ?thesis using "2.IH"(1) [of b] "2.prems"(1) ok sub cov by auto
  next
    case 2
    then show ?thesis using "2.IH"(2) [of b] "2.prems"(1) ok sub cov by auto
  next
    case 3
    then show ?thesis using "2.IH"(3) [of "\<not> b"] "2.prems"(1) ok sub cov by (auto split: prod.splits)
  next
    case 4
    then show ?thesis
      using match_leaf_error [of E programs ctx ?p b e] "2.prems"(1) ok sub cov by auto
  qed
next
  case (4 E programs ctx c cs)
  then show ?case by (auto split: prod.splits option.splits if_splits)
next
  case (6 E programs ctx c cs)
  then show ?case by (auto split: prod.splits option.splits if_splits)
qed auto

end
