(* ===== verification/Eval_Props.thy ===== *)
theory Eval_Props
  imports Eval
begin

text \<open>
  What the evaluator guarantees for compiled flags: the properties of
  \<open>Evaluate\<close> and \<open>match\<close>, each with an example on a flag of three rules.
\<close>

subsection \<open>What evaluation reads of the context\<close>

lemma match_leaf_ctx:
  assumes "lookup ctx (Attr p) = lookup ctx' (Attr p)" "Kind p \<noteq> PredCEL"
  shows "match_leaf E programs ctx p = match_leaf E programs ctx' p"
  using assms
  by (simp add: match_leaf_def cmpEq_def cmpIn_def cmpOrd_def cmpMatches_def cmpStartsWith_def
        match_rollout_def lookupString_def split: PredicateKind.split)

definition ctx_agree :: "ctx \<Rightarrow> ctx \<Rightarrow> Predicate \<Rightarrow> bool" where
  "ctx_agree ctx ctx' p \<longleftrightarrow>
     (\<forall>n \<in> set (nodes p). Kind n \<noteq> PredCEL \<and> lookup ctx (Attr n) = lookup ctx' (Attr n))"

lemma ctx_agree_iff:
  "ctx_agree ctx ctx' q \<longleftrightarrow> Kind q \<noteq> PredCEL \<and> lookup ctx (Attr q) = lookup ctx' (Attr q) \<and>
     (Kind q = PredAll \<or> Kind q = PredAny \<longrightarrow> (\<forall>p. Some p \<in> set (Of q) \<longrightarrow> ctx_agree ctx ctx' p)) \<and>
     (Kind q = PredNot \<longrightarrow> (\<forall>p. OfOne q = Some p \<longrightarrow> ctx_agree ctx ctx' p))"
  unfolding ctx_agree_def Ball_def by (subst nodes_iff) blast

lemma match_ctx:
  "(\<And>p. po = Some p \<Longrightarrow> ctx_agree ctx ctx' p) \<Longrightarrow> match E programs ctx po = match E programs ctx' po"
  "(\<And>p. Some p \<in> set cs \<Longrightarrow> ctx_agree ctx ctx' p) \<Longrightarrow> match_all E programs ctx cs = match_all E programs ctx' cs"
  "(\<And>p. Some p \<in> set cs \<Longrightarrow> ctx_agree ctx ctx' p) \<Longrightarrow> match_any E programs ctx cs = match_any E programs ctx' cs"
proof (induction E programs ctx po and E programs ctx cs and E programs ctx cs rule: match_match_all_match_any.induct)
  case (2 E programs ctx k attr v vs pat salt pct cs one src key)
  let ?p = "Predicate k attr v vs pat salt pct cs one src key"
  note a = "2.prems" [OF refl, unfolded ctx_agree_iff [of _ _ ?p], simplified]
  have "match_leaf E programs ctx ?p = match_leaf E programs ctx' ?p"
    by (rule match_leaf_ctx) (use a in simp_all)
  then show ?case using "2.IH" a by simp
next
  case (4 E programs ctx c cs)
  have "match E programs ctx c = match E programs ctx' c" by (rule "4.IH"(1)) (use "4.prems" in simp)
  then show ?case using "4.IH"(2) "4.prems" by (auto split: prod.split option.split)
next
  case (6 E programs ctx c cs)
  have "match E programs ctx c = match E programs ctx' c" by (rule "6.IH"(1)) (use "6.prems" in simp)
  then show ?case using "6.IH"(2) "6.prems" by (auto split: prod.split option.split)
qed simp_all

lemma eval_rules_ctx:
  "(\<And>r p. r \<in> set rs \<Longrightarrow> When r = Some p \<Longrightarrow> ctx_agree ctx ctx' p) \<Longrightarrow>
   eval_rules E programs ctx defValue vt version rs = eval_rules E programs ctx' defValue vt version rs"
proof (induction rs)
  case (Cons r rs)
  have "match E programs ctx (When r) = match E programs ctx' (When r)"
    by (rule match_ctx(1)) (use Cons.prems [of r] in simp)
  then show ?case using Cons by (auto split: prod.split option.split)
qed simp

subsection \<open>A flag to evaluate\<close>

definition sample_flag :: raw where
  "sample_flag = RawDoc (JObj [(''value_type'', JStr ''string''), (''default'', JStr ''off''),
     (''rules'', JArr [
        JObj [(''id'', JStr ''adults''), (''value'', JStr ''on''),
          (''when'', JObj [(''kind'', JStr ''all''), (''of'', JArr [
             JObj [(''kind'', JStr ''eq''), (''attr'', JStr ''user.country''), (''value'', JStr ''US'')],
             JObj [(''kind'', JStr ''gte''), (''attr'', JStr ''user.age''), (''value'', JNum ''18'')]])])],
        JObj [(''id'', JStr ''canary''), (''value'', JStr ''canary''),
          (''when'', JObj [(''kind'', JStr ''rollout''), (''attr'', JStr ''user.id''),
             (''salt'', JStr ''checkout-v2''), (''percent'', JNum ''27'')])],
        JObj [(''id'', JStr ''staff''), (''value'', JNum ''1''),
          (''when'', JObj [(''kind'', JStr ''starts_with''), (''attr'', JStr ''user.email''),
             (''value'', JNum ''5'')])]])])"

definition sample_ctx :: "string \<Rightarrow> string \<Rightarrow> int \<Rightarrow> ctx" where
  "sample_ctx uid country age = [(''user'', AMap [(''id'', AStr uid), (''country'', AStr country),
     (''age'', AInt age), (''email'', AStr ''a@b'')])]"

definition sample_compiled :: "bool Compiled" where
  "sample_compiled = (case Compile sample_engines sample_ts StrategyJSON sample_flag of
     Inr c \<Rightarrow> c | Inl _ \<Rightarrow> \<lparr>CStrategy = StrategyJSON, IR = None, CELPrograms = []\<rparr>)"

lemma sample_compiled: "Compile sample_engines sample_ts StrategyJSON sample_flag = Inr sample_compiled"
proof -
  have "case Compile sample_engines sample_ts StrategyJSON sample_flag of Inl _ \<Rightarrow> False | Inr _ \<Rightarrow> True"
    by code_simp
  then show ?thesis by (auto simp: sample_compiled_def split: sum.splits)
qed

lemma sample_decisions:
  "Evaluate sample_engines (Some sample_compiled) (sample_ctx ''user-0'' ''US'' 30) 7 =
     Inr \<lparr>DValue = AStr ''on'', DReason = ReasonRuleMatched, DRuleID = ''adults'', DVersion = 7\<rparr>"
  "Evaluate sample_engines (Some sample_compiled) (sample_ctx ''user-0'' ''US'' 17) 7 =
     Inr \<lparr>DValue = AStr ''canary'', DReason = ReasonRolloutInBucket, DRuleID = ''canary'', DVersion = 7\<rparr>"
  "Evaluate sample_engines (Some sample_compiled) (sample_ctx ''user-3'' ''DE'' 17) 7 =
     Inr \<lparr>DValue = AStr ''off'', DReason = ReasonError, DRuleID = ''staff'', DVersion = 7\<rparr>"
  "Evaluate sample_engines (Some sample_compiled) [] 7 =
     Inr \<lparr>DValue = AStr ''off'', DReason = ReasonDefault, DRuleID = [], DVersion = 7\<rparr>"
  by code_simp+

subsection \<open>Evaluation of compiled flags\<close>

text \<open>
  C1. Evaluation is first match: the first rule whose predicate matches or fails
  decides, with its own value if it matched and with the default and reason
  \<open>error\<close> if it failed; when every rule declines, the default is served.
\<close>

theorem evaluate_first_match:
  assumes "IR c = Some t" "decodeValue (TDefault t) = Inr defValue"
  shows "Evaluate E (Some c) ctx version =
    Inr (first_match E (CELPrograms c) ctx defValue (TValueType t) version (rules_of t))"
  using assms by (simp add: Evaluate_def eval_rules_first_match)

lemma sample_IR: "\<exists>t. IR sample_compiled = Some t \<and> decodeValue (TDefault t) = Inr (AStr ''off'')"
proof -
  have "case IR sample_compiled of None \<Rightarrow> False | Some t \<Rightarrow> decodeValue (TDefault t) = Inr (AStr ''off'')"
    by code_simp
  then show ?thesis by (auto split: option.splits)
qed

theorem evaluate_first_match_witness:
  "\<exists>t. IR sample_compiled = Some t \<and>
     first_match sample_engines (CELPrograms sample_compiled) (sample_ctx ''user-0'' ''US'' 17) (AStr ''off'')
       (TValueType t) 7 (rules_of t) =
     \<lparr>DValue = AStr ''canary'', DReason = ReasonRolloutInBucket, DRuleID = ''canary'', DVersion = 7\<rparr>"
  using sample_IR sample_decisions(2)
    evaluate_first_match [of sample_compiled _ "AStr ''off''" sample_engines "sample_ctx ''user-0'' ''US'' 17" 7]
  by auto

text \<open>
  C3. Evaluating a compiled flag is type safe. It fails only if the default is no
  decodable value. Otherwise a decision for a matched rule carries the value of a
  rule of the flag, and that value has the declared type; every other decision
  carries the default. The version is passed through, and the reason
  \<open>rollout_out_of_bucket\<close> is never given.
\<close>

theorem evaluate_typed:
  assumes "Compile E T s src = Inr c"
  shows "\<exists>t. IR c = Some t \<and> (case Evaluate E (Some c) ctx version of
      Inl _ \<Rightarrow> \<exists>m. decodeValue (TDefault t) = Inl m
    | Inr d \<Rightarrow> DVersion d = version \<and> DReason d \<noteq> ReasonRolloutOutOfBucket \<and>
        (if DReason d \<in> {ReasonRuleMatched, ReasonRolloutInBucket}
         then valueMatchesType (DValue d) (TValueType t) \<and>
              (\<exists>r \<in> set (rules_of t). DRuleID d = ID r \<and> decodeValue (RValue r) = Inr (DValue d))
         else decodeValue (TDefault t) = Inr (DValue d)))"
proof -
  obtain t where t: "IR c = Some t" using strategy_compiler.compiled_tree [OF assms] by blast
  show ?thesis
  proof (cases "decodeValue (TDefault t)")
    case (Inl e)
    then show ?thesis using t by (simp add: Evaluate_def)
  next
    case (Inr v)
    then show ?thesis using t eval_rules_typed [of E "CELPrograms c" ctx v "TValueType t" version "rules_of t"]
      by (simp add: Evaluate_def)
  qed
qed

theorem evaluate_typed_witness:
  "\<exists>t. IR sample_compiled = Some t \<and> valueMatchesType (AStr ''canary'') (TValueType t)"
  using evaluate_typed [OF sample_compiled, of 7 "sample_ctx ''user-0'' ''US'' 17"] sample_decisions(2)
  by (auto split: sum.splits)

text \<open>
  In a compiled flag whose segments are resolved, matching a rule fails only on
  a value it cannot decode or when a CEL program fails at run time: no program is
  missing, every pattern compiles and every kind is known.
\<close>

theorem compiled_match_errors:
  assumes "Compile E T s src = Inr c" "IR c = Some t" "tree_refs t = []" "r \<in> set (rules_of t)"
    and "match E (CELPrograms c) ctx (When r) = (b, Some e)"
  shows "data_error e"
proof -
  have ok: "compiled_ok E c" using strategy_compiler.compile_ok [OF assms(1)] by simp
  then have "programs_cover (CELPrograms c) (When r)" "rule_ok E True r"
    using assms(2,4) by (auto simp: compiled_ok_def tree_ok_def list_all_iff)
  moreover have "seg_free p" if "When r = Some p" for p
    using assms(3,4) that by (force simp: tree_refs_def seg_free_def)
  ultimately show ?thesis
    using match_error(1) [OF assms(5)] by (cases "When r") (auto simp: rule_ok_def)
qed

theorem compiled_match_errors_witness:
  "\<exists>t r e. IR sample_compiled = Some t \<and> r \<in> set (rules_of t) \<and>
     match sample_engines (CELPrograms sample_compiled) (sample_ctx ''user-3'' ''DE'' 17) (When r) = (False, Some e) \<and>
     data_error e"
proof -
  define m where "m = match sample_engines (CELPrograms sample_compiled) (sample_ctx ''user-3'' ''DE'' 17)"
  have "case IR sample_compiled of None \<Rightarrow> False | Some t \<Rightarrow> tree_refs t = [] \<and>
      list_ex (\<lambda>r. \<not> fst (m (When r)) \<and> snd (m (When r)) \<noteq> None) (rules_of t)"
    unfolding m_def by code_simp
  then obtain t r where t: "IR sample_compiled = Some t" "tree_refs t = []" "r \<in> set (rules_of t)"
    and r: "\<not> fst (m (When r))" "snd (m (When r)) \<noteq> None"
    by (auto simp: list_ex_iff split: option.splits)
  then obtain e where "m (When r) = (False, Some e)" by (cases "m (When r)") auto
  then show ?thesis using compiled_match_errors [OF sample_compiled t] t unfolding m_def by blast
qed

text \<open>
  Without CEL rules, a decision depends on the context only through the
  attributes the flag names: contexts that agree on them get the same decision.
\<close>

theorem evaluate_reads_only_attrs:
  assumes "\<And>t r p. IR c = Some t \<Longrightarrow> r \<in> set (rules_of t) \<Longrightarrow> When r = Some p \<Longrightarrow> ctx_agree ctx ctx' p"
  shows "Evaluate E (Some c) ctx version = Evaluate E (Some c) ctx' version"
  using assms by (auto simp: Evaluate_def split: option.split sum.split intro!: eval_rules_ctx)

theorem evaluate_reads_only_attrs_witness:
  "Evaluate sample_engines (Some sample_compiled) ((''plan'', AStr ''pro'') # sample_ctx ''user-0'' ''US'' 17) 7 =
   Inr \<lparr>DValue = AStr ''canary'', DReason = ReasonRolloutInBucket, DRuleID = ''canary'', DVersion = 7\<rparr>"
proof -
  have "case IR sample_compiled of None \<Rightarrow> False | Some t \<Rightarrow>
      list_all (\<lambda>r. case When r of None \<Rightarrow> True | Some p \<Rightarrow>
        ctx_agree ((''plan'', AStr ''pro'') # sample_ctx ''user-0'' ''US'' 17) (sample_ctx ''user-0'' ''US'' 17) p) (rules_of t)"
    by code_simp
  then show ?thesis
    using evaluate_reads_only_attrs [of sample_compiled "(''plan'', AStr ''pro'') # sample_ctx ''user-0'' ''US'' 17"
        "sample_ctx ''user-0'' ''US'' 17" sample_engines 7] sample_decisions(2)
    by (force simp: list_all_iff split: option.splits)
qed

text \<open>
  A missing attribute never fails and never yields a type mismatch: every
  predicate on a single attribute declines, except \<open>neq\<close>, which matches.
\<close>

theorem missing_attribute:
  assumes "lookup ctx (Attr p) = None"
    and "Kind p \<in> {PredEq, PredNeq, PredIn, PredGt, PredGte, PredLt, PredLte, PredMatches, PredStartsWith, PredRollout}"
  shows "match E programs ctx (Some p) = (Kind p = PredNeq, None)"
  using assms
  by (cases p) (auto simp: match_leaf_def cmpEq_def cmpIn_def cmpOrd_def cmpMatches_def cmpStartsWith_def
        match_rollout_def lookupString_def)

theorem missing_attribute_witness:
  "match sample_engines [] (sample_ctx ''u'' ''US'' 1)
     (Some (Predicate PredNeq ''user.plan'' (RawDoc (JStr ''pro'')) [] [] [] 0 [] None [] [])) = (True, None)"
  using missing_attribute [of "sample_ctx ''u'' ''US'' 1"
      "Predicate PredNeq ''user.plan'' (RawDoc (JStr ''pro'')) [] [] [] 0 [] None [] []" sample_engines "[]"]
  by (simp add: sample_ctx_def lookup_def)

end
