(* ===== verification/Trace.thy ===== *)
theory Trace
  imports Eval
begin

text \<open>
  Explained evaluation, \<open>internal/eval/trace.go\<close>: every rule and every node of
  its predicate is evaluated and recorded. The comment on \<open>EvaluateWithTrace\<close>
  promises the decision of \<open>Evaluate\<close>. That holds when no node fails; a
  failing rule ends \<open>Evaluate\<close> but is passed over by the trace.
\<close>

subsection \<open>Types\<close>

datatype TraceNode = TraceNode
  (TKind: string)
  (TAttr: string)
  (TAttrValue: any)
  (TExpected: any)
  (TExpectedValues: "any list")
  (TPattern: string)
  (TSalt: string)
  (TPercent: int)
  (TBucket: int)
  (TSource: string)
  (TResult: bool)
  (TChildren: "TraceNode list")

record TraceRule =
  TRRuleID :: string
  TRMatched :: bool
  TRPredicate :: TraceNode
  TRError :: string

record Trace =
  EvaluatedRules :: "TraceRule list"
  DefaultUsed :: bool
  MatchedRuleID :: string

type_synonym traced = "TraceNode \<times> bool \<times> eval_error option"

subsection \<open>Nodes\<close>

text \<open>\<open>_ = json.Unmarshal(raw, &v)\<close>: a failure leaves \<open>v\<close> nil.\<close>

definition unmarshal_or_nil :: "raw \<Rightarrow> any" where
  "unmarshal_or_nil r = (case unmarshal_any r of Inl _ \<Rightarrow> ANil | Inr v \<Rightarrow> v)"

definition lookup_or_nil :: "ctx \<Rightarrow> string \<Rightarrow> any" where
  "lookup_or_nil ctx path = (case lookup ctx path of None \<Rightarrow> ANil | Some v \<Rightarrow> v)"

definition lookupString_or_empty :: "ctx \<Rightarrow> string \<Rightarrow> any" where
  "lookupString_or_empty ctx path = AStr (case lookupString ctx path of None \<Rightarrow> [] | Some s \<Rightarrow> s)"

text \<open>The node of a predicate without children, given its outcome.\<close>

definition trace_leaf :: "ctx \<Rightarrow> Predicate \<Rightarrow> bool \<Rightarrow> TraceNode" where
  "trace_leaf ctx p ok = (let k = kind_text (Kind p) in
     case Kind p of
       PredIn \<Rightarrow> TraceNode k (Attr p) (lookup_or_nil ctx (Attr p)) ANil (map unmarshal_or_nil (Values p))
                  [] [] 0 0 [] ok []
     | PredMatches \<Rightarrow> TraceNode k (Attr p) (lookupString_or_empty ctx (Attr p)) ANil [] (Pattern p) [] 0 0 [] ok []
     | PredRollout \<Rightarrow> TraceNode k (Attr p) (lookupString_or_empty ctx (Attr p)) ANil [] [] (Salt p) (Percent p)
                  (case lookupString ctx (Attr p) of None \<Rightarrow> 0 | Some v \<Rightarrow> rolloutBucket (Salt p) v) [] ok []
     | PredCEL \<Rightarrow> TraceNode k [] ANil ANil [] [] [] 0 0 (Source p) ok []
     | PredAlways \<Rightarrow> TraceNode k [] ANil ANil [] [] [] 0 0 [] True []
     | PredSegment \<Rightarrow> TraceNode k [] ANil ANil [] [] [] 0 0 [] False []
     | PredOther _ \<Rightarrow> TraceNode k [] ANil ANil [] [] [] 0 0 [] False []
     | _ \<Rightarrow> TraceNode k (Attr p) (lookup_or_nil ctx (Attr p)) (unmarshal_or_nil (PValue p)) [] [] [] 0 0 [] ok [])"

definition trace_parent :: "PredicateKind \<Rightarrow> bool \<Rightarrow> TraceNode list \<Rightarrow> TraceNode" where
  "trace_parent k ok children = TraceNode (kind_text k) [] ANil ANil [] [] [] 0 0 [] ok children"

text \<open>\<open>traceChildren\<close> is the loop body of the \<open>all\<close> and \<open>any\<close> cases: every child
  is evaluated, and the first error is kept.\<close>

fun traceMatch :: "('ast, 'prog) engines \<Rightarrow> (string \<times> 'prog) list \<Rightarrow> ctx \<Rightarrow> Predicate option \<Rightarrow> traced"
and traceChildren :: "('ast, 'prog) engines \<Rightarrow> (string \<times> 'prog) list \<Rightarrow> ctx \<Rightarrow> Predicate option list
    \<Rightarrow> TraceNode list \<times> bool list \<times> eval_error option" where
  "traceMatch E programs ctx None = (TraceNode ''nil'' [] ANil ANil [] [] [] 0 0 [] False [], False, None)"
| "traceMatch E programs ctx (Some (Predicate k attr v vs pat salt pct cs one src key)) =
     (let p = Predicate k attr v vs pat salt pct cs one src key in
      if k = PredAll then
        (case traceChildren E programs ctx cs of (children, oks, firstErr) \<Rightarrow>
           let res = list_all (\<lambda>b. b) oks \<and> firstErr = None in (trace_parent k res children, res, firstErr))
      else if k = PredAny then
        (case traceChildren E programs ctx cs of (children, oks, firstErr) \<Rightarrow>
           let res = list_ex (\<lambda>b. b) oks \<and> firstErr = None in (trace_parent k res children, res, firstErr))
      else if k = PredNot then
        (case traceMatch E programs ctx one of (child, ok, err) \<Rightarrow>
           let res = \<not> ok \<and> err = None in (trace_parent k res [child], res, err))
      else case match_leaf E programs ctx p of (ok, err) \<Rightarrow> (trace_leaf ctx p ok, ok, err))"
| "traceChildren E programs ctx [] = ([], [], None)"
| "traceChildren E programs ctx (c # cs) =
     (case traceMatch E programs ctx c of (child, ok, err) \<Rightarrow>
      case traceChildren E programs ctx cs of (children, oks, firstErr) \<Rightarrow>
        (child # children, ok # oks, if err \<noteq> None then err else firstErr))"

subsection \<open>Evaluation\<close>

definition trace_rule :: "('ast, 'prog) engines \<Rightarrow> (string \<times> 'prog) list \<Rightarrow> ctx \<Rightarrow> Rule \<Rightarrow> TraceRule" where
  "trace_rule E programs ctx r = (case traceMatch E programs ctx (When r) of (node, ok, err) \<Rightarrow>
     \<lparr>TRRuleID = ID r, TRMatched = (ok \<and> err = None), TRPredicate = node,
      TRError = (case err of None \<Rightarrow> [] | Some e \<Rightarrow> eval_error_text e)\<rparr>)"

definition EvaluateWithTrace :: "('ast, 'prog) engines \<Rightarrow> 'prog Compiled option \<Rightarrow> ctx \<Rightarrow> int
    \<Rightarrow> string + Decision \<times> Trace" where
  "EvaluateWithTrace E co ctx version = (case co of
     None \<Rightarrow> Inl ''eval: nil compiled or IR''
   | Some c \<Rightarrow> (case IR c of
       None \<Rightarrow> Inl ''eval: nil compiled or IR''
     | Some t \<Rightarrow> (case decodeValue (TDefault t) of
         Inl e \<Rightarrow> Inl (''decoding default: '' @ e)
       | Inr defValue \<Rightarrow>
          let trs = map (trace_rule E (CELPrograms c) ctx) (rules_of t);
              winner = find (\<lambda>r. TRMatched (trace_rule E (CELPrograms c) ctx r)) (rules_of t)
          in (case winner of
                None \<Rightarrow> Inr (\<lparr>DValue = defValue, DReason = ReasonDefault, DRuleID = [], DVersion = version\<rparr>,
                             \<lparr>EvaluatedRules = trs, DefaultUsed = True, MatchedRuleID = []\<rparr>)
              | Some w \<Rightarrow> Inr (serve defValue (TValueType t) version w,
                             \<lparr>EvaluatedRules = trs, DefaultUsed = False, MatchedRuleID = ID w\<rparr>)))))"

subsection \<open>Relation to match\<close>

lemma trace_no_error:
  "traceMatch E programs ctx po = (node, ok, None) \<Longrightarrow> match E programs ctx po = (ok, None)"
  "traceChildren E programs ctx cs = (tns, oks, None) \<Longrightarrow>
     match_all E programs ctx cs = (list_all (\<lambda>b. b) oks, None) \<and> match_any E programs ctx cs = (list_ex (\<lambda>b. b) oks, None)"
proof (induction E programs ctx po and E programs ctx cs arbitrary: node ok and tns oks
       rule: traceMatch_traceChildren.induct)
  case (2 E programs ctx k attr v vs pat salt pct cs one src key)
  then show ?case by (auto simp: Let_def split: if_splits prod.splits)
next
  case (4 E programs ctx c cs)
  then show ?case by (auto split: prod.splits if_splits)
qed auto

text \<open>
  C6. When no rule of the trace reports an error, \<open>EvaluateWithTrace\<close> returns
  the decision of \<open>Evaluate\<close>, and its trace names the rule that decided.
\<close>

theorem trace_agrees:
  assumes "EvaluateWithTrace E (Some c) ctx version = Inr (d, tr)"
    and "\<And>t r. IR c = Some t \<Longrightarrow> r \<in> set (rules_of t) \<Longrightarrow>
               snd (snd (traceMatch E (CELPrograms c) ctx (When r))) = None"
  shows "Evaluate E (Some c) ctx version = Inr d \<and> MatchedRuleID tr = DRuleID d \<and>
    (DefaultUsed tr \<longleftrightarrow> DReason d = ReasonDefault)"
proof -
  obtain t defValue where t: "IR c = Some t" "decodeValue (TDefault t) = Inr defValue"
    using assms(1) by (auto simp: EvaluateWithTrace_def split: option.splits sum.splits)
  let ?m = "match E (CELPrograms c) ctx"
  have m: "?m (When r) = (TRMatched (trace_rule E (CELPrograms c) ctx r), None)" if "r \<in> set (rules_of t)" for r
    using assms(2) [OF t(1) that] trace_no_error(1) [of E "CELPrograms c" ctx "When r"]
    by (auto simp: trace_rule_def split: prod.splits)
  then have f: "find (\<lambda>r. ?m (When r) \<noteq> (False, None)) (rules_of t) =
      find (\<lambda>r. TRMatched (trace_rule E (CELPrograms c) ctx r)) (rules_of t)"
    by (intro find_cong) auto
  show ?thesis
  proof (cases "find (\<lambda>r. TRMatched (trace_rule E (CELPrograms c) ctx r)) (rules_of t)")
    case None
    then show ?thesis using assms(1) t f
      by (auto simp: EvaluateWithTrace_def Evaluate_def eval_rules_first_match first_match_def Let_def)
  next
    case (Some r)
    then have "snd (?m (When r)) = None" using m by (auto simp: find_Some_iff)
    then show ?thesis using assms(1) t f Some serve_typed [OF refl, of defValue "TValueType t" version r]
      by (auto simp: EvaluateWithTrace_def Evaluate_def eval_rules_first_match first_match_def Let_def)
  qed
qed

text \<open>A flag whose first rule fails (a numeric prefix) and whose second always matches.\<close>

definition failing_rule :: Rule where
  "failing_rule = \<lparr>ID = ''r1'',
     When = Some (Predicate PredStartsWith ''email'' (RawDoc (JNum ''5'')) [] [] [] 0 [] None [] []),
     RValue = RawDoc (JStr ''a'')\<rparr>"

definition always_rule :: Rule where
  "always_rule = \<lparr>ID = ''r2'', When = Some (Predicate PredAlways [] RawNil [] [] [] 0 [] None [] []),
     RValue = RawDoc (JStr ''b'')\<rparr>"

definition flag_of :: "Rule list \<Rightarrow> bool Compiled" where
  "flag_of rs = \<lparr>CStrategy = StrategyJSON, IR = Some \<lparr>TValueType = ValueTypeString,
     TDefault = RawDoc (JStr ''off''), TRules = Some rs\<rparr>, CELPrograms = []\<rparr>"

theorem trace_agrees_witness:
  "\<exists>d tr. EvaluateWithTrace sample_engines (Some (flag_of [always_rule])) [] 1 = Inr (d, tr) \<and>
     Evaluate sample_engines (Some (flag_of [always_rule])) [] 1 = Inr d \<and> MatchedRuleID tr = ''r2'' \<and>
     DRuleID d = ''r2''"
proof -
  have e: "snd (snd (traceMatch sample_engines [] [] (When always_rule))) = None" by code_simp
  have "case EvaluateWithTrace sample_engines (Some (flag_of [always_rule])) [] 1 of
      Inl _ \<Rightarrow> False | Inr (d, tr) \<Rightarrow> MatchedRuleID tr = ''r2''" by code_simp
  then obtain d tr where d: "EvaluateWithTrace sample_engines (Some (flag_of [always_rule])) [] 1 = Inr (d, tr)"
    "MatchedRuleID tr = ''r2''" by (auto split: sum.splits prod.splits)
  have "snd (snd (traceMatch sample_engines (CELPrograms (flag_of [always_rule])) [] (When r))) = None"
    if "IR (flag_of [always_rule]) = Some t" "r \<in> set (rules_of t)" for t r
    using that e by (auto simp: flag_of_def)
  from trace_agrees [OF d(1) this] d show ?thesis by auto
qed


lemma match_error_traced:
  "match E programs ctx po = (b, Some e) \<Longrightarrow> snd (snd (traceMatch E programs ctx po)) \<noteq> None"
  using trace_no_error(1) [of E programs ctx po] by (cases "traceMatch E programs ctx po") auto

text \<open>
  The trace is sound: a rule it marks as matched is one \<open>match\<close> accepts without
  error, and a rule on which \<open>match\<close> fails is marked as not matched.
\<close>

theorem trace_sound:
  "(TRMatched (trace_rule E programs ctx r) \<longrightarrow> match E programs ctx (When r) = (True, None)) \<and>
   (snd (match E programs ctx (When r)) \<noteq> None \<longrightarrow> \<not> TRMatched (trace_rule E programs ctx r))"
proof -
  obtain node ok err where t: "traceMatch E programs ctx (When r) = (node, ok, err)"
    using prod_cases3 by blast
  show ?thesis
    using trace_no_error(1) [of E programs ctx "When r" node ok] t
    by (cases err) (auto simp: trace_rule_def)
qed

theorem trace_sound_witness:
  "TRMatched (trace_rule sample_engines [] [] always_rule) \<and>
   match sample_engines [] [] (When always_rule) = (True, None)"
proof -
  have "TRMatched (trace_rule sample_engines [] [] always_rule)" by code_simp
  then show ?thesis using trace_sound [of sample_engines "[]" "[]" always_rule] by blast
qed

end
