(* ===== verification/Db.thy ===== *)
theory Db
  imports Go_Json
begin

text \<open>
  The SQL layer, \<open>internal/db\<close> on Postgres: one list of rows per table, one
  definition per query. The schema of \<open>db/migrations\<close> gives the constraints;
  they are checked in the order Postgres does: input syntax, NOT NULL, CHECK,
  UNIQUE, then foreign keys. A NOT NULL column is modelled by its value, a
  nullable one by an option. The parameter \<open>J\<close> of the queries with
  \<open>jsonb\<close> columns is what Postgres does to a document it stores: it refuses it
  (an escaped NUL character, a number beyond \<open>numeric\<close>) or changes the order of
  its keys, repeated keys and the spelling of its numbers. Rows with equal sort keys
  keep the order of insertion, where SQL leaves it open. Text columns take every
  string, and a query fails only as its statement can: a lost connection is an outcome
  of the transactions only.
\<close>

subsection \<open>Rows\<close>

type_synonym uuid = "128 word"
type_synonym time = int

text \<open>Times count nanoseconds from the zero time of Go; a \<open>timestamptz\<close> column
  keeps microseconds.\<close>

definition to_micros :: "time \<Rightarrow> time" where
  "to_micros t = t - t mod 1000"

text \<open>The package \<open>google/uuid\<close>, printing and parsing an id; it parses what it
  prints.\<close>

record uuid_text =
  uuid_String :: "uuid \<Rightarrow> string"
  uuid_Parse :: "string \<Rightarrow> uuid option"

definition uuid_text_ok :: "uuid_text \<Rightarrow> bool" where
  "uuid_text_ok U \<longleftrightarrow> (\<forall>i. uuid_Parse U (uuid_String U i) = Some i)"

record project_row =
  pr_id :: uuid
  pr_slug :: string
  pr_display_name :: string
  pr_config_strategy :: string
  pr_created_at :: time
  pr_updated_at :: time

record flag_row =
  fl_id :: uuid
  fl_project_id :: uuid
  fl_key :: string
  fl_name :: string
  fl_description :: string
  fl_value_type :: string
  fl_default_value :: json
  fl_created_at :: time
  fl_updated_at :: time

record flag_version_row =
  fv_id :: uuid
  fv_flag_id :: uuid
  fv_version :: int
  fv_strategy :: string
  fv_source :: json
  fv_compiled :: json
  fv_published_at :: time
  fv_source_text :: "string option"

record environment_row =
  en_id :: uuid
  en_project_id :: uuid
  en_slug :: string
  en_name :: string
  en_created_at :: time

record segment_row =
  sg_id :: uuid
  sg_project_id :: uuid
  sg_key :: string
  sg_name :: string
  sg_description :: string
  sg_predicate :: json
  sg_created_at :: time
  sg_updated_at :: time

record snapshot_row =
  sn_id :: uuid
  sn_project_id :: uuid
  sn_environment_id :: "uuid option"
  sn_version :: int
  sn_compiled :: json
  sn_created_at :: time

record audit_row =
  au_id :: uuid
  au_project_id :: "uuid option"
  au_flag_id :: "uuid option"
  au_action :: string
  au_payload :: json
  au_created_at :: time
  au_actor :: "string option"

record database =
  projects :: "project_row list"
  flags :: "flag_row list"
  flag_versions :: "flag_version_row list"
  environments :: "environment_row list"
  segments :: "segment_row list"
  snapshots :: "snapshot_row list"
  audit_events :: "audit_row list"

definition empty_db :: database where
  "empty_db = \<lparr>projects = [], flags = [], flag_versions = [], environments = [], segments = [],
     snapshots = [], audit_events = []\<rparr>"

subsection \<open>Errors and columns\<close>

datatype sql_error =
    NoRows
  | UniqueViolation
  | ForeignKeyViolation
  | CheckViolation
  | NotNullViolation
  | InvalidText
  | OutOfRange
  | SerializationFailure
  | Busy
  | BusySnapshot
  | OtherSql string

text \<open>A \<open>[]byte\<close> argument for a NOT NULL \<open>jsonb\<close> column.\<close>

type_synonym json_in = "json \<Rightarrow> sql_error + json"

definition jsonb :: "json_in \<Rightarrow> raw \<Rightarrow> sql_error + json" where
  "jsonb J r = (case r of RawNil \<Rightarrow> Inl NotNullViolation | RawBytes _ \<Rightarrow> Inl InvalidText | RawDoc j \<Rightarrow> J j)"

definition require :: "bool \<Rightarrow> sql_error \<Rightarrow> sql_error + unit" where
  "require b e = (if b then Inr () else Inl e)"

lemma require_Inr [simp]: "require b e = Inr u \<longleftrightarrow> b"
  by (simp add: require_def)

definition strategy_check :: "string \<Rightarrow> bool" where
  "strategy_check s \<longleftrightarrow> s \<in> {''json'', ''cel'', ''typescript''}"

definition value_type_check :: "string \<Rightarrow> bool" where
  "value_type_check s \<longleftrightarrow> s \<in> {''boolean'', ''string'', ''number'', ''object''}"

definition project_exists :: "database \<Rightarrow> uuid \<Rightarrow> bool" where
  "project_exists d i \<longleftrightarrow> i \<in> pr_id ` set (projects d)"

definition flag_exists :: "database \<Rightarrow> uuid \<Rightarrow> bool" where
  "flag_exists d i \<longleftrightarrow> i \<in> fl_id ` set (flags d)"

definition environment_exists :: "database \<Rightarrow> uuid \<Rightarrow> bool" where
  "environment_exists d i \<longleftrightarrow> i \<in> en_id ` set (environments d)"

definition ref_ok :: "('a \<Rightarrow> bool) \<Rightarrow> 'a option \<Rightarrow> bool" where
  "ref_ok P x = (case x of None \<Rightarrow> True | Some a \<Rightarrow> P a)"

text \<open>\<open>QueryRow\<close> on a SELECT: the first row, or \<open>ErrNoRows\<close>.\<close>

definition one_row :: "'r list \<Rightarrow> sql_error + 'r" where
  "one_row rs = (case rs of [] \<Rightarrow> Inl NoRows | r # _ \<Rightarrow> Inr r)"

text \<open>\<open>ORDER BY k DESC\<close>, and \<open>LIMIT\<close>, which must not be negative.\<close>

definition order_desc :: "('r \<Rightarrow> int) \<Rightarrow> 'r list \<Rightarrow> 'r list" where
  "order_desc k rs = sort_key (\<lambda>r. - k r) rs"

definition limit_rows :: "int \<Rightarrow> 'r list \<Rightarrow> sql_error + 'r list" where
  "limit_rows n rs = (if n < 0 then Inl (OtherSql ''LIMIT must not be negative'') else Inr (take (nat n) rs))"

text \<open>\<open>COALESCE(MAX(version), 0) + 1\<close> in a 32-bit column.\<close>

definition next_version :: "int list \<Rightarrow> sql_error + int" where
  "next_version vs = (let n = (if vs = [] then 0 else Max (set vs)) + 1
                      in if n < 2 ^ 31 then Inr n else Inl OutOfRange)"

subsection \<open>Projects and environments\<close>

definition q_CreateProject :: "time \<Rightarrow> uuid \<Rightarrow> string \<Rightarrow> string \<Rightarrow> string \<Rightarrow> database
    \<Rightarrow> sql_error + project_row \<times> database" where
  "q_CreateProject now i slug display_name strategy d =
     (let r = \<lparr>pr_id = i, pr_slug = slug, pr_display_name = display_name, pr_config_strategy = strategy,
               pr_created_at = to_micros now, pr_updated_at = to_micros now\<rparr>
      in bindE (require (strategy_check strategy) CheckViolation) (\<lambda>_.
         bindE (require (i \<notin> pr_id ` set (projects d) \<and> slug \<notin> pr_slug ` set (projects d)) UniqueViolation) (\<lambda>_.
         Inr (r, d\<lparr>projects := projects d @ [r]\<rparr>))))"

definition q_GetProjectBySlug :: "string \<Rightarrow> database \<Rightarrow> sql_error + project_row" where
  "q_GetProjectBySlug slug d = one_row (filter (\<lambda>r. pr_slug r = slug) (projects d))"

definition q_ListProjects :: "database \<Rightarrow> project_row list" where
  "q_ListProjects d = order_desc pr_created_at (projects d)"

definition q_CreateEnvironment :: "time \<Rightarrow> uuid \<Rightarrow> uuid \<Rightarrow> string \<Rightarrow> string \<Rightarrow> database
    \<Rightarrow> sql_error + environment_row \<times> database" where
  "q_CreateEnvironment now i pid slug name d =
     (let r = \<lparr>en_id = i, en_project_id = pid, en_slug = slug, en_name = name, en_created_at = to_micros now\<rparr>
      in bindE (require (i \<notin> en_id ` set (environments d) \<and>
                  (pid, slug) \<notin> (\<lambda>r. (en_project_id r, en_slug r)) ` set (environments d)) UniqueViolation) (\<lambda>_.
         bindE (require (project_exists d pid) ForeignKeyViolation) (\<lambda>_.
         Inr (r, d\<lparr>environments := environments d @ [r]\<rparr>))))"

definition q_GetEnvironmentBySlug :: "uuid \<Rightarrow> string \<Rightarrow> database \<Rightarrow> sql_error + environment_row" where
  "q_GetEnvironmentBySlug pid slug d =
     one_row (filter (\<lambda>r. en_project_id r = pid \<and> en_slug r = slug) (environments d))"

definition q_ListEnvironmentsByProject :: "uuid \<Rightarrow> database \<Rightarrow> environment_row list" where
  "q_ListEnvironmentsByProject pid d =
     sort_key en_created_at (filter (\<lambda>r. en_project_id r = pid) (environments d))"

subsection \<open>Flags and versions\<close>

definition q_CreateFlag :: "json_in \<Rightarrow> time \<Rightarrow> uuid \<Rightarrow> uuid \<Rightarrow> string \<Rightarrow> string \<Rightarrow> string \<Rightarrow> string
    \<Rightarrow> raw \<Rightarrow> database \<Rightarrow> sql_error + flag_row \<times> database" where
  "q_CreateFlag J now i pid key name description value_type default_value d =
     bindE (jsonb J default_value) (\<lambda>dv.
     bindE (require (value_type_check value_type) CheckViolation) (\<lambda>_.
     bindE (require (i \<notin> fl_id ` set (flags d) \<and>
              (pid, key) \<notin> (\<lambda>r. (fl_project_id r, fl_key r)) ` set (flags d)) UniqueViolation) (\<lambda>_.
     bindE (require (project_exists d pid) ForeignKeyViolation) (\<lambda>_.
       let r = \<lparr>fl_id = i, fl_project_id = pid, fl_key = key, fl_name = name, fl_description = description,
                fl_value_type = value_type, fl_default_value = dv, fl_created_at = to_micros now,
                fl_updated_at = to_micros now\<rparr>
       in Inr (r, d\<lparr>flags := flags d @ [r]\<rparr>)))))"

definition q_GetFlagByKey :: "uuid \<Rightarrow> string \<Rightarrow> database \<Rightarrow> sql_error + flag_row" where
  "q_GetFlagByKey pid key d = one_row (filter (\<lambda>r. fl_project_id r = pid \<and> fl_key r = key) (flags d))"

definition q_ListFlagsByProject :: "uuid \<Rightarrow> database \<Rightarrow> flag_row list" where
  "q_ListFlagsByProject pid d = order_desc fl_created_at (filter (\<lambda>r. fl_project_id r = pid) (flags d))"

definition q_CreateFlagVersion :: "json_in \<Rightarrow> time \<Rightarrow> uuid \<Rightarrow> uuid \<Rightarrow> int \<Rightarrow> string \<Rightarrow> raw \<Rightarrow> raw
    \<Rightarrow> string option \<Rightarrow> database \<Rightarrow> sql_error + flag_version_row \<times> database" where
  "q_CreateFlagVersion J now i fid version strategy source compiled source_text d =
     bindE (jsonb J source) (\<lambda>src.
     bindE (jsonb J compiled) (\<lambda>cmp.
     bindE (require (strategy_check strategy) CheckViolation) (\<lambda>_.
     bindE (require (i \<notin> fv_id ` set (flag_versions d) \<and>
              (fid, version) \<notin> (\<lambda>r. (fv_flag_id r, fv_version r)) ` set (flag_versions d)) UniqueViolation) (\<lambda>_.
     bindE (require (flag_exists d fid) ForeignKeyViolation) (\<lambda>_.
       let r = \<lparr>fv_id = i, fv_flag_id = fid, fv_version = version, fv_strategy = strategy, fv_source = src,
                fv_compiled = cmp, fv_published_at = to_micros now, fv_source_text = source_text\<rparr>
       in Inr (r, d\<lparr>flag_versions := flag_versions d @ [r]\<rparr>))))))"

definition versions_of :: "database \<Rightarrow> uuid \<Rightarrow> flag_version_row list" where
  "versions_of d fid = filter (\<lambda>r. fv_flag_id r = fid) (flag_versions d)"

definition q_GetLatestFlagVersion :: "uuid \<Rightarrow> database \<Rightarrow> sql_error + flag_version_row" where
  "q_GetLatestFlagVersion fid d = one_row (order_desc fv_version (versions_of d fid))"

definition q_ListFlagVersions :: "uuid \<Rightarrow> database \<Rightarrow> flag_version_row list" where
  "q_ListFlagVersions fid d = order_desc fv_version (versions_of d fid)"

definition q_NextFlagVersion :: "uuid \<Rightarrow> database \<Rightarrow> sql_error + int" where
  "q_NextFlagVersion fid d = next_version (map fv_version (versions_of d fid))"

subsection \<open>Segments\<close>

definition q_CreateSegment :: "json_in \<Rightarrow> time \<Rightarrow> uuid \<Rightarrow> uuid \<Rightarrow> string \<Rightarrow> string \<Rightarrow> string \<Rightarrow> raw
    \<Rightarrow> database \<Rightarrow> sql_error + segment_row \<times> database" where
  "q_CreateSegment J now i pid key name description predicate d =
     bindE (jsonb J predicate) (\<lambda>p.
     bindE (require (i \<notin> sg_id ` set (segments d) \<and>
              (pid, key) \<notin> (\<lambda>r. (sg_project_id r, sg_key r)) ` set (segments d)) UniqueViolation) (\<lambda>_.
     bindE (require (project_exists d pid) ForeignKeyViolation) (\<lambda>_.
       let r = \<lparr>sg_id = i, sg_project_id = pid, sg_key = key, sg_name = name, sg_description = description,
                sg_predicate = p, sg_created_at = to_micros now, sg_updated_at = to_micros now\<rparr>
       in Inr (r, d\<lparr>segments := segments d @ [r]\<rparr>))))"

definition q_GetSegmentByKey :: "uuid \<Rightarrow> string \<Rightarrow> database \<Rightarrow> sql_error + segment_row" where
  "q_GetSegmentByKey pid key d =
     one_row (filter (\<lambda>r. sg_project_id r = pid \<and> sg_key r = key) (segments d))"

definition q_ListSegmentsByProject :: "uuid \<Rightarrow> database \<Rightarrow> segment_row list" where
  "q_ListSegmentsByProject pid d =
     sort_key sg_created_at (filter (\<lambda>r. sg_project_id r = pid) (segments d))"

definition q_UpdateSegment :: "json_in \<Rightarrow> uuid \<Rightarrow> string \<Rightarrow> string \<Rightarrow> string \<Rightarrow> raw \<Rightarrow> time
    \<Rightarrow> database \<Rightarrow> sql_error + segment_row \<times> database" where
  "q_UpdateSegment J pid key name description predicate updated_at d =
     (let upd = (\<lambda>p r. if sg_project_id r = pid \<and> sg_key r = key
                       then r\<lparr>sg_name := name, sg_description := description, sg_predicate := p,
                              sg_updated_at := to_micros updated_at\<rparr>
                       else r)
      in case predicate of
           RawBytes _ \<Rightarrow> Inl InvalidText
         | _ \<Rightarrow>
           (case filter (\<lambda>r. sg_project_id r = pid \<and> sg_key r = key) (segments d) of
              [] \<Rightarrow> Inl NoRows
            | r # _ \<Rightarrow> bindE (jsonb J predicate) (\<lambda>p.
                Inr (upd p r, d\<lparr>segments := map (upd p) (segments d)\<rparr>))))"

subsection \<open>Snapshots\<close>

definition q_CreateSnapshot :: "json_in \<Rightarrow> time \<Rightarrow> uuid \<Rightarrow> uuid \<Rightarrow> uuid option \<Rightarrow> int \<Rightarrow> raw
    \<Rightarrow> database \<Rightarrow> sql_error + snapshot_row \<times> database" where
  "q_CreateSnapshot J now i pid eid version compiled d =
     bindE (jsonb J compiled) (\<lambda>c.
     bindE (require (i \<notin> sn_id ` set (snapshots d) \<and>
              (pid, version) \<notin> (\<lambda>r. (sn_project_id r, sn_version r)) ` set (snapshots d)) UniqueViolation) (\<lambda>_.
     bindE (require (project_exists d pid \<and> ref_ok (environment_exists d) eid) ForeignKeyViolation) (\<lambda>_.
       let r = \<lparr>sn_id = i, sn_project_id = pid, sn_environment_id = eid, sn_version = version,
                sn_compiled = c, sn_created_at = to_micros now\<rparr>
       in Inr (r, d\<lparr>snapshots := snapshots d @ [r]\<rparr>))))"

definition snapshots_of :: "database \<Rightarrow> uuid \<Rightarrow> snapshot_row list" where
  "snapshots_of d pid = filter (\<lambda>r. sn_project_id r = pid) (snapshots d)"

definition q_GetLatestSnapshot :: "uuid \<Rightarrow> database \<Rightarrow> sql_error + snapshot_row" where
  "q_GetLatestSnapshot pid d = one_row (order_desc sn_version (snapshots_of d pid))"

definition q_GetSnapshotByID :: "uuid \<Rightarrow> uuid \<Rightarrow> database \<Rightarrow> sql_error + snapshot_row" where
  "q_GetSnapshotByID pid i d = one_row (filter (\<lambda>r. sn_project_id r = pid \<and> sn_id r = i) (snapshots d))"

definition q_ListSnapshotsByProject :: "uuid \<Rightarrow> int \<Rightarrow> database \<Rightarrow> sql_error + snapshot_row list" where
  "q_ListSnapshotsByProject pid n d = limit_rows n (order_desc sn_version (snapshots_of d pid))"

definition q_NextSnapshotVersion :: "uuid \<Rightarrow> database \<Rightarrow> sql_error + int" where
  "q_NextSnapshotVersion pid d = next_version (map sn_version (snapshots_of d pid))"

text \<open>\<open>SELECT DISTINCT ON (fv.flag_id) ... ORDER BY fv.flag_id, fv.version DESC\<close>:
  the key of each flag of the project that has a version, with its latest version.\<close>

definition q_ListLatestFlagVersions :: "uuid \<Rightarrow> database \<Rightarrow> (string \<times> flag_version_row) list" where
  "q_ListLatestFlagVersions pid d =
     concat (map (\<lambda>f. case order_desc fv_version (versions_of d (fl_id f)) of
                        [] \<Rightarrow> [] | v # _ \<Rightarrow> [(fl_key f, v)])
                 (sort_key fl_id (filter (\<lambda>f. fl_project_id f = pid) (flags d))))"

subsection \<open>Audit events\<close>

definition q_AppendAuditEvent :: "json_in \<Rightarrow> time \<Rightarrow> uuid \<Rightarrow> uuid option \<Rightarrow> uuid option \<Rightarrow> string
    \<Rightarrow> string option \<Rightarrow> raw \<Rightarrow> database \<Rightarrow> sql_error + audit_row \<times> database" where
  "q_AppendAuditEvent J now i pid fid action actor payload d =
     bindE (jsonb J payload) (\<lambda>p.
     bindE (require (i \<notin> au_id ` set (audit_events d)) UniqueViolation) (\<lambda>_.
     bindE (require (ref_ok (project_exists d) pid \<and> ref_ok (flag_exists d) fid) ForeignKeyViolation) (\<lambda>_.
       let r = \<lparr>au_id = i, au_project_id = pid, au_flag_id = fid, au_action = action, au_payload = p,
                au_created_at = to_micros now, au_actor = actor\<rparr>
       in Inr (r, d\<lparr>audit_events := audit_events d @ [r]\<rparr>))))"

record audit_query =
  aq_project_id :: uuid
  aq_limit :: int
  aq_action :: "string option"
  aq_actor :: "string option"
  aq_from :: "time option"
  aq_to :: "time option"
  aq_cursor_ts :: "time option"
  aq_cursor_id :: "uuid option"

text \<open>The row comparison \<open>(created_at, id) < (ts, uuid)\<close>; with a NULL id it is
  decided by the times alone and unknown (not true) when they are equal.\<close>

definition before_cursor :: "audit_query \<Rightarrow> audit_row \<Rightarrow> bool" where
  "before_cursor q r = (case aq_cursor_ts q of
     None \<Rightarrow> True
   | Some ts \<Rightarrow> au_created_at r < ts \<or>
       (au_created_at r = ts \<and> (case aq_cursor_id q of None \<Rightarrow> False | Some i \<Rightarrow> au_id r < i)))"

definition audit_selected :: "audit_query \<Rightarrow> audit_row \<Rightarrow> bool" where
  "audit_selected q r \<longleftrightarrow>
     au_project_id r = Some (aq_project_id q) \<and>
     ref_ok (\<lambda>a. au_action r = a) (aq_action q) \<and>
     ref_ok (\<lambda>a. au_actor r = Some a) (aq_actor q) \<and>
     ref_ok (\<lambda>t. t \<le> au_created_at r) (aq_from q) \<and>
     ref_ok (\<lambda>t. au_created_at r < t) (aq_to q) \<and>
     before_cursor q r"

definition audit_order :: "audit_row \<Rightarrow> int \<times> int" where
  "audit_order r = (- au_created_at r, - uint (au_id r))"

definition q_ListAuditEventsByProject :: "audit_query \<Rightarrow> database \<Rightarrow> sql_error + audit_row list" where
  "q_ListAuditEventsByProject q d =
     limit_rows (aq_limit q) (sort_key audit_order (filter (audit_selected q) (audit_events d)))"

end
