(* ===== verification/Store.thy ===== *)
theory Store
  imports Db
begin

text \<open>
  The persistence layer on Postgres, \<open>internal/store\<close>: the domain types, the
  conversions from rows, the methods of \<open>pgStore\<close> and \<open>pgTx\<close>, and the
  transactions of \<open>WithAudit\<close>. An operation maps the database to its result and
  the new database; the arguments \<open>i\<close> and \<open>now\<close> are what \<open>uuid.New()\<close> and
  the clock give it.
\<close>

subsection \<open>Types\<close>

record Project =
  Project_ID :: uuid
  Project_Slug :: string
  Project_DisplayName :: string
  Project_ConfigStrategy :: string
  Project_CreatedAt :: time
  Project_UpdatedAt :: time

record Flag =
  Flag_ID :: uuid
  Flag_ProjectID :: uuid
  Flag_Key :: string
  Flag_Name :: string
  Flag_Description :: string
  Flag_ValueType :: string
  Flag_DefaultValue :: raw
  Flag_CreatedAt :: time
  Flag_UpdatedAt :: time

record FlagVersion =
  FV_ID :: uuid
  FV_FlagID :: uuid
  FV_Version :: int
  FV_Strategy :: string
  FV_Source :: raw
  FV_Compiled :: raw
  FV_SourceText :: string
  FV_PublishedAt :: time

record AuditEvent =
  Audit_ID :: uuid
  Audit_ProjectID :: "uuid option"
  Audit_FlagID :: "uuid option"
  Audit_Action :: string
  Audit_Actor :: string
  Audit_Payload :: raw
  Audit_CreatedAt :: time

record Environment =
  Env_ID :: uuid
  Env_ProjectID :: uuid
  Env_Slug :: string
  Env_Name :: string
  Env_CreatedAt :: time

record Segment =
  Segment_ID :: uuid
  Segment_ProjectID :: uuid
  Segment_Key :: string
  Segment_Name :: string
  Segment_Description :: string
  Segment_Predicate :: raw
  Segment_CreatedAt :: time
  Segment_UpdatedAt :: time

record Snapshot =
  Snapshot_ID :: uuid
  Snapshot_ProjectID :: uuid
  Snapshot_EnvironmentID :: "uuid option"
  Snapshot_Version :: int
  Snapshot_Compiled :: raw
  Snapshot_CreatedAt :: time

record LatestFlagVersion =
  Latest_FlagKey :: string
  Latest_FlagID :: uuid
  Latest_Version :: int
  Latest_Strategy :: string
  Latest_Compiled :: raw
  Latest_PublishedAt :: time

record AppendAuditParams =
  ap_ProjectID :: "uuid option"
  ap_FlagID :: "uuid option"
  ap_Action :: string
  ap_Actor :: string
  ap_Payload :: raw

record ListAuditEventsParams =
  lp_ProjectID :: uuid
  lp_Action :: string
  lp_Actor :: string
  lp_From :: time
  lp_To :: time
  lp_CursorTs :: time
  lp_CursorID :: uuid
  lp_Limit :: int

record CreateFlagParams =
  cf_ProjectID :: uuid
  cf_Key :: string
  cf_Name :: string
  cf_Description :: string
  cf_ValueType :: string
  cf_DefaultValue :: raw

record PublishFlagVersionParams =
  pv_FlagID :: uuid
  pv_Strategy :: string
  pv_Source :: raw
  pv_Compiled :: raw
  pv_SourceText :: string

record CreateSegmentParams =
  cs_ProjectID :: uuid
  cs_Key :: string
  cs_Name :: string
  cs_Description :: string
  cs_Predicate :: raw

record UpdateSegmentParams =
  us_ProjectID :: uuid
  us_Key :: string
  us_Name :: string
  us_Description :: string
  us_Predicate :: raw

record CompileSnapshotParams =
  sp_ProjectID :: uuid
  sp_EnvironmentID :: "uuid option"
  sp_Compiled :: raw

subsection \<open>Errors\<close>

text \<open>\<open>StoreSql m e\<close> is \<open>fmt.Errorf("store: m: %w", e)\<close>; \<open>CtxErr\<close> is
  \<open>ctx.Err()\<close> of a cancelled request, \<open>Callback\<close> any other error a
  transaction callback returns.\<close>

datatype store_error =
    ErrNotFound
  | ErrConflict
  | StoreSql string sql_error
  | CtxErr
  | Callback string

definition IsConflict :: "store_error \<Rightarrow> bool" where
  "IsConflict e = (case e of
     ErrConflict \<Rightarrow> True
   | StoreSql _ s \<Rightarrow> s = UniqueViolation \<or> s = ForeignKeyViolation
   | _ \<Rightarrow> False)"

definition isSerializationFailure :: "store_error \<Rightarrow> bool" where
  "isSerializationFailure e = (case e of StoreSql _ s \<Rightarrow> s = SerializationFailure | _ \<Rightarrow> False)"

definition wrap_sql :: "string \<Rightarrow> sql_error + 'a \<Rightarrow> store_error + 'a" where
  "wrap_sql m x = (case x of Inl e \<Rightarrow> Inl (StoreSql m e) | Inr a \<Rightarrow> Inr a)"

text \<open>The same for lookups: \<open>ErrNoRows\<close> becomes \<open>ErrNotFound\<close>.\<close>

definition wrap_get :: "string \<Rightarrow> sql_error + 'a \<Rightarrow> store_error + 'a" where
  "wrap_get m x = (case x of
     Inl e \<Rightarrow> if e = NoRows then Inl ErrNotFound else Inl (StoreSql m e)
   | Inr a \<Rightarrow> Inr a)"

definition first :: "('a \<Rightarrow> 'b) \<Rightarrow> 'e + 'a \<times> 'd \<Rightarrow> 'e + 'b \<times> 'd" where
  "first f x = bindE x (\<lambda>(a, d). Inr (f a, d))"

subsection \<open>Conversions\<close>

definition textFromString :: "string \<Rightarrow> string option" where
  "textFromString s = (if s = [] then None else Some s)"

definition textToString :: "string option \<Rightarrow> string" where
  "textToString t = (case t of None \<Rightarrow> [] | Some s \<Rightarrow> s)"

definition timestampFromTime :: "time \<Rightarrow> time option" where
  "timestampFromTime t = (if t = 0 then None else Some t)"

definition projectFromRow :: "project_row \<Rightarrow> Project" where
  "projectFromRow r = \<lparr>Project_ID = pr_id r, Project_Slug = pr_slug r, Project_DisplayName = pr_display_name r,
     Project_ConfigStrategy = pr_config_strategy r, Project_CreatedAt = pr_created_at r,
     Project_UpdatedAt = pr_updated_at r\<rparr>"

definition flagFromRow :: "flag_row \<Rightarrow> Flag" where
  "flagFromRow r = \<lparr>Flag_ID = fl_id r, Flag_ProjectID = fl_project_id r, Flag_Key = fl_key r, Flag_Name = fl_name r,
     Flag_Description = fl_description r, Flag_ValueType = fl_value_type r,
     Flag_DefaultValue = RawDoc (fl_default_value r), Flag_CreatedAt = fl_created_at r,
     Flag_UpdatedAt = fl_updated_at r\<rparr>"

definition flagVersionFromRow :: "flag_version_row \<Rightarrow> FlagVersion" where
  "flagVersionFromRow r = \<lparr>FV_ID = fv_id r, FV_FlagID = fv_flag_id r, FV_Version = fv_version r,
     FV_Strategy = fv_strategy r, FV_Source = RawDoc (fv_source r), FV_Compiled = RawDoc (fv_compiled r),
     FV_SourceText = textToString (fv_source_text r), FV_PublishedAt = fv_published_at r\<rparr>"

definition auditFromRow :: "audit_row \<Rightarrow> AuditEvent" where
  "auditFromRow r = \<lparr>Audit_ID = au_id r, Audit_ProjectID = au_project_id r, Audit_FlagID = au_flag_id r,
     Audit_Action = au_action r, Audit_Actor = textToString (au_actor r), Audit_Payload = RawDoc (au_payload r),
     Audit_CreatedAt = au_created_at r\<rparr>"

definition environmentFromRow :: "environment_row \<Rightarrow> Environment" where
  "environmentFromRow r = \<lparr>Env_ID = en_id r, Env_ProjectID = en_project_id r, Env_Slug = en_slug r,
     Env_Name = en_name r, Env_CreatedAt = en_created_at r\<rparr>"

definition segmentFromRow :: "segment_row \<Rightarrow> Segment" where
  "segmentFromRow r = \<lparr>Segment_ID = sg_id r, Segment_ProjectID = sg_project_id r, Segment_Key = sg_key r,
     Segment_Name = sg_name r, Segment_Description = sg_description r, Segment_Predicate = RawDoc (sg_predicate r),
     Segment_CreatedAt = sg_created_at r, Segment_UpdatedAt = sg_updated_at r\<rparr>"

definition snapshotFromRow :: "snapshot_row \<Rightarrow> Snapshot" where
  "snapshotFromRow r = \<lparr>Snapshot_ID = sn_id r, Snapshot_ProjectID = sn_project_id r,
     Snapshot_EnvironmentID = sn_environment_id r, Snapshot_Version = sn_version r,
     Snapshot_Compiled = RawDoc (sn_compiled r), Snapshot_CreatedAt = sn_created_at r\<rparr>"

definition latestFlagVersionFromRow :: "string \<times> flag_version_row \<Rightarrow> LatestFlagVersion" where
  "latestFlagVersionFromRow kr = (case kr of (k, r) \<Rightarrow> \<lparr>Latest_FlagKey = k, Latest_FlagID = fv_flag_id r,
     Latest_Version = fv_version r, Latest_Strategy = fv_strategy r, Latest_Compiled = RawDoc (fv_compiled r),
     Latest_PublishedAt = fv_published_at r\<rparr>)"

subsection \<open>Operations of a transaction\<close>

type_synonym 'a op = "database \<Rightarrow> store_error + 'a \<times> database"

definition tx_CreateProject :: "time \<Rightarrow> uuid \<Rightarrow> string \<Rightarrow> string \<Rightarrow> string \<Rightarrow> Project op" where
  "tx_CreateProject now i slug displayName strategy d =
     first projectFromRow (wrap_sql ''create project'' (q_CreateProject now i slug displayName strategy d))"

definition tx_CreateFlag :: "json_in \<Rightarrow> time \<Rightarrow> uuid \<Rightarrow> CreateFlagParams \<Rightarrow> Flag op" where
  "tx_CreateFlag J now i p d =
     first flagFromRow (wrap_sql ''create flag'' (q_CreateFlag J now i (cf_ProjectID p) (cf_Key p) (cf_Name p)
       (cf_Description p) (cf_ValueType p) (cf_DefaultValue p) d))"

definition tx_CreateEnvironment :: "time \<Rightarrow> uuid \<Rightarrow> uuid \<Rightarrow> string \<Rightarrow> string \<Rightarrow> Environment op" where
  "tx_CreateEnvironment now i pid slug name d =
     first environmentFromRow (wrap_sql ''create environment'' (q_CreateEnvironment now i pid slug name d))"

definition tx_CreateSegment :: "json_in \<Rightarrow> time \<Rightarrow> uuid \<Rightarrow> CreateSegmentParams \<Rightarrow> Segment op" where
  "tx_CreateSegment J now i p d =
     first segmentFromRow (wrap_sql ''create segment'' (q_CreateSegment J now i (cs_ProjectID p) (cs_Key p)
       (cs_Name p) (cs_Description p) (cs_Predicate p) d))"

definition tx_UpdateSegment :: "json_in \<Rightarrow> time \<Rightarrow> UpdateSegmentParams \<Rightarrow> Segment op" where
  "tx_UpdateSegment J now p d =
     first segmentFromRow (wrap_sql ''update segment'' (q_UpdateSegment J (us_ProjectID p) (us_Key p) (us_Name p)
       (us_Description p) (us_Predicate p) now d))"

definition publishFlagVersionTx :: "json_in \<Rightarrow> time \<Rightarrow> uuid \<Rightarrow> PublishFlagVersionParams \<Rightarrow> FlagVersion op" where
  "publishFlagVersionTx J now i p d =
     bindE (wrap_sql ''next version'' (q_NextFlagVersion (pv_FlagID p) d)) (\<lambda>next.
     first flagVersionFromRow (wrap_sql ''create version'' (q_CreateFlagVersion J now i (pv_FlagID p) next
       (pv_Strategy p) (pv_Source p) (pv_Compiled p) (textFromString (pv_SourceText p)) d)))"

definition tx_PublishFlagVersion :: "json_in \<Rightarrow> time \<Rightarrow> uuid \<Rightarrow> PublishFlagVersionParams \<Rightarrow> FlagVersion op" where
  "tx_PublishFlagVersion J now i p d = publishFlagVersionTx J now i p d"

definition tx_CompileSnapshot :: "json_in \<Rightarrow> time \<Rightarrow> uuid \<Rightarrow> CompileSnapshotParams \<Rightarrow> Snapshot op" where
  "tx_CompileSnapshot J now i p d =
     bindE (wrap_sql ''next snapshot version'' (q_NextSnapshotVersion (sp_ProjectID p) d)) (\<lambda>next.
     first snapshotFromRow (wrap_sql ''create snapshot'' (q_CreateSnapshot J now i (sp_ProjectID p)
       (sp_EnvironmentID p) next (sp_Compiled p) d)))"

subsection \<open>Audit\<close>

definition pgAuditInsertParams :: "AppendAuditParams \<Rightarrow> AppendAuditParams" where
  "pgAuditInsertParams p = (if raw_empty (ap_Payload p) then p\<lparr>ap_Payload := RawDoc (JObj [])\<rparr> else p)"

definition append_audit_query :: "json_in \<Rightarrow> time \<Rightarrow> uuid \<Rightarrow> AppendAuditParams \<Rightarrow> database
    \<Rightarrow> sql_error + audit_row \<times> database" where
  "append_audit_query J now i ev d = (let p = pgAuditInsertParams ev in
     q_AppendAuditEvent J now i (ap_ProjectID p) (ap_FlagID p) (ap_Action p) (textFromString (ap_Actor p))
       (ap_Payload p) d)"

definition AppendAudit :: "json_in \<Rightarrow> time \<Rightarrow> uuid \<Rightarrow> AppendAuditParams \<Rightarrow> AuditEvent op" where
  "AppendAudit J now i p d = first auditFromRow (wrap_sql ''append audit'' (append_audit_query J now i p d))"

definition cursorIDParam :: "ListAuditEventsParams \<Rightarrow> uuid option" where
  "cursorIDParam p = (if lp_CursorTs p = 0 then None else Some (lp_CursorID p))"

definition ListAuditEvents :: "ListAuditEventsParams \<Rightarrow> database \<Rightarrow> store_error + AuditEvent list" where
  "ListAuditEvents p d = bindE (wrap_sql ''list audit events'' (q_ListAuditEventsByProject
     \<lparr>aq_project_id = lp_ProjectID p, aq_limit = lp_Limit p, aq_action = textFromString (lp_Action p),
      aq_actor = textFromString (lp_Actor p), aq_from = timestampFromTime (lp_From p),
      aq_to = timestampFromTime (lp_To p), aq_cursor_ts = timestampFromTime (lp_CursorTs p),
      aq_cursor_id = cursorIDParam p\<rparr> d)) (\<lambda>rows. Inr (map auditFromRow rows))"

text \<open>
  What a transaction meets besides the database, for each attempt: failures of
  BEGIN, of a statement of the callback and of COMMIT, cancellation of the request
  while it waits to retry, what other transactions commit before the attempt, and the
  id and time of the audit row.
\<close>

record tx_world =
  w_begin :: "nat \<Rightarrow> sql_error option"
  w_statement :: "nat \<Rightarrow> sql_error option"
  w_commit :: "nat \<Rightarrow> sql_error option"
  w_cancelled :: "nat \<Rightarrow> bool"
  w_others :: "nat \<Rightarrow> database \<Rightarrow> database"
  w_audit_id :: "nat \<Rightarrow> uuid"
  w_audit_now :: "nat \<Rightarrow> time"

text \<open>The result of an attempt and the committed database; a failure rolls back.\<close>

definition withAuditOnce :: "json_in \<Rightarrow> tx_world \<Rightarrow> nat \<Rightarrow> AppendAuditParams \<Rightarrow> (nat \<Rightarrow> 'a op) \<Rightarrow> database
    \<Rightarrow> (store_error + 'a) \<times> database" where
  "withAuditOnce J w n ev fn d =
     (case w_begin w n of
        Some e \<Rightarrow> (Inl (StoreSql ''begin tx'' e), d)
      | None \<Rightarrow>
         (case (case w_statement w n of Some e \<Rightarrow> Inl (StoreSql ''statement'' e) | None \<Rightarrow> fn n d) of
            Inl e \<Rightarrow> (Inl e, d)
          | Inr (a, d1) \<Rightarrow>
             (case append_audit_query J (w_audit_now w n) (w_audit_id w n) ev d1 of
                Inl e \<Rightarrow> (Inl (StoreSql ''audit append in tx'' e), d)
              | Inr (_, d2) \<Rightarrow>
                 (case w_commit w n of
                    Some e \<Rightarrow> (Inl (StoreSql ''commit'' e), d)
                  | None \<Rightarrow> (Inr a, d2)))))"

definition withAuditMaxRetries :: nat where "withAuditMaxRetries = 8"

text \<open>The retry loop from attempt \<open>n\<close> on.\<close>

function withAuditLoop :: "json_in \<Rightarrow> tx_world \<Rightarrow> nat \<Rightarrow> AppendAuditParams \<Rightarrow> (nat \<Rightarrow> 'a op) \<Rightarrow> database
    \<Rightarrow> (store_error + 'a) \<times> database" where
  "withAuditLoop J w n ev fn d =
     (case withAuditOnce J w n ev fn d of
        (Inr a, d') \<Rightarrow> (Inr a, d')
      | (Inl e, d') \<Rightarrow>
          if n < withAuditMaxRetries \<and> isSerializationFailure e
          then if w_cancelled w n then (Inl CtxErr, d')
               else withAuditLoop J w (Suc n) ev fn (w_others w (Suc n) d')
          else (Inl e, d'))"
  by pat_completeness auto
termination by (relation "measure (\<lambda>(J, w, n, ev, fn, d). withAuditMaxRetries - n)") auto

declare withAuditLoop.simps [simp del]

definition WithAudit :: "json_in \<Rightarrow> tx_world \<Rightarrow> AppendAuditParams \<Rightarrow> (nat \<Rightarrow> 'a op) \<Rightarrow> database
    \<Rightarrow> (store_error + 'a) \<times> database" where
  "WithAudit J w ev fn d = withAuditLoop J w 0 ev fn d"

subsection \<open>Operations of the store\<close>

definition CreateProject :: "time \<Rightarrow> uuid \<Rightarrow> string \<Rightarrow> string \<Rightarrow> string \<Rightarrow> Project op" where
  "CreateProject now i slug displayName strategy d =
     first projectFromRow (wrap_sql ''create project'' (q_CreateProject now i slug displayName strategy d))"

definition GetProjectBySlug :: "string \<Rightarrow> database \<Rightarrow> store_error + Project" where
  "GetProjectBySlug slug d = bindE (wrap_get ''get project'' (q_GetProjectBySlug slug d)) (\<lambda>r. Inr (projectFromRow r))"

definition ListProjects :: "database \<Rightarrow> store_error + Project list" where
  "ListProjects d = Inr (map projectFromRow (q_ListProjects d))"

definition CreateFlag :: "json_in \<Rightarrow> time \<Rightarrow> uuid \<Rightarrow> CreateFlagParams \<Rightarrow> Flag op" where
  "CreateFlag J now i p d =
     first flagFromRow (wrap_sql ''create flag'' (q_CreateFlag J now i (cf_ProjectID p) (cf_Key p) (cf_Name p)
       (cf_Description p) (cf_ValueType p) (cf_DefaultValue p) d))"

definition GetFlagByKey :: "uuid \<Rightarrow> string \<Rightarrow> database \<Rightarrow> store_error + Flag" where
  "GetFlagByKey pid key d = bindE (wrap_get ''get flag'' (q_GetFlagByKey pid key d)) (\<lambda>r. Inr (flagFromRow r))"

definition ListFlagsByProject :: "uuid \<Rightarrow> database \<Rightarrow> store_error + Flag list" where
  "ListFlagsByProject pid d = Inr (map flagFromRow (q_ListFlagsByProject pid d))"

definition GetLatestFlagVersion :: "uuid \<Rightarrow> database \<Rightarrow> store_error + FlagVersion" where
  "GetLatestFlagVersion fid d =
     bindE (wrap_get ''latest version'' (q_GetLatestFlagVersion fid d)) (\<lambda>r. Inr (flagVersionFromRow r))"

definition ListFlagVersions :: "uuid \<Rightarrow> database \<Rightarrow> store_error + FlagVersion list" where
  "ListFlagVersions fid d = Inr (map flagVersionFromRow (q_ListFlagVersions fid d))"

definition CreateEnvironment :: "time \<Rightarrow> uuid \<Rightarrow> uuid \<Rightarrow> string \<Rightarrow> string \<Rightarrow> Environment op" where
  "CreateEnvironment now i pid slug name d =
     first environmentFromRow (wrap_sql ''create environment'' (q_CreateEnvironment now i pid slug name d))"

definition GetEnvironmentBySlug :: "uuid \<Rightarrow> string \<Rightarrow> database \<Rightarrow> store_error + Environment" where
  "GetEnvironmentBySlug pid slug d =
     bindE (wrap_get ''get environment'' (q_GetEnvironmentBySlug pid slug d)) (\<lambda>r. Inr (environmentFromRow r))"

definition ListEnvironmentsByProject :: "uuid \<Rightarrow> database \<Rightarrow> store_error + Environment list" where
  "ListEnvironmentsByProject pid d = Inr (map environmentFromRow (q_ListEnvironmentsByProject pid d))"

definition CreateSegment :: "json_in \<Rightarrow> time \<Rightarrow> uuid \<Rightarrow> CreateSegmentParams \<Rightarrow> Segment op" where
  "CreateSegment J now i p d =
     first segmentFromRow (wrap_sql ''create segment'' (q_CreateSegment J now i (cs_ProjectID p) (cs_Key p)
       (cs_Name p) (cs_Description p) (cs_Predicate p) d))"

definition GetSegmentByKey :: "uuid \<Rightarrow> string \<Rightarrow> database \<Rightarrow> store_error + Segment" where
  "GetSegmentByKey pid key d =
     bindE (wrap_get ''get segment'' (q_GetSegmentByKey pid key d)) (\<lambda>r. Inr (segmentFromRow r))"

definition ListSegmentsByProject :: "uuid \<Rightarrow> database \<Rightarrow> store_error + Segment list" where
  "ListSegmentsByProject pid d = Inr (map segmentFromRow (q_ListSegmentsByProject pid d))"

text \<open>The method of the store, unlike that of the transaction, maps \<open>ErrNoRows\<close> to
  \<open>ErrNotFound\<close>.\<close>

definition UpdateSegment :: "json_in \<Rightarrow> time \<Rightarrow> UpdateSegmentParams \<Rightarrow> Segment op" where
  "UpdateSegment J now p d =
     first segmentFromRow (wrap_get ''update segment'' (q_UpdateSegment J (us_ProjectID p) (us_Key p) (us_Name p)
       (us_Description p) (us_Predicate p) now d))"

text \<open>A serializable transaction of its own around one operation, without retry.\<close>

definition in_own_tx :: "sql_error option \<Rightarrow> sql_error option \<Rightarrow> 'a op \<Rightarrow> 'a op" where
  "in_own_tx begin_err commit_err f d =
     (case begin_err of
        Some e \<Rightarrow> Inl (StoreSql ''begin tx'' e)
      | None \<Rightarrow> bindE (f d) (\<lambda>r. case commit_err of Some e \<Rightarrow> Inl (StoreSql ''commit'' e) | None \<Rightarrow> Inr r))"

definition PublishFlagVersionStandalone :: "sql_error option \<Rightarrow> sql_error option \<Rightarrow> json_in \<Rightarrow> time \<Rightarrow> uuid
    \<Rightarrow> PublishFlagVersionParams \<Rightarrow> FlagVersion op" where
  "PublishFlagVersionStandalone be ce J now i p d = in_own_tx be ce (publishFlagVersionTx J now i p) d"

definition CompileSnapshot :: "sql_error option \<Rightarrow> sql_error option \<Rightarrow> json_in \<Rightarrow> time \<Rightarrow> uuid
    \<Rightarrow> CompileSnapshotParams \<Rightarrow> Snapshot op" where
  "CompileSnapshot be ce J now i p d =
     in_own_tx be ce (\<lambda>d.
       bindE (wrap_sql ''next snapshot version'' (q_NextSnapshotVersion (sp_ProjectID p) d)) (\<lambda>next.
       first snapshotFromRow (wrap_sql ''create snapshot'' (q_CreateSnapshot J now i (sp_ProjectID p)
         (sp_EnvironmentID p) next (sp_Compiled p) d)))) d"

definition GetSnapshotByID :: "uuid \<Rightarrow> uuid \<Rightarrow> database \<Rightarrow> store_error + Snapshot" where
  "GetSnapshotByID pid i d =
     bindE (wrap_get ''get snapshot'' (q_GetSnapshotByID pid i d)) (\<lambda>r. Inr (snapshotFromRow r))"

definition GetLatestSnapshot :: "uuid \<Rightarrow> database \<Rightarrow> store_error + Snapshot" where
  "GetLatestSnapshot pid d =
     bindE (wrap_get ''latest snapshot'' (q_GetLatestSnapshot pid d)) (\<lambda>r. Inr (snapshotFromRow r))"

definition ListSnapshotsByProject :: "uuid \<Rightarrow> int \<Rightarrow> database \<Rightarrow> store_error + Snapshot list" where
  "ListSnapshotsByProject pid n d =
     bindE (wrap_sql ''list snapshots'' (q_ListSnapshotsByProject pid n d)) (\<lambda>rs. Inr (map snapshotFromRow rs))"

definition ListLatestFlagVersions :: "uuid \<Rightarrow> database \<Rightarrow> store_error + LatestFlagVersion list" where
  "ListLatestFlagVersions pid d = Inr (map latestFlagVersionFromRow (q_ListLatestFlagVersions pid d))"

definition TruncateForTest :: "database \<Rightarrow> database" where
  "TruncateForTest d = empty_db"

subsection \<open>Choosing the backend\<close>

datatype Backend = BackendPostgres | BackendSQLite

definition parseBackend :: "string \<Rightarrow> string + Backend \<times> string" where
  "parseBackend dsn =
     (if dsn = [] then Inl ''store: empty database URL''
      else if has_prefix dsn ''postgres://'' \<or> has_prefix dsn ''postgresql://'' then Inr (BackendPostgres, dsn)
      else if has_prefix dsn ''sqlite://'' then Inr (BackendSQLite, ''file:'' @ drop 9 dsn)
      else if has_prefix dsn ''file:'' then Inr (BackendSQLite, dsn)
      else Inl (''store: unsupported DSN scheme in '' @ fmt_q dsn @ '' (expected postgres:// or sqlite://)''))"

end
