(* ===== verification/Api.thy ===== *)
theory Api
  imports Store Trace
begin

text \<open>
  The wire types of the REST surface (\<open>internal/gen/openapi\<close>), the conversions
  from domain types (\<open>internal/server/handlers/convert.go\<close>) and the decoding of
  request bodies (\<open>decodeJSON\<close>). An optional member, a pointer in Go, is an
  option; a member of type \<open>interface{}\<close> holds an \<open>any\<close>.
\<close>

subsection \<open>Responses\<close>

record ApiProject =
  AProject_Id :: uuid
  AProject_Slug :: string
  AProject_DisplayName :: string
  AProject_ConfigStrategy :: string
  AProject_CreatedAt :: time
  AProject_UpdatedAt :: time

record ApiFlag =
  AFlag_Id :: uuid
  AFlag_ProjectId :: uuid
  AFlag_Key :: string
  AFlag_Name :: string
  AFlag_Description :: string
  AFlag_ValueType :: string
  AFlag_DefaultValue :: any
  AFlag_CreatedAt :: time
  AFlag_UpdatedAt :: time

record ApiFlagVersion =
  AFV_Id :: uuid
  AFV_FlagId :: uuid
  AFV_Version :: int
  AFV_Strategy :: string
  AFV_Source :: any
  AFV_Compiled :: any
  AFV_SourceText :: "string option"
  AFV_PublishedAt :: time

record ApiEnvironment =
  AEnv_Id :: uuid
  AEnv_ProjectId :: uuid
  AEnv_Slug :: string
  AEnv_Name :: string
  AEnv_CreatedAt :: time

record ApiSegment =
  ASeg_Id :: uuid
  ASeg_ProjectId :: uuid
  ASeg_Key :: string
  ASeg_Name :: string
  ASeg_Description :: string
  ASeg_Predicate :: any
  ASeg_CreatedAt :: time
  ASeg_UpdatedAt :: time

record ApiSnapshot =
  ASnap_Id :: uuid
  ASnap_ProjectId :: uuid
  ASnap_EnvironmentId :: "uuid option"
  ASnap_Version :: int
  ASnap_Compiled :: any
  ASnap_CreatedAt :: time

record ApiAuditEvent =
  AAudit_Id :: uuid
  AAudit_ProjectId :: "uuid option"
  AAudit_FlagId :: "uuid option"
  AAudit_Action :: string
  AAudit_Actor :: "string option"
  AAudit_Payload :: any
  AAudit_CreatedAt :: time

record ApiDecision =
  ADec_Value :: any
  ADec_Reason :: string
  ADec_RuleId :: "string option"
  ADec_Version :: int

datatype ApiTraceNode = ApiTraceNode
  (ATN_Kind: string)
  (ATN_Result: bool)
  (ATN_Attr: "string option")
  (ATN_AttrValue: "any option")
  (ATN_Expected: "any option")
  (ATN_ExpectedValues: "any list option")
  (ATN_Pattern: "string option")
  (ATN_Salt: "string option")
  (ATN_Percent: "int option")
  (ATN_Bucket: "int option")
  (ATN_Source: "string option")
  (ATN_Children: "ApiTraceNode list option")

record ApiTraceRule =
  ATR_RuleId :: string
  ATR_Matched :: bool
  ATR_Predicate :: ApiTraceNode
  ATR_Error :: "string option"

record ApiTrace =
  AT_EvaluatedRules :: "ApiTraceRule list"
  AT_DefaultUsed :: bool
  AT_MatchedRuleId :: "string option"

subsection \<open>Conversions\<close>

text \<open>The conversion \<open>int32(i)\<close>: the low 32 bits, as a signed number.\<close>

definition to_int32 :: "int \<Rightarrow> int" where
  "to_int32 i = (i + 2 ^ 31) mod 2 ^ 32 - 2 ^ 31"

lemma to_int32_id: "- (2 ^ 31) \<le> i \<Longrightarrow> i < 2 ^ 31 \<Longrightarrow> to_int32 i = i"
  by (simp add: to_int32_def)

lemma to_int32_range: "- (2 ^ 31) \<le> to_int32 i \<and> to_int32 i < 2 ^ 31"
  unfolding to_int32_def using pos_mod_bound [of "2 ^ 32" "i + 2 ^ 31"] pos_mod_sign [of "2 ^ 32" "i + 2 ^ 31"]
  by simp

text \<open>\<open>if s != "" { out.F = &s }\<close>, and the same for a list, an int and a value.\<close>

definition unless_empty :: "'a list \<Rightarrow> 'a list option" where
  "unless_empty s = (if s = [] then None else Some s)"

definition unless_zero :: "int \<Rightarrow> int option" where
  "unless_zero i = (if i = 0 then None else Some (to_int32 i))"

definition unless_nil :: "any \<Rightarrow> any option" where
  "unless_nil v = (if v = ANil then None else Some v)"

definition rawToAny :: "raw \<Rightarrow> any" where
  "rawToAny r = (if raw_empty r then ANil else case unmarshal_any r of Inl _ \<Rightarrow> AStr (raw_text r) | Inr v \<Rightarrow> v)"

definition projectToAPI :: "Project \<Rightarrow> ApiProject" where
  "projectToAPI p = \<lparr>AProject_Id = Project_ID p, AProject_Slug = Project_Slug p,
     AProject_DisplayName = Project_DisplayName p, AProject_ConfigStrategy = Project_ConfigStrategy p,
     AProject_CreatedAt = Project_CreatedAt p, AProject_UpdatedAt = Project_UpdatedAt p\<rparr>"

definition flagToAPI :: "Flag \<Rightarrow> ApiFlag" where
  "flagToAPI f = \<lparr>AFlag_Id = Flag_ID f, AFlag_ProjectId = Flag_ProjectID f, AFlag_Key = Flag_Key f,
     AFlag_Name = Flag_Name f, AFlag_Description = Flag_Description f, AFlag_ValueType = Flag_ValueType f,
     AFlag_DefaultValue = rawToAny (Flag_DefaultValue f), AFlag_CreatedAt = Flag_CreatedAt f,
     AFlag_UpdatedAt = Flag_UpdatedAt f\<rparr>"

definition flagVersionToAPI :: "FlagVersion \<Rightarrow> ApiFlagVersion" where
  "flagVersionToAPI v = \<lparr>AFV_Id = FV_ID v, AFV_FlagId = FV_FlagID v, AFV_Version = to_int32 (FV_Version v),
     AFV_Strategy = FV_Strategy v, AFV_Source = rawToAny (FV_Source v), AFV_Compiled = rawToAny (FV_Compiled v),
     AFV_SourceText = unless_empty (FV_SourceText v), AFV_PublishedAt = FV_PublishedAt v\<rparr>"

definition environmentToAPI :: "Environment \<Rightarrow> ApiEnvironment" where
  "environmentToAPI e = \<lparr>AEnv_Id = Env_ID e, AEnv_ProjectId = Env_ProjectID e, AEnv_Slug = Env_Slug e,
     AEnv_Name = Env_Name e, AEnv_CreatedAt = Env_CreatedAt e\<rparr>"

definition segmentToAPI :: "Segment \<Rightarrow> ApiSegment" where
  "segmentToAPI s = \<lparr>ASeg_Id = Segment_ID s, ASeg_ProjectId = Segment_ProjectID s, ASeg_Key = Segment_Key s,
     ASeg_Name = Segment_Name s, ASeg_Description = Segment_Description s,
     ASeg_Predicate = rawToAny (Segment_Predicate s), ASeg_CreatedAt = Segment_CreatedAt s,
     ASeg_UpdatedAt = Segment_UpdatedAt s\<rparr>"

definition snapshotToAPI :: "Snapshot \<Rightarrow> ApiSnapshot" where
  "snapshotToAPI s = \<lparr>ASnap_Id = Snapshot_ID s, ASnap_ProjectId = Snapshot_ProjectID s,
     ASnap_EnvironmentId = Snapshot_EnvironmentID s, ASnap_Version = to_int32 (Snapshot_Version s),
     ASnap_Compiled = rawToAny (Snapshot_Compiled s), ASnap_CreatedAt = Snapshot_CreatedAt s\<rparr>"

definition auditEventToAPI :: "AuditEvent \<Rightarrow> ApiAuditEvent" where
  "auditEventToAPI a = \<lparr>AAudit_Id = Audit_ID a, AAudit_ProjectId = Audit_ProjectID a,
     AAudit_FlagId = Audit_FlagID a, AAudit_Action = Audit_Action a, AAudit_Actor = unless_empty (Audit_Actor a),
     AAudit_Payload = rawToAny (Audit_Payload a), AAudit_CreatedAt = Audit_CreatedAt a\<rparr>"

definition decisionToAPI :: "Decision \<Rightarrow> ApiDecision" where
  "decisionToAPI d = \<lparr>ADec_Value = DValue d, ADec_Reason = reason_text (DReason d),
     ADec_RuleId = unless_empty (DRuleID d), ADec_Version = to_int32 (DVersion d)\<rparr>"

fun traceNodeToAPI :: "TraceNode \<Rightarrow> ApiTraceNode" where
  "traceNodeToAPI (TraceNode kind attr attr_value expected expected_values pattern salt percent bucket source
     result children) =
     ApiTraceNode kind result (unless_empty attr) (unless_nil attr_value) (unless_nil expected)
       (unless_empty expected_values) (unless_empty pattern) (unless_empty salt) (unless_zero percent)
       (unless_zero bucket) (unless_empty source) (unless_empty (map traceNodeToAPI children))"

definition traceRuleToAPI :: "TraceRule \<Rightarrow> ApiTraceRule" where
  "traceRuleToAPI r = \<lparr>ATR_RuleId = TRRuleID r, ATR_Matched = TRMatched r,
     ATR_Predicate = traceNodeToAPI (TRPredicate r), ATR_Error = unless_empty (TRError r)\<rparr>"

definition traceToAPI :: "Trace \<Rightarrow> ApiTrace" where
  "traceToAPI t = \<lparr>AT_EvaluatedRules = map traceRuleToAPI (EvaluatedRules t), AT_DefaultUsed = DefaultUsed t,
     AT_MatchedRuleId = unless_empty (MatchedRuleID t)\<rparr>"

subsection \<open>Requests\<close>

record CreateProjectRequest =
  CPR_Slug :: string
  CPR_DisplayName :: string
  CPR_ConfigStrategy :: string

record CreateFlagRequest =
  CFR_Key :: string
  CFR_Name :: string
  CFR_Description :: "string option"
  CFR_ValueType :: string
  CFR_DefaultValue :: any

record CreateEnvironmentRequest =
  CER_Slug :: string
  CER_Name :: string

record CreateSegmentRequest =
  CSR_Key :: string
  CSR_Name :: string
  CSR_Description :: "string option"
  CSR_Predicate :: any

record UpdateSegmentRequest =
  USR_Name :: string
  USR_Description :: "string option"
  USR_Predicate :: any

record PublishFlagVersionRequest =
  PVR_Strategy :: string
  PVR_Source :: any
  PVR_SourceText :: "string option"

text \<open>
  \<open>decodeJSON\<close>: the first value of the body, with unknown members refused. The
  body of a request is given by that value; \<open>RawNil\<close> is an empty body.
\<close>

definition decodeJSON :: "string list \<Rightarrow> ('s \<Rightarrow> string \<Rightarrow> json \<Rightarrow> string + 's) \<Rightarrow> 's \<Rightarrow> raw \<Rightarrow> string + 's" where
  "decodeJSON fs set_field zero body = (case body of
     RawNil \<Rightarrow> Inl ''EOF''
   | RawBytes _ \<Rightarrow> Inl ''invalid character''
   | RawDoc JNull \<Rightarrow> Inr zero
   | RawDoc (JObj kvs) \<Rightarrow> foldE (\<lambda>s (k, j). case field_name fs k of
        None \<Rightarrow> Inl (''json: unknown field '' @ fmt_q k)
      | Some f \<Rightarrow> set_field s f j) kvs zero
   | RawDoc _ \<Rightarrow> Inl ''json: cannot unmarshal into Go value'')"

definition dec_string_ptr :: "json \<Rightarrow> string + string option" where
  "dec_string_ptr j = (if j = JNull then Inr None else bindE (dec_string [] j) (\<lambda>s. Inr (Some s)))"

definition decode_CreateProjectRequest :: "raw \<Rightarrow> string + CreateProjectRequest" where
  "decode_CreateProjectRequest = decodeJSON [''config_strategy'', ''display_name'', ''slug'']
     (\<lambda>s f j.
        if f = ''config_strategy'' then bindE (dec_string (CPR_ConfigStrategy s) j) (\<lambda>x. Inr (s\<lparr>CPR_ConfigStrategy := x\<rparr>))
        else if f = ''display_name'' then bindE (dec_string (CPR_DisplayName s) j) (\<lambda>x. Inr (s\<lparr>CPR_DisplayName := x\<rparr>))
        else bindE (dec_string (CPR_Slug s) j) (\<lambda>x. Inr (s\<lparr>CPR_Slug := x\<rparr>)))
     \<lparr>CPR_Slug = [], CPR_DisplayName = [], CPR_ConfigStrategy = []\<rparr>"

definition decode_CreateFlagRequest :: "raw \<Rightarrow> string + CreateFlagRequest" where
  "decode_CreateFlagRequest = decodeJSON [''default_value'', ''description'', ''key'', ''name'', ''value_type'']
     (\<lambda>s f j.
        if f = ''default_value'' then bindE (any_of_json j) (\<lambda>x. Inr (s\<lparr>CFR_DefaultValue := x\<rparr>))
        else if f = ''description'' then bindE (dec_string_ptr j) (\<lambda>x. Inr (s\<lparr>CFR_Description := x\<rparr>))
        else if f = ''key'' then bindE (dec_string (CFR_Key s) j) (\<lambda>x. Inr (s\<lparr>CFR_Key := x\<rparr>))
        else if f = ''name'' then bindE (dec_string (CFR_Name s) j) (\<lambda>x. Inr (s\<lparr>CFR_Name := x\<rparr>))
        else bindE (dec_string (CFR_ValueType s) j) (\<lambda>x. Inr (s\<lparr>CFR_ValueType := x\<rparr>)))
     \<lparr>CFR_Key = [], CFR_Name = [], CFR_Description = None, CFR_ValueType = [], CFR_DefaultValue = ANil\<rparr>"

definition decode_CreateEnvironmentRequest :: "raw \<Rightarrow> string + CreateEnvironmentRequest" where
  "decode_CreateEnvironmentRequest = decodeJSON [''name'', ''slug'']
     (\<lambda>s f j.
        if f = ''name'' then bindE (dec_string (CER_Name s) j) (\<lambda>x. Inr (s\<lparr>CER_Name := x\<rparr>))
        else bindE (dec_string (CER_Slug s) j) (\<lambda>x. Inr (s\<lparr>CER_Slug := x\<rparr>)))
     \<lparr>CER_Slug = [], CER_Name = []\<rparr>"

definition decode_CreateSegmentRequest :: "raw \<Rightarrow> string + CreateSegmentRequest" where
  "decode_CreateSegmentRequest = decodeJSON [''description'', ''key'', ''name'', ''predicate'']
     (\<lambda>s f j.
        if f = ''description'' then bindE (dec_string_ptr j) (\<lambda>x. Inr (s\<lparr>CSR_Description := x\<rparr>))
        else if f = ''key'' then bindE (dec_string (CSR_Key s) j) (\<lambda>x. Inr (s\<lparr>CSR_Key := x\<rparr>))
        else if f = ''name'' then bindE (dec_string (CSR_Name s) j) (\<lambda>x. Inr (s\<lparr>CSR_Name := x\<rparr>))
        else bindE (any_of_json j) (\<lambda>x. Inr (s\<lparr>CSR_Predicate := x\<rparr>)))
     \<lparr>CSR_Key = [], CSR_Name = [], CSR_Description = None, CSR_Predicate = ANil\<rparr>"

definition decode_UpdateSegmentRequest :: "raw \<Rightarrow> string + UpdateSegmentRequest" where
  "decode_UpdateSegmentRequest = decodeJSON [''description'', ''name'', ''predicate'']
     (\<lambda>s f j.
        if f = ''description'' then bindE (dec_string_ptr j) (\<lambda>x. Inr (s\<lparr>USR_Description := x\<rparr>))
        else if f = ''name'' then bindE (dec_string (USR_Name s) j) (\<lambda>x. Inr (s\<lparr>USR_Name := x\<rparr>))
        else bindE (any_of_json j) (\<lambda>x. Inr (s\<lparr>USR_Predicate := x\<rparr>)))
     \<lparr>USR_Name = [], USR_Description = None, USR_Predicate = ANil\<rparr>"

definition decode_PublishFlagVersionRequest :: "raw \<Rightarrow> string + PublishFlagVersionRequest" where
  "decode_PublishFlagVersionRequest = decodeJSON [''source'', ''source_text'', ''strategy'']
     (\<lambda>s f j.
        if f = ''source'' then bindE (any_of_json j) (\<lambda>x. Inr (s\<lparr>PVR_Source := x\<rparr>))
        else if f = ''source_text'' then bindE (dec_string_ptr j) (\<lambda>x. Inr (s\<lparr>PVR_SourceText := x\<rparr>))
        else bindE (dec_string (PVR_Strategy s) j) (\<lambda>x. Inr (s\<lparr>PVR_Strategy := x\<rparr>)))
     \<lparr>PVR_Strategy = [], PVR_Source = ANil, PVR_SourceText = None\<rparr>"

text \<open>\<open>CompileSnapshotRequest\<close> has the environment slug only.\<close>

definition decode_CompileSnapshotRequest :: "raw \<Rightarrow> string + string option" where
  "decode_CompileSnapshotRequest = decodeJSON [''environment_slug''] (\<lambda>_ _ j. dec_string_ptr j) None"

text \<open>\<open>EvaluationRequest\<close> has the context only, a map: a repeated member adds to it.\<close>

definition dec_context :: "ctx \<Rightarrow> json \<Rightarrow> string + ctx" where
  "dec_context old j = (case j of
     JNull \<Rightarrow> Inr []
   | JObj kvs \<Rightarrow> bindE (mapE (\<lambda>(k, v). bindE (any_of_json v) (\<lambda>x. Inr (k, x))) kvs)
       (\<lambda>m. Inr (fold (\<lambda>(k, v). map_put k v) m old))
   | _ \<Rightarrow> Inl ''json: cannot unmarshal into Go value of type map[string]interface {}'')"

definition decode_EvaluationRequest :: "raw \<Rightarrow> string + ctx" where
  "decode_EvaluationRequest = decodeJSON [''context''] (\<lambda>old _ j. dec_context old j) []"

definition derefString :: "string option \<Rightarrow> string" where
  "derefString s = (case s of None \<Rightarrow> [] | Some t \<Rightarrow> t)"

end
