(* ===== verification/Go_Time.thy ===== *)
theory Go_Time
  imports Go_Json
begin

text \<open>
  Points in time and their text: the part of Go's \<open>time\<close> package that the audit
  cursor and the SQLite backend use. A time counts the nanoseconds from the zero time,
  midnight of 1 January of the year 1, UTC. The calendar is the proleptic Gregorian one.
\<close>

subsection \<open>The calendar\<close>

definition is_leap :: "int \<Rightarrow> bool" where
  "is_leap y \<longleftrightarrow> y mod 4 = 0 \<and> (y mod 100 \<noteq> 0 \<or> y mod 400 = 0)"

definition month_lengths :: "bool \<Rightarrow> int list" where
  "month_lengths leap = [31, if leap then 29 else 28, 31, 30, 31, 30, 31, 31, 30, 31, 30, 31]"

definition days_before_month :: "bool \<Rightarrow> int \<Rightarrow> int" where
  "days_before_month leap m = sum_list (take (nat (m - 1)) (month_lengths leap))"

definition days_before_year :: "int \<Rightarrow> int" where
  "days_before_year y = 365 * (y - 1) + (y - 1) div 4 - (y - 1) div 100 + (y - 1) div 400"

text \<open>The number of the day (1 January of the year 1 is day 0), and the date of a day.\<close>

definition day_of_date :: "int \<Rightarrow> int \<Rightarrow> int \<Rightarrow> int" where
  "day_of_date y m d = days_before_year y + days_before_month (is_leap y) m + (d - 1)"

fun month_day :: "int \<Rightarrow> int list \<Rightarrow> int \<Rightarrow> int \<times> int" where
  "month_day m [] k = (m, k + 1)"
| "month_day m (l # ls) k = (if k < l then (m, k + 1) else month_day (m + 1) ls (k - l))"

definition year_day :: "int \<Rightarrow> int \<times> int" where
  "year_day n =
     (let n400 = n div 146097; r400 = n mod 146097;
          n100 = min 3 (r400 div 36524); r100 = r400 - 36524 * n100;
          n4 = r100 div 1461; r4 = r100 mod 1461;
          n1 = min 3 (r4 div 365)
      in (400 * n400 + 100 * n100 + 4 * n4 + n1 + 1, r4 - 365 * n1))"

definition date_of_day :: "int \<Rightarrow> int \<times> int \<times> int" where
  "date_of_day n = (case year_day n of (y, k) \<Rightarrow>
     (case month_day 1 (month_lengths (is_leap y)) k of (m, d) \<Rightarrow> (y, m, d)))"

text \<open>A quotient cut at 3: of four periods only the last may be one day longer.\<close>

lemma min_div:
  fixes r q :: int
  assumes "0 < q" "0 \<le> r" "r \<le> 4 * q"
  shows "0 \<le> min 3 (r div q)" "min 3 (r div q) \<le> 3" "0 \<le> r - q * min 3 (r div q)"
    "r - q * min 3 (r div q) < q \<or> (min 3 (r div q) = 3 \<and> r - q * min 3 (r div q) = q)"
proof -
  have "0 \<le> min 3 (r div q) \<and> min 3 (r div q) \<le> 3 \<and> 0 \<le> r - q * min 3 (r div q) \<and>
    (r - q * min 3 (r div q) < q \<or> (min 3 (r div q) = 3 \<and> r - q * min 3 (r div q) = q))"
  proof (cases "r div q \<le> 3")
    case True
    then have "min 3 (r div q) = r div q" by simp
    moreover have "r - q * (r div q) = r mod q" by (simp add: minus_mult_div_eq_mod)
    ultimately show ?thesis using assms True by (simp add: pos_imp_zdiv_nonneg_iff)
  next
    case False
    then have "4 * q \<le> r" using assms(1) mult_div_mod_eq [of q r] pos_mod_sign [of q r]
        mult_left_mono [of 4 "r div q" q] by linarith
    then show ?thesis using assms False by (simp add: min_def)
  qed
  then show "0 \<le> min 3 (r div q)" "min 3 (r div q) \<le> 3" "0 \<le> r - q * min 3 (r div q)"
    "r - q * min 3 (r div q) < q \<or> (min 3 (r div q) = 3 \<and> r - q * min 3 (r div q) = q)" by blast+
qed

lemma year_day_parts:
  assumes "year_day n = (y, k)"
  shows "\<exists>a b c e. y = 400 * a + 100 * b + 4 * c + e + 1 \<and> 0 \<le> b \<and> b \<le> 3 \<and> 0 \<le> c \<and> c \<le> 24 \<and> 0 \<le> e \<and> e \<le> 3 \<and>
    n = 146097 * a + 36524 * b + 1461 * c + 365 * e + k \<and> 0 \<le> k \<and>
    (k < 365 \<or> (k = 365 \<and> e = 3 \<and> (c < 24 \<or> b = 3)))"
proof -
  define a where "a = n div 146097"
  define r where "r = n mod 146097"
  have r: "n = 146097 * a + r" "0 \<le> r" "r < 146097" by (simp_all add: a_def r_def)
  define b where "b = min 3 (r div 36524)"
  define s where "s = r - 36524 * b"
  have "r \<le> 4 * 36524" using r(3) by simp
  note mb = min_div [OF zero_less_numeral r(2) this, folded b_def, folded s_def]
  note b = mb(1,2)
  have "r = 36524 * b + s" by (simp add: s_def)
  note s = this mb(3,4)
  define c where "c = s div 1461"
  define u where "u = s mod 1461"
  have u: "s = 1461 * c + u" "0 \<le> u" "u < 1461" by (simp_all add: c_def u_def)
  define e where "e = min 3 (u div 365)"
  define k' where "k' = u - 365 * e"
  have "u \<le> 4 * 365" using u(3) by simp
  note me = min_div [OF zero_less_numeral u(2) this, folded e_def, folded k'_def]
  note e = me(1,2)
  have "u = 365 * e + k'" by (simp add: k'_def)
  note k' = this me(3,4)
  have y: "y = 400 * a + 100 * b + 4 * c + e + 1" and k: "k = k'"
    using assms unfolding year_day_def Let_def prod.inject
    by (simp_all only: a_def b_def c_def e_def k'_def u_def s_def r_def)
  have c: "0 \<le> c" "c \<le> 24" using s u by linarith+
  have "k' = 365 \<Longrightarrow> c < 24 \<or> b = 3" using s(3) u k' by linarith
  then have last: "k < 365 \<or> (k = 365 \<and> e = 3 \<and> (c < 24 \<or> b = 3))" using k'(3) k by blast
  have n: "n = 146097 * a + 36524 * b + 1461 * c + 365 * e + k" using r(1) s(1) u(1) k'(1) k by linarith
  have "0 \<le> k" using k k'(2) by simp
  then show ?thesis using y b c e n last
    by (intro exI [of _ a] exI [of _ b] exI [of _ c] exI [of _ e] conjI) assumption+
qed

lemma div_parts:
  fixes a b c e :: int
  assumes "0 \<le> b" "b \<le> 3" "0 \<le> c" "c \<le> 24" "0 \<le> e" "e \<le> 3"
  shows "(400 * a + 100 * b + 4 * c + e) div 4 = 100 * a + 25 * b + c"
    and "(400 * a + 100 * b + 4 * c + e) div 100 = 4 * a + b"
    and "(400 * a + 100 * b + 4 * c + e) div 400 = a"
proof -
  show "(400 * a + 100 * b + 4 * c + e) div 4 = 100 * a + 25 * b + c"
    by (rule int_div_pos_eq [of _ _ _ e]) (use assms in simp_all)
  show "(400 * a + 100 * b + 4 * c + e) div 100 = 4 * a + b"
    by (rule int_div_pos_eq [of _ _ _ "4 * c + e"]) (use assms in simp_all)
  show "(400 * a + 100 * b + 4 * c + e) div 400 = a"
    by (rule int_div_pos_eq [of _ _ _ "100 * b + 4 * c + e"]) (use assms in simp_all)
qed

lemma mod_last:
  fixes q k x :: int
  assumes "1 \<le> x" "x \<le> q"
  shows "(q * k + x) mod q = 0 \<longleftrightarrow> x = q"
  using assms by (cases "x = q") simp_all

lemma leap_parts:
  fixes a b c e :: int
  assumes "0 \<le> b" "b \<le> 3" "0 \<le> c" "c \<le> 24" "0 \<le> e" "e \<le> 3"
  shows "is_leap (400 * a + 100 * b + 4 * c + e + 1) \<longleftrightarrow> e = 3 \<and> (c < 24 \<or> b = 3)"
proof -
  have "(400 * a + 100 * b + 4 * c + e + 1) mod 4 = 0 \<longleftrightarrow> e + 1 = 4"
    using mod_last [of "e + 1" 4 "100 * a + 25 * b + c"] assms by (simp add: algebra_simps)
  moreover have "(400 * a + 100 * b + 4 * c + e + 1) mod 100 = 0 \<longleftrightarrow> 4 * c + e + 1 = 100"
    using mod_last [of "4 * c + e + 1" 100 "4 * a + b"] assms by (simp add: algebra_simps)
  moreover have "(400 * a + 100 * b + 4 * c + e + 1) mod 400 = 0 \<longleftrightarrow> 100 * b + 4 * c + e + 1 = 400"
    using mod_last [of "100 * b + 4 * c + e + 1" 400 a] assms by (simp add: algebra_simps)
  ultimately show ?thesis unfolding is_leap_def using assms by auto
qed

lemma month_day_sum:
  "month_day m0 ls k = (m, d) \<Longrightarrow> 0 \<le> k \<Longrightarrow> k < sum_list ls \<Longrightarrow>
     m0 \<le> m \<and> m < m0 + int (length ls) \<and> 1 \<le> d \<and> d \<le> ls ! nat (m - m0) \<and> sum_list (take (nat (m - m0)) ls) + (d - 1) = k"
proof (induction m0 ls k rule: month_day.induct)
  case (2 m0 l ls k)
  show ?case
  proof (cases "k < l")
    case True
    then show ?thesis using 2 by auto
  next
    case False
    then have ih: "m0 + 1 \<le> m" "m < m0 + 1 + int (length ls)" "1 \<le> d" "d \<le> ls ! nat (m - (m0 + 1))"
        "sum_list (take (nat (m - (m0 + 1))) ls) + (d - 1) = k - l"
      using 2 by auto
    have "nat (m - m0) = Suc (nat (m - (m0 + 1)))" using ih(1) by linarith
    then show ?thesis using ih by auto
  qed
qed auto

text \<open>The day of the date of a day, and the ranges of the date.\<close>

lemma date_of_day:
  assumes "date_of_day n = (y, m, d)"
  shows "day_of_date y m d = n" "1 \<le> m" "m \<le> 12" "1 \<le> d" "d \<le> month_lengths (is_leap y) ! nat (m - 1)"
proof -
  obtain k where k: "year_day n = (y, k)" "month_day 1 (month_lengths (is_leap y)) k = (m, d)"
    using assms by (auto simp: date_of_day_def split: prod.splits)
  obtain a b c e where p: "y = 400 * a + 100 * b + 4 * c + e + 1" "0 \<le> b" "b \<le> 3" "0 \<le> c" "c \<le> 24" "0 \<le> e" "e \<le> 3"
      "n = 146097 * a + 36524 * b + 1461 * c + 365 * e + k" "0 \<le> k" "k < 365 \<or> (k = 365 \<and> e = 3 \<and> (c < 24 \<or> b = 3))"
    using year_day_parts [OF k(1)] by blast
  have leap: "is_leap y \<longleftrightarrow> e = 3 \<and> (c < 24 \<or> b = 3)" using leap_parts [of b c e a] p by simp
  have "k < sum_list (month_lengths (is_leap y))" using p(10) leap by (auto simp: month_lengths_def)
  from month_day_sum [OF k(2) p(9) this]
  have m: "1 \<le> m" "m < 1 + int (length (month_lengths (is_leap y)))" "1 \<le> d"
      "d \<le> month_lengths (is_leap y) ! nat (m - 1)" "days_before_month (is_leap y) m + (d - 1) = k"
    by (simp_all add: days_before_month_def)
  have "days_before_year y = n - k"
    unfolding days_before_year_def using p(1,8) div_parts [of b c e a] p(2-7) by simp
  then show "day_of_date y m d = n" using m(5) by (simp add: day_of_date_def)
  show "1 \<le> m" "m \<le> 12" "1 \<le> d" "d \<le> month_lengths (is_leap y) ! nat (m - 1)"
    using m by (simp_all add: month_lengths_def)
qed

lemma year_of_day:
  assumes "date_of_day n = (y, m, d)" "0 \<le> n" "n < days_before_year 10000"
  shows "1 \<le> y" "y \<le> 9999"
proof -
  obtain k where k: "year_day n = (y, k)"
    using assms(1) by (auto simp: date_of_day_def split: prod.splits)
  obtain a b c e where p: "y = 400 * a + 100 * b + 4 * c + e + 1" "0 \<le> b" "b \<le> 3" "0 \<le> c" "c \<le> 24" "0 \<le> e" "e \<le> 3"
      "n = 146097 * a + 36524 * b + 1461 * c + 365 * e + k" "0 \<le> k" "k < 365 \<or> (k = 365 \<and> e = 3 \<and> (c < 24 \<or> b = 3))"
    using year_day_parts [OF k] by blast
  have "n < 3652059" using assms(3) by (simp add: days_before_year_def)
  then have "a < 25" using p assms(2) by linarith
  show "y \<le> 9999"
  proof (rule ccontr)
    assume y: "\<not> y \<le> 9999"
    then have "a = 24" using p \<open>a < 25\<close> by linarith
    then have "b = 3" using p y by linarith
    then have "c = 24" using p y \<open>a = 24\<close> by linarith
    then show False using p y \<open>a = 24\<close> \<open>b = 3\<close> \<open>n < 3652059\<close> by linarith
  qed
  have "0 \<le> a" using p assms(2) by linarith
  then show "1 \<le> y" using p by linarith
qed

subsection \<open>Text\<close>

definition nanos_per_second :: int where "nanos_per_second = 1000000000"

definition nanos_per_day :: int where "nanos_per_day = 86400 * nanos_per_second"

definition time_of :: "int \<Rightarrow> int \<Rightarrow> int \<Rightarrow> int \<Rightarrow> int \<Rightarrow> int \<Rightarrow> int \<Rightarrow> int" where
  "time_of y m d hh mm ss ns =
     day_of_date y m d * nanos_per_day + (3600 * hh + 60 * mm + ss) * nanos_per_second + ns"

text \<open>The digits of a number, with leading zeros.\<close>

fun fixed_digits :: "nat \<Rightarrow> int \<Rightarrow> string" where
  "fixed_digits 0 n = []"
| "fixed_digits (Suc w) n = fixed_digits w (n div 10) @ [char_of (48 + nat (n mod 10))]"

text \<open>\<open>2006-01-02T15:04:05\<close>, for the years 0 to 9999.\<close>

definition fmt_seconds :: "int \<Rightarrow> string" where
  "fmt_seconds t = (case date_of_day (t div nanos_per_day) of (y, m, d) \<Rightarrow>
     let s = t mod nanos_per_day div nanos_per_second in
     fixed_digits 4 y @ ''-'' @ fixed_digits 2 m @ ''-'' @ fixed_digits 2 d @ ''T'' @
     fixed_digits 2 (s div 3600) @ '':'' @ fixed_digits 2 (s div 60 mod 60) @ '':'' @ fixed_digits 2 (s mod 60))"

text \<open>The layout \<open>2006-01-02T15:04:05.999999999Z07:00\<close> in UTC: the fraction without
  trailing zeros, left out when it is zero.\<close>

definition fmt_nano :: "int \<Rightarrow> string" where
  "fmt_nano t = (let ns = t mod nanos_per_second
     in fmt_seconds t @ (if ns = 0 then [] else CHR ''.'' # strip_zeros (fixed_digits 9 ns)) @ ''Z'')"

text \<open>The layout \<open>2006-01-02T15:04:05.000Z\<close>.\<close>

definition fmt_milli :: "int \<Rightarrow> string" where
  "fmt_milli t = fmt_seconds t @ ''.'' @ fixed_digits 3 (t mod nanos_per_second div 1000000) @ ''Z''"

text \<open>The times of the years 1 to 9999.\<close>

definition printable_time :: "int \<Rightarrow> bool" where
  "printable_time t \<longleftrightarrow> 0 \<le> t \<and> t < days_before_year 10000 * nanos_per_day"

subsection \<open>Parsing\<close>

text \<open>A number of two digits, \<open>getnum\<close> with \<open>fixed\<close>; and without, one or two.\<close>

definition two_digits :: "string \<Rightarrow> (int \<times> string) option" where
  "two_digits s = (case s of a # b # r \<Rightarrow> if is_digit a \<and> is_digit b then Some (int_of_digits [a, b], r) else None
                   | _ \<Rightarrow> None)"

definition one_or_two_digits :: "string \<Rightarrow> (int \<times> string) option" where
  "one_or_two_digits s = (case s of
     [] \<Rightarrow> None
   | a # r \<Rightarrow> if \<not> is_digit a then None
              else (case r of b # r' \<Rightarrow> if is_digit b then Some (int_of_digits [a, b], r') else Some (int_of_digits [a], r)
                    | [] \<Rightarrow> Some (int_of_digits [a], r)))"

definition four_digits :: "string \<Rightarrow> (int \<times> string) option" where
  "four_digits s = (if length (take 4 s) = 4 \<and> list_all is_digit (take 4 s)
     then Some (int_of_digits (take 4 s), drop 4 s) else None)"

definition literal_char :: "char \<Rightarrow> string \<Rightarrow> string option" where
  "literal_char c s = (case s of [] \<Rightarrow> None | x # r \<Rightarrow> if x = c then Some r else None)"

definition in_range :: "int \<Rightarrow> int \<Rightarrow> int \<times> string \<Rightarrow> (int \<times> string) option" where
  "in_range lo hi x = (if lo \<le> fst x \<and> fst x \<le> hi then Some x else None)"

definition field :: "(string \<Rightarrow> (int \<times> string) option) \<Rightarrow> int \<Rightarrow> int \<Rightarrow> string \<Rightarrow> (int \<times> string) option" where
  "field p lo hi s = Option.bind (p s) (in_range lo hi)"

text \<open>A number followed by a given character.\<close>

definition field_then :: "(string \<Rightarrow> (int \<times> string) option) \<Rightarrow> int \<Rightarrow> int \<Rightarrow> char \<Rightarrow> string \<Rightarrow> (int \<times> string) option" where
  "field_then p lo hi c s = Option.bind (field p lo hi s) (\<lambda>(n, r). map_option (Pair n) (literal_char c r))"

text \<open>The date and the time of day, up to the seconds; the day is checked against the
  month in the end.\<close>

definition parse_seconds :: "string \<Rightarrow> ((int \<times> int \<times> int \<times> int \<times> int \<times> int) \<times> string) option" where
  "parse_seconds s =
     Option.bind (field_then four_digits 0 9999 (CHR ''-'') s) (\<lambda>(y, s1).
     Option.bind (field_then two_digits 1 12 (CHR ''-'') s1) (\<lambda>(m, s2).
     Option.bind (field_then two_digits 0 99 (CHR ''T'') s2) (\<lambda>(d, s3).
     Option.bind (field_then one_or_two_digits 0 23 (CHR '':'') s3) (\<lambda>(hh, s4).
     Option.bind (field_then two_digits 0 59 (CHR '':'') s4) (\<lambda>(mm, s5).
     Option.bind (field two_digits 0 59 s5) (\<lambda>(ss, s6).
     Some ((y, m, d, hh, mm, ss), s6)))))))"

text \<open>Digits of a fraction, of which nine count: \<open>parseNanoseconds\<close>.\<close>

definition nanoseconds :: "string \<Rightarrow> int" where
  "nanoseconds ds = int_of_digits (take 9 ds) * 10 ^ (9 - length (take 9 ds))"

text \<open>An optional fraction after a period or a comma.\<close>

definition parse_fraction :: "string \<Rightarrow> int \<times> string" where
  "parse_fraction s = (case s of
     c # d # r \<Rightarrow> if (c = CHR ''.'' \<or> c = CHR '','') \<and> is_digit d
                  then (nanoseconds (takeWhile is_digit (d # r)), dropWhile is_digit (d # r)) else (0, s)
   | _ \<Rightarrow> (0, s))"

text \<open>The zone: \<open>Z\<close>, or an offset in seconds.\<close>

definition parse_zone :: "string \<Rightarrow> (int \<times> string) option" where
  "parse_zone s = (case s of
     [] \<Rightarrow> None
   | c # r \<Rightarrow>
      if c = CHR ''Z'' then Some (0, r)
      else Option.bind (field_then two_digits 0 24 (CHR '':'') r) (\<lambda>(hh, r1).
           Option.bind (field two_digits 0 60 r1) (\<lambda>(mm, r2).
           if c = CHR ''+'' then Some (3600 * hh + 60 * mm, r2)
           else if c = CHR ''-'' then Some (- (3600 * hh + 60 * mm), r2) else None)))"

definition make_time :: "int \<times> int \<times> int \<times> int \<times> int \<times> int \<Rightarrow> int \<Rightarrow> int \<Rightarrow> int option" where
  "make_time f ns zone = (case f of (y, m, d, hh, mm, ss) \<Rightarrow>
     if 1 \<le> d \<and> d \<le> month_lengths (is_leap y) ! nat (m - 1)
     then Some (time_of y m d hh mm ss ns - zone * nanos_per_second) else None)"

text \<open>\<open>time.Parse(time.RFC3339Nano, s)\<close>\<close>

definition parse_nano :: "string \<Rightarrow> int option" where
  "parse_nano s = Option.bind (parse_seconds s) (\<lambda>(f, s1). case parse_fraction s1 of (ns, s2) \<Rightarrow>
     Option.bind (parse_zone s2) (\<lambda>(zone, s3). if s3 = [] then make_time f ns zone else None))"

text \<open>\<open>time.Parse("2006-01-02T15:04:05.000Z", s)\<close>\<close>

definition parse_milli :: "string \<Rightarrow> int option" where
  "parse_milli s = Option.bind (parse_seconds s) (\<lambda>(f, s1). case s1 of
     c # d1 # d2 # d3 # z # r \<Rightarrow>
       if (c = CHR ''.'' \<or> c = CHR '','') \<and> list_all is_digit [d1, d2, d3] \<and> z = CHR ''Z'' \<and> r = []
       then make_time f (nanoseconds [d1, d2, d3]) 0 else None
   | _ \<Rightarrow> None)"

subsection \<open>Reading what was written\<close>

lemma length_fixed_digits [simp]: "length (fixed_digits w n) = w"
  by (induction w arbitrary: n) simp_all

lemma fixed_digits_digits: "list_all is_digit (fixed_digits w n)"
  by (induction w arbitrary: n) (simp_all add: is_digit_char_of)

lemma int_of_digits_snoc: "int_of_digits (ds @ [c]) = 10 * int_of_digits ds + (int (of_char c) - 48)"
  by (simp add: int_of_digits_def)

lemma int_of_digits_fixed: "0 \<le> n \<Longrightarrow> n < 10 ^ w \<Longrightarrow> int_of_digits (fixed_digits w n) = n"
proof (induction w arbitrary: n)
  case 0
  then show ?case by (simp add: int_of_digits_def)
next
  case (Suc w)
  have "n div 10 < 10 ^ w" using Suc.prems by (simp add: div_less_iff_less_mult mult.commute)
  then have "int_of_digits (fixed_digits w (n div 10)) = n div 10" using Suc by simp
  then show ?case by (simp add: int_of_digits_snoc of_char_digit)
qed

lemma two_digits_fixed: "0 \<le> n \<Longrightarrow> n < 100 \<Longrightarrow> two_digits (fixed_digits 2 n @ r) = Some (n, r)"
  using fixed_digits_digits [of 2 n] int_of_digits_fixed [of n 2]
  by (simp add: two_digits_def numeral_2_eq_2)

lemma one_or_two_digits_fixed: "0 \<le> n \<Longrightarrow> n < 100 \<Longrightarrow> one_or_two_digits (fixed_digits 2 n @ r) = Some (n, r)"
  using fixed_digits_digits [of 2 n] int_of_digits_fixed [of n 2]
  by (simp add: one_or_two_digits_def numeral_2_eq_2)

lemma four_digits_fixed: "0 \<le> n \<Longrightarrow> n < 10000 \<Longrightarrow> four_digits (fixed_digits 4 n @ r) = Some (n, r)"
  using fixed_digits_digits [of 4 n] int_of_digits_fixed [of n 4]
  by (simp add: four_digits_def)

lemma field_then_fixed:
  "p (ds @ c # r) = Some (n, c # r) \<Longrightarrow> lo \<le> n \<Longrightarrow> n \<le> hi \<Longrightarrow> field_then p lo hi c (ds @ c # r) = Some (n, r)"
  by (simp add: field_then_def field_def in_range_def literal_char_def)

lemma parse_seconds_fmt:
  assumes "0 \<le> t" "t < days_before_year 10000 * nanos_per_day"
  shows "\<exists>f. parse_seconds (fmt_seconds t @ r) = Some (f, r) \<and>
    (\<forall>ns. make_time f ns 0 = Some (t - t mod nanos_per_second + ns))"
proof -
  obtain y m d where date: "date_of_day (t div nanos_per_day) = (y, m, d)" by (metis prod_cases3)
  define s where "s = t mod nanos_per_day div nanos_per_second"
  have "0 \<le> t mod nanos_per_day" "t mod nanos_per_day < 86400 * nanos_per_second"
    by (simp_all add: nanos_per_day_def nanos_per_second_def)
  then have s: "0 \<le> s" "s < 86400"
    unfolding s_def by (simp_all add: nanos_per_second_def div_less_iff_less_mult pos_imp_zdiv_nonneg_iff)
  have day: "0 \<le> t div nanos_per_day" "t div nanos_per_day < days_before_year 10000"
    using assms by (simp_all add: nanos_per_day_def nanos_per_second_def div_less_iff_less_mult pos_imp_zdiv_nonneg_iff)
  note y = year_of_day [OF date day]
  note md = date_of_day [OF date]
  have d99: "d < 100"
  proof -
    have "nat (m - 1) < 12" using md(3) by simp
    then have "month_lengths (is_leap y) ! nat (m - 1) \<le> 31"
      by (auto simp: month_lengths_def less_Suc_eq numeral_eq_Suc)
    then show ?thesis using md(5) by simp
  qed
  have h: "0 \<le> s div 3600" "s div 3600 \<le> 23" using s by (simp_all add: pos_imp_zdiv_nonneg_iff)
  let ?f = "(y, m, d, s div 3600, s div 60 mod 60, s mod 60)"
  have "fmt_seconds t @ r = fixed_digits 4 y @ CHR ''-'' # fixed_digits 2 m @ CHR ''-'' # fixed_digits 2 d @ CHR ''T'' #
      fixed_digits 2 (s div 3600) @ CHR '':'' # fixed_digits 2 (s div 60 mod 60) @ CHR '':'' # fixed_digits 2 (s mod 60) @ r"
    by (simp add: fmt_seconds_def date s_def Let_def)
  then have "parse_seconds (fmt_seconds t @ r) = Some (?f, r)"
    using y md(2-4) d99 h
    by (simp add: parse_seconds_def field_then_fixed four_digits_fixed two_digits_fixed one_or_two_digits_fixed
        field_def in_range_def)
  moreover have "3600 * (s div 3600) + 60 * (s div 60 mod 60) + s mod 60 = s"
  proof -
    have "s div 3600 = s div 60 div 60" using zdiv_zmult2_eq [of 60 s 60] by simp
    then show ?thesis using mult_div_mod_eq [of 60 s] mult_div_mod_eq [of 60 "s div 60"] by linarith
  qed
  moreover have "t div nanos_per_day * nanos_per_day + s * nanos_per_second = t - t mod nanos_per_second"
  proof -
    have "t mod nanos_per_day mod nanos_per_second = t mod nanos_per_second"
      unfolding nanos_per_day_def by (simp add: mod_mod_cancel)
    then have "s * nanos_per_second = t mod nanos_per_day - t mod nanos_per_second"
      unfolding s_def by (simp add: minus_mod_eq_div_mult [symmetric])
    then show ?thesis by (simp add: minus_mod_eq_div_mult [symmetric])
  qed
  ultimately show ?thesis using md(1,4,5) by (auto simp: make_time_def time_of_def)
qed

lemma strip_zeros_split: "\<exists>k. ds = strip_zeros ds @ replicate k (CHR ''0'')"
proof -
  have "rev ds = takeWhile (\<lambda>c. c = CHR ''0'') (rev ds) @ rev (strip_zeros ds)"
    by (simp add: strip_zeros_def)
  moreover have "takeWhile (\<lambda>c. c = CHR ''0'') (rev ds) =
      replicate (length (takeWhile (\<lambda>c. c = CHR ''0'') (rev ds))) (CHR ''0'')"
    by (rule replicate_length_same [symmetric]) (auto dest: set_takeWhileD)
  ultimately show ?thesis by (metis rev_append rev_replicate rev_rev_ident)
qed

lemma int_of_digits_zeros: "int_of_digits (ds @ replicate k (CHR ''0'')) = int_of_digits ds * 10 ^ k"
proof (induction k)
  case (Suc k)
  have "ds @ replicate (Suc k) (CHR ''0'') = (ds @ replicate k (CHR ''0'')) @ [CHR ''0'']"
    by (simp add: replicate_append_same)
  then show ?case using Suc.IH by (simp only: int_of_digits_snoc) simp
qed simp

lemma nanoseconds_stripped:
  assumes "0 < ns" "ns < nanos_per_second"
  shows "nanoseconds (strip_zeros (fixed_digits 9 ns)) = ns" "list_all is_digit (strip_zeros (fixed_digits 9 ns))"
    "strip_zeros (fixed_digits 9 ns) \<noteq> []"
proof -
  obtain k where k: "fixed_digits 9 ns = strip_zeros (fixed_digits 9 ns) @ replicate k (CHR ''0'')"
    using strip_zeros_split by blast
  define ds where "ds = strip_zeros (fixed_digits 9 ns)"
  have k': "fixed_digits 9 ns = ds @ replicate k (CHR ''0'')" using k by (simp add: ds_def)
  have "length ds + k = 9" using arg_cong [OF k', of length] by simp
  moreover have v: "int_of_digits ds * 10 ^ k = ns"
    using int_of_digits_fixed [of ns 9] assms int_of_digits_zeros [of ds k] k' by (simp add: nanos_per_second_def)
  ultimately show "nanoseconds (strip_zeros (fixed_digits 9 ns)) = ns"
    unfolding nanoseconds_def ds_def [symmetric] by (metis add_diff_cancel_left' le_add1 take_all)
  show "list_all is_digit (strip_zeros (fixed_digits 9 ns))"
    unfolding ds_def [symmetric] using fixed_digits_digits [of 9 ns] unfolding k' by simp
  show "strip_zeros (fixed_digits 9 ns) \<noteq> []"
    using v assms by (auto simp: ds_def [symmetric] int_of_digits_def)
qed

lemma parse_fraction_digits:
  "list_all is_digit ds \<Longrightarrow> ds \<noteq> [] \<Longrightarrow> parse_fraction (CHR ''.'' # ds @ ''Z'') = (nanoseconds ds, ''Z'')"
proof (cases ds)
  case (Cons d ds')
  assume "list_all is_digit ds"
  moreover have "\<not> is_digit (CHR ''Z'')" by (simp add: is_digit_def)
  ultimately have "takeWhile is_digit (ds @ ''Z'') = ds" "dropWhile is_digit (ds @ ''Z'') = ''Z''" "is_digit d"
    using Cons by (auto simp: list_all_iff takeWhile_append2 dropWhile_append2)
  then show ?thesis using Cons by (simp add: parse_fraction_def)
qed simp

lemma parse_nano_fmt:
  assumes "0 \<le> t" "t < days_before_year 10000 * nanos_per_day"
  shows "parse_nano (fmt_nano t) = Some t"
proof -
  define ns where "ns = t mod nanos_per_second"
  define frac where "frac = (if ns = 0 then [] else CHR ''.'' # strip_zeros (fixed_digits 9 ns))"
  have ns: "0 \<le> ns" "ns < nanos_per_second" by (simp_all add: ns_def nanos_per_second_def)
  have "parse_fraction (frac @ ''Z'') = (ns, ''Z'')"
  proof (cases "ns = 0")
    case True
    then show ?thesis by (simp add: frac_def parse_fraction_def)
  next
    case False
    then show ?thesis
      using nanoseconds_stripped [of ns] ns parse_fraction_digits [of "strip_zeros (fixed_digits 9 ns)"]
      by (simp add: frac_def)
  qed
  moreover have "fmt_nano t = fmt_seconds t @ (frac @ ''Z'')" by (simp add: fmt_nano_def Let_def ns_def frac_def)
  ultimately show ?thesis using parse_seconds_fmt [OF assms, of "frac @ ''Z''"]
    by (auto simp: parse_nano_def parse_zone_def ns_def)
qed

lemma parse_milli_fmt:
  assumes "0 \<le> t" "t < days_before_year 10000 * nanos_per_day"
  shows "parse_milli (fmt_milli t) = Some (t - t mod 1000000)"
proof -
  define ms where "ms = t mod nanos_per_second div 1000000"
  have ms: "0 \<le> ms" "ms < 1000"
    unfolding ms_def by (simp_all add: nanos_per_second_def div_less_iff_less_mult pos_imp_zdiv_nonneg_iff)
  obtain a b c where d: "fixed_digits 3 ms = [a, b, c]" by (auto simp: numeral_3_eq_3)
  have dig: "is_digit a" "is_digit b" "is_digit c" using fixed_digits_digits [of 3 ms] by (simp_all add: d)
  have v: "nanoseconds [a, b, c] = ms * 1000000"
    using int_of_digits_fixed [of ms 3] ms by (simp add: nanoseconds_def d)
  have "t mod nanos_per_second mod 1000000 = t mod 1000000"
    unfolding nanos_per_second_def by (simp add: mod_mod_cancel)
  then have "ms * 1000000 = t mod nanos_per_second - t mod 1000000"
    unfolding ms_def by (simp add: minus_mod_eq_div_mult [symmetric])
  moreover have "fmt_milli t = fmt_seconds t @ [CHR ''.'', a, b, c, CHR ''Z'']"
    by (simp add: fmt_milli_def ms_def [symmetric] d)
  ultimately show ?thesis using parse_seconds_fmt [OF assms, of "[CHR ''.'', a, b, c, CHR ''Z'']"] dig v
    by (auto simp: parse_milli_def)
qed

end
