(* ===== verification/Codec.thy ===== *)
theory Codec
  imports Json_Text
begin

text \<open>
  \<open>base64.RawURLEncoding\<close>, and the proofs that encoded bytes and written documents
  are read back.
\<close>

subsection \<open>Base 64\<close>

definition b64_alphabet :: string where
  "b64_alphabet = ''ABCDEFGHIJKLMNOPQRSTUVWXYZabcdefghijklmnopqrstuvwxyz0123456789-_''"

definition b64_char :: "nat \<Rightarrow> char" where
  "b64_char n = b64_alphabet ! n"

definition b64_value :: "char \<Rightarrow> nat option" where
  "b64_value c = map_of (zip b64_alphabet [0..<64]) c"

fun b64_sextets :: "nat list \<Rightarrow> nat list" where
  "b64_sextets [] = []"
| "b64_sextets [a] = [a div 4, a mod 4 * 16]"
| "b64_sextets [a, b] = [a div 4, a mod 4 * 16 + b div 16, b mod 16 * 4]"
| "b64_sextets (a # b # c # r) =
     a div 4 # (a mod 4 * 16 + b div 16) # (b mod 16 * 4 + c div 64) # c mod 64 # b64_sextets r"

fun b64_bytes :: "nat list \<Rightarrow> nat list option" where
  "b64_bytes [] = Some []"
| "b64_bytes [x] = None"
| "b64_bytes [x, y] = Some [x * 4 + y div 16]"
| "b64_bytes [x, y, z] = Some [x * 4 + y div 16, y mod 16 * 16 + z div 4]"
| "b64_bytes (x # y # z # w # r) =
     map_option (\<lambda>bs. (x * 4 + y div 16) # (y mod 16 * 16 + z div 4) # (z mod 4 * 64 + w) # bs) (b64_bytes r)"

definition b64_encode :: "string \<Rightarrow> string" where
  "b64_encode s = map b64_char (b64_sextets (map of_char s))"

text \<open>Line ends are skipped; any other foreign character is an error.\<close>

definition b64_decode :: "string \<Rightarrow> string option" where
  "b64_decode s = (case those (map b64_value (filter (\<lambda>c. c \<noteq> CHR 0x0A \<and> c \<noteq> CHR 0x0D) s)) of
     None \<Rightarrow> None
   | Some xs \<Rightarrow> map_option (map char_of) (b64_bytes xs))"

lemma b64_value_char: "n < 64 \<Longrightarrow> b64_value (b64_char n) = Some n \<and> b64_char n \<noteq> CHR 0x0A \<and> b64_char n \<noteq> CHR 0x0D"
proof -
  have "list_all (\<lambda>n. b64_value (b64_char n) = Some n \<and> b64_char n \<noteq> CHR 0x0A \<and> b64_char n \<noteq> CHR 0x0D) [0..<64]"
    by code_simp
  then show "n < 64 \<Longrightarrow> ?thesis" by (simp add: list_all_iff)
qed

lemma b64_sextets_range: "list_all (\<lambda>b. b < 256) bs \<Longrightarrow> list_all (\<lambda>x. x < 64) (b64_sextets bs)"
  by (induction bs rule: b64_sextets.induct) auto

lemma b64_bytes_sextets: "list_all (\<lambda>b. b < 256) bs \<Longrightarrow> b64_bytes (b64_sextets bs) = Some bs"
proof (induction bs rule: b64_sextets.induct)
  case (4 a b c r)
  have "b mod 16 * 4 + c div 64 < 64" using 4 by auto
  moreover have "(b mod 16 * 4 + c div 64) div 4 = b mod 16" "(b mod 16 * 4 + c div 64) mod 4 = c div 64"
    using 4 by auto
  moreover have "b div 16 < 16" using 4 by auto
  ultimately show ?case using 4 by simp
qed auto

lemma b64_decode_encode: "b64_decode (b64_encode s) = Some s"
proof -
  have r: "list_all (\<lambda>b. b < 256) (map of_char s :: nat list)"
    by (simp add: list_all_iff)
  have x: "list_all (\<lambda>x. x < 64) (b64_sextets (map of_char s))" by (rule b64_sextets_range [OF r])
  have "filter (\<lambda>c. c \<noteq> CHR 0x0A \<and> c \<noteq> CHR 0x0D) (b64_encode s) = b64_encode s"
    using x b64_value_char by (auto simp: b64_encode_def list_all_iff filter_id_conv)
  moreover have "map b64_value (b64_encode s) = map Some (b64_sextets (map of_char s))"
    using x b64_value_char by (auto simp: b64_encode_def list_all_iff)
  ultimately show ?thesis
    by (simp add: b64_decode_def those_eq_Some [THEN iffD2] b64_bytes_sextets [OF r] comp_def)
qed

subsection \<open>Reading back a string\<close>

lemma hex_value_digit: "n < 16 \<Longrightarrow> hex_value (hex_digit n) = Some n"
  by (simp add: hex_value_def hex_digit_def)

lemma hex_digits_sum:
  assumes "n < 65536"
  shows "4096 * (n div 4096 mod 16) + 256 * (n div 256 mod 16) + 16 * (n div 16 mod 16) + n mod 16 = (n :: nat)"
proof -
  have "n div 4096 mod 16 = n div 4096" using assms by (simp add: less_mult_imp_div_less)
  moreover have "n div 256 = n div 16 div 16" "n div 4096 = n div 256 div 16" by (simp_all add: div_mult2_eq [symmetric])
  ultimately show ?thesis
    using mult_div_mod_eq [of 16 n] mult_div_mod_eq [of 16 "n div 16"] mult_div_mod_eq [of 16 "n div 256"] by linarith
qed

lemma parse_u_escape:
  assumes "n < 65536" "n < 55296 \<or> 57344 \<le> n"
  shows "parse_chars (u_escape n @ r) = map_option (\<lambda>(u, r'). (utf8 n @ u, r')) (parse_chars r)"
proof -
  obtain h where h: "u_escape n = CHR 0x5C # CHR ''u'' # h" "hex4 (h @ r) = Some (n, r)"
    using hex_digits_sum [OF assms(1)] assms(1)
    by (simp add: u_escape_def hex_value_digit less_mult_imp_div_less)
  then have "unescape_u (h @ r) = Some (utf8 n, r)" using assms unfolding unescape_u_def by auto
  then show ?thesis using h(1) by (simp add: unescape_def)
qed

lemma special_chars:
  "of_char c = (34 :: nat) \<longleftrightarrow> c = CHR 0x22" "of_char c = (92 :: nat) \<longleftrightarrow> c = CHR 0x5C"
  "of_char c = (8 :: nat) \<longleftrightarrow> c = CHR 0x08" "of_char c = (12 :: nat) \<longleftrightarrow> c = CHR 0x0C"
  "of_char c = (10 :: nat) \<longleftrightarrow> c = CHR 0x0A" "of_char c = (13 :: nat) \<longleftrightarrow> c = CHR 0x0D"
  "of_char c = (9 :: nat) \<longleftrightarrow> c = CHR 0x09"
  using of_char_eq_iff [of c "CHR 0x22"] of_char_eq_iff [of c "CHR 0x5C"] of_char_eq_iff [of c "CHR 0x08"]
    of_char_eq_iff [of c "CHR 0x0C"] of_char_eq_iff [of c "CHR 0x0A"] of_char_eq_iff [of c "CHR 0x0D"]
    of_char_eq_iff [of c "CHR 0x09"] by simp_all

lemma parse_escape_char: "parse_chars (escape_char c @ r) = map_option (\<lambda>(u, r'). (c # u, r')) (parse_chars r)"
proof (cases "c \<in> {CHR 0x22, CHR 0x5C, CHR 0x08, CHR 0x0C, CHR 0x0A, CHR 0x0D, CHR 0x09}")
  case True
  then show ?thesis
    by (elim insertE emptyE) (simp_all add: escape_char_def unescape_def simple_escape_def)
next
  case False
  define n :: nat where "n = of_char c"
  have e: "escape_char c = (if n < 32 \<or> n = 60 \<or> n = 62 \<or> n = 38 then u_escape n else [c])"
    using False by (simp add: escape_char_def Let_def special_chars n_def)
  show ?thesis
  proof (cases "n < 32 \<or> n = 60 \<or> n = 62 \<or> n = 38")
    case True
    then have "n < 128" by auto
    then have "utf8 n = [c]" by (simp add: utf8_def n_def)
    then show ?thesis using parse_u_escape [of n r] \<open>n < 128\<close> e True by simp
  next
    case f: False
    then show ?thesis using False e by (simp add: n_def [symmetric])
  qed
qed

lemma parse_chars_escape: "parse_chars (escape_string s @ CHR 0x22 # r) = Some (s, r)"
proof (induction s rule: length_induct)
  case (1 s)
  show ?case
  proof (cases s)
    case (Cons c cs)
    show ?thesis
    proof (cases "\<exists>c3 rest. c = CHR 0xE2 \<and> cs = CHR 0x80 # c3 # rest \<and> (c3 = CHR 0xA8 \<or> c3 = CHR 0xA9)")
      case True
      then obtain c3 rest where e: "c = CHR 0xE2" "cs = CHR 0x80 # c3 # rest" "c3 = CHR 0xA8 \<or> c3 = CHR 0xA9" by blast
      let ?n = "if c3 = CHR 0xA8 then 8232 else 8233 :: nat"
      have "escape_string s = u_escape ?n @ escape_string rest" using e Cons by simp
      moreover have "utf8 ?n = [c, CHR 0x80, c3]" using e(1,3) by (auto simp: utf8_def char_of_def bit_0)
      moreover have "parse_chars (escape_string rest @ CHR 0x22 # r) = Some (rest, r)" using 1 Cons e(2) by simp
      ultimately show ?thesis
        using parse_u_escape [of ?n "escape_string rest @ CHR 0x22 # r"] e(2) Cons by simp
    next
      case False
      then have "escape_string s = escape_char c @ escape_string cs" using Cons by (auto split: list.splits)
      moreover have "parse_chars (escape_string cs @ CHR 0x22 # r) = Some (cs, r)" using 1 Cons by simp
      ultimately show ?thesis using parse_escape_char [of c "escape_string cs @ CHR 0x22 # r"] Cons by simp
    qed
  qed simp
qed

subsection \<open>Reading back a document\<close>

text \<open>Every number of the document is a literal of JSON.\<close>

fun wf_json :: "json \<Rightarrow> bool" where
  "wf_json (JNum s) = (parse_literal s \<noteq> None \<and> list_all num_char s)"
| "wf_json (JArr js) = list_all wf_json js"
| "wf_json (JObj kvs) = list_all (\<lambda>(k, j). wf_json j) kvs"
| "wf_json _ = True"

definition ends :: "string \<Rightarrow> bool" where
  "ends r \<longleftrightarrow> r = [] \<or> \<not> num_char (hd r)"

lemma ends_simps [simp]: "ends []" "ends (CHR '','' # r)" "ends (CHR '']'' # r)" "ends (CHR 0x7D # r)"
  by (simp_all add: ends_def num_char_def is_digit_def)

lemma parse_literal_Nil [simp]: "parse_literal [] = None"
  by (simp add: parse_literal_def split_sign_def)

lemma json_text_head:
  assumes "wf_json j"
  obtains c cs where "json_text j = c # cs" "\<not> is_space c" "c \<noteq> CHR '']''" "c \<noteq> CHR 0x7D"
proof (cases j)
  case (JNum s)
  then obtain c cs where s: "s = c # cs" using assms by (cases s) auto
  have "num_char c" using s assms JNum by simp
  then have "\<not> is_space c \<and> c \<noteq> CHR '']'' \<and> c \<noteq> CHR 0x7D" by (auto simp: num_char_def is_digit_def is_space_def)
  then show thesis using that [of c cs] s JNum by simp
next
  case (JBool b)
  then show thesis by (cases b) (auto intro!: that simp: is_space_def)
qed (use that in \<open>auto simp: is_space_def quote_string_def split: if_splits\<close>)

lemma skip_space_head: "\<not> is_space c \<Longrightarrow> skip_space (c # cs) = c # cs"
  by (simp add: skip_space_def)

lemma skip_space_punct [simp]:
  "skip_space (CHR '','' # r) = CHR '','' # r" "skip_space (CHR '']'' # r) = CHR '']'' # r"
  "skip_space (CHR 0x7D # r) = CHR 0x7D # r" "skip_space (CHR '':'' # r) = CHR '':'' # r"
  "skip_space (CHR 0x22 # r) = CHR 0x22 # r"
  by (simp_all add: skip_space_def is_space_def)

lemma parse_number:
  assumes "parse_literal s \<noteq> None" "list_all num_char s" "ends r"
  shows "parse_value (Suc n) (s @ r) = Some (JNum s, r)"
proof -
  obtain c cs where s: "s = c # cs" using assms(1) by (cases s) auto
  then have c: "num_char c" using assms(2) by simp
  have t: "takeWhile num_char (s @ r) = s" "dropWhile num_char (s @ r) = r"
    using assms(2,3) by (auto simp: ends_def list_all_iff takeWhile_append2 dropWhile_append2 takeWhile_eq_Nil_iff
        dropWhile_eq_self_iff)
  have "\<not> is_space c" "c \<noteq> CHR 0x7B" "c \<noteq> CHR ''[''" "c \<noteq> CHR 0x22" "c \<noteq> CHR ''n''" "c \<noteq> CHR ''t''" "c \<noteq> CHR ''f''"
    using c by (auto simp: num_char_def is_digit_def is_space_def)
  then show ?thesis using t assms(1) by (simp add: s skip_space_head has_prefix_def)
qed

lemma parse_elements_text:
  assumes "\<And>j r n. j \<in> set js \<Longrightarrow> length (json_text j) \<le> n \<Longrightarrow> ends r \<Longrightarrow> parse_value (Suc n) (json_text j @ r) = Some (j, r)"
  shows "js \<noteq> [] \<Longrightarrow> Suc (length (commas (map json_text js))) \<le> n \<Longrightarrow>
    parse_elements (Suc n) (commas (map json_text js) @ CHR '']'' # r) = Some (js, r)"
  using assms
proof (induction js arbitrary: n)
  case (Cons j js)
  obtain m where n: "n = Suc m" using Cons.prems(2) by (cases n) auto
  show ?case
  proof (cases "js = []")
    case True
    then show ?thesis using Cons.prems(2) Cons.prems(3) [of j m] n by simp
  next
    case False
    then have c: "commas (map json_text (j # js)) = json_text j @ CHR '','' # commas (map json_text js)"
      by (cases js) simp_all
    have "parse_value n (json_text j @ CHR '','' # commas (map json_text js) @ CHR '']'' # r) =
        Some (j, CHR '','' # commas (map json_text js) @ CHR '']'' # r)"
      using Cons.prems(2) Cons.prems(3) [of j m] n c by simp
    moreover have "parse_elements n (commas (map json_text js) @ CHR '']'' # r) = Some (js, r)"
      using Cons.IH [of m] Cons.prems(2,3) False n c by simp
    ultimately show ?thesis using c by simp
  qed
qed simp

abbreviation member_text :: "string \<times> json \<Rightarrow> string" where
  "member_text \<equiv> \<lambda>(k, j). quote_string k @ '':'' @ json_text j"

lemma parse_members_text:
  assumes "\<And>k j r n. (k, j) \<in> set kvs \<Longrightarrow> length (json_text j) \<le> n \<Longrightarrow> ends r \<Longrightarrow>
      parse_value (Suc n) (json_text j @ r) = Some (j, r)"
  shows "kvs \<noteq> [] \<Longrightarrow> Suc (length (commas (map member_text kvs))) \<le> n \<Longrightarrow>
    parse_members (Suc n) (commas (map member_text kvs) @ CHR 0x7D # r) = Some (kvs, r)"
  using assms
proof (induction kvs arbitrary: n)
  case (Cons kj kvs)
  obtain k j where kj: "kj = (k, j)" by fastforce
  obtain m where n: "n = Suc m" using Cons.prems(2) by (cases n) auto
  show ?case
  proof (cases "kvs = []")
    case True
    then show ?thesis using Cons.prems(2) Cons.prems(3) [of k j m "CHR 0x7D # r"] n kj
      by (simp add: quote_string_def parse_chars_escape)
  next
    case False
    then have c: "commas (map member_text (kj # kvs)) =
        CHR 0x22 # escape_string k @ CHR 0x22 # CHR '':'' # json_text j @ CHR '','' # commas (map member_text kvs)"
      by (cases kvs) (simp_all add: kj quote_string_def)
    have "parse_value n (json_text j @ CHR '','' # commas (map member_text kvs) @ CHR 0x7D # r) =
        Some (j, CHR '','' # commas (map member_text kvs) @ CHR 0x7D # r)"
      using Cons.prems(2) Cons.prems(3) [of k j m "CHR '','' # commas (map member_text kvs) @ CHR 0x7D # r"] n c kj by simp
    moreover have "parse_members n (commas (map member_text kvs) @ CHR 0x7D # r) = Some (kvs, r)"
      unfolding n
    proof (rule Cons.IH [OF False])
      show "Suc (length (commas (map member_text kvs))) \<le> m" using Cons.prems(2) n c by simp
    qed (rule Cons.prems(3), rule list.set_intros(2), assumption+)
    ultimately show ?thesis using c by (simp add: parse_chars_escape kj)
  qed
qed simp

lemma parse_value_text:
  "wf_json j \<Longrightarrow> length (json_text j) \<le> n \<Longrightarrow> ends r \<Longrightarrow> parse_value (Suc n) (json_text j @ r) = Some (j, r)"
proof (induction j arbitrary: n r)
  case (JNum s)
  then show ?case by (simp add: parse_number del: parse_value.simps)
next
  case (JStr s)
  then show ?case by (simp add: quote_string_def parse_chars_escape)
next
  case (JArr js)
  show ?case
  proof (cases js)
    case (Cons j js')
    obtain m where n: "n = Suc m" using JArr.prems(2) by (cases n) auto
    have "parse_elements n (commas (map json_text js) @ CHR '']'' # r) = Some (js, r)"
      unfolding n using JArr Cons n by (intro parse_elements_text) (auto simp: list_all_iff)
    moreover have "wf_json j" using JArr.prems(1) Cons by simp
    then obtain c cs where "json_text j = c # cs" "\<not> is_space c" "c \<noteq> CHR '']''" by (rule json_text_head)
    moreover from this(1) obtain cs' where "commas (map json_text js) = c # cs'" using Cons by (cases js') auto
    ultimately show ?thesis by (simp add: skip_space_head is_space_def)
  qed (simp add: skip_space_def is_space_def)
next
  case (JObj kvs)
  show ?case
  proof (cases kvs)
    case (Cons kj kvs')
    obtain m where n: "n = Suc m" using JObj.prems(2) by (cases n) auto
    have "parse_members n (commas (map member_text kvs) @ CHR 0x7D # r) = Some (kvs, r)"
      unfolding n
    proof (rule parse_members_text)
      show "parse_value (Suc i) (json_text j @ t) = Some (j, t)"
        if "(k, j) \<in> set kvs" "length (json_text j) \<le> i" "ends t" for k j t i
      proof (rule JObj.IH [of "(k, j)" j])
        show "wf_json j" using JObj.prems(1) that(1) by (auto simp: list_all_iff)
      qed (use that in simp_all)
    qed (use JObj.prems(2) Cons n in simp_all)
    moreover obtain cs where "commas (map member_text kvs) = CHR 0x22 # cs"
      using Cons by (cases kj; cases kvs') (auto simp: quote_string_def)
    ultimately show ?thesis by (simp add: skip_space_head is_space_def)
  qed (simp add: skip_space_def is_space_def)
qed (simp_all add: skip_space_def is_space_def has_prefix_def)

lemma parse_json_text: "wf_json j \<Longrightarrow> parse_json (json_text j) = Some j"
  using parse_value_text [of j "length (json_text j)" "[]"] by (simp add: parse_json_def skip_space_def del: parse_value.simps)

end
