(* ===== verification/Rest.thy ===== *)
theory Rest
  imports Api Go_Time Codec
begin

text \<open>
  The REST handlers, \<open>internal/server/handlers\<close>. A handler maps the request and
  the database to the response, a status with the value handed to \<open>writeJSON\<close>, and
  the new database. \<open>Store == nil\<close> is a database that is \<open>None\<close>. An error body
  carries the error value whose text the code writes. The record \<open>server\<close> holds
  what a handler meets besides the request and the data: how the database stores
  documents, the transactions' world, the ids and times the attempts of a transaction
  draw, and the version of the build. Between the reads of a handler and its transaction other requests
  may commit: \<open>w_others w 0\<close>.
\<close>

subsection \<open>Requests and responses\<close>

record request =
  rq_actor :: string
  rq_body :: raw
  rq_content_length :: int

datatype rest_error =
    EStoreNil
  | EDecode string
  | EInvalid string
  | EStore store_error
  | EConfig cfg_error
  | EEval string
  | EWrap string rest_error

record ApiCompileDetail =
  ACD_Column :: "int option"
  ACD_File :: "string option"
  ACD_Line :: "int option"
  ACD_Text :: string

datatype body =
    BError rest_error
  | BCompileError string "ApiCompileDetail list option"
  | BProject ApiProject
  | BProjects "ApiProject list"
  | BFlag ApiFlag
  | BFlags "ApiFlag list"
  | BFlagWithLatest ApiFlag "ApiFlagVersion option"
  | BFlagVersion ApiFlagVersion
  | BFlagVersions "ApiFlagVersion list"
  | BEnvironment ApiEnvironment
  | BEnvironments "ApiEnvironment list"
  | BSegment ApiSegment
  | BSegments "ApiSegment list"
  | BSnapshot ApiSnapshot
  | BSnapshots "ApiSnapshot list"
  | BDecision ApiDecision
  | BTrace ApiDecision ApiTrace
  | BAuditEvents "ApiAuditEvent list" "string option"
  | BHealth string string string time

type_synonym response = "int \<times> body"
type_synonym 'd handler = "'d \<Rightarrow> response \<times> 'd"

record server =
  sv_json :: json_in
  sv_world :: tx_world
  sv_new_id :: "nat \<Rightarrow> uuid"
  sv_now :: "nat \<Rightarrow> time"
  sv_version :: string

subsection \<open>Helpers\<close>

definition writeError :: "int \<Rightarrow> rest_error \<Rightarrow> response" where
  "writeError status e = (status, BError e)"

definition badRequest :: "rest_error \<Rightarrow> response" where
  "badRequest e = writeError 400 e"

definition requireStore :: "database option \<Rightarrow> database handler \<Rightarrow> response \<times> database option" where
  "requireStore s h = (case s of
     None \<Rightarrow> (writeError 503 EStoreNil, None)
   | Some d \<Rightarrow> (case h d of (r, d') \<Rightarrow> (r, Some d')))"

definition notFoundOrError :: "store_error \<Rightarrow> response" where
  "notFoundOrError e = (if e = ErrNotFound then writeError 404 (EStore e) else writeError 500 (EStore e))"

definition writeStoreErr :: "store_error \<Rightarrow> response" where
  "writeStoreErr e =
     (if e = ErrNotFound then writeError 404 (EStore e)
      else if IsConflict e then writeError 409 (EStore e)
      else writeError 500 (EStore e))"

text \<open>A read: its failure is answered, its value used; and a handler that only reads.\<close>

definition or_respond :: "('e \<Rightarrow> response) \<Rightarrow> 'e + 'a \<Rightarrow> response + 'a" where
  "or_respond f x = (case x of Inl e \<Rightarrow> Inl (f e) | Inr a \<Rightarrow> Inr a)"

definition finish :: "response + response \<Rightarrow> response" where
  "finish x = (case x of Inl r \<Rightarrow> r | Inr r \<Rightarrow> r)"

definition reading :: "(database \<Rightarrow> response + response) \<Rightarrow> database option \<Rightarrow> response \<times> database option" where
  "reading f s = requireStore s (\<lambda>d. (finish (f d), d))"

definition get_project :: "string \<Rightarrow> database \<Rightarrow> response + Project" where
  "get_project slug d = or_respond notFoundOrError (GetProjectBySlug slug d)"

definition get_flag :: "string \<Rightarrow> string \<Rightarrow> database \<Rightarrow> response + Project \<times> Flag" where
  "get_flag slug key d =
     bindE (get_project slug d) (\<lambda>proj.
     bindE (or_respond notFoundOrError (GetFlagByKey (Project_ID proj) key d)) (\<lambda>flag.
     Inr (proj, flag)))"

lemmas read_defs = reading_def requireStore_def finish_def or_respond_def

text \<open>\<open>mustMarshal\<close> of a map.\<close>

definition mustMarshal :: "(string \<times> any) list \<Rightarrow> raw" where
  "mustMarshal m = (case marshal_any (AMap m) of None \<Rightarrow> RawDoc (JObj []) | Some j \<Rightarrow> RawDoc j)"

text \<open>The transaction of a mutating handler: \<open>WithAudit\<close> around one operation, which
  draws its id and time anew in every attempt, and the response.\<close>

definition mutate :: "server \<Rightarrow> AppendAuditParams \<Rightarrow> (time \<Rightarrow> uuid \<Rightarrow> 'a op) \<Rightarrow> ('a \<Rightarrow> response) \<Rightarrow> database handler" where
  "mutate sv ev f ok d =
     (case WithAudit (sv_json sv) (sv_world sv) ev (\<lambda>n. f (sv_now sv n) (sv_new_id sv n)) (w_others (sv_world sv) 0 d) of
        (Inl e, d') \<Rightarrow> (writeStoreErr e, d')
      | (Inr a, d') \<Rightarrow> (ok a, d'))"

text \<open>What precedes the transaction either answers or gives its arguments.\<close>

definition prepared :: "response + 'a \<Rightarrow> ('a \<Rightarrow> database handler) \<Rightarrow> database handler" where
  "prepared x f d = (case x of Inl r \<Rightarrow> (r, d) | Inr a \<Rightarrow> f a d)"

lemma prepared_simps [simp]: "prepared (Inl r) f d = (r, d)" "prepared (Inr a) f d = f a d"
  by (simp_all add: prepared_def)

subsection \<open>Projects\<close>

definition api_ListProjects :: "database option \<Rightarrow> response \<times> database option" where
  "api_ListProjects = reading (\<lambda>d.
     bindE (or_respond (\<lambda>e. writeError 500 (EStore e)) (ListProjects d)) (\<lambda>rows.
     Inr (200, BProjects (map projectToAPI rows))))"

definition api_CreateProject :: "server \<Rightarrow> request \<Rightarrow> database option \<Rightarrow> response \<times> database option" where
  "api_CreateProject sv rq s = requireStore s (\<lambda>d.
     prepared
       (bindE (or_respond (\<lambda>e. badRequest (EDecode e)) (decode_CreateProjectRequest (rq_body rq))) (\<lambda>req.
        if Valid (strategy_of (CPR_ConfigStrategy req)) then Inr req
        else Inl (badRequest (EInvalid (''invalid config_strategy '' @ fmt_q (CPR_ConfigStrategy req))))))
       (\<lambda>req. mutate sv
          \<lparr>ap_ProjectID = None, ap_FlagID = None, ap_Action = ''create_project'', ap_Actor = rq_actor rq,
           ap_Payload = mustMarshal [(''slug'', AStr (CPR_Slug req))]\<rparr>
          (\<lambda>now i. tx_CreateProject now i (CPR_Slug req) (CPR_DisplayName req) (CPR_ConfigStrategy req))
          (\<lambda>p. (201, BProject (projectToAPI p)))) d)"

definition api_GetProject :: "string \<Rightarrow> database option \<Rightarrow> response \<times> database option" where
  "api_GetProject slug = reading (\<lambda>d.
     bindE (get_project slug d) (\<lambda>proj. Inr (200, BProject (projectToAPI proj))))"

subsection \<open>Flags\<close>

definition api_ListFlags :: "string \<Rightarrow> database option \<Rightarrow> response \<times> database option" where
  "api_ListFlags slug = reading (\<lambda>d.
     bindE (get_project slug d) (\<lambda>proj.
     bindE (or_respond (\<lambda>e. writeError 500 (EStore e)) (ListFlagsByProject (Project_ID proj) d)) (\<lambda>rows.
     Inr (200, BFlags (map flagToAPI rows)))))"

definition api_CreateFlag :: "server \<Rightarrow> request \<Rightarrow> string \<Rightarrow> database option \<Rightarrow> response \<times> database option" where
  "api_CreateFlag sv rq slug s = requireStore s (\<lambda>d.
     prepared
       (bindE (get_project slug d) (\<lambda>proj.
        bindE (or_respond (\<lambda>e. badRequest (EDecode e)) (decode_CreateFlagRequest (rq_body rq))) (\<lambda>req.
        case marshal_any (CFR_DefaultValue req) of
          None \<Rightarrow> Inl (badRequest (EWrap ''encoding default_value'' (EDecode ''unsupported value'')))
        | Some defaultRaw \<Rightarrow> Inr (proj, req, defaultRaw))))
       (\<lambda>(proj, req, defaultRaw). mutate sv
          \<lparr>ap_ProjectID = Some (Project_ID proj), ap_FlagID = None, ap_Action = ''create_flag'',
           ap_Actor = rq_actor rq, ap_Payload = mustMarshal [(''key'', AStr (CFR_Key req))]\<rparr>
          (\<lambda>now i. tx_CreateFlag (sv_json sv) now i
             \<lparr>cf_ProjectID = Project_ID proj, cf_Key = CFR_Key req, cf_Name = CFR_Name req,
              cf_Description = derefString (CFR_Description req), cf_ValueType = CFR_ValueType req,
              cf_DefaultValue = RawDoc defaultRaw\<rparr>)
          (\<lambda>f. (201, BFlag (flagToAPI f)))) d)"

definition api_GetFlag :: "string \<Rightarrow> string \<Rightarrow> database option \<Rightarrow> response \<times> database option" where
  "api_GetFlag slug key = reading (\<lambda>d.
     bindE (get_flag slug key d) (\<lambda>(proj, flag).
     case GetLatestFlagVersion (Flag_ID flag) d of
       Inr latest \<Rightarrow> Inr (200, BFlagWithLatest (flagToAPI flag) (Some (flagVersionToAPI latest)))
     | Inl e \<Rightarrow> if e = ErrNotFound then Inr (200, BFlagWithLatest (flagToAPI flag) None)
                else Inl (writeError 500 (EStore e))))"

definition api_ListFlagVersions :: "string \<Rightarrow> string \<Rightarrow> database option \<Rightarrow> response \<times> database option" where
  "api_ListFlagVersions slug key = reading (\<lambda>d.
     bindE (get_flag slug key d) (\<lambda>(proj, flag).
     bindE (or_respond (\<lambda>e. writeError 500 (EStore e)) (ListFlagVersions (Flag_ID flag) d)) (\<lambda>rows.
     Inr (200, BFlagVersions (map flagVersionToAPI rows)))))"

subsection \<open>Publishing\<close>

definition storeSegmentResolver :: "uuid \<Rightarrow> database \<Rightarrow> resolver" where
  "storeSegmentResolver pid d key = (case GetSegmentByKey pid key d of
     Inl e \<Rightarrow> if e = ErrNotFound then Inl (''segment '' @ fmt_q key @ '' does not exist'')
              else Inl (''looking up segment '' @ fmt_q key)
   | Inr seg \<Rightarrow> (case unmarshal_predicate (Segment_Predicate seg) of
       Inl e \<Rightarrow> Inl (''decoding segment '' @ fmt_q key @ '' predicate: '' @ e)
     | Inr p \<Rightarrow> Inr (Some p)))"

text \<open>\<open>None\<close> as the outcome means that the recursion depth \<open>n\<close> does not suffice.\<close>

definition resolveSegmentRefs :: "nat \<Rightarrow> uuid \<Rightarrow> raw \<Rightarrow> database \<Rightarrow> (rest_error + raw) option" where
  "resolveSegmentRefs n pid src d = (case unmarshal_tree src of
     Inl _ \<Rightarrow> Some (Inr src)
   | Inr tree \<Rightarrow> (case ResolveSegments tree (storeSegmentResolver pid d) n of
       None \<Rightarrow> None
     | Some (Inl e) \<Rightarrow> Some (Inl (EConfig e))
     | Some (Inr t) \<Rightarrow> (case marshal_tree t of
         None \<Rightarrow> Some (Inl (EWrap ''re-marshalling resolved source'' (EDecode ''invalid JSON'')))
       | Some j \<Rightarrow> Some (Inr (RawDoc j)))))"

fun esbuild_messages :: "cfg_error \<Rightarrow> EsbuildMessage list option" where
  "esbuild_messages (EsbuildError ms) = Some ms"
| "esbuild_messages (Wrapped _ e) = esbuild_messages e"
| "esbuild_messages _ = None"

definition writeCompileError :: "cfg_error \<Rightarrow> response" where
  "writeCompileError e = (422, BCompileError (error_text e)
     (map_option (map (\<lambda>m. \<lparr>ACD_Column = map_option to_int32 (unless_zero (MColumn m)), ACD_File = unless_empty (MFile m),
        ACD_Line = map_option to_int32 (unless_zero (MLine m)), ACD_Text = MText m\<rparr>)) (esbuild_messages e)))"

definition isCompileError :: "cfg_error \<Rightarrow> bool" where
  "isCompileError e \<longleftrightarrow> error_is e ErrTypeScriptCompileFailure \<or> error_is e ErrCELCompileFailure \<or>
     error_is e ErrInvalidIR \<or> error_is e ErrInvalidPredicate \<or> error_is e ErrInvalidValueType"

text \<open>The bytes of a source text, as the decoder of a tree sees them: a text that is no
  tree stays text.\<close>

definition bytes_of_text :: "string \<Rightarrow> raw" where
  "bytes_of_text t = (case parse_json t of
     None \<Rightarrow> RawBytes t
   | Some j \<Rightarrow> if is_ok (unmarshal_tree (RawDoc j)) then RawDoc j else RawBytes t)"

definition from_text :: "PublishFlagVersionRequest \<Rightarrow> bool" where
  "from_text req \<longleftrightarrow> strategy_of (PVR_Strategy req) = StrategyTypeScript \<and> derefString (PVR_SourceText req) \<noteq> []"

definition publish_source :: "PublishFlagVersionRequest \<Rightarrow> json \<Rightarrow> raw" where
  "publish_source req sourceRaw =
     (if from_text req then bytes_of_text (derefString (PVR_SourceText req)) else RawDoc sourceRaw)"

text \<open>The part of \<open>PublishFlagVersion\<close> between decoding and the transaction: what is
  to be stored, or the response.\<close>

definition publish_params :: "('ast, 'prog) engines \<Rightarrow> ts_engine \<Rightarrow> nat \<Rightarrow> Project \<Rightarrow> Flag \<Rightarrow> PublishFlagVersionRequest
    \<Rightarrow> database \<Rightarrow> (response + PublishFlagVersionParams) option" where
  "publish_params E T n proj flag req d =
     (let strategy = strategy_of (PVR_Strategy req)
      in if \<not> Valid strategy then Some (Inl (badRequest (EInvalid (''invalid strategy '' @ fmt_q (PVR_Strategy req)))))
         else case marshal_any (PVR_Source req) of
           None \<Rightarrow> Some (Inl (badRequest (EWrap ''encoding source'' (EDecode ''unsupported value''))))
         | Some sourceRaw \<Rightarrow>
            (case resolveSegmentRefs n (Project_ID proj) (publish_source req sourceRaw) d of
               None \<Rightarrow> None
             | Some (Inl e) \<Rightarrow> Some (Inl (badRequest e))
             | Some (Inr resolved) \<Rightarrow>
                (case Compile E T strategy resolved of
                   Inl e \<Rightarrow> Some (Inl (if isCompileError e then writeCompileError e else badRequest (EConfig e)))
                 | Inr compiled \<Rightarrow>
                    (case (case IR compiled of None \<Rightarrow> Some JNull | Some t \<Rightarrow> marshal_tree t) of
                       None \<Rightarrow> Some (Inl (writeError 500 (EWrap ''encoding compiled'' (EDecode ''invalid JSON''))))
                     | Some compiledRaw \<Rightarrow> Some (Inr \<lparr>pv_FlagID = Flag_ID flag, pv_Strategy = PVR_Strategy req,
                         pv_Source = RawDoc (if from_text req then compiledRaw else sourceRaw),
                         pv_Compiled = RawDoc compiledRaw, pv_SourceText = derefString (PVR_SourceText req)\<rparr>)))))"

definition publish_event :: "request \<Rightarrow> Project \<Rightarrow> Flag \<Rightarrow> string \<Rightarrow> AppendAuditParams" where
  "publish_event rq proj flag strategy =
     \<lparr>ap_ProjectID = Some (Project_ID proj), ap_FlagID = Some (Flag_ID flag), ap_Action = ''publish_version'',
      ap_Actor = rq_actor rq,
      ap_Payload = mustMarshal [(''strategy'', AStr strategy), (''flag_key'', AStr (Flag_Key flag))]\<rparr>"

definition api_PublishFlagVersion :: "('ast, 'prog) engines \<Rightarrow> ts_engine \<Rightarrow> nat \<Rightarrow> server \<Rightarrow> request \<Rightarrow> string \<Rightarrow> string
    \<Rightarrow> database option \<Rightarrow> (response \<times> database option) option" where
  "api_PublishFlagVersion E T n sv rq slug key s = (case s of
     None \<Rightarrow> Some (writeError 503 EStoreNil, None)
   | Some d \<Rightarrow>
      (case get_flag slug key d of
         Inl r \<Rightarrow> Some (r, s)
       | Inr (proj, flag) \<Rightarrow>
          (case decode_PublishFlagVersionRequest (rq_body rq) of
             Inl e \<Rightarrow> Some (badRequest (EDecode e), s)
           | Inr req \<Rightarrow>
              map_option (\<lambda>x. requireStore s (prepared x (\<lambda>p.
                  mutate sv (publish_event rq proj flag (PVR_Strategy req))
                    (\<lambda>now i. tx_PublishFlagVersion (sv_json sv) now i p)
                    (\<lambda>v. (200, BFlagVersion (flagVersionToAPI v))))))
                (publish_params E T n proj flag req d))))"

subsection \<open>Environments\<close>

definition api_ListEnvironments :: "string \<Rightarrow> database option \<Rightarrow> response \<times> database option" where
  "api_ListEnvironments slug = reading (\<lambda>d.
     bindE (get_project slug d) (\<lambda>proj.
     bindE (or_respond (\<lambda>e. writeError 500 (EStore e)) (ListEnvironmentsByProject (Project_ID proj) d)) (\<lambda>rows.
     Inr (200, BEnvironments (map environmentToAPI rows)))))"

definition api_CreateEnvironment :: "server \<Rightarrow> request \<Rightarrow> string \<Rightarrow> database option \<Rightarrow> response \<times> database option" where
  "api_CreateEnvironment sv rq slug s = requireStore s (\<lambda>d.
     prepared
       (bindE (get_project slug d) (\<lambda>proj.
        bindE (or_respond (\<lambda>e. badRequest (EDecode e)) (decode_CreateEnvironmentRequest (rq_body rq))) (\<lambda>req.
        Inr (proj, req))))
       (\<lambda>(proj, req). mutate sv
          \<lparr>ap_ProjectID = Some (Project_ID proj), ap_FlagID = None, ap_Action = ''create_environment'',
           ap_Actor = rq_actor rq, ap_Payload = mustMarshal [(''slug'', AStr (CER_Slug req))]\<rparr>
          (\<lambda>now i. tx_CreateEnvironment now i (Project_ID proj) (CER_Slug req) (CER_Name req))
          (\<lambda>e. (201, BEnvironment (environmentToAPI e)))) d)"

definition api_GetEnvironment :: "string \<Rightarrow> string \<Rightarrow> database option \<Rightarrow> response \<times> database option" where
  "api_GetEnvironment slug envSlug = reading (\<lambda>d.
     bindE (get_project slug d) (\<lambda>proj.
     bindE (or_respond notFoundOrError (GetEnvironmentBySlug (Project_ID proj) envSlug d)) (\<lambda>env.
     Inr (200, BEnvironment (environmentToAPI env)))))"

subsection \<open>Segments\<close>

definition api_ListSegments :: "string \<Rightarrow> database option \<Rightarrow> response \<times> database option" where
  "api_ListSegments slug = reading (\<lambda>d.
     bindE (get_project slug d) (\<lambda>proj.
     bindE (or_respond (\<lambda>e. writeError 500 (EStore e)) (ListSegmentsByProject (Project_ID proj) d)) (\<lambda>rows.
     Inr (200, BSegments (map segmentToAPI rows)))))"

definition normalizePredicate :: "('ast, 'prog) engines \<Rightarrow> any \<Rightarrow> rest_error + raw" where
  "normalizePredicate E raw =
     (if raw = ANil then Inl (EInvalid ''predicate is required'')
      else case marshal_any raw of
        None \<Rightarrow> Inl (EWrap ''encoding predicate'' (EDecode ''unsupported value''))
      | Some j \<Rightarrow> (case unmarshal_predicate (RawDoc j) of
          Inl e \<Rightarrow> Inl (EWrap ''decoding predicate'' (EDecode e))
        | Inr p \<Rightarrow>
           if Kind p = PredSegment then Inl (EInvalid ''segment predicate must not reference another segment'')
           else case ValidatePredicate E (Some p) True of
             Some e \<Rightarrow> Inl (EConfig e)
           | None \<Rightarrow> Inr (RawDoc j)))"

definition api_CreateSegment :: "('ast, 'prog) engines \<Rightarrow> server \<Rightarrow> request \<Rightarrow> string \<Rightarrow> database option
    \<Rightarrow> response \<times> database option" where
  "api_CreateSegment E sv rq slug s = requireStore s (\<lambda>d.
     prepared
       (bindE (get_project slug d) (\<lambda>proj.
        bindE (or_respond (\<lambda>e. badRequest (EDecode e)) (decode_CreateSegmentRequest (rq_body rq))) (\<lambda>req.
        bindE (or_respond badRequest (normalizePredicate E (CSR_Predicate req))) (\<lambda>predicateRaw.
        Inr (proj, req, predicateRaw)))))
       (\<lambda>(proj, req, predicateRaw). mutate sv
          \<lparr>ap_ProjectID = Some (Project_ID proj), ap_FlagID = None, ap_Action = ''create_segment'',
           ap_Actor = rq_actor rq, ap_Payload = mustMarshal [(''key'', AStr (CSR_Key req))]\<rparr>
          (\<lambda>now i. tx_CreateSegment (sv_json sv) now i
             \<lparr>cs_ProjectID = Project_ID proj, cs_Key = CSR_Key req, cs_Name = CSR_Name req,
              cs_Description = derefString (CSR_Description req), cs_Predicate = predicateRaw\<rparr>)
          (\<lambda>x. (201, BSegment (segmentToAPI x)))) d)"

definition api_GetSegment :: "string \<Rightarrow> string \<Rightarrow> database option \<Rightarrow> response \<times> database option" where
  "api_GetSegment slug segKey = reading (\<lambda>d.
     bindE (get_project slug d) (\<lambda>proj.
     bindE (or_respond notFoundOrError (GetSegmentByKey (Project_ID proj) segKey d)) (\<lambda>seg.
     Inr (200, BSegment (segmentToAPI seg)))))"

definition api_UpdateSegment :: "('ast, 'prog) engines \<Rightarrow> server \<Rightarrow> request \<Rightarrow> string \<Rightarrow> string \<Rightarrow> database option
    \<Rightarrow> response \<times> database option" where
  "api_UpdateSegment E sv rq slug segKey s = requireStore s (\<lambda>d.
     prepared
       (bindE (get_project slug d) (\<lambda>proj.
        bindE (or_respond (\<lambda>e. badRequest (EDecode e)) (decode_UpdateSegmentRequest (rq_body rq))) (\<lambda>req.
        bindE (or_respond badRequest (normalizePredicate E (USR_Predicate req))) (\<lambda>predicateRaw.
        Inr (proj, req, predicateRaw)))))
       (\<lambda>(proj, req, predicateRaw). mutate sv
          \<lparr>ap_ProjectID = Some (Project_ID proj), ap_FlagID = None, ap_Action = ''update_segment'',
           ap_Actor = rq_actor rq, ap_Payload = mustMarshal [(''key'', AStr segKey)]\<rparr>
          (\<lambda>now i. tx_UpdateSegment (sv_json sv) now
             \<lparr>us_ProjectID = Project_ID proj, us_Key = segKey, us_Name = USR_Name req,
              us_Description = derefString (USR_Description req), us_Predicate = predicateRaw\<rparr>)
          (\<lambda>x. (200, BSegment (segmentToAPI x)))) d)"

subsection \<open>Snapshots\<close>

text \<open>The limit is an \<open>int32\<close> query parameter.\<close>

definition api_ListSnapshots :: "string \<Rightarrow> int option \<Rightarrow> database option \<Rightarrow> response \<times> database option" where
  "api_ListSnapshots slug limit = reading (\<lambda>d.
     bindE (get_project slug d) (\<lambda>proj.
     bindE (or_respond (\<lambda>e. writeError 500 (EStore e)) (ListSnapshotsByProject (Project_ID proj)
              (case limit of None \<Rightarrow> 50 | Some n \<Rightarrow> n) d)) (\<lambda>rows.
     Inr (200, BSnapshots (map snapshotToAPI rows)))))"

definition api_GetLatestSnapshot :: "string \<Rightarrow> database option \<Rightarrow> response \<times> database option" where
  "api_GetLatestSnapshot slug = reading (\<lambda>d.
     bindE (get_project slug d) (\<lambda>proj.
     bindE (or_respond notFoundOrError (GetLatestSnapshot (Project_ID proj) d)) (\<lambda>snap.
     Inr (200, BSnapshot (snapshotToAPI snap)))))"

definition api_GetSnapshot :: "string \<Rightarrow> uuid \<Rightarrow> database option \<Rightarrow> response \<times> database option" where
  "api_GetSnapshot slug i = reading (\<lambda>d.
     bindE (get_project slug d) (\<lambda>proj.
     bindE (or_respond notFoundOrError (GetSnapshotByID (Project_ID proj) i d)) (\<lambda>snap.
     Inr (200, BSnapshot (snapshotToAPI snap)))))"

text \<open>\<open>bundle.Flags\<close>, a map from the keys of flags to trees.\<close>

type_synonym snapshotBundle = "(string \<times> RulesTree) list"

fun bundle_of :: "LatestFlagVersion list \<Rightarrow> snapshotBundle \<Rightarrow> rest_error + snapshotBundle" where
  "bundle_of [] b = Inr b"
| "bundle_of (lv # lvs) b = (case unmarshal_tree (Latest_Compiled lv) of
     Inl e \<Rightarrow> Inl (EWrap (''decoding compiled IR for '' @ Latest_FlagKey lv) (EDecode e))
   | Inr tree \<Rightarrow> bundle_of lvs (map_put (Latest_FlagKey lv) tree b))"

definition compileBundle :: "uuid \<Rightarrow> database \<Rightarrow> rest_error + snapshotBundle" where
  "compileBundle pid d = (case ListLatestFlagVersions pid d of
     Inl e \<Rightarrow> Inl (EWrap ''listing latest versions'' (EStore e))
   | Inr latest \<Rightarrow> bundle_of latest [])"

text \<open>\<open>json.Marshal(bundle)\<close>: the keys of the map are sorted.\<close>

definition marshal_bundle :: "snapshotBundle \<Rightarrow> json option" where
  "marshal_bundle b = map_option (\<lambda>kvs. JObj [(''flags'', JObj (fold (\<lambda>(k, j). insert_key k j) kvs []))])
     (those (map (\<lambda>(k, t). map_option (Pair k) (marshal_tree t)) b))"

text \<open>The optional body may select an environment.\<close>

definition snapshot_environment :: "request \<Rightarrow> Project \<Rightarrow> database \<Rightarrow> response + uuid option" where
  "snapshot_environment rq proj d =
     (if rq_content_length rq > 0 then
        bindE (or_respond (\<lambda>e. badRequest (EDecode e)) (decode_CompileSnapshotRequest (rq_body rq))) (\<lambda>slug.
        if derefString slug = [] then Inr None
        else case GetEnvironmentBySlug (Project_ID proj) (derefString slug) d of
          Inl e \<Rightarrow> if e = ErrNotFound
                   then Inl (badRequest (EInvalid (''environment '' @ fmt_q (derefString slug) @ '' does not exist'')))
                   else Inl (writeError 500 (EStore e))
        | Inr env \<Rightarrow> Inr (Some (Env_ID env)))
      else Inr None)"

definition api_CompileSnapshot :: "server \<Rightarrow> request \<Rightarrow> string \<Rightarrow> database option \<Rightarrow> response \<times> database option" where
  "api_CompileSnapshot sv rq slug s = requireStore s (\<lambda>d.
     prepared
       (bindE (get_project slug d) (\<lambda>proj.
        bindE (snapshot_environment rq proj d) (\<lambda>envID.
        bindE (or_respond (writeError 500) (compileBundle (Project_ID proj) d)) (\<lambda>bundle.
        case marshal_bundle bundle of
          None \<Rightarrow> Inl (writeError 500 (EWrap ''encoding bundle'' (EDecode ''invalid JSON'')))
        | Some compiledRaw \<Rightarrow> Inr (proj, envID, bundle, compiledRaw)))))
       (\<lambda>(proj, envID, bundle, compiledRaw). mutate sv
          \<lparr>ap_ProjectID = Some (Project_ID proj), ap_FlagID = None, ap_Action = ''compile_snapshot'',
           ap_Actor = rq_actor rq, ap_Payload = mustMarshal [(''flag_count'', AInt (int (length bundle)))]\<rparr>
          (\<lambda>now i. tx_CompileSnapshot (sv_json sv) now i
             \<lparr>sp_ProjectID = Project_ID proj, sp_EnvironmentID = envID, sp_Compiled = RawDoc compiledRaw\<rparr>)
          (\<lambda>x. (201, BSnapshot (snapshotToAPI x)))) d)"

subsection \<open>Evaluation\<close>

definition loadEvaluation :: "('ast, 'prog) engines \<Rightarrow> ts_engine \<Rightarrow> request \<Rightarrow> string \<Rightarrow> string \<Rightarrow> database
    \<Rightarrow> response + 'prog Compiled \<times> int \<times> ctx" where
  "loadEvaluation E T rq slug key d =
     bindE (get_flag slug key d) (\<lambda>(proj, flag).
     bindE (or_respond notFoundOrError (GetLatestFlagVersion (Flag_ID flag) d)) (\<lambda>version.
     bindE (or_respond (\<lambda>e. badRequest (EDecode e)) (decode_EvaluationRequest (rq_body rq))) (\<lambda>ctx.
     bindE (or_respond (\<lambda>e. writeError 500 (EWrap ''rehydrating IR'' (EConfig e)))
              (Compile E T (strategy_of (FV_Strategy version)) (FV_Compiled version))) (\<lambda>compiled.
     Inr (compiled, FV_Version version, ctx)))))"

definition api_EvaluateFlag :: "('ast, 'prog) engines \<Rightarrow> ts_engine \<Rightarrow> request \<Rightarrow> string \<Rightarrow> string \<Rightarrow> database option
    \<Rightarrow> response \<times> database option" where
  "api_EvaluateFlag E T rq slug key = reading (\<lambda>d.
     bindE (loadEvaluation E T rq slug key d) (\<lambda>(compiled, version, ctx).
     bindE (or_respond (\<lambda>e. writeError 500 (EEval e)) (Evaluate E (Some compiled) ctx version)) (\<lambda>dec.
     Inr (200, BDecision (decisionToAPI dec)))))"

definition api_EvaluateFlagWithTrace :: "('ast, 'prog) engines \<Rightarrow> ts_engine \<Rightarrow> request \<Rightarrow> string \<Rightarrow> string
    \<Rightarrow> database option \<Rightarrow> response \<times> database option" where
  "api_EvaluateFlagWithTrace E T rq slug key = reading (\<lambda>d.
     bindE (loadEvaluation E T rq slug key d) (\<lambda>(compiled, version, ctx).
     bindE (or_respond (\<lambda>e. writeError 500 (EEval e)) (EvaluateWithTrace E (Some compiled) ctx version)) (\<lambda>(dec, trace).
     Inr (200, BTrace (decisionToAPI dec) (traceToAPI trace)))))"

subsection \<open>The audit log\<close>

definition parseTime :: "string \<Rightarrow> string + time" where
  "parseTime s = (if s = [] then Inr 0 else case parse_nano s of None \<Rightarrow> Inl ''parsing time'' | Some t \<Rightarrow> Inr t)"

definition derefTime :: "time option \<Rightarrow> time" where
  "derefTime p = (case p of None \<Rightarrow> 0 | Some t \<Rightarrow> t)"

record auditCursor =
  cur_Ts :: string
  cur_ID :: uuid

definition encodeAuditCursor :: "uuid_text \<Rightarrow> time \<Rightarrow> uuid \<Rightarrow> string" where
  "encodeAuditCursor U ts i = b64_encode (json_text (JObj [(''ts'', JStr (fmt_nano ts)), (''id'', JStr (uuid_String U i))]))"

definition dec_cursor_field :: "uuid_text \<Rightarrow> auditCursor \<Rightarrow> string \<times> json \<Rightarrow> string + auditCursor" where
  "dec_cursor_field U c kj = (case kj of (k, j) \<Rightarrow>
     case field_name [''ts'', ''id''] k of
       None \<Rightarrow> Inr c
     | Some f \<Rightarrow>
        if f = ''ts'' then bindE (dec_string (cur_Ts c) j) (\<lambda>s. Inr (c\<lparr>cur_Ts := s\<rparr>))
        else (case j of
                JNull \<Rightarrow> Inr c
              | JStr s \<Rightarrow> (case uuid_Parse U s of None \<Rightarrow> Inl ''invalid UUID'' | Some i \<Rightarrow> Inr (c\<lparr>cur_ID := i\<rparr>))
              | _ \<Rightarrow> Inl ''json: cannot unmarshal into Go value of type uuid.UUID''))"

definition decodeAuditCursor :: "uuid_text \<Rightarrow> string \<Rightarrow> string + time \<times> uuid" where
  "decodeAuditCursor U s = (case b64_decode s of
     None \<Rightarrow> Inl ''illegal base64 data''
   | Some b \<Rightarrow>
      bindE (case parse_json b of
               None \<Rightarrow> Inl ''invalid character''
             | Some JNull \<Rightarrow> Inr \<lparr>cur_Ts = [], cur_ID = 0\<rparr>
             | Some (JObj kvs) \<Rightarrow> foldE (dec_cursor_field U) kvs \<lparr>cur_Ts = [], cur_ID = 0\<rparr>
             | Some _ \<Rightarrow> Inl ''json: cannot unmarshal into Go value of type auditCursor'') (\<lambda>c.
      bindE (parseTime (cur_Ts c)) (\<lambda>ts. Inr (ts, cur_ID c))))"

text \<open>The query parameters of the listing; the limit is an \<open>int32\<close>.\<close>

record ApiListAuditParams =
  ALP_Action :: "string option"
  ALP_Actor :: "string option"
  ALP_From :: "time option"
  ALP_To :: "time option"
  ALP_Cursor :: "string option"
  ALP_Limit :: "int option"

definition audit_limit :: "ApiListAuditParams \<Rightarrow> int" where
  "audit_limit p = (case ALP_Limit p of None \<Rightarrow> 100 | Some n \<Rightarrow> n)"

definition audit_list_params :: "uuid_text \<Rightarrow> uuid \<Rightarrow> ApiListAuditParams \<Rightarrow> response + ListAuditEventsParams" where
  "audit_list_params U pid p =
     bindE (if derefString (ALP_Cursor p) = [] then Inr (0, 0)
            else or_respond (\<lambda>e. badRequest (EWrap ''invalid cursor'' (EDecode e)))
                   (decodeAuditCursor U (derefString (ALP_Cursor p)))) (\<lambda>(ts, i).
     Inr \<lparr>lp_ProjectID = pid, lp_Action = derefString (ALP_Action p), lp_Actor = derefString (ALP_Actor p),
          lp_From = derefTime (ALP_From p), lp_To = derefTime (ALP_To p), lp_CursorTs = ts, lp_CursorID = i,
          lp_Limit = to_int32 (audit_limit p + 1)\<rparr>)"

text \<open>The page and the cursor of the next one, given one row more than the limit. \<open>None\<close>
  is the panic of \<open>rows[limit-1]\<close> with a limit below one.\<close>

definition audit_page :: "uuid_text \<Rightarrow> int \<Rightarrow> AuditEvent list \<Rightarrow> body option" where
  "audit_page U limit rows =
     (let items = map auditEventToAPI (if limit \<le> 0 then [] else take (nat limit) rows)
      in if to_int32 (int (length rows)) > limit
         then if limit - 1 < 0 then None
              else (let last = rows ! nat (limit - 1)
                    in Some (BAuditEvents items (Some (encodeAuditCursor U (Audit_CreatedAt last) (Audit_ID last)))))
         else Some (BAuditEvents items None))"

definition api_ListAuditEvents :: "uuid_text \<Rightarrow> string \<Rightarrow> ApiListAuditParams \<Rightarrow> database option
    \<Rightarrow> (response \<times> database option) option" where
  "api_ListAuditEvents U slug p s = (case s of
     None \<Rightarrow> Some (writeError 503 EStoreNil, None)
   | Some d \<Rightarrow>
      (case bindE (get_project slug d) (\<lambda>proj. audit_list_params U (Project_ID proj) p) of
         Inl r \<Rightarrow> Some (r, s)
       | Inr lp \<Rightarrow>
          (case ListAuditEvents lp d of
             Inl e \<Rightarrow> Some (writeError 500 (EStore e), s)
           | Inr rows \<Rightarrow> map_option (\<lambda>b. ((200, b), s)) (audit_page U (audit_limit p) rows))))"

subsection \<open>All requests\<close>

text \<open>The calls of the generated \<open>ServerInterface\<close>, with their path and query
  parameters.\<close>

datatype rest_call =
    GetHealth
  | RListProjects
  | RCreateProject
  | RGetProject string
  | RListAuditEvents string ApiListAuditParams
  | RListEnvironments string
  | RCreateEnvironment string
  | RGetEnvironment string string
  | RListFlags string
  | RCreateFlag string
  | RGetFlag string string
  | RPublishFlagVersion string string
  | REvaluateFlag string string
  | REvaluateFlagWithTrace string string
  | RListFlagVersions string string
  | RListSegments string
  | RCreateSegment string
  | RGetSegment string string
  | RUpdateSegment string string
  | RListSnapshots string "int option"
  | RCompileSnapshot string
  | RGetLatestSnapshot string
  | RGetSnapshot string uuid

definition api_GetHealth :: "string \<Rightarrow> time \<Rightarrow> response" where
  "api_GetHealth version now = (200, BHealth ''ok'' (''falseflag-api'') version now)"

text \<open>One request, from the call to the response and the new database. \<open>None\<close> is a
  request that is not answered: the recursion depth \<open>n\<close> does not suffice to resolve
  the segments, or the handler panics.\<close>

fun serve_rest :: "('ast, 'prog) engines \<Rightarrow> ts_engine \<Rightarrow> uuid_text \<Rightarrow> nat \<Rightarrow> server \<Rightarrow> request \<Rightarrow> rest_call
    \<Rightarrow> database option \<Rightarrow> (response \<times> database option) option" where
  "serve_rest E T U n sv rq GetHealth s = Some (api_GetHealth (sv_version sv) (sv_now sv 0), s)"
| "serve_rest E T U n sv rq RListProjects s = Some (api_ListProjects s)"
| "serve_rest E T U n sv rq RCreateProject s = Some (api_CreateProject sv rq s)"
| "serve_rest E T U n sv rq (RGetProject slug) s = Some (api_GetProject slug s)"
| "serve_rest E T U n sv rq (RListAuditEvents slug p) s = api_ListAuditEvents U slug p s"
| "serve_rest E T U n sv rq (RListEnvironments slug) s = Some (api_ListEnvironments slug s)"
| "serve_rest E T U n sv rq (RCreateEnvironment slug) s = Some (api_CreateEnvironment sv rq slug s)"
| "serve_rest E T U n sv rq (RGetEnvironment slug e) s = Some (api_GetEnvironment slug e s)"
| "serve_rest E T U n sv rq (RListFlags slug) s = Some (api_ListFlags slug s)"
| "serve_rest E T U n sv rq (RCreateFlag slug) s = Some (api_CreateFlag sv rq slug s)"
| "serve_rest E T U n sv rq (RGetFlag slug key) s = Some (api_GetFlag slug key s)"
| "serve_rest E T U n sv rq (RPublishFlagVersion slug key) s = api_PublishFlagVersion E T n sv rq slug key s"
| "serve_rest E T U n sv rq (REvaluateFlag slug key) s = Some (api_EvaluateFlag E T rq slug key s)"
| "serve_rest E T U n sv rq (REvaluateFlagWithTrace slug key) s = Some (api_EvaluateFlagWithTrace E T rq slug key s)"
| "serve_rest E T U n sv rq (RListFlagVersions slug key) s = Some (api_ListFlagVersions slug key s)"
| "serve_rest E T U n sv rq (RListSegments slug) s = Some (api_ListSegments slug s)"
| "serve_rest E T U n sv rq (RCreateSegment slug) s = Some (api_CreateSegment E sv rq slug s)"
| "serve_rest E T U n sv rq (RGetSegment slug key) s = Some (api_GetSegment slug key s)"
| "serve_rest E T U n sv rq (RUpdateSegment slug key) s = Some (api_UpdateSegment E sv rq slug key s)"
| "serve_rest E T U n sv rq (RListSnapshots slug limit) s = Some (api_ListSnapshots slug limit s)"
| "serve_rest E T U n sv rq (RCompileSnapshot slug) s = Some (api_CompileSnapshot sv rq slug s)"
| "serve_rest E T U n sv rq (RGetLatestSnapshot slug) s = Some (api_GetLatestSnapshot slug s)"
| "serve_rest E T U n sv rq (RGetSnapshot slug i) s = Some (api_GetSnapshot slug i s)"

end
