(* ===== verification/Store_Props.thy ===== *)
theory Store_Props
  imports Store
begin

text \<open>
  What the store guarantees: the constraints of the schema are an invariant of every
  operation, versions are numbered without gaps, published versions and audit events
  are never changed or removed, created rows are found by their key, and
  \<open>WithAudit\<close> commits the mutation together with exactly one audit event or
  nothing at all.
\<close>

subsection \<open>The invariant of the schema\<close>

definition projects_ok :: "database \<Rightarrow> bool" where
  "projects_ok d \<longleftrightarrow> distinct (map pr_id (projects d)) \<and> distinct (map pr_slug (projects d)) \<and>
     list_all (\<lambda>r. strategy_check (pr_config_strategy r)) (projects d)"

definition flags_ok :: "database \<Rightarrow> bool" where
  "flags_ok d \<longleftrightarrow> distinct (map fl_id (flags d)) \<and>
     distinct (map (\<lambda>r. (fl_project_id r, fl_key r)) (flags d)) \<and>
     list_all (\<lambda>r. value_type_check (fl_value_type r) \<and> project_exists d (fl_project_id r)) (flags d)"

definition versions_ok :: "database \<Rightarrow> bool" where
  "versions_ok d \<longleftrightarrow> distinct (map fv_id (flag_versions d)) \<and>
     distinct (map (\<lambda>r. (fv_flag_id r, fv_version r)) (flag_versions d)) \<and>
     list_all (\<lambda>r. strategy_check (fv_strategy r) \<and> flag_exists d (fv_flag_id r)) (flag_versions d)"

definition environments_ok :: "database \<Rightarrow> bool" where
  "environments_ok d \<longleftrightarrow> distinct (map en_id (environments d)) \<and>
     distinct (map (\<lambda>r. (en_project_id r, en_slug r)) (environments d)) \<and>
     list_all (\<lambda>r. project_exists d (en_project_id r)) (environments d)"

definition segments_ok :: "database \<Rightarrow> bool" where
  "segments_ok d \<longleftrightarrow> distinct (map sg_id (segments d)) \<and>
     distinct (map (\<lambda>r. (sg_project_id r, sg_key r)) (segments d)) \<and>
     list_all (\<lambda>r. project_exists d (sg_project_id r)) (segments d)"

definition snapshots_ok :: "database \<Rightarrow> bool" where
  "snapshots_ok d \<longleftrightarrow> distinct (map sn_id (snapshots d)) \<and>
     distinct (map (\<lambda>r. (sn_project_id r, sn_version r)) (snapshots d)) \<and>
     list_all (\<lambda>r. project_exists d (sn_project_id r) \<and> ref_ok (environment_exists d) (sn_environment_id r)) (snapshots d)"

definition audit_ok :: "database \<Rightarrow> bool" where
  "audit_ok d \<longleftrightarrow> distinct (map au_id (audit_events d)) \<and>
     list_all (\<lambda>r. ref_ok (project_exists d) (au_project_id r) \<and> ref_ok (flag_exists d) (au_flag_id r)) (audit_events d)"

definition db_ok :: "database \<Rightarrow> bool" where
  "db_ok d \<longleftrightarrow> projects_ok d \<and> flags_ok d \<and> versions_ok d \<and> environments_ok d \<and> segments_ok d \<and>
     snapshots_ok d \<and> audit_ok d"

lemmas table_defs [store_simps] = projects_ok_def flags_ok_def versions_ok_def environments_ok_def
  segments_ok_def snapshots_ok_def audit_ok_def

lemmas exists_defs [store_simps] = project_exists_def flag_exists_def environment_exists_def

text \<open>Versions of a flag, and snapshots of a project, are numbered 1, 2, 3, ...\<close>

definition numbered :: "int list \<Rightarrow> bool" where
  "numbered vs \<longleftrightarrow> set vs = {1..int (length vs)}"

definition db_numbered :: "database \<Rightarrow> bool" where
  "db_numbered d \<longleftrightarrow> (\<forall>fid. numbered (map fv_version (versions_of d fid))) \<and>
     (\<forall>pid. numbered (map sn_version (snapshots_of d pid)))"

lemma numbered_Max: "numbered vs \<Longrightarrow> (if vs = [] then 0 else Max (set vs)) = int (length vs)"
proof (cases "vs = []")
  case False
  then have "1 \<le> int (length vs)" by (cases vs) auto
  then have "Max {1..int (length vs)} = int (length vs)" by (intro Max_eqI) simp_all
  moreover assume "numbered vs"
  ultimately show ?thesis using False by (simp add: numbered_def)
qed simp

lemma next_version_numbered:
  assumes "numbered vs" "next_version vs = Inr n"
  shows "n = int (length vs) + 1 \<and> numbered (vs @ [n])"
proof -
  have n: "n = int (length vs) + 1"
    using assms numbered_Max [OF assms(1)] by (auto simp: next_version_def Let_def split: if_splits)
  have "{1..1 + int (length vs)} = insert (1 + int (length vs)) {1..int (length vs)}"
    by (rule atLeastAtMostPlus1_int_conv) simp
  then show ?thesis using assms(1) by (simp add: numbered_def n add.commute)
qed

lemma ref_ok_mono: "ref_ok P x \<Longrightarrow> (\<And>a. P a \<Longrightarrow> Q a) \<Longrightarrow> ref_ok Q x"
  by (auto simp: ref_ok_def split: option.splits)

text \<open>What the wrapping of errors does to a success.\<close>

lemma wrap_sql_Inr [simp]: "wrap_sql m x = Inr a \<longleftrightarrow> x = Inr a"
  by (cases x) (auto simp: wrap_sql_def)

lemma wrap_get_Inr [simp]: "wrap_get m x = Inr a \<longleftrightarrow> x = Inr a"
  by (cases x) (auto simp: wrap_get_def)

lemma first_Inr: "first f x = Inr (b, d) \<longleftrightarrow> (\<exists>a. x = Inr (a, d) \<and> b = f a)"
  by (cases x) (auto simp: first_def)

lemma jsonb_Inr: "jsonb J r = Inr j \<longleftrightarrow> (\<exists>j0. r = RawDoc j0 \<and> J j0 = Inr j)"
  by (auto simp: jsonb_def split: raw.splits)

lemmas success_simps = first_Inr bindE_eq_Inr jsonb_Inr Let_def

subsection \<open>Steps\<close>

text \<open>
  A step of the store: one successful write, of any caller. The database moves by
  such steps only, whatever transactions run and however they are interleaved.
\<close>

inductive store_step :: "json_in \<Rightarrow> database \<Rightarrow> database \<Rightarrow> bool" for J where
  create_project: "tx_CreateProject now i slug name strategy d = Inr (r, d') \<Longrightarrow> store_step J d d'"
| create_flag: "tx_CreateFlag J now i fp d = Inr (r2, d') \<Longrightarrow> store_step J d d'"
| create_environment: "tx_CreateEnvironment now i pid slug name d = Inr (r3, d') \<Longrightarrow> store_step J d d'"
| create_segment: "tx_CreateSegment J now i sp d = Inr (r4, d') \<Longrightarrow> store_step J d d'"
| update_segment: "tx_UpdateSegment J now up d = Inr (r5, d') \<Longrightarrow> store_step J d d'"
| publish: "tx_PublishFlagVersion J now i vp d = Inr (r6, d') \<Longrightarrow> store_step J d d'"
| compile_snapshot: "tx_CompileSnapshot J now i cp d = Inr (r7, d') \<Longrightarrow> store_step J d d'"
| append_audit: "AppendAudit J now i ap d = Inr (r8, d') \<Longrightarrow> store_step J d d'"

text \<open>What each write does to the tables.\<close>

lemma create_project_effect:
  assumes "q_CreateProject now i slug name strategy d = Inr (r, d')"
  shows "d' = d\<lparr>projects := projects d @ [r]\<rparr> \<and> pr_id r = i \<and> pr_slug r = slug \<and> pr_config_strategy r = strategy \<and>
    strategy_check strategy \<and> i \<notin> pr_id ` set (projects d) \<and> slug \<notin> pr_slug ` set (projects d)"
  using assms by (auto simp: q_CreateProject_def success_simps)

lemma create_environment_effect:
  assumes "q_CreateEnvironment now i pid slug name d = Inr (r, d')"
  shows "d' = d\<lparr>environments := environments d @ [r]\<rparr> \<and> en_id r = i \<and> en_project_id r = pid \<and> en_slug r = slug \<and>
    i \<notin> en_id ` set (environments d) \<and> project_exists d pid \<and>
    (pid, slug) \<notin> (\<lambda>r. (en_project_id r, en_slug r)) ` set (environments d)"
  using assms by (auto simp: q_CreateEnvironment_def success_simps)

lemma create_flag_effect:
  assumes "q_CreateFlag J now i pid key name desc vt dv d = Inr (r, d')"
  shows "d' = d\<lparr>flags := flags d @ [r]\<rparr> \<and> fl_id r = i \<and> fl_project_id r = pid \<and> fl_key r = key \<and>
    fl_value_type r = vt \<and> value_type_check vt \<and> i \<notin> fl_id ` set (flags d) \<and> project_exists d pid \<and>
    (pid, key) \<notin> (\<lambda>r. (fl_project_id r, fl_key r)) ` set (flags d)"
  using assms by (auto simp: q_CreateFlag_def success_simps)

lemma create_version_effect:
  assumes "q_CreateFlagVersion J now i fid v strategy src cmp st d = Inr (r, d')"
  shows "d' = d\<lparr>flag_versions := flag_versions d @ [r]\<rparr> \<and> fv_id r = i \<and> fv_flag_id r = fid \<and> fv_version r = v \<and>
    fv_strategy r = strategy \<and> strategy_check strategy \<and> i \<notin> fv_id ` set (flag_versions d) \<and> flag_exists d fid \<and>
    (fid, v) \<notin> (\<lambda>r. (fv_flag_id r, fv_version r)) ` set (flag_versions d) \<and>
    (\<exists>js jc. src = RawDoc js \<and> cmp = RawDoc jc \<and> J js = Inr (fv_source r) \<and> J jc = Inr (fv_compiled r)) \<and> fv_source_text r = st"
  using assms by (auto simp: q_CreateFlagVersion_def success_simps)

lemma create_segment_effect:
  assumes "q_CreateSegment J now i pid key name desc p d = Inr (r, d')"
  shows "d' = d\<lparr>segments := segments d @ [r]\<rparr> \<and> sg_id r = i \<and> sg_project_id r = pid \<and> sg_key r = key \<and>
    i \<notin> sg_id ` set (segments d) \<and> project_exists d pid \<and>
    (pid, key) \<notin> (\<lambda>r. (sg_project_id r, sg_key r)) ` set (segments d)"
  using assms by (auto simp: q_CreateSegment_def success_simps)

lemma update_segment_effect:
  assumes "q_UpdateSegment J pid key name desc p t d = Inr (r, d')"
  shows "\<exists>f. d' = d\<lparr>segments := map f (segments d)\<rparr> \<and>
    (\<forall>r. sg_id (f r) = sg_id r \<and> sg_project_id (f r) = sg_project_id r \<and> sg_key (f r) = sg_key r)"
proof -
  obtain j where d': "d' = d\<lparr>segments := map (\<lambda>r. if sg_project_id r = pid \<and> sg_key r = key
      then r\<lparr>sg_name := name, sg_description := desc, sg_predicate := j, sg_updated_at := to_micros t\<rparr>
      else r) (segments d)\<rparr>"
    using assms by (auto simp: q_UpdateSegment_def success_simps split: raw.splits list.splits)
  show ?thesis unfolding d' by (rule exI, rule conjI, rule refl) auto
qed

lemma create_snapshot_effect:
  assumes "q_CreateSnapshot J now i pid eid v c d = Inr (r, d')"
  shows "d' = d\<lparr>snapshots := snapshots d @ [r]\<rparr> \<and> sn_id r = i \<and> sn_project_id r = pid \<and> sn_version r = v \<and>
    sn_environment_id r = eid \<and> i \<notin> sn_id ` set (snapshots d) \<and> project_exists d pid \<and>
    ref_ok (environment_exists d) eid \<and>
    (pid, v) \<notin> (\<lambda>r. (sn_project_id r, sn_version r)) ` set (snapshots d)"
  using assms by (auto simp: q_CreateSnapshot_def success_simps)

lemma append_audit_effect:
  assumes "append_audit_query J now i ev d = Inr (r, d')"
  shows "d' = d\<lparr>audit_events := audit_events d @ [r]\<rparr> \<and> au_id r = i \<and> au_project_id r = ap_ProjectID ev \<and>
    au_flag_id r = ap_FlagID ev \<and> au_action r = ap_Action ev \<and> au_actor r = textFromString (ap_Actor ev) \<and>
    au_created_at r = to_micros now \<and> i \<notin> au_id ` set (audit_events d) \<and>
    ref_ok (project_exists d) (ap_ProjectID ev) \<and> ref_ok (flag_exists d) (ap_FlagID ev)"
  using assms by (auto simp: append_audit_query_def q_AppendAuditEvent_def pgAuditInsertParams_def success_simps
                       split: if_splits)

lemmas step_defs = tx_CreateProject_def tx_CreateFlag_def tx_CreateEnvironment_def tx_CreateSegment_def
  tx_UpdateSegment_def tx_PublishFlagVersion_def publishFlagVersionTx_def tx_CompileSnapshot_def AppendAudit_def

subsection \<open>Every step keeps the invariants\<close>

text \<open>A database with more rows in the referenced tables keeps every reference.\<close>

definition grows :: "database \<Rightarrow> database \<Rightarrow> bool" where
  "grows d d' \<longleftrightarrow> (\<forall>i. project_exists d i \<longrightarrow> project_exists d' i) \<and> (\<forall>i. flag_exists d i \<longrightarrow> flag_exists d' i) \<and>
     (\<forall>i. environment_exists d i \<longrightarrow> environment_exists d' i)"

lemma grows_simps [simp]:
  "grows d (d\<lparr>projects := projects d @ ps\<rparr>)" "grows d (d\<lparr>flags := flags d @ fs\<rparr>)"
  "grows d (d\<lparr>flag_versions := vs\<rparr>)" "grows d (d\<lparr>environments := environments d @ es\<rparr>)"
  "grows d (d\<lparr>segments := ss\<rparr>)" "grows d (d\<lparr>snapshots := ns\<rparr>)" "grows d (d\<lparr>audit_events := as\<rparr>)"
  by (auto simp: grows_def exists_defs)

lemma exists_update [simp]:
  "project_exists (d\<lparr>snapshots := ns\<rparr>) = project_exists d" "environment_exists (d\<lparr>snapshots := ns\<rparr>) = environment_exists d"
  "project_exists (d\<lparr>audit_events := as\<rparr>) = project_exists d" "flag_exists (d\<lparr>audit_events := as\<rparr>) = flag_exists d"
  by (simp_all add: fun_eq_iff exists_defs)

lemma flags_ok_grows: "flags_ok d \<Longrightarrow> grows d d' \<Longrightarrow> flags d' = flags d \<Longrightarrow> flags_ok d'"
  by (auto simp: flags_ok_def grows_def list_all_iff)

lemma versions_ok_grows: "versions_ok d \<Longrightarrow> grows d d' \<Longrightarrow> flag_versions d' = flag_versions d \<Longrightarrow> versions_ok d'"
  by (auto simp: versions_ok_def grows_def list_all_iff)

lemma environments_ok_grows:
  "environments_ok d \<Longrightarrow> grows d d' \<Longrightarrow> environments d' = environments d \<Longrightarrow> environments_ok d'"
  by (auto simp: environments_ok_def grows_def list_all_iff)

lemma segments_ok_grows: "segments_ok d \<Longrightarrow> grows d d' \<Longrightarrow> segments d' = segments d \<Longrightarrow> segments_ok d'"
  by (auto simp: segments_ok_def grows_def list_all_iff)

lemma snapshots_ok_grows: "snapshots_ok d \<Longrightarrow> grows d d' \<Longrightarrow> snapshots d' = snapshots d \<Longrightarrow> snapshots_ok d'"
  by (auto simp: snapshots_ok_def grows_def list_all_iff intro: ref_ok_mono)

lemma audit_ok_grows: "audit_ok d \<Longrightarrow> grows d d' \<Longrightarrow> audit_events d' = audit_events d \<Longrightarrow> audit_ok d'"
  by (auto simp: audit_ok_def grows_def list_all_iff intro: ref_ok_mono)

lemma projects_ok_same: "projects_ok d \<Longrightarrow> projects d' = projects d \<Longrightarrow> projects_ok d'"
  by (simp add: projects_ok_def)

lemmas ok_grows = flags_ok_grows versions_ok_grows environments_ok_grows segments_ok_grows snapshots_ok_grows
  audit_ok_grows projects_ok_same

lemma create_project_ok:
  "q_CreateProject now i slug name strategy d = Inr (r, d') \<Longrightarrow> db_ok d \<Longrightarrow> db_ok d'"
  by (drule create_project_effect) (auto simp: db_ok_def projects_ok_def intro: ok_grows)

lemma create_environment_ok:
  assumes "q_CreateEnvironment now i pid slug name d = Inr (r, d')" "db_ok d"
  shows "db_ok d'"
proof -
  note e = create_environment_effect [OF assms(1)]
  then have "environments_ok d'"
    using assms(2) by (auto simp: db_ok_def environments_ok_def list_all_iff exists_defs)
  then show ?thesis using e assms(2) by (auto simp: db_ok_def intro: ok_grows)
qed

lemma create_flag_ok:
  assumes "q_CreateFlag J now i pid key name desc vt dv d = Inr (r, d')" "db_ok d"
  shows "db_ok d'"
proof -
  note e = create_flag_effect [OF assms(1)]
  then have "flags_ok d'" using assms(2) by (auto simp: db_ok_def flags_ok_def list_all_iff exists_defs)
  then show ?thesis using e assms(2) by (auto simp: db_ok_def intro: ok_grows)
qed

lemma create_version_ok:
  assumes "q_CreateFlagVersion J now i fid v strategy src cmp st d = Inr (r, d')" "db_ok d"
  shows "db_ok d'"
proof -
  note e = create_version_effect [OF assms(1)]
  then have "versions_ok d'" using assms(2) by (auto simp: db_ok_def versions_ok_def list_all_iff exists_defs)
  then show ?thesis using e assms(2) by (auto simp: db_ok_def intro: ok_grows)
qed

lemma create_segment_ok:
  assumes "q_CreateSegment J now i pid key name desc p d = Inr (r, d')" "db_ok d"
  shows "db_ok d'"
proof -
  note e = create_segment_effect [OF assms(1)]
  then have "segments_ok d'" using assms(2) by (auto simp: db_ok_def segments_ok_def list_all_iff exists_defs)
  then show ?thesis using e assms(2) by (auto simp: db_ok_def intro: ok_grows)
qed

lemma update_segment_ok:
  assumes "q_UpdateSegment J pid key name desc p t d = Inr (r, d')" "db_ok d"
  shows "db_ok d'"
proof -
  obtain f where d': "d' = d\<lparr>segments := map f (segments d)\<rparr>"
    and f: "\<And>r. sg_id (f r) = sg_id r \<and> sg_project_id (f r) = sg_project_id r \<and> sg_key (f r) = sg_key r"
    using update_segment_effect [OF assms(1)] by blast
  have "segments_ok d'"
    using assms(2) f by (auto simp: d' db_ok_def segments_ok_def list_all_iff exists_defs comp_def)
  then show ?thesis using assms(2) by (auto simp: d' db_ok_def intro: ok_grows)
qed

lemma create_snapshot_ok:
  assumes "q_CreateSnapshot J now i pid eid v c d = Inr (r, d')" "db_ok d"
  shows "db_ok d'"
proof -
  note e = create_snapshot_effect [OF assms(1)]
  then have "snapshots_ok d'"
    using assms(2) by (auto simp: db_ok_def snapshots_ok_def list_all_iff)
  then show ?thesis using e assms(2) by (auto simp: db_ok_def intro: ok_grows)
qed

lemma append_audit_ok:
  assumes "append_audit_query J now i ev d = Inr (r, d')" "db_ok d"
  shows "db_ok d'"
proof -
  note e = append_audit_effect [OF assms(1)]
  then have "audit_ok d'"
    using assms(2) by (auto simp: db_ok_def audit_ok_def list_all_iff)
  then show ?thesis using e assms(2) by (auto simp: db_ok_def intro: ok_grows)
qed

lemmas write_ok = create_project_ok create_environment_ok create_flag_ok create_version_ok create_segment_ok
  update_segment_ok create_snapshot_ok append_audit_ok

lemma step_db_ok: "store_step J d d' \<Longrightarrow> db_ok d \<Longrightarrow> db_ok d'"
  by (induction rule: store_step.induct) (auto simp: step_defs success_simps dest: write_ok)

lemma versions_of_append: "versions_of (d\<lparr>flag_versions := flag_versions d @ [r]\<rparr>) fid =
    versions_of d fid @ (if fv_flag_id r = fid then [r] else [])"
  by (simp add: versions_of_def)

lemma snapshots_of_append: "snapshots_of (d\<lparr>snapshots := snapshots d @ [r]\<rparr>) pid =
    snapshots_of d pid @ (if sn_project_id r = pid then [r] else [])"
  by (simp add: snapshots_of_def)

lemma versions_of_update [simp]:
  "versions_of (d\<lparr>projects := ps\<rparr>) = versions_of d" "versions_of (d\<lparr>flags := fs\<rparr>) = versions_of d"
  "versions_of (d\<lparr>environments := es\<rparr>) = versions_of d" "versions_of (d\<lparr>segments := ss\<rparr>) = versions_of d"
  "versions_of (d\<lparr>snapshots := ns\<rparr>) = versions_of d" "versions_of (d\<lparr>audit_events := as\<rparr>) = versions_of d"
  "snapshots_of (d\<lparr>projects := ps\<rparr>) = snapshots_of d" "snapshots_of (d\<lparr>flags := fs\<rparr>) = snapshots_of d"
  "snapshots_of (d\<lparr>environments := es\<rparr>) = snapshots_of d" "snapshots_of (d\<lparr>segments := ss\<rparr>) = snapshots_of d"
  "snapshots_of (d\<lparr>flag_versions := vs\<rparr>) = snapshots_of d" "snapshots_of (d\<lparr>audit_events := as\<rparr>) = snapshots_of d"
  by (simp_all add: fun_eq_iff versions_of_def snapshots_of_def)

text \<open>Tables of history only grow at their end.\<close>

definition extends :: "database \<Rightarrow> database \<Rightarrow> bool" where
  "extends d d' \<longleftrightarrow> (\<exists>vs ns as. flag_versions d' = flag_versions d @ vs \<and> snapshots d' = snapshots d @ ns \<and>
     audit_events d' = audit_events d @ as)"

lemma extends_refl: "flag_versions d' = flag_versions d \<Longrightarrow> snapshots d' = snapshots d \<Longrightarrow>
    audit_events d' = audit_events d \<Longrightarrow> extends d d'"
  by (simp add: extends_def)

lemma extends_trans: "extends a b \<Longrightarrow> extends b c \<Longrightarrow> extends a c"
  by (auto simp: extends_def)

lemma publish_effect:
  assumes "publishFlagVersionTx J now i p d = Inr (v, d')"
  shows "\<exists>r n. q_NextFlagVersion (pv_FlagID p) d = Inr n \<and> d' = d\<lparr>flag_versions := flag_versions d @ [r]\<rparr> \<and>
    v = flagVersionFromRow r \<and> fv_flag_id r = pv_FlagID p \<and> fv_version r = n \<and> fv_strategy r = pv_Strategy p \<and>
    fv_id r = i \<and> (\<exists>js jc. pv_Source p = RawDoc js \<and> pv_Compiled p = RawDoc jc \<and> J js = Inr (fv_source r) \<and> J jc = Inr (fv_compiled r))"
  using assms by (auto simp: publishFlagVersionTx_def success_simps dest!: create_version_effect)

lemma compile_snapshot_effect:
  assumes "tx_CompileSnapshot J now i p d = Inr (s, d')"
  shows "\<exists>r n. q_NextSnapshotVersion (sp_ProjectID p) d = Inr n \<and> d' = d\<lparr>snapshots := snapshots d @ [r]\<rparr> \<and>
    s = snapshotFromRow r \<and> sn_project_id r = sp_ProjectID p \<and> sn_version r = n"
  using assms by (auto simp: tx_CompileSnapshot_def success_simps dest!: create_snapshot_effect)

lemma step_numbered: "store_step J d d' \<Longrightarrow> db_numbered d \<Longrightarrow> db_numbered d'"
proof (induction rule: store_step.induct)
  case (publish now i vp d v d')
  then obtain r n where "q_NextFlagVersion (pv_FlagID vp) d = Inr n" "d' = d\<lparr>flag_versions := flag_versions d @ [r]\<rparr>"
      "fv_flag_id r = pv_FlagID vp" "fv_version r = n"
    using publish_effect [of J now i vp d v d'] by (auto simp: tx_PublishFlagVersion_def)
  then show ?case using publish.prems next_version_numbered
    by (auto simp: db_numbered_def versions_of_append q_NextFlagVersion_def)
next
  case (compile_snapshot now i cp d s d')
  then obtain r n where "q_NextSnapshotVersion (sp_ProjectID cp) d = Inr n" "d' = d\<lparr>snapshots := snapshots d @ [r]\<rparr>"
      "sn_project_id r = sp_ProjectID cp" "sn_version r = n"
    using compile_snapshot_effect [of J now i cp d s d'] by auto
  then show ?case using compile_snapshot.prems next_version_numbered
    by (auto simp: db_numbered_def snapshots_of_append q_NextSnapshotVersion_def)
qed (auto simp: step_defs success_simps db_numbered_def
          dest!: create_project_effect create_flag_effect create_environment_effect create_segment_effect
                 update_segment_effect append_audit_effect)

lemma step_extends: "store_step J d d' \<Longrightarrow> extends d d'"
proof (induction rule: store_step.induct)
  case (publish now i vp d v d')
  then show ?case using publish_effect [of J now i vp d v d']
    by (auto simp: tx_PublishFlagVersion_def extends_def)
next
  case (compile_snapshot now i cp d s d')
  then show ?case using compile_snapshot_effect [of J now i cp d s d'] by (auto simp: extends_def)
qed (auto simp: step_defs success_simps extends_def
          dest!: create_project_effect create_flag_effect create_environment_effect create_segment_effect
                 update_segment_effect append_audit_effect)

subsection \<open>Transactions\<close>

text \<open>The database attempt \<open>n\<close> starts from: the effects of others only.\<close>

fun before_attempt :: "tx_world \<Rightarrow> database \<Rightarrow> nat \<Rightarrow> database" where
  "before_attempt w d 0 = d"
| "before_attempt w d (Suc n) = w_others w (Suc n) (before_attempt w d n)"

definition commits_with_audit :: "json_in \<Rightarrow> AppendAuditParams \<Rightarrow> 'a op \<Rightarrow> database \<Rightarrow> 'a \<Rightarrow> database \<Rightarrow> bool" where
  "commits_with_audit J ev f d a d' \<longleftrightarrow>
     (\<exists>d1 r. f d = Inr (a, d1) \<and> store_step J d1 d' \<and> d' = d1\<lparr>audit_events := audit_events d1 @ [r]\<rparr> \<and>
       au_project_id r = ap_ProjectID ev \<and> au_flag_id r = ap_FlagID ev \<and> au_action r = ap_Action ev \<and>
       au_actor r = textFromString (ap_Actor ev))"

lemma append_audit_step: "append_audit_query J now i ev d = Inr (r, d') \<Longrightarrow> store_step J d d'"
  by (rule store_step.append_audit [of J now i ev d "auditFromRow r"]) (simp add: AppendAudit_def first_Inr)

lemma withAuditOnce_cases:
  assumes "withAuditOnce J w n ev fn d = (res, d')"
  shows "case res of Inl e \<Rightarrow> d' = d | Inr a \<Rightarrow> commits_with_audit J ev (fn n) d a d'"
  using assms append_audit_effect [of J "w_audit_now w n" "w_audit_id w n" ev]
  by (fastforce simp: withAuditOnce_def commits_with_audit_def split: option.splits sum.splits prod.splits
      intro: append_audit_step)

lemma withAuditLoop_cases:
  "withAuditLoop J w k ev fn (before_attempt w d k) = (res, d') \<Longrightarrow> k \<le> withAuditMaxRetries \<Longrightarrow>
   \<exists>n. k \<le> n \<and> n \<le> withAuditMaxRetries \<and>
     (case res of
        Inl e \<Rightarrow> d' = before_attempt w d n \<and> (isSerializationFailure e \<longrightarrow> n = withAuditMaxRetries)
      | Inr a \<Rightarrow> commits_with_audit J ev (fn n) (before_attempt w d n) a d')"
proof (induction "withAuditMaxRetries - k" arbitrary: k)
  case 0
  then have k: "k = withAuditMaxRetries" by simp
  obtain r1 d1 where o: "withAuditOnce J w k ev fn (before_attempt w d k) = (r1, d1)" by fastforce
  then have "(res, d') = (r1, d1)" using 0(2) k by (auto simp: withAuditLoop.simps split: sum.splits)
  then show ?case using withAuditOnce_cases [OF o] k by (auto split: sum.splits)
next
  case (Suc m)
  obtain r1 d1 where o: "withAuditOnce J w k ev fn (before_attempt w d k) = (r1, d1)" by fastforce
  show ?case
  proof (cases r1)
    case (Inr a)
    then show ?thesis using Suc.prems withAuditOnce_cases [OF o] o
      by (auto simp: withAuditLoop.simps)
  next
    case (Inl e)
    then have d1: "d1 = before_attempt w d k" using withAuditOnce_cases [OF o] by simp
    have k: "k < withAuditMaxRetries" using Suc.hyps(2) by simp
    show ?thesis
    proof (cases "isSerializationFailure e \<and> \<not> w_cancelled w k")
      case True
      then have "withAuditLoop J w (Suc k) ev fn (before_attempt w d (Suc k)) = (res, d')"
        using Suc.prems(1) k o Inl d1 by (subst (asm) withAuditLoop.simps) simp
      moreover have "m = withAuditMaxRetries - Suc k" "Suc k \<le> withAuditMaxRetries" using Suc.hyps(2) k by simp_all
      ultimately obtain n where "Suc k \<le> n" "n \<le> withAuditMaxRetries"
        "case res of Inl e \<Rightarrow> d' = before_attempt w d n \<and> (isSerializationFailure e \<longrightarrow> n = withAuditMaxRetries)
          | Inr a \<Rightarrow> commits_with_audit J ev (fn n) (before_attempt w d n) a d'"
        using Suc.hyps(1) [of "Suc k"] by blast
      then show ?thesis by (intro exI [of _ n]) simp
    next
      case False
      then have "d' = before_attempt w d k \<and> (res = Inl e \<and> \<not> isSerializationFailure e \<or> res = Inl CtxErr)"
        using Suc.prems(1) Suc.hyps(2) o Inl d1
        by (subst (asm) withAuditLoop.simps) (auto split: if_splits)
      then show ?thesis using Suc.prems(2) by (intro exI [of _ k]) (auto simp: isSerializationFailure_def)
    qed
  qed
qed

text \<open>
  C13. \<open>WithAudit\<close> is atomic. It makes at most nine attempts. On success the
  database is the one the callback left in the last attempt, with exactly one audit
  event added, which carries the given project, flag, action and actor. On failure
  it has changed nothing: the database is as the last attempt found it. A
  serialization failure is reported only after the ninth attempt.
\<close>

theorem withAudit_atomic:
  assumes "WithAudit J w ev fn d = (res, d')"
  shows "\<exists>n \<le> 8. case res of
      Inl e \<Rightarrow> d' = before_attempt w d n \<and> (isSerializationFailure e \<longrightarrow> n = 8)
    | Inr a \<Rightarrow> commits_with_audit J ev (fn n) (before_attempt w d n) a d'"
  using withAuditLoop_cases [of J w 0 ev fn d res d', unfolded withAuditMaxRetries_def] assms
  unfolding WithAudit_def by auto

definition sample_world :: "nat \<Rightarrow> tx_world" where
  "sample_world failures = \<lparr>w_begin = (\<lambda>_. None), w_statement = (\<lambda>_. None),
     w_commit = (\<lambda>n. if n < failures then Some SerializationFailure else None), w_cancelled = (\<lambda>_. False),
     w_others = (\<lambda>_ d. d), w_audit_id = (\<lambda>n. 1000 + of_nat n), w_audit_now = (\<lambda>_. 5000)\<rparr>"

definition sample_event :: AppendAuditParams where
  "sample_event = \<lparr>ap_ProjectID = None, ap_FlagID = None, ap_Action = ''create_project'', ap_Actor = ''ann'',
     ap_Payload = RawNil\<rparr>"

theorem withAudit_atomic_witness:
  "\<exists>p d'. WithAudit Inr (sample_world 2) sample_event (\<lambda>n. tx_CreateProject 7000 (of_nat n) ''shop'' ''Shop'' ''json'') empty_db
       = (Inr p, d') \<and> Project_ID p = 2 \<and> length (audit_events d') = 1 \<and>
     (\<exists>n \<le> 8. commits_with_audit Inr sample_event (tx_CreateProject 7000 (of_nat n) ''shop'' ''Shop'' ''json'')
        (before_attempt (sample_world 2) empty_db n) p d')"
proof -
  let ?run = "WithAudit Inr (sample_world 2) sample_event
    (\<lambda>n. tx_CreateProject 7000 (of_nat n) ''shop'' ''Shop'' ''json'') empty_db"
  have "case ?run of (Inl _, _) \<Rightarrow> False | (Inr p, d') \<Rightarrow> Project_ID p = 2 \<and> length (audit_events d') = 1"
    by code_simp
  then obtain p d' where "?run = (Inr p, d')" "Project_ID p = 2" "length (audit_events d') = 1"
    by (auto split: prod.splits sum.splits)
  then show ?thesis using withAudit_atomic [of Inr "sample_world 2" sample_event _ empty_db "Inr p" d'] by fastforce
qed

end
