(* ===== verification/Store_Queries.thy ===== *)
theory Store_Queries
  imports Store_Props
begin

text \<open>
  What the store's lookups return: the contract of a table with a unique key (the
  locale \<open>keyed_table\<close>, provided by projects, flags, environments and segments),
  the latest version of a flag, and the pages of the audit log.
\<close>

subsection \<open>Tables with a key\<close>

text \<open>
  Projects, flags, environments and segments share a contract: a row is created
  under a key that no other row has, and found by it afterwards.
\<close>

locale keyed_table =
  fixes create :: "'arg \<Rightarrow> database \<Rightarrow> store_error + 'row \<times> database"
    and get :: "'key \<Rightarrow> database \<Rightarrow> store_error + 'row"
    and key :: "'arg \<Rightarrow> 'key"
  assumes create_get: "create a d = Inr (r, d') \<Longrightarrow> get (key a) d' = Inr r"
    and create_new: "create a d = Inr (r, d') \<Longrightarrow> get (key a) d = Inl ErrNotFound"
    and create_other: "create a d = Inr (r, d') \<Longrightarrow> k \<noteq> key a \<Longrightarrow> get k d' = get k d"
begin

text \<open>A key is taken for good: creating under it again fails.\<close>

lemma create_taken: "get (key a) d = Inr r0 \<Longrightarrow> \<exists>e. create a d = Inl e"
  using create_new by (cases "create a d") fastforce+

lemma create_twice: "create a d = Inr (r, d') \<Longrightarrow> key b = key a \<Longrightarrow> \<exists>e. create b d' = Inl e"
  using create_taken [of b d' r] create_get by simp

text \<open>Rows created under different keys do not disturb each other.\<close>

lemma create_two:
  assumes "create a d = Inr (r, d1)" "create b d1 = Inr (s, d2)"
  shows "key a \<noteq> key b \<and> get (key a) d2 = Inr r \<and> get (key b) d2 = Inr s"
proof -
  have "get (key b) d1 = Inl ErrNotFound" using create_new [OF assms(2)] .
  then have "key a \<noteq> key b" using create_get [OF assms(1)] by auto
  then show ?thesis using create_get assms create_other by metis
qed

end

lemma filter_key: "k \<notin> K ` set rs \<Longrightarrow> filter (\<lambda>r. K r = k) rs = []"
  by (auto simp: filter_empty_conv)

lemma filter_key2: "(a, b) \<notin> (\<lambda>r. (K r, L r)) ` set rs \<Longrightarrow> filter (\<lambda>r. K r = a \<and> L r = b) rs = []"
  by (auto simp: filter_empty_conv)

lemmas get_defs = GetProjectBySlug_def q_GetProjectBySlug_def GetFlagByKey_def q_GetFlagByKey_def
  GetEnvironmentBySlug_def q_GetEnvironmentBySlug_def GetSegmentByKey_def q_GetSegmentByKey_def
  wrap_get_def one_row_def filter_key filter_key2

lemmas create_effects = create_project_effect create_flag_effect create_environment_effect create_segment_effect

lemmas create_defs = tx_CreateProject_def tx_CreateFlag_def tx_CreateEnvironment_def tx_CreateSegment_def first_Inr

interpretation project_table: keyed_table
  "\<lambda>(now, i, slug, name, strategy). tx_CreateProject now i slug name strategy"
  GetProjectBySlug "\<lambda>(now, i, slug, name, strategy). slug"
  by unfold_locales (auto simp: create_defs get_defs dest!: create_effects split: if_splits)

interpretation flag_table: keyed_table
  "\<lambda>(now, i, p). tx_CreateFlag J now i p"
  "\<lambda>(pid, key). GetFlagByKey pid key" "\<lambda>(now, i, p). (cf_ProjectID p, cf_Key p)" for J
  by unfold_locales (auto simp: create_defs get_defs dest!: create_effects split: if_splits)

interpretation environment_table: keyed_table
  "\<lambda>(now, i, pid, slug, name). tx_CreateEnvironment now i pid slug name"
  "\<lambda>(pid, slug). GetEnvironmentBySlug pid slug" "\<lambda>(now, i, pid, slug, name). (pid, slug)"
  by unfold_locales (auto simp: create_defs get_defs dest!: create_effects split: if_splits)

interpretation segment_table: keyed_table
  "\<lambda>(now, i, p). tx_CreateSegment J now i p"
  "\<lambda>(pid, key). GetSegmentByKey pid key" "\<lambda>(now, i, p). (cs_ProjectID p, cs_Key p)" for J
  by unfold_locales (auto simp: create_defs get_defs dest!: create_effects split: if_splits)

subsection \<open>Lookups\<close>

lemma sort_key_append_least:
  "(\<And>x. x \<in> set xs \<Longrightarrow> f y < f x) \<Longrightarrow> sort_key f (xs @ [y]) = y # sort_key f xs"
proof (induction xs)
  case (Cons x xs)
  have "f y < f x" using Cons.prems by simp
  moreover have "sort_key f (xs @ [y]) = y # sort_key f xs" using Cons by simp
  ultimately show ?case by auto
qed simp

lemma order_desc_append_greatest:
  "(\<And>x. x \<in> set xs \<Longrightarrow> k x < k y) \<Longrightarrow> order_desc k (xs @ [y]) = y # order_desc k xs"
  unfolding order_desc_def by (rule sort_key_append_least) simp

lemma next_version_greater:
  assumes "next_version vs = Inr n" "v \<in> set vs"
  shows "v < n"
proof -
  have "v \<le> Max (set vs)" using assms(2) by simp
  moreover have "n = Max (set vs) + 1"
    using assms by (auto simp: next_version_def Let_def split: if_splits)
  ultimately show ?thesis by simp
qed

text \<open>A published version comes first in the order of the query for the latest one.\<close>

lemma publish_latest_row:
  assumes "publishFlagVersionTx J now i p d = Inr (v, d')"
  shows "\<exists>r n js jc. q_NextFlagVersion (pv_FlagID p) d = Inr n \<and> d' = d\<lparr>flag_versions := flag_versions d @ [r]\<rparr> \<and>
    v = flagVersionFromRow r \<and> fv_flag_id r = pv_FlagID p \<and> fv_version r = n \<and> fv_strategy r = pv_Strategy p \<and>
    pv_Source p = RawDoc js \<and> pv_Compiled p = RawDoc jc \<and> J js = Inr (fv_source r) \<and> J jc = Inr (fv_compiled r) \<and>
    order_desc fv_version (versions_of d' (pv_FlagID p)) = r # order_desc fv_version (versions_of d (pv_FlagID p))"
proof -
  obtain r n where n: "q_NextFlagVersion (pv_FlagID p) d = Inr n"
    and d': "d' = d\<lparr>flag_versions := flag_versions d @ [r]\<rparr>"
    and r: "v = flagVersionFromRow r" "fv_flag_id r = pv_FlagID p" "fv_version r = n" "fv_strategy r = pv_Strategy p"
    and c: "\<exists>js jc. pv_Source p = RawDoc js \<and> pv_Compiled p = RawDoc jc \<and> J js = Inr (fv_source r) \<and> J jc = Inr (fv_compiled r)"
    using publish_effect [OF assms(1)] by blast
  have "fv_version x < n" if "x \<in> set (versions_of d (pv_FlagID p))" for x
    using next_version_greater [of "map fv_version (versions_of d (pv_FlagID p))" n] n that
    by (auto simp: q_NextFlagVersion_def)
  then have "order_desc fv_version (versions_of d' (pv_FlagID p)) =
      r # order_desc fv_version (versions_of d (pv_FlagID p))"
    using r by (simp add: d' versions_of_append order_desc_append_greatest)
  then show ?thesis using n d' r c by blast
qed

lemma publish_number:
  assumes "q_NextFlagVersion fid d = Inr n" "db_numbered d"
  shows "n = int (length (versions_of d fid)) + 1"
  using next_version_numbered [of "map fv_version (versions_of d fid)" n] assms
  by (auto simp: q_NextFlagVersion_def db_numbered_def)

text \<open>
  C14. A published version is the latest one: it is numbered one above the
  number of versions before, it is what \<open>GetLatestFlagVersion\<close> returns, with the
  source and compiled tree that were published, and the latest versions of other flags
  are unchanged.
\<close>

theorem publish_is_latest:
  assumes "publishFlagVersionTx J now i p d = Inr (v, d')" "db_numbered d"
  shows "GetLatestFlagVersion (pv_FlagID p) d' = Inr v \<and>
    FV_Version v = int (length (versions_of d (pv_FlagID p))) + 1 \<and>
    (\<exists>js jc js' jc'. pv_Source p = RawDoc js \<and> pv_Compiled p = RawDoc jc \<and> J js = Inr js' \<and> J jc = Inr jc' \<and>
       FV_Source v = RawDoc js' \<and> FV_Compiled v = RawDoc jc') \<and>
    (\<forall>fid. fid \<noteq> pv_FlagID p \<longrightarrow> GetLatestFlagVersion fid d' = GetLatestFlagVersion fid d)"
proof -
  obtain r n js jc where r: "q_NextFlagVersion (pv_FlagID p) d = Inr n" "d' = d\<lparr>flag_versions := flag_versions d @ [r]\<rparr>"
      "v = flagVersionFromRow r" "fv_flag_id r = pv_FlagID p" "fv_version r = n"
      "pv_Source p = RawDoc js" "pv_Compiled p = RawDoc jc" "J js = Inr (fv_source r)" "J jc = Inr (fv_compiled r)"
      "order_desc fv_version (versions_of d' (pv_FlagID p)) = r # order_desc fv_version (versions_of d (pv_FlagID p))"
    using publish_latest_row [OF assms(1)] by blast
  then show ?thesis using publish_number [OF r(1) assms(2)]
    by (auto simp: GetLatestFlagVersion_def q_GetLatestFlagVersion_def one_row_def wrap_get_def
          versions_of_append flagVersionFromRow_def)
qed

definition sample_db :: database where
  "sample_db = empty_db\<lparr>projects := [\<lparr>pr_id = 1, pr_slug = ''shop'', pr_display_name = ''Shop'',
       pr_config_strategy = ''json'', pr_created_at = 1000, pr_updated_at = 1000\<rparr>],
     flags := [\<lparr>fl_id = 2, fl_project_id = 1, fl_key = ''dark'', fl_name = ''Dark'', fl_description = [],
       fl_value_type = ''boolean'', fl_default_value = JBool False, fl_created_at = 2000, fl_updated_at = 2000\<rparr>],
     flag_versions := [\<lparr>fv_id = 3, fv_flag_id = 2, fv_version = 1, fv_strategy = ''json'', fv_source = JNull,
       fv_compiled = JNull, fv_published_at = 3000, fv_source_text = None\<rparr>]\<rparr>"

definition sample_publish :: PublishFlagVersionParams where
  "sample_publish = \<lparr>pv_FlagID = 2, pv_Strategy = ''json'', pv_Source = RawDoc (JBool True),
     pv_Compiled = RawDoc (JBool True), pv_SourceText = []\<rparr>"

lemma sample_db_numbered: "db_numbered sample_db"
  by (auto simp: db_numbered_def sample_db_def empty_db_def versions_of_def snapshots_of_def numbered_def)

theorem publish_is_latest_witness:
  "\<exists>v d'. publishFlagVersionTx Inr 9000 7 sample_publish sample_db = Inr (v, d') \<and> FV_Version v = 2 \<and>
     GetLatestFlagVersion 2 d' = Inr v"
proof -
  have "case publishFlagVersionTx Inr 9000 7 sample_publish sample_db of Inl _ \<Rightarrow> False | Inr (v, d') \<Rightarrow> FV_Version v = 2"
    by code_simp
  then obtain v d' where v: "publishFlagVersionTx Inr 9000 7 sample_publish sample_db = Inr (v, d')" "FV_Version v = 2"
    by (auto split: sum.splits prod.splits)
  show ?thesis using publish_is_latest [OF v(1) sample_db_numbered] v by (auto simp: sample_publish_def)
qed

text \<open>
  C15. Every reachable database satisfies the constraints of the schema (unique
  ids, slugs and keys, valid references, known strategies and value types), and in it
  the versions of each flag and the snapshots of each project are numbered
  1, 2, 3, ... without gaps.
\<close>

theorem reachable_ok:
  assumes "(store_step J)\<^sup>*\<^sup>* empty_db d"
  shows "db_ok d \<and> db_numbered d"
  using assms
proof (induction rule: rtranclp_induct)
  case base
  show ?case
    by (simp add: db_ok_def table_defs empty_db_def db_numbered_def versions_of_def snapshots_of_def numbered_def)
next
  case (step d d')
  then show ?case using step_db_ok step_numbered by blast
qed

theorem reachable_ok_witness:
  "\<exists>d. (store_step Inr)\<^sup>*\<^sup>* empty_db d \<and> length (projects d) = 1 \<and> db_ok d \<and> db_numbered d"
proof -
  have "case tx_CreateProject 5 1 ''shop'' ''Shop'' ''cel'' empty_db of Inl _ \<Rightarrow> False
      | Inr (r, d) \<Rightarrow> length (projects d) = 1" by code_simp
  then obtain r d where d: "tx_CreateProject 5 1 ''shop'' ''Shop'' ''cel'' empty_db = Inr (r, d)" "length (projects d) = 1"
    by (auto split: sum.splits prod.splits)
  then have "(store_step Inr)\<^sup>*\<^sup>* empty_db d" using store_step.create_project by blast
  then show ?thesis using reachable_ok [of Inr d] d by blast
qed

text \<open>
  C16. History is immutable: whatever writes follow, published versions, snapshots
  and audit events stay as they are and in place; new ones are only added after them.
\<close>

theorem history_append_only:
  assumes "(store_step J)\<^sup>*\<^sup>* d d'"
  shows "extends d d'"
  using assms
  by (induction rule: rtranclp_induct) (auto intro: extends_refl extends_trans step_extends)

theorem history_append_only_witness:
  "\<exists>v d'. publishFlagVersionTx Inr 9000 7 sample_publish sample_db = Inr (v, d') \<and> extends sample_db d'"
proof -
  have "case publishFlagVersionTx Inr 9000 7 sample_publish sample_db of Inl _ \<Rightarrow> False | Inr _ \<Rightarrow> True"
    by code_simp
  then obtain v d' where v: "publishFlagVersionTx Inr 9000 7 sample_publish sample_db = Inr (v, d')"
    by (auto split: sum.splits)
  then have "store_step Inr sample_db d'" by (auto intro: store_step.publish simp: tx_PublishFlagVersion_def)
  then show ?thesis using history_append_only [of Inr sample_db d'] v by blast
qed

text \<open>
  A flag is found by its key as soon as it is created, other flags are found as
  before, and the key is taken: no other flag can be created under it.
\<close>

theorem flag_created_found:
  assumes "tx_CreateFlag J now i p d = Inr (f, d')"
  shows "GetFlagByKey (cf_ProjectID p) (cf_Key p) d' = Inr f \<and>
    (\<forall>pid key. (pid, key) \<noteq> (cf_ProjectID p, cf_Key p) \<longrightarrow> GetFlagByKey pid key d' = GetFlagByKey pid key d) \<and>
    (\<forall>now' i' q. cf_ProjectID q = cf_ProjectID p \<and> cf_Key q = cf_Key p \<longrightarrow> (\<exists>e. tx_CreateFlag J now' i' q d' = Inl e))"
  using flag_table.create_get [of J "(now, i, p)" d f d'] flag_table.create_other [of J "(now, i, p)" d f d']
    flag_table.create_twice [of J "(now, i, p)" d f d'] assms by auto

definition sample_flag_params :: CreateFlagParams where
  "sample_flag_params = \<lparr>cf_ProjectID = 1, cf_Key = ''new'', cf_Name = ''New'', cf_Description = [],
     cf_ValueType = ''string'', cf_DefaultValue = RawDoc (JStr ''x'')\<rparr>"

theorem flag_created_found_witness:
  "\<exists>f d'. tx_CreateFlag Inr 9000 7 sample_flag_params sample_db = Inr (f, d') \<and> GetFlagByKey 1 ''new'' d' = Inr f"
proof -
  have "case tx_CreateFlag Inr 9000 7 sample_flag_params sample_db of Inl _ \<Rightarrow> False | Inr _ \<Rightarrow> True" by code_simp
  then obtain f d' where f: "tx_CreateFlag Inr 9000 7 sample_flag_params sample_db = Inr (f, d')"
    by (auto split: sum.splits)
  show ?thesis using flag_created_found [OF f] f by (auto simp: sample_flag_params_def)
qed

subsection \<open>Paging through the audit log\<close>

lemma filter_greater_sorted:
  assumes "sorted (map f xs)" "distinct (map f xs)" "k < length xs"
  shows "filter (\<lambda>x. f (xs ! k) < f x) xs = drop (Suc k) xs"
proof -
  have sw: "sorted_wrt (<) (map f xs)" using assms(1,2) by (simp add: strict_sorted_iff)
  have "filter (\<lambda>x. f (xs ! k) < f x) (take (Suc k) xs) = []"
  proof (rule filter_False, rule ballI)
    fix x assume "x \<in> set (take (Suc k) xs)"
    then obtain j where j: "j \<le> k" "x = xs ! j"
      by (auto simp: in_set_conv_nth less_Suc_eq_le)
    then have "f x \<le> f (xs ! k)" using assms(1,3) sorted_nth_mono [of "map f xs" j k] by simp
    then show "\<not> f (xs ! k) < f x" by simp
  qed
  moreover have "filter (\<lambda>x. f (xs ! k) < f x) (drop (Suc k) xs) = drop (Suc k) xs"
  proof (rule filter_True, rule ballI)
    fix x assume "x \<in> set (drop (Suc k) xs)"
    then obtain j where j: "k < j" "x = xs ! j" "j < length xs"
      by (auto simp: in_set_conv_nth intro: that [of "Suc k + i" for i])
    then show "f (xs ! k) < f x" using sw sorted_wrt_nth_less [of "(<)" "map f xs" k j] by simp
  qed
  ultimately show ?thesis by (metis append_take_drop_id filter_append append_Nil)
qed

lemma audit_order_inj: "audit_order a = audit_order b \<Longrightarrow> au_id a = au_id b"
  by (simp add: audit_order_def word_uint_eq_iff)

lemma distinct_audit_order: "distinct (map au_id rs) \<Longrightarrow> distinct (map audit_order rs)"
  by (auto simp: distinct_map inj_on_def dest: audit_order_inj)

text \<open>The query without and with a cursor at a given row.\<close>

definition audit_query_of :: "ListAuditEventsParams \<Rightarrow> audit_query" where
  "audit_query_of p = \<lparr>aq_project_id = lp_ProjectID p, aq_limit = lp_Limit p, aq_action = textFromString (lp_Action p),
      aq_actor = textFromString (lp_Actor p), aq_from = timestampFromTime (lp_From p),
      aq_to = timestampFromTime (lp_To p), aq_cursor_ts = timestampFromTime (lp_CursorTs p),
      aq_cursor_id = cursorIDParam p\<rparr>"

definition all_selected :: "ListAuditEventsParams \<Rightarrow> database \<Rightarrow> audit_row list" where
  "all_selected p d = sort_key audit_order (filter (audit_selected (audit_query_of p)) (audit_events d))"

lemma audit_selected_limit: "audit_selected (q\<lparr>aq_limit := n\<rparr>) = audit_selected q"
  by (simp add: fun_eq_iff audit_selected_def before_cursor_def split: option.split)

lemma all_selected_limit [simp]: "all_selected (p\<lparr>lp_Limit := n\<rparr>) d = all_selected p d"
proof -
  have "audit_query_of (p\<lparr>lp_Limit := n\<rparr>) = (audit_query_of p)\<lparr>aq_limit := n\<rparr>"
    by (simp add: audit_query_of_def cursorIDParam_def)
  then show ?thesis by (simp add: all_selected_def audit_selected_limit)
qed

lemma ListAuditEvents_eq:
  "0 \<le> lp_Limit p \<Longrightarrow> ListAuditEvents p d = Inr (map auditFromRow (take (nat (lp_Limit p)) (all_selected p d)))"
  by (simp add: ListAuditEvents_def q_ListAuditEventsByProject_def limit_rows_def all_selected_def
      audit_query_of_def wrap_sql_def)

lemma audit_selected_cursor:
  assumes "lp_CursorTs p = 0" "au_created_at c \<noteq> 0"
  shows "audit_selected (audit_query_of (p\<lparr>lp_CursorTs := au_created_at c, lp_CursorID := au_id c\<rparr>)) r \<longleftrightarrow>
    audit_selected (audit_query_of p) r \<and> audit_order c < audit_order r"
  using assms
  by (auto simp: audit_selected_def audit_query_of_def before_cursor_def timestampFromTime_def cursorIDParam_def
      audit_order_def less_prod_def word_less_def)

text \<open>The rows after the \<open>k\<close>-th one are those a cursor at the \<open>k\<close>-th row selects.\<close>

lemma all_selected_after:
  assumes "db_ok d" "lp_CursorTs p = 0" "k < length (all_selected p d)" "c = all_selected p d ! k" "au_created_at c \<noteq> 0"
  shows "all_selected (p\<lparr>lp_CursorTs := au_created_at c, lp_CursorID := au_id c\<rparr>) d = drop (Suc k) (all_selected p d)"
proof -
  have "distinct (map au_id (audit_events d))" using assms(1) by (simp add: db_ok_def audit_ok_def)
  then have d: "distinct (map audit_order (all_selected p d))"
    unfolding all_selected_def by (intro distinct_audit_order) (simp add: distinct_map inj_on_def)
  have "all_selected (p\<lparr>lp_CursorTs := au_created_at c, lp_CursorID := au_id c\<rparr>) d =
      filter (\<lambda>r. audit_order c < audit_order r) (all_selected p d)"
    using audit_selected_cursor [OF assms(2,5)] by (simp add: all_selected_def filter_sort cong: filter_cong)
  also have "\<dots> = drop (Suc k) (all_selected p d)"
    unfolding assms(4) by (rule filter_greater_sorted) (use d assms(3) in \<open>simp_all add: all_selected_def\<close>)
  finally show ?thesis .
qed

text \<open>
  C17. Paging is exact: taking the creation time and id of the last event of a page
  as the cursor, the next page continues where the first one ended, so the two pages
  together are one longer page; no event is skipped or repeated, whatever the filters.
\<close>

theorem audit_pages:
  assumes "db_ok d" "lp_CursorTs p = 0"
    and "ListAuditEvents (p\<lparr>lp_Limit := int n\<rparr>) d = Inr page" "page \<noteq> []" "length page = n"
    and "Audit_CreatedAt (last page) \<noteq> 0"
  shows "\<exists>next_page.
    ListAuditEvents (p\<lparr>lp_CursorTs := Audit_CreatedAt (last page), lp_CursorID := Audit_ID (last page),
                       lp_Limit := int m\<rparr>) d = Inr next_page \<and>
    ListAuditEvents (p\<lparr>lp_Limit := int (n + m)\<rparr>) d = Inr (page @ next_page)"
proof -
  define L where "L = all_selected p d"
  have page: "page = map auditFromRow (take n L)" using assms(3) by (simp add: ListAuditEvents_eq L_def)
  obtain k where n: "n = Suc k" using assms(4,5) by (cases n) auto
  then have k: "k < length L" using assms(5) page by simp
  define c where "c = L ! k"
  have "page = map auditFromRow (take k L) @ [auditFromRow c]"
    using page k n by (simp add: c_def take_Suc_conv_app_nth)
  then have cursor: "Audit_CreatedAt (last page) = au_created_at c" "Audit_ID (last page) = au_id c"
    by (simp_all add: auditFromRow_def)
  have "all_selected (p\<lparr>lp_CursorTs := au_created_at c, lp_CursorID := au_id c, lp_Limit := int m\<rparr>) d = drop n L"
    using all_selected_after [OF assms(1,2), of k c] k assms(6) cursor by (simp add: L_def c_def n)
  then show ?thesis
    unfolding cursor by (simp add: ListAuditEvents_eq page take_add L_def [symmetric] flip: map_append of_nat_add)
qed

definition sample_audit_db :: database where
  "sample_audit_db = sample_db\<lparr>audit_events := map (\<lambda>(i, t, a). \<lparr>au_id = i, au_project_id = Some 1, au_flag_id = None,
     au_action = a, au_payload = JNull, au_created_at = t, au_actor = Some ''ann''\<rparr>)
     [(11, 5000, ''create_flag''), (12, 6000, ''publish_flag''), (13, 6000, ''create_flag''), (14, 7000, ''create_flag'')]\<rparr>"

definition sample_list :: ListAuditEventsParams where
  "sample_list = \<lparr>lp_ProjectID = 1, lp_Action = ''create_flag'', lp_Actor = [], lp_From = 0, lp_To = 0,
     lp_CursorTs = 0, lp_CursorID = 0, lp_Limit = 2\<rparr>"

theorem audit_pages_witness:
  "db_ok sample_audit_db \<and>
   (\<exists>page next_page. ListAuditEvents (sample_list\<lparr>lp_Limit := int 2\<rparr>) sample_audit_db = Inr page \<and>
      map Audit_ID page = [14, 13] \<and>
      ListAuditEvents (sample_list\<lparr>lp_CursorTs := Audit_CreatedAt (last page), lp_CursorID := Audit_ID (last page),
                       lp_Limit := int 2\<rparr>) sample_audit_db = Inr next_page \<and>
      ListAuditEvents (sample_list\<lparr>lp_Limit := int (2 + 2)\<rparr>) sample_audit_db = Inr (page @ next_page))"
proof -
  have ok: "db_ok sample_audit_db" by code_simp
  have "case ListAuditEvents (sample_list\<lparr>lp_Limit := int 2\<rparr>) sample_audit_db of Inl _ \<Rightarrow> False
     | Inr page \<Rightarrow> map Audit_ID page = [14, 13] \<and> Audit_CreatedAt (last page) \<noteq> 0" by code_simp
  then obtain page where page: "ListAuditEvents (sample_list\<lparr>lp_Limit := int 2\<rparr>) sample_audit_db = Inr page"
      "map Audit_ID page = [14, 13]" "Audit_CreatedAt (last page) \<noteq> 0"
    by (auto split: sum.splits)
  have "length page = 2" using arg_cong [OF page(2), of length] by simp
  then show ?thesis using audit_pages [OF ok _ page(1) _ _ page(3), of 2] ok page(1,2) by (auto simp: sample_list_def)
qed

end
