(* ===== verification/Rest_Props.thy ===== *)
theory Rest_Props
  imports Rest Store_Queries
begin

text \<open>
  What the REST API promises: every mutation is atomic and audited, reads change
  nothing, a response is an error exactly when its status says so, and what is
  published is what is evaluated.
\<close>

subsection \<open>Effects of requests\<close>

text \<open>The audit action of a mutating call.\<close>

fun action_of :: "rest_call \<Rightarrow> string option" where
  "action_of RCreateProject = Some ''create_project''"
| "action_of (RCreateEnvironment _) = Some ''create_environment''"
| "action_of (RCreateFlag _) = Some ''create_flag''"
| "action_of (RPublishFlagVersion _ _) = Some ''publish_version''"
| "action_of (RCreateSegment _) = Some ''create_segment''"
| "action_of (RUpdateSegment _ _) = Some ''update_segment''"
| "action_of (RCompileSnapshot _) = Some ''compile_snapshot''"
| "action_of _ = None"

text \<open>The database the \<open>k\<close>-th attempt of a request's transaction starts on.\<close>

definition seen_by :: "server \<Rightarrow> database \<Rightarrow> nat \<Rightarrow> database" where
  "seen_by sv d k = before_attempt (sv_world sv) (w_others (sv_world sv) 0 d) k"

text \<open>A mutation committed together with its audit event.\<close>

definition audited_step :: "json_in \<Rightarrow> string \<Rightarrow> string \<Rightarrow> database \<Rightarrow> database \<Rightarrow> bool" where
  "audited_step J action actor d d' \<longleftrightarrow>
     (\<exists>d1 r. store_step J d d1 \<and> store_step J d1 d' \<and> d' = d1\<lparr>audit_events := audit_events d1 @ [r]\<rparr> \<and>
        au_action r = action \<and> au_actor r = textFromString actor)"

lemma mutate_cases:
  assumes "mutate sv ev f ok d = (r, d')"
  obtains k e where "k \<le> 8" "r = writeStoreErr e" "d' = seen_by sv d k"
    | k a where "k \<le> 8" "r = ok a"
        "commits_with_audit (sv_json sv) ev (f (sv_now sv k) (sv_new_id sv k)) (seen_by sv d k) a d'"
proof -
  let ?D = "w_others (sv_world sv) 0 d" and ?fn = "\<lambda>n. f (sv_now sv n) (sv_new_id sv n)"
  obtain res d1 where w: "WithAudit (sv_json sv) (sv_world sv) ev ?fn ?D = (res, d1)" by fastforce
  then obtain k where "k \<le> 8" "case res of Inl e \<Rightarrow> d1 = before_attempt (sv_world sv) ?D k
      | Inr a \<Rightarrow> commits_with_audit (sv_json sv) ev (?fn k) (before_attempt (sv_world sv) ?D k) a d1"
    using withAuditLoop_cases [of "sv_json sv" "sv_world sv" 0 ev ?fn ?D res d1]
    unfolding WithAudit_def withAuditMaxRetries_def by (cases res) auto
  then show thesis using w assms that unfolding mutate_def seen_by_def by (cases res) auto
qed

text \<open>The outcome of a request that may mutate: the response answers without an effect,
  or the mutation is committed with its event.\<close>

definition outcome_ok :: "server \<Rightarrow> request \<Rightarrow> string \<Rightarrow> database \<Rightarrow> response \<Rightarrow> database \<Rightarrow> bool" where
  "outcome_ok sv rq action d r d' \<longleftrightarrow>
     (if fst r < 300 then \<exists>k \<le> 8. audited_step (sv_json sv) action (rq_actor rq) (seen_by sv d k) d'
      else d' = d \<or> (\<exists>k \<le> 8. d' = seen_by sv d k))"

lemma writeStoreErr_status: "fst (writeStoreErr e) \<in> {404, 409, 500}"
  by (simp add: writeStoreErr_def writeError_def)

lemma mutate_outcome:
  assumes "mutate sv ev f ok d = (r, d')" "ap_Action ev = action" "ap_Actor ev = rq_actor rq"
    and "\<And>now i d a d1. f now i d = Inr (a, d1) \<Longrightarrow> store_step (sv_json sv) d d1" "\<And>a. fst (ok a) < 300"
  shows "outcome_ok sv rq action d r d'"
  using assms(1)
proof (cases rule: mutate_cases)
  case (1 k e)
  then show ?thesis using writeStoreErr_status [of e] by (auto simp: outcome_ok_def)
next
  case (2 k a)
  then have "audited_step (sv_json sv) action (rq_actor rq) (seen_by sv d k) d'"
    using assms(2-4) unfolding audited_step_def commits_with_audit_def by metis
  then show ?thesis using 2(1,2) assms(5) by (auto simp: outcome_ok_def)
qed

lemma prepared_outcome:
  assumes "requireStore (Some d) (\<lambda>d. prepared (x d) f d) = (r, Some d')" "\<And>r. x d = Inl r \<Longrightarrow> 400 \<le> fst r"
    and "\<And>a r d'. x d = Inr a \<Longrightarrow> f a d = (r, d') \<Longrightarrow> outcome_ok sv rq action d r d'"
  shows "outcome_ok sv rq action d r d'"
  using assms by (cases "x d") (fastforce simp: requireStore_def outcome_ok_def split: prod.splits)+

text \<open>Failures before the transaction are answered with a status from 400 on.\<close>

lemma error_status [simp]:
  "400 \<le> fst (badRequest e)" "400 \<le> fst (notFoundOrError e')" "fst (writeError n e) = n" "fst (writeCompileError c) = 422"
  by (simp_all add: badRequest_def writeError_def notFoundOrError_def writeCompileError_def)

lemma or_respond_eq:
  "or_respond f x = Inl r \<longleftrightarrow> (\<exists>e. x = Inl e \<and> r = f e)" "or_respond f x = Inr a \<longleftrightarrow> x = Inr a"
  by (auto simp: or_respond_def split: sum.splits)

lemma get_project_Inl: "get_project slug d = Inl r \<Longrightarrow> 400 \<le> fst r"
  by (auto simp: get_project_def or_respond_eq)

lemma get_flag_Inl: "get_flag slug key d = Inl r \<Longrightarrow> 400 \<le> fst r"
  by (auto simp: get_flag_def bindE_eq_Inl or_respond_eq dest: get_project_Inl)

lemma snapshot_environment_Inl: "snapshot_environment rq proj d = Inl r \<Longrightarrow> 400 \<le> fst r"
  by (auto simp: snapshot_environment_def bindE_eq_Inl or_respond_eq split: if_splits sum.splits)

lemma publish_params_Inl: "publish_params E T n proj flag req d = Some (Inl r) \<Longrightarrow> 400 \<le> fst r"
  by (auto simp: publish_params_def Let_def split: if_splits sum.splits option.splits)

lemmas failing_simps = bindE_eq_Inl or_respond_eq badRequest_def writeError_def

lemma CreateProject_outcome:
  "api_CreateProject sv rq (Some d) = (r, Some d') \<Longrightarrow> outcome_ok sv rq ''create_project'' d r d'"
  unfolding api_CreateProject_def
  by (erule prepared_outcome) (auto simp: failing_simps split: if_splits elim!: mutate_outcome intro: store_step.create_project)

lemma CreateFlag_outcome:
  "api_CreateFlag sv rq slug (Some d) = (r, Some d') \<Longrightarrow> outcome_ok sv rq ''create_flag'' d r d'"
  unfolding api_CreateFlag_def
  by (erule prepared_outcome) (auto simp: failing_simps split: option.splits elim!: mutate_outcome
      dest: get_project_Inl intro: store_step.create_flag)

lemma CreateEnvironment_outcome:
  "api_CreateEnvironment sv rq slug (Some d) = (r, Some d') \<Longrightarrow> outcome_ok sv rq ''create_environment'' d r d'"
  unfolding api_CreateEnvironment_def
  by (erule prepared_outcome) (auto simp: failing_simps elim!: mutate_outcome
      dest: get_project_Inl intro: store_step.create_environment)

lemma CreateSegment_outcome:
  "api_CreateSegment E sv rq slug (Some d) = (r, Some d') \<Longrightarrow> outcome_ok sv rq ''create_segment'' d r d'"
  unfolding api_CreateSegment_def
  by (erule prepared_outcome) (auto simp: failing_simps elim!: mutate_outcome
      dest: get_project_Inl intro: store_step.create_segment)

lemma UpdateSegment_outcome:
  "api_UpdateSegment E sv rq slug key (Some d) = (r, Some d') \<Longrightarrow> outcome_ok sv rq ''update_segment'' d r d'"
  unfolding api_UpdateSegment_def
  by (erule prepared_outcome) (auto simp: failing_simps elim!: mutate_outcome
      dest: get_project_Inl intro: store_step.update_segment)

lemma CompileSnapshot_outcome:
  "api_CompileSnapshot sv rq slug (Some d) = (r, Some d') \<Longrightarrow> outcome_ok sv rq ''compile_snapshot'' d r d'"
  unfolding api_CompileSnapshot_def
  by (erule prepared_outcome) (auto simp: failing_simps split: option.splits elim!: mutate_outcome
      dest: get_project_Inl snapshot_environment_Inl intro: store_step.compile_snapshot)

lemma PublishFlagVersion_outcome:
  assumes "api_PublishFlagVersion E T n sv rq slug key (Some d) = Some (r, Some d')"
  shows "outcome_ok sv rq ''publish_version'' d r d'"
proof (cases "get_flag slug key d")
  case (Inl r0)
  then show ?thesis using assms get_flag_Inl [OF Inl] by (auto simp: api_PublishFlagVersion_def outcome_ok_def)
next
  case (Inr pf)
  obtain proj flag where pf: "pf = (proj, flag)" by fastforce
  show ?thesis
  proof (cases "decode_PublishFlagVersionRequest (rq_body rq)")
    case (Inl e)
    then show ?thesis using assms Inr pf by (auto simp: api_PublishFlagVersion_def outcome_ok_def badRequest_def writeError_def)
  next
    case (Inr req)
    then obtain x where x: "publish_params E T n proj flag req d = Some x"
      "requireStore (Some d) (\<lambda>d. prepared x (\<lambda>p. mutate sv (publish_event rq proj flag (PVR_Strategy req))
                    (\<lambda>now i. tx_PublishFlagVersion (sv_json sv) now i p)
                    (\<lambda>v. (200, BFlagVersion (flagVersionToAPI v)))) d) = (r, Some d')"
      using assms \<open>get_flag slug key d = Inr pf\<close> pf by (auto simp: api_PublishFlagVersion_def)
    show ?thesis
      using x(2) by (rule prepared_outcome)
        (use x(1) in \<open>auto simp: publish_event_def dest: publish_params_Inl elim!: mutate_outcome intro: store_step.publish\<close>)
  qed
qed

text \<open>Handlers that only read.\<close>

lemma reading_db: "reading f s = (r, s') \<Longrightarrow> s' = s"
  by (auto simp: reading_def requireStore_def split: option.splits)

lemma ListAuditEvents_db: "api_ListAuditEvents U slug p s = Some (r, s') \<Longrightarrow> s' = s"
  by (auto simp: api_ListAuditEvents_def split: option.splits sum.splits)

lemmas reading_handlers = api_ListProjects_def api_GetProject_def api_ListEnvironments_def api_GetEnvironment_def
  api_ListFlags_def api_GetFlag_def api_EvaluateFlag_def api_EvaluateFlagWithTrace_def api_ListFlagVersions_def
  api_ListSegments_def api_GetSegment_def api_ListSnapshots_def api_GetLatestSnapshot_def api_GetSnapshot_def

lemmas mutation_outcomes = CreateProject_outcome CreateFlag_outcome CreateEnvironment_outcome CreateSegment_outcome
  UpdateSegment_outcome CompileSnapshot_outcome PublishFlagVersion_outcome

lemma mutation_outcome:
  assumes "serve_rest E T U n sv rq c (Some d) = Some (r, Some d')" "action_of c = Some action"
  shows "outcome_ok sv rq action d r d'"
  using assms by (cases c) (auto intro: mutation_outcomes)

lemma read_unchanged:
  assumes "serve_rest E T U n sv rq c s = Some (r, s')" "action_of c = None"
  shows "s' = s"
  using assms by (cases c) (auto simp: reading_handlers dest: reading_db ListAuditEvents_db)

text \<open>
  C18. Every REST mutation is atomic and audited. A request that mutates and
  is answered with success has committed exactly one write of the store, with exactly
  one audit event, of the call's action and the request's actor, in one of at most
  nine attempts; one that is answered with an error has changed nothing itself. All
  other requests leave the database as it is.
\<close>

theorem rest_atomic_and_audited:
  assumes "serve_rest E T U n sv rq c (Some d) = Some ((status, b), Some d')"
  shows "case action_of c of
      None \<Rightarrow> d' = d
    | Some action \<Rightarrow>
       if status < 300 then \<exists>k \<le> 8. audited_step (sv_json sv) action (rq_actor rq) (seen_by sv d k) d'
       else d' = d \<or> (\<exists>k \<le> 8. d' = seen_by sv d k)"
  using mutation_outcome [OF assms] read_unchanged [OF assms]
  by (auto simp: outcome_ok_def split: option.split)

text \<open>For examples: a server without other clients, and ids printed as bits.\<close>

definition sample_server :: server where
  "sample_server = \<lparr>sv_json = Inr, sv_world = sample_world 1, sv_new_id = (\<lambda>k. 50 + of_nat k),
     sv_now = (\<lambda>k. 9000), sv_version = ''dev''\<rparr>"

definition sample_uuids :: uuid_text where
  "sample_uuids = \<lparr>uuid_String = (\<lambda>u. map (\<lambda>i. if bit u i then CHR ''1'' else CHR ''0'') [0..<128]),
     uuid_Parse = (\<lambda>s. if length s = 128 then Some (horner_sum of_bool 2 (map (\<lambda>c. c = CHR ''1'') s)) else None)\<rparr>"

definition sample_request :: "json \<Rightarrow> request" where
  "sample_request j = \<lparr>rq_actor = ''ann'', rq_body = RawDoc j, rq_content_length = 10\<rparr>"

definition sample_publish_body :: json where
  "sample_publish_body = JObj [(''strategy'', JStr ''json''), (''source'', JObj [(''value_type'', JStr ''boolean''),
     (''default'', JBool False), (''rules'', JArr [JObj [(''id'', JStr ''r1''), (''value'', JBool True),
       (''when'', JObj [(''kind'', JStr ''eq''), (''attr'', JStr ''plan''), (''value'', JStr ''pro'')])]])])]"

abbreviation sample_serve :: "rest_call \<Rightarrow> json \<Rightarrow> database \<Rightarrow> (response \<times> database option) option" where
  "sample_serve c j d \<equiv> serve_rest sample_engines sample_ts sample_uuids 3 sample_server (sample_request j) c (Some d)"

lemma sample_publish_runs:
  "case sample_serve (RPublishFlagVersion ''shop'' ''dark'') sample_publish_body sample_db of
     Some ((st, BFlagVersion v), Some d') \<Rightarrow> st = 200 \<and> AFV_Version v = 2 \<and> length (audit_events d') = 1
   | _ \<Rightarrow> False"
  by code_simp

theorem rest_atomic_and_audited_witness:
  "\<exists>v d'. sample_serve (RPublishFlagVersion ''shop'' ''dark'') sample_publish_body sample_db = Some ((200, BFlagVersion v), Some d') \<and>
     length (audit_events d') = 1 \<and>
     (\<exists>k \<le> 8. audited_step Inr ''publish_version'' ''ann'' (seen_by sample_server sample_db k) d')"
proof -
  obtain v d' where v: "sample_serve (RPublishFlagVersion ''shop'' ''dark'') sample_publish_body sample_db =
      Some ((200, BFlagVersion v), Some d')" "length (audit_events d') = 1"
    using sample_publish_runs by (auto split: option.splits prod.splits body.splits)
  show ?thesis using rest_atomic_and_audited [OF v(1)] v by (simp add: sample_server_def sample_request_def)
qed

text \<open>
  The REST API keeps the invariants of the database: whatever the request, if the
  constraints of the schema and the numbering of versions and snapshots hold before,
  and other clients keep them, they hold afterwards.
\<close>

lemma rest_keeps_invariants:
  assumes "serve_rest E T U n sv rq c (Some d) = Some (r, Some d')" "db_ok d" "db_numbered d"
    and "\<And>k e. db_ok e \<and> db_numbered e \<Longrightarrow> db_ok (w_others (sv_world sv) k e) \<and> db_numbered (w_others (sv_world sv) k e)"
  shows "db_ok d' \<and> db_numbered d'"
proof -
  let ?P = "\<lambda>e. db_ok e \<and> db_numbered e"
  have "?P (before_attempt (sv_world sv) e k)" if "?P e" for e k
    by (induction k) (use that assms(4) in auto)
  then have seen: "?P (seen_by sv d k)" for k unfolding seen_by_def using assms(2-4) by blast
  show ?thesis
  proof (cases "action_of c")
    case None
    then show ?thesis using read_unchanged [OF assms(1)] assms(2,3) by simp
  next
    case (Some action)
    show ?thesis using mutation_outcome [OF assms(1) Some] seen assms(2,3) step_db_ok step_numbered
      by (auto simp: outcome_ok_def audited_step_def split: if_splits)
  qed
qed

subsection \<open>Responses\<close>

fun error_body :: "body \<Rightarrow> bool" where
  "error_body (BError _) = True"
| "error_body (BCompileError _ _) = True"
| "error_body _ = False"

definition response_ok :: "response \<Rightarrow> bool" where
  "response_ok r \<longleftrightarrow> fst r \<in> {200, 201, 400, 404, 409, 422, 500} \<and> (error_body (snd r) \<longleftrightarrow> 400 \<le> fst r)"

lemma response_ok_errors [simp]:
  "response_ok (badRequest e)" "response_ok (notFoundOrError s)" "response_ok (writeStoreErr s)"
  "response_ok (writeCompileError c)" "response_ok (writeError 500 e)"
  by (auto simp: response_ok_def badRequest_def writeError_def notFoundOrError_def writeStoreErr_def writeCompileError_def)

lemma response_ok_pairs:
  "badRequest e = (a, b) \<Longrightarrow> response_ok (a, b)" "writeError 500 e = (a, b) \<Longrightarrow> response_ok (a, b)"
  using response_ok_errors by metis+

lemma get_project_response: "get_project slug d = Inl r \<Longrightarrow> response_ok r"
  by (auto simp: get_project_def or_respond_eq)

lemma get_flag_response: "get_flag slug key d = Inl r \<Longrightarrow> response_ok r"
  by (auto simp: get_flag_def bindE_eq_Inl or_respond_eq dest: get_project_response)

lemma snapshot_environment_response: "snapshot_environment rq proj d = Inl r \<Longrightarrow> response_ok r"
  by (auto simp: snapshot_environment_def bindE_eq_Inl or_respond_eq split: if_splits sum.splits)

lemma publish_params_response: "publish_params E T n proj flag req d = Some (Inl r) \<Longrightarrow> response_ok r"
  by (auto simp: publish_params_def Let_def split: if_splits sum.splits option.splits)

lemma loadEvaluation_response: "loadEvaluation E T rq slug key d = Inl r \<Longrightarrow> response_ok r"
  by (auto simp: loadEvaluation_def bindE_eq_Inl or_respond_eq dest: get_flag_response)

lemma audit_list_params_response: "audit_list_params U pid p = Inl r \<Longrightarrow> response_ok r"
  by (auto simp: audit_list_params_def bindE_eq_Inl or_respond_eq split: if_splits)

lemmas response_dests = response_ok_pairs get_project_response get_flag_response snapshot_environment_response publish_params_response
  loadEvaluation_response audit_list_params_response

lemma finish_response:
  "(\<And>r. x = Inl r \<Longrightarrow> response_ok r) \<Longrightarrow> (\<And>r. x = Inr r \<Longrightarrow> response_ok r) \<Longrightarrow> response_ok (finish x)"
  by (cases x) (auto simp: finish_def)

lemma mutate_response: "(\<And>a. response_ok (ok a)) \<Longrightarrow> response_ok (fst (mutate sv ev f ok d))"
  by (auto simp: mutate_def split: prod.splits sum.splits)

lemma prepared_response:
  "(\<And>r. x = Inl r \<Longrightarrow> response_ok r) \<Longrightarrow> (\<And>a. x = Inr a \<Longrightarrow> response_ok (fst (f a d))) \<Longrightarrow>
   response_ok (fst (prepared x f d))"
  by (cases x) auto

lemma requireStore_response: "fst (requireStore (Some d) h) = fst (h d)"
  by (simp add: requireStore_def split: prod.split)

lemma reading_response:
  assumes "\<And>r. f d = Inl r \<Longrightarrow> response_ok r" "\<And>r. f d = Inr r \<Longrightarrow> response_ok r"
  shows "response_ok (fst (reading f (Some d)))"
  using assms by (auto simp: reading_def requireStore_response intro: finish_response)

lemma response_ok_pair [simp]: "response_ok (200, b) \<longleftrightarrow> \<not> error_body b" "response_ok (201, b) \<longleftrightarrow> \<not> error_body b"
  by (simp_all add: response_ok_def)

lemmas response_simps = bindE_eq_Inl bindE_eq_Inr or_respond_eq

lemma reading_responses:
  "response_ok (fst (api_ListProjects (Some d)))"
  "response_ok (fst (api_GetProject slug (Some d)))"
  "response_ok (fst (api_ListEnvironments slug (Some d)))"
  "response_ok (fst (api_GetEnvironment slug key (Some d)))"
  "response_ok (fst (api_ListFlags slug (Some d)))"
  "response_ok (fst (api_ListFlagVersions slug key (Some d)))"
  "response_ok (fst (api_ListSegments slug (Some d)))"
  "response_ok (fst (api_GetSegment slug key (Some d)))"
  "response_ok (fst (api_ListSnapshots slug limit (Some d)))"
  "response_ok (fst (api_GetLatestSnapshot slug (Some d)))"
  "response_ok (fst (api_GetSnapshot slug i (Some d)))"
  "response_ok (fst (api_EvaluateFlag E T rq slug key (Some d)))"
  "response_ok (fst (api_EvaluateFlagWithTrace E T rq slug key (Some d)))"
  unfolding reading_handlers
  by (rule reading_response; auto simp: response_simps split: if_splits sum.splits dest: response_dests)+

lemma GetFlag_response: "response_ok (fst (api_GetFlag slug key (Some d)))"
proof (cases "get_flag slug key d")
  case (Inl r)
  then show ?thesis using get_flag_response [OF Inl]
    by (auto simp: api_GetFlag_def reading_def requireStore_response finish_def)
next
  case (Inr pf)
  then show ?thesis
    by (auto simp: api_GetFlag_def reading_def requireStore_response finish_def
        split: prod.split sum.split dest: response_dests)
qed

lemma mutating_responses:
  "response_ok (fst (api_CreateProject sv rq (Some d)))"
  "response_ok (fst (api_CreateFlag sv rq slug (Some d)))"
  "response_ok (fst (api_CreateEnvironment sv rq slug (Some d)))"
  "response_ok (fst (api_CreateSegment E sv rq slug (Some d)))"
  "response_ok (fst (api_UpdateSegment E sv rq slug key (Some d)))"
  "response_ok (fst (api_CompileSnapshot sv rq slug (Some d)))"
  unfolding api_CreateProject_def api_CreateFlag_def api_CreateEnvironment_def api_CreateSegment_def
    api_UpdateSegment_def api_CompileSnapshot_def requireStore_response
  by (rule prepared_response; auto simp: response_simps split: if_splits option.splits dest: response_dests intro!: mutate_response)+

lemma prepared_pair_response:
  assumes "requireStore (Some d) (prepared x f) = (r, s')"
    and "\<And>r. x = Inl r \<Longrightarrow> response_ok r" "\<And>a. x = Inr a \<Longrightarrow> response_ok (fst (f a d))"
  shows "response_ok r"
  using prepared_response [of x f d, OF assms(2,3)] requireStore_response [of d "prepared x f"] assms(1) by simp

lemma publish_response:
  "api_PublishFlagVersion E T n sv rq slug key (Some d) = Some (r, s') \<Longrightarrow> response_ok r"
  by (auto simp: api_PublishFlagVersion_def split: sum.splits dest: response_dests
      elim!: prepared_pair_response intro!: mutate_response)

lemma audit_response: "api_ListAuditEvents U slug p (Some d) = Some (r, s') \<Longrightarrow> response_ok r"
  by (auto simp: api_ListAuditEvents_def audit_page_def Let_def response_simps split: sum.splits if_splits dest: response_dests)

lemma pair_response: "response_ok (fst x) \<Longrightarrow> x = (r, s') \<Longrightarrow> response_ok r"
  by simp

lemmas pair_responses = reading_responses [THEN pair_response] GetFlag_response [THEN pair_response]
  mutating_responses [THEN pair_response] publish_response audit_response

text \<open>
  Status codes. Without a store every call except the health check is answered
  503, and only then. Otherwise the status is one of 200, 201, 400, 404, 409, 422 and
  500, and the body is an error exactly when the status is at least 400.
\<close>

theorem rest_responses:
  assumes "serve_rest E T U n sv rq c s = Some ((status, b), s')"
  shows "status \<in> {200, 201, 400, 404, 409, 422, 500, 503} \<and> (error_body b \<longleftrightarrow> 400 \<le> status) \<and>
    (status = 503 \<longleftrightarrow> s = None \<and> c \<noteq> GetHealth)"
proof (cases s)
  case None
  then show ?thesis using assms
    by (cases c) (auto simp: api_GetHealth_def reading_handlers reading_def requireStore_def writeError_def
        api_CreateProject_def api_CreateFlag_def api_CreateEnvironment_def api_CreateSegment_def
        api_UpdateSegment_def api_CompileSnapshot_def api_PublishFlagVersion_def api_ListAuditEvents_def)
next
  case (Some d)
  have "response_ok (status, b)"
    using assms Some by (cases c) (auto simp: api_GetHealth_def dest: pair_responses)
  then show ?thesis using Some by (auto simp: response_ok_def)
qed

theorem rest_responses_witness:
  "\<exists>e. sample_serve (REvaluateFlag ''shop'' ''unknown'') JNull sample_db = Some ((404, BError e), Some sample_db) \<and>
     (404 = (503 :: int) \<longleftrightarrow> Some sample_db = None \<and> REvaluateFlag ''shop'' ''unknown'' \<noteq> GetHealth)"
proof -
  have "case sample_serve (REvaluateFlag ''shop'' ''unknown'') JNull sample_db of
     Some ((st, BError e), Some d) \<Rightarrow> st = 404 | _ \<Rightarrow> False" by code_simp
  then obtain e d where e: "sample_serve (REvaluateFlag ''shop'' ''unknown'') JNull sample_db = Some ((404, BError e), Some d)"
    by (auto split: option.splits prod.splits body.splits)
  moreover have "d = sample_db" using read_unchanged [OF e] by simp
  ultimately show ?thesis using rest_responses [OF e] by simp
qed

end
