(* ===== verification/Rest_Flow.thy ===== *)
theory Rest_Flow
  imports Rest_Props
begin

text \<open>
  Requests that follow each other: a flag is evaluated as it was published, and the
  pages of the audit log are connected by their cursors.
\<close>

subsection \<open>Publishing and evaluating\<close>

text \<open>What the database promises of the documents it stores: they may come back written
  differently, but they decode to the same tree.\<close>

definition keeps_trees :: "json_in \<Rightarrow> bool" where
  "keeps_trees J \<longleftrightarrow> (\<forall>j j'. J j = Inr j' \<longrightarrow> unmarshal_tree (RawDoc j') = unmarshal_tree (RawDoc j))"

text \<open>The configuration a publish request stands for.\<close>

definition published_config :: "('ast, 'prog) engines \<Rightarrow> ts_engine \<Rightarrow> nat \<Rightarrow> Project \<Rightarrow> PublishFlagVersionRequest
    \<Rightarrow> database \<Rightarrow> 'prog Compiled option" where
  "published_config E T n proj req d = (case marshal_any (PVR_Source req) of
     None \<Rightarrow> None
   | Some j \<Rightarrow> (case resolveSegmentRefs n (Project_ID proj) (publish_source req j) d of
       Some (Inr src) \<Rightarrow> (case Compile E T (strategy_of (PVR_Strategy req)) src of Inr c \<Rightarrow> Some c | _ \<Rightarrow> None)
     | _ \<Rightarrow> None))"

lemma publish_params_config:
  assumes "publish_params E T n proj flag req d = Some (Inr p)"
  obtains c j where "published_config E T n proj req d = Some c" "pv_Compiled p = RawDoc j"
    "Compile E T (strategy_of (PVR_Strategy req)) (RawDoc j) = Inr c" "\<exists>t. IR c = Some t \<and> marshal_tree t = Some j"
    "pv_FlagID p = Flag_ID flag" "pv_Strategy p = PVR_Strategy req"
proof -
  obtain src c j where c: "published_config E T n proj req d = Some c"
      "Compile E T (strategy_of (PVR_Strategy req)) src = Inr c"
      "(case IR c of None \<Rightarrow> Some JNull | Some t \<Rightarrow> marshal_tree t) = Some j"
      "pv_Compiled p = RawDoc j" "pv_FlagID p = Flag_ID flag" "pv_Strategy p = PVR_Strategy req"
    using assms by (auto simp: publish_params_def published_config_def Let_def split: if_splits option.splits sum.splits)
  obtain t j' where "IR c = Some t" "marshal_tree t = Some j'" "Compile E T (strategy_of (PVR_Strategy req)) (RawDoc j') = Inr c"
    using strategy_compiler.stored_tree_compiles [OF c(2)] by blast
  then show thesis using that [OF c(1,4)] c by auto
qed

text \<open>Writes of versions and audit events do not touch projects and flags.\<close>

lemma get_flag_version_written [simp]:
  "get_flag slug key (d\<lparr>flag_versions := vs\<rparr>) = get_flag slug key d"
  "get_flag slug key (d\<lparr>audit_events := as\<rparr>) = get_flag slug key d"
  by (simp_all add: get_flag_def get_project_def get_defs)

lemma GetLatestFlagVersion_audit [simp]:
  "GetLatestFlagVersion fid (d\<lparr>audit_events := as\<rparr>) = GetLatestFlagVersion fid d"
  by (simp add: GetLatestFlagVersion_def q_GetLatestFlagVersion_def)

lemma published_row:
  assumes "publishFlagVersionTx J now i p d = Inr (x, d1)" "db_numbered d" "keeps_trees J"
    and "published_config E T n proj req d = Some c" "pv_Compiled p = RawDoc j"
    and "Compile E T (strategy_of (PVR_Strategy req)) (RawDoc j) = Inr c" "\<exists>t. IR c = Some t \<and> marshal_tree t = Some j"
    and "pv_FlagID p = Flag_ID flag" "pv_Strategy p = PVR_Strategy req"
  shows "GetLatestFlagVersion (Flag_ID flag) d1 = Inr x \<and> FV_Strategy x = PVR_Strategy req \<and>
    Compile E T (strategy_of (PVR_Strategy req)) (FV_Compiled x) = Inr c \<and>
    FV_Version x = int (length (versions_of d (Flag_ID flag))) + 1 \<and> FV_Version x < 2 ^ 31 \<and>
    get_flag slug key d1 = get_flag slug key d"
proof -
  obtain r m js jc where r: "q_NextFlagVersion (pv_FlagID p) d = Inr m" "d1 = d\<lparr>flag_versions := flag_versions d @ [r]\<rparr>"
      "x = flagVersionFromRow r" "fv_flag_id r = pv_FlagID p" "fv_version r = m" "fv_strategy r = pv_Strategy p"
      "pv_Compiled p = RawDoc jc" "J jc = Inr (fv_compiled r)"
      "order_desc fv_version (versions_of d1 (pv_FlagID p)) = r # order_desc fv_version (versions_of d (pv_FlagID p))"
    using publish_latest_row [OF assms(1)] by blast
  have "unmarshal_tree (RawDoc (fv_compiled r)) = unmarshal_tree (RawDoc j)"
    using assms(3,5) r(7,8) by (auto simp: keeps_trees_def)
  then have "Compile E T (strategy_of (PVR_Strategy req)) (RawDoc (fv_compiled r)) = Inr c"
    using Compile_same_tree [OF assms(6)] assms(7) by blast
  moreover have "m < 2 ^ 31" using r(1) by (auto simp: q_NextFlagVersion_def next_version_def Let_def split: if_splits)
  ultimately show ?thesis using r publish_number [OF r(1) assms(2)] assms(8,9)
    by (simp add: GetLatestFlagVersion_def q_GetLatestFlagVersion_def one_row_def wrap_get_def flagVersionFromRow_def)
qed

lemma publish_succeeded:
  assumes "api_PublishFlagVersion E T n sv rq slug key (Some d) = Some ((200, BFlagVersion v), Some d')"
  obtains proj flag req p where "get_flag slug key d = Inr (proj, flag)"
    "decode_PublishFlagVersionRequest (rq_body rq) = Inr req" "publish_params E T n proj flag req d = Some (Inr p)"
    "mutate sv (publish_event rq proj flag (PVR_Strategy req)) (\<lambda>now i. tx_PublishFlagVersion (sv_json sv) now i p)
       (\<lambda>v. (200, BFlagVersion (flagVersionToAPI v))) d = ((200, BFlagVersion v), d')"
proof -
  obtain proj flag where g: "get_flag slug key d = Inr (proj, flag)"
    using assms get_flag_Inl [of slug key d] by (cases "get_flag slug key d") (fastforce simp: api_PublishFlagVersion_def)+
  obtain req where q: "decode_PublishFlagVersionRequest (rq_body rq) = Inr req"
    using assms g by (cases "decode_PublishFlagVersionRequest (rq_body rq)")
      (auto simp: api_PublishFlagVersion_def badRequest_def writeError_def)
  obtain y where y: "publish_params E T n proj flag req d = Some y" "requireStore (Some d) (prepared y (\<lambda>p.
       mutate sv (publish_event rq proj flag (PVR_Strategy req)) (\<lambda>now i. tx_PublishFlagVersion (sv_json sv) now i p)
         (\<lambda>v. (200, BFlagVersion (flagVersionToAPI v))))) = ((200, BFlagVersion v), Some d')"
    using assms g q by (auto simp: api_PublishFlagVersion_def)
  then obtain p where "y = Inr p" using publish_params_Inl [of E T n proj flag req d]
    by (cases y) (fastforce simp: requireStore_def)+
  then show thesis using that [OF g q] y by (auto simp: requireStore_def split: prod.splits)
qed


definition sample_context :: json where
  "sample_context = JObj [(''context'', JObj [(''plan'', JStr ''pro'')])]"


subsection \<open>Paging through the audit log\<close>

lemma fmt_nano_not_empty: "fmt_nano t \<noteq> []"
  by (simp add: fmt_nano_def fmt_seconds_def Let_def)

lemma cursor_roundtrip:
  assumes "uuid_text_ok U" "printable_time t"
  shows "decodeAuditCursor U (encodeAuditCursor U t i) = Inr (t, i)"
proof -
  have "parse_json (json_text (JObj [(''ts'', JStr (fmt_nano t)), (''id'', JStr (uuid_String U i))])) =
      Some (JObj [(''ts'', JStr (fmt_nano t)), (''id'', JStr (uuid_String U i))])"
    by (rule parse_json_text) simp
  moreover have "field_name [''ts'', ''id''] ''ts'' = Some ''ts''" "field_name [''ts'', ''id''] ''id'' = Some ''id''"
    by code_simp+
  moreover have "parseTime (fmt_nano t) = Inr t"
    using assms(2) by (simp add: parseTime_def fmt_nano_not_empty printable_time_def parse_nano_fmt)
  ultimately show ?thesis using assms(1)
    by (simp add: decodeAuditCursor_def encodeAuditCursor_def b64_decode_encode dec_cursor_field_def uuid_text_ok_def dec_string_def)
qed

lemma audit_page_eq:
  assumes "1 \<le> n" "n < 2 ^ 31 - 1"
  shows "audit_page U n (map auditFromRow (take (nat (n + 1)) L)) =
    Some (BAuditEvents (map (auditEventToAPI \<circ> auditFromRow) (take (nat n) L))
      (if nat n < length L then Some (encodeAuditCursor U (au_created_at (L ! nat (n - 1))) (au_id (L ! nat (n - 1)))) else None))"
proof -
  have "to_int32 (int (length (take (nat (n + 1)) L))) = int (length (take (nat (n + 1)) L))"
    using assms by (intro to_int32_id) auto
  moreover have "map auditEventToAPI (take (nat n) (map auditFromRow (take (nat (n + 1)) L))) =
      map (auditEventToAPI \<circ> auditFromRow) (take (nat n) L)"
    using assms by (simp add: take_map)
  ultimately show ?thesis using assms
    by (auto simp: audit_page_def Let_def auditFromRow_def min_def simp del: map_map)
qed

text \<open>The request for a page, with the parameters the store gets.\<close>

definition store_params :: "uuid \<Rightarrow> ApiListAuditParams \<Rightarrow> ListAuditEventsParams" where
  "store_params pid p = \<lparr>lp_ProjectID = pid, lp_Action = derefString (ALP_Action p), lp_Actor = derefString (ALP_Actor p),
     lp_From = derefTime (ALP_From p), lp_To = derefTime (ALP_To p), lp_CursorTs = 0, lp_CursorID = 0, lp_Limit = 0\<rparr>"

definition page_body :: "uuid_text \<Rightarrow> nat \<Rightarrow> audit_row list \<Rightarrow> body" where
  "page_body U n L = BAuditEvents (map (auditEventToAPI \<circ> auditFromRow) (take n L))
     (if n < length L then Some (encodeAuditCursor U (au_created_at (L ! (n - 1))) (au_id (L ! (n - 1)))) else None)"

lemma page_body_append:
  assumes "0 < m" "n < length L" "page_body U m (drop n L) = BAuditEvents items c"
  shows "page_body U (n + m) L = BAuditEvents (map (auditEventToAPI \<circ> auditFromRow) (take n L) @ items) c"
proof -
  have "drop n L ! (m - 1) = L ! (n + m - 1)" using assms(1,2) by simp
  moreover have "m < length (drop n L) \<longleftrightarrow> n + m < length L" by auto
  ultimately show ?thesis using assms(3) by (auto simp: page_body_def take_add)
qed

lemma list_with_params:
  assumes "get_project slug d = Inr proj" "audit_list_params U (Project_ID proj) p = Inr lp"
    and "lp_Limit lp = audit_limit p + 1" "1 \<le> audit_limit p" "audit_limit p < 2 ^ 31 - 1"
  shows "api_ListAuditEvents U slug p (Some d) = Some ((200, page_body U (nat (audit_limit p)) (all_selected lp d)), Some d)"
proof -
  have "nat (audit_limit p) - 1 = nat (audit_limit p - 1)" by simp
  then show ?thesis
    using assms(1-3) audit_page_eq [OF assms(4,5), of U "all_selected lp d"] assms(4)
    by (simp add: api_ListAuditEvents_def ListAuditEvents_eq page_body_def)
qed

lemma first_page_params:
  assumes "derefString (ALP_Cursor p) = []" "1 \<le> audit_limit p" "audit_limit p < 2 ^ 31 - 1"
  shows "audit_list_params U pid p = Inr ((store_params pid p)\<lparr>lp_Limit := audit_limit p + 1\<rparr>)"
  using assms by (simp add: audit_list_params_def store_params_def to_int32_id)

lemma next_page_params:
  assumes "uuid_text_ok U" "printable_time t" "encodeAuditCursor U t i = c" "1 \<le> m" "m < 2 ^ 31 - 1"
  shows "audit_list_params U pid (p\<lparr>ALP_Cursor := Some c, ALP_Limit := Some m\<rparr>) =
    Inr ((store_params pid p)\<lparr>lp_CursorTs := t, lp_CursorID := i, lp_Limit := m + 1\<rparr>)"
proof -
  have "parse_json [] = None" by code_simp
  then have "decodeAuditCursor U [] = Inl ''invalid character''" by (simp add: decodeAuditCursor_def b64_decode_def)
  then have "c \<noteq> []" using cursor_roundtrip [OF assms(1,2), of i] assms(3) by auto
  then show ?thesis using cursor_roundtrip [OF assms(1,2), of i] assms(3-5)
    by (simp add: audit_list_params_def store_params_def to_int32_id audit_limit_def derefString_def or_respond_def)
qed

text \<open>
  C21. The cursor of a page leads to the next one. When a page of \<open>n\<close> events comes with
  a cursor, the request with that cursor and a limit of \<open>m\<close> gets a page that together
  with the first one is the page of \<open>n + m\<close> events, with the same cursor to go on: no
  event is skipped or repeated, whatever the filters, and the walk ends exactly when
  the log does.
\<close>

theorem rest_audit_cursor:
  assumes "api_ListAuditEvents U slug p (Some d) = Some ((200, BAuditEvents items (Some c)), s')"
    and "uuid_text_ok U" "db_ok d" "\<forall>r \<in> set (audit_events d). printable_time (au_created_at r) \<and> au_created_at r \<noteq> 0"
    and "derefString (ALP_Cursor p) = []" "n = audit_limit p" "1 \<le> n" "1 \<le> m" "n + m < 2 ^ 31 - 1"
  shows "\<exists>items' c'. int (length items) = n \<and>
    api_ListAuditEvents U slug (p\<lparr>ALP_Cursor := Some c, ALP_Limit := Some m\<rparr>) (Some d) =
      Some ((200, BAuditEvents items' c'), Some d) \<and>
    api_ListAuditEvents U slug (p\<lparr>ALP_Limit := Some (n + m)\<rparr>) (Some d) =
      Some ((200, BAuditEvents (items @ items') c'), Some d)"
proof -
  obtain proj where proj: "get_project slug d = Inr proj"
    using assms(1) get_project_Inl [of slug d] by (cases "get_project slug d") (fastforce simp: api_ListAuditEvents_def)+
  define lp where "lp = store_params (Project_ID proj) p"
  define L where "L = all_selected lp d"
  define k where "k = nat n - 1"
  have n: "n < 2 ^ 31 - 1" "m < 2 ^ 31 - 1" "nat n = Suc k" "nat (n + m) = nat n + nat m" "0 < nat m"
    using assms(7-9) by (auto simp: k_def)
  have lp0: "lp_CursorTs lp = 0" "store_params (Project_ID proj) (p\<lparr>ALP_Limit := l\<rparr>) = lp" for l
    by (simp_all add: lp_def store_params_def)
  have "audit_list_params U (Project_ID proj) p = Inr (lp\<lparr>lp_Limit := audit_limit p + 1\<rparr>)"
    unfolding lp_def using first_page_params [OF assms(5)] assms(6,7) n(1) by simp
  from list_with_params [OF proj this] have items: "items = map (auditEventToAPI \<circ> auditFromRow) (take (nat n) L)"
      "nat n < length L" "c = encodeAuditCursor U (au_created_at (L ! k)) (au_id (L ! k))"
    using assms(1,6,7) n(1) by (auto simp: L_def k_def page_body_def split: if_splits)
  have "L ! k \<in> set (audit_events d)" using items(2) n(3) nth_mem [of k L] by (auto simp: L_def all_selected_def)
  then have t: "printable_time (au_created_at (L ! k))" "au_created_at (L ! k) \<noteq> 0" using assms(4) by auto
  have "all_selected (lp\<lparr>lp_CursorTs := au_created_at (L ! k), lp_CursorID := au_id (L ! k), lp_Limit := m + 1\<rparr>) d = drop (nat n) L"
    using all_selected_after [OF assms(3) lp0(1), of k "L ! k"] items(2) n(3) t(2) by (simp add: L_def)
  then have second: "api_ListAuditEvents U slug (p\<lparr>ALP_Cursor := Some c, ALP_Limit := Some m\<rparr>) (Some d) =
      Some ((200, page_body U (nat m) (drop (nat n) L)), Some d)"
    using list_with_params [OF proj next_page_params [OF assms(2) t(1) items(3) [symmetric] assms(8) n(2), of _ p]]
      assms(8) n(2) by (simp add: audit_limit_def lp_def)
  have "audit_list_params U (Project_ID proj) (p\<lparr>ALP_Limit := Some (n + m)\<rparr>) = Inr (lp\<lparr>lp_Limit := n + m + 1\<rparr>)"
    using first_page_params [of "p\<lparr>ALP_Limit := Some (n + m)\<rparr>" U "Project_ID proj"] assms(5,7-9)
    by (simp add: lp0(2) audit_limit_def)
  then have third: "api_ListAuditEvents U slug (p\<lparr>ALP_Limit := Some (n + m)\<rparr>) (Some d) =
      Some ((200, page_body U (nat n + nat m) L), Some d)"
    using list_with_params [OF proj, of U "p\<lparr>ALP_Limit := Some (n + m)\<rparr>"] assms(7-9) n(4) by (simp add: audit_limit_def L_def)
  obtain items' c' where "page_body U (nat m) (drop (nat n) L) = BAuditEvents items' c'" by (simp add: page_body_def)
  then show ?thesis
    using second third page_body_append [OF n(5) items(2)] items(1,2) assms(7) by auto
qed

lemma sample_uuids_ok: "uuid_text_ok sample_uuids"
proof -
  have "horner_sum of_bool 2 (map (\<lambda>i. bit u i) [0..<128]) = u" for u :: uuid
    by (simp add: horner_sum_bit_eq_take_bit take_bit_word_eq_self)
  moreover have "(\<lambda>c. c = CHR ''1'') \<circ> (\<lambda>i. if bit u i then CHR ''1'' else CHR ''0'') = bit u" for u :: uuid
    by (simp add: fun_eq_iff)
  ultimately show ?thesis by (simp add: uuid_text_ok_def sample_uuids_def del: upt_rec_numeral)
qed

definition sample_audit_params :: ApiListAuditParams where
  "sample_audit_params = \<lparr>ALP_Action = Some ''create_flag'', ALP_Actor = None, ALP_From = None, ALP_To = None,
     ALP_Cursor = None, ALP_Limit = Some 2\<rparr>"

theorem rest_audit_cursor_witness:
  "\<exists>items c items' c'.
     api_ListAuditEvents sample_uuids ''shop'' sample_audit_params (Some sample_audit_db) =
       Some ((200, BAuditEvents items (Some c)), Some sample_audit_db) \<and> length items = 2 \<and>
     api_ListAuditEvents sample_uuids ''shop'' (sample_audit_params\<lparr>ALP_Cursor := Some c, ALP_Limit := Some 2\<rparr>) (Some sample_audit_db) =
       Some ((200, BAuditEvents items' c'), Some sample_audit_db) \<and>
     api_ListAuditEvents sample_uuids ''shop'' (sample_audit_params\<lparr>ALP_Limit := Some (2 + 2)\<rparr>) (Some sample_audit_db) =
       Some ((200, BAuditEvents (items @ items') c'), Some sample_audit_db)"
proof -
  let ?lp = "store_params 1 sample_audit_params"
  have "case get_project ''shop'' sample_audit_db of Inl _ \<Rightarrow> False | Inr proj \<Rightarrow> Project_ID proj = 1" by code_simp
  then obtain proj where proj: "get_project ''shop'' sample_audit_db = Inr proj" "Project_ID proj = 1"
    by (auto split: sum.splits)
  have "length (all_selected ?lp sample_audit_db) = 3" by code_simp
  moreover have "audit_list_params sample_uuids 1 sample_audit_params = Inr (?lp\<lparr>lp_Limit := audit_limit sample_audit_params + 1\<rparr>)"
    by (rule first_page_params) (simp_all add: sample_audit_params_def derefString_def audit_limit_def)
  ultimately obtain items c where page: "api_ListAuditEvents sample_uuids ''shop'' sample_audit_params (Some sample_audit_db) =
       Some ((200, BAuditEvents items (Some c)), Some sample_audit_db)"
    using list_with_params [OF proj(1), of sample_uuids sample_audit_params] proj(2)
    by (simp add: sample_audit_params_def audit_limit_def page_body_def)
  have ok: "db_ok sample_audit_db" by code_simp
  have "list_all (\<lambda>r. printable_time (au_created_at r) \<and> au_created_at r \<noteq> 0) (audit_events sample_audit_db)"
    by (simp add: sample_audit_db_def printable_time_def days_before_year_def nanos_per_day_def nanos_per_second_def)
  then have times: "\<forall>r \<in> set (audit_events sample_audit_db). printable_time (au_created_at r) \<and> au_created_at r \<noteq> 0"
    by (simp add: list_all_iff)
  have limits: "derefString (ALP_Cursor sample_audit_params) = []" "2 = audit_limit sample_audit_params" "(1 :: int) \<le> 2"
      "(2 :: int) + 2 < 2 ^ 31 - 1"
    by (simp_all add: sample_audit_params_def derefString_def audit_limit_def)
  show ?thesis
    using rest_audit_cursor [OF page sample_uuids_ok ok times limits(1,2,3) limits(3,4)] page by fastforce
qed

subsection \<open>Updating a segment that does not exist\<close>

lemma withAudit_fails:
  assumes "fn 0 d = Inl e" "w_begin w 0 = None" "w_statement w 0 = None" "\<not> isSerializationFailure e"
  shows "WithAudit J w ev fn d = (Inl e, d)"
proof -
  have "withAuditOnce J w 0 ev fn d = (Inl e, d)" using assms by (simp add: withAuditOnce_def)
  then show ?thesis unfolding WithAudit_def by (subst withAuditLoop.simps) (simp add: assms(4))
qed

text \<open>
  C22. Updating a segment that is not there is answered 500 with the error of the query,
  not 404: the transaction's \<open>UpdateSegment\<close> does not translate \<open>no rows\<close> into
  \<open>ErrNotFound\<close>, unlike the lookups. The database is unchanged.
\<close>

theorem update_missing_segment:
  assumes "get_project slug d = Inr proj" "decode_UpdateSegmentRequest (rq_body rq) = Inr req"
    and "normalizePredicate E (USR_Predicate req) = Inr predicate"
    and "GetSegmentByKey (Project_ID proj) key d = Inl ErrNotFound"
    and "w_others (sv_world sv) 0 d = d" "w_begin (sv_world sv) 0 = None" "w_statement (sv_world sv) 0 = None"
  shows "api_UpdateSegment E sv rq slug key (Some d) = (writeError 500 (EStore (StoreSql ''update segment'' NoRows)), Some d)"
proof -
  have none: "filter (\<lambda>r. sg_project_id r = Project_ID proj \<and> sg_key r = key) (segments d) = []"
    using assms(4) by (auto simp: get_defs split: list.splits)
  obtain j where "predicate = RawDoc j"
    using assms(3) by (auto simp: normalizePredicate_def split: if_splits option.splits sum.splits)
  then have "tx_UpdateSegment (sv_json sv) now \<lparr>us_ProjectID = Project_ID proj, us_Key = key, us_Name = USR_Name req,
      us_Description = derefString (USR_Description req), us_Predicate = predicate\<rparr> d = Inl (StoreSql ''update segment'' NoRows)" for now
    by (simp add: tx_UpdateSegment_def q_UpdateSegment_def none wrap_sql_def first_def)
  then show ?thesis using assms(1-3,5-7)
    by (simp add: api_UpdateSegment_def requireStore_def or_respond_def mutate_def withAudit_fails
        isSerializationFailure_def writeStoreErr_def IsConflict_def)
qed

definition sample_update_body :: json where
  "sample_update_body = JObj [(''name'', JStr ''Beta''), (''predicate'', JObj [(''kind'', JStr ''eq''),
     (''attr'', JStr ''plan''), (''value'', JStr ''beta'')])]"

theorem update_missing_segment_witness:
  "api_UpdateSegment sample_engines sample_server (sample_request sample_update_body) ''shop'' ''beta'' (Some sample_db) =
     (writeError 500 (EStore (StoreSql ''update segment'' NoRows)), Some sample_db)"
proof -
  have "case get_project ''shop'' sample_db of Inl _ \<Rightarrow> False | Inr proj \<Rightarrow>
      GetSegmentByKey (Project_ID proj) ''beta'' sample_db = Inl ErrNotFound" by code_simp
  then obtain proj where p: "get_project ''shop'' sample_db = Inr proj" "GetSegmentByKey (Project_ID proj) ''beta'' sample_db = Inl ErrNotFound"
    by (auto split: sum.splits)
  have "case decode_UpdateSegmentRequest (RawDoc sample_update_body) of Inl _ \<Rightarrow> False | Inr req \<Rightarrow>
      is_ok (normalizePredicate sample_engines (USR_Predicate req))" by code_simp
  then obtain req r where r: "decode_UpdateSegmentRequest (rq_body (sample_request sample_update_body)) = Inr req"
      "normalizePredicate sample_engines (USR_Predicate req) = Inr r"
    by (auto split: sum.splits simp: is_ok_iff sample_request_def)
  show ?thesis by (rule update_missing_segment [OF p(1) r p(2)]) (simp_all add: sample_server_def sample_world_def)
qed

end
