(* ===== verification/Sdk.thy ===== *)
theory Sdk
  imports Rest_Flow
begin

text \<open>
  The Go SDK, \<open>internal/sdkgo\<close>: a client that polls the latest snapshot of a project
  and evaluates flags locally, and the typed provider on top of it. The outcome of an
  HTTP request is an argument of a poll. A poll changes the client only by replacing
  the pointer to the snapshot.
\<close>

subsection \<open>The client\<close>

record 'prog SdkSnapshot =
  Snap_ID :: string
  Snap_Version :: int
  Snap_CreatedAt :: time
  Snap_Flags :: "(string \<times> 'prog Compiled) list"

record Options =
  BaseURL :: string
  ProjectSlug :: string
  PollInterval :: int

record 'prog Client =
  cl_opts :: Options
  cl_snap :: "'prog SdkSnapshot option"
  cl_stopped :: bool

definition NewClient :: "Options \<Rightarrow> string + 'prog Client" where
  "NewClient opts =
     (if BaseURL opts = [] then Inl ''sdkgo: BaseURL is required''
      else if ProjectSlug opts = [] then Inl ''sdkgo: ProjectSlug is required''
      else Inr \<lparr>cl_opts = (if PollInterval opts = 0 then opts\<lparr>PollInterval := 10 * 1000000000\<rparr> else opts),
                cl_snap = None, cl_stopped = False\<rparr>)"

definition sdk_Stop :: "'prog Client \<Rightarrow> 'prog Client" where
  "sdk_Stop c = c\<lparr>cl_stopped := True\<rparr>"

subsection \<open>Polling\<close>

text \<open>The request failed, or was answered with a status and a body.\<close>

datatype http_result = HttpFailed string | HttpResponse int raw

record poll_body =
  pb_ID :: string
  pb_Version :: int
  pb_CreatedAt :: time
  pb_Flags :: "(string \<times> raw) list"

definition dec_time :: "time \<Rightarrow> json \<Rightarrow> string + time" where
  "dec_time old j = (case j of
     JNull \<Rightarrow> Inr old
   | JStr s \<Rightarrow> (case parse_nano s of None \<Rightarrow> Inl ''parsing time'' | Some t \<Rightarrow> Inr t)
   | _ \<Rightarrow> Inl ''Time.UnmarshalJSON: input is not a JSON string'')"

definition dec_flags :: "(string \<times> raw) list \<Rightarrow> json \<Rightarrow> string + (string \<times> raw) list" where
  "dec_flags old j = (case j of
     JNull \<Rightarrow> Inr []
   | JObj kvs \<Rightarrow> Inr (fold (\<lambda>(k, v). map_put k (RawDoc v)) kvs old)
   | _ \<Rightarrow> Inl ''json: cannot unmarshal into Go value of type map[string]json.RawMessage'')"

definition dec_compiled :: "(string \<times> raw) list \<Rightarrow> json \<Rightarrow> string + (string \<times> raw) list" where
  "dec_compiled old j = (case j of
     JNull \<Rightarrow> Inr old
   | JObj kvs \<Rightarrow> foldE (\<lambda>fs (k, v). case field_name [''flags''] k of None \<Rightarrow> Inr fs | Some _ \<Rightarrow> dec_flags fs v) kvs old
   | _ \<Rightarrow> Inl ''json: cannot unmarshal into Go struct field .compiled'')"

definition dec_poll_field :: "poll_body \<Rightarrow> string \<times> json \<Rightarrow> string + poll_body" where
  "dec_poll_field b kj = (case kj of (k, j) \<Rightarrow>
     case field_name [''id'', ''version'', ''created_at'', ''compiled''] k of
       None \<Rightarrow> Inr b
     | Some f \<Rightarrow>
        if f = ''id'' then bindE (dec_string (pb_ID b) j) (\<lambda>x. Inr (b\<lparr>pb_ID := x\<rparr>))
        else if f = ''version'' then bindE (dec_int (pb_Version b) j) (\<lambda>x. Inr (b\<lparr>pb_Version := x\<rparr>))
        else if f = ''created_at'' then bindE (dec_time (pb_CreatedAt b) j) (\<lambda>x. Inr (b\<lparr>pb_CreatedAt := x\<rparr>))
        else bindE (dec_compiled (pb_Flags b) j) (\<lambda>x. Inr (b\<lparr>pb_Flags := x\<rparr>)))"

definition zero_poll_body :: poll_body where
  "zero_poll_body = \<lparr>pb_ID = [], pb_Version = 0, pb_CreatedAt = 0, pb_Flags = []\<rparr>"

definition decode_poll_body :: "raw \<Rightarrow> string + poll_body" where
  "decode_poll_body r = (case r of
     RawDoc JNull \<Rightarrow> Inr zero_poll_body
   | RawDoc (JObj kvs) \<Rightarrow> foldE dec_poll_field kvs zero_poll_body
   | RawDoc _ \<Rightarrow> Inl ''json: cannot unmarshal into Go value of type struct''
   | RawBytes _ \<Rightarrow> Inl ''invalid character''
   | RawNil \<Rightarrow> Inl ''EOF'')"

text \<open>A flag that does not compile is left out.\<close>

definition compile_flags :: "('ast, 'prog) engines \<Rightarrow> ts_engine \<Rightarrow> (string \<times> raw) list \<Rightarrow> (string \<times> 'prog Compiled) list" where
  "compile_flags E T fs = concat (map (\<lambda>(k, r). case Compile E T StrategyCEL r of Inl _ \<Rightarrow> [] | Inr c \<Rightarrow> [(k, c)]) fs)"

definition snapshot_of :: "('ast, 'prog) engines \<Rightarrow> ts_engine \<Rightarrow> poll_body \<Rightarrow> 'prog SdkSnapshot" where
  "snapshot_of E T b = \<lparr>Snap_ID = pb_ID b, Snap_Version = pb_Version b, Snap_CreatedAt = pb_CreatedAt b,
     Snap_Flags = compile_flags E T (pb_Flags b)\<rparr>"

definition poll_url :: "Options \<Rightarrow> string" where
  "poll_url opts = BaseURL opts @ ''/v1/projects/'' @ ProjectSlug opts @ ''/snapshots/latest''"

text \<open>The error, if any, and the client afterwards.\<close>

definition pollOnce :: "('ast, 'prog) engines \<Rightarrow> ts_engine \<Rightarrow> http_result \<Rightarrow> 'prog Client \<Rightarrow> string option \<times> 'prog Client" where
  "pollOnce E T h c = (case h of
     HttpFailed e \<Rightarrow> (Some e, c)
   | HttpResponse status body \<Rightarrow>
      if status = 200 then
        (case decode_poll_body body of
           Inl e \<Rightarrow> (Some (''sdkgo: decoding snapshot: '' @ e), c)
         | Inr b \<Rightarrow> (None, c\<lparr>cl_snap := Some (snapshot_of E T b)\<rparr>))
      else if status = 404 then (None, c)
      else (Some (''sdkgo: snapshot poll status '' @ show_int status), c))"

text \<open>The first poll, and whether the polling goroutine is started.\<close>

definition sdk_Start :: "('ast, 'prog) engines \<Rightarrow> ts_engine \<Rightarrow> http_result \<Rightarrow> 'prog Client
    \<Rightarrow> (string option \<times> bool) \<times> 'prog Client" where
  "sdk_Start E T h c = (case pollOnce E T h c of
     (Some e, c') \<Rightarrow> ((Some e, False), c')
   | (None, c') \<Rightarrow> ((None, PollInterval (cl_opts c') > 0), c'))"

text \<open>What wakes the polling goroutine, and its run.\<close>

datatype wakeup = Tick http_result | StopClosed | CtxDone

fun sdk_loop :: "('ast, 'prog) engines \<Rightarrow> ts_engine \<Rightarrow> wakeup list \<Rightarrow> 'prog Client \<Rightarrow> 'prog Client" where
  "sdk_loop E T [] c = c"
| "sdk_loop E T (Tick h # ws) c = sdk_loop E T ws (snd (pollOnce E T h c))"
| "sdk_loop E T (StopClosed # ws) c = c"
| "sdk_loop E T (CtxDone # ws) c = c"

subsection \<open>Evaluation\<close>

definition sdk_Evaluate :: "('ast, 'prog) engines \<Rightarrow> 'prog Client \<Rightarrow> string \<Rightarrow> ctx \<Rightarrow> Decision" where
  "sdk_Evaluate E c key ctx = (case cl_snap c of
     None \<Rightarrow> \<lparr>DValue = ANil, DReason = ReasonError, DRuleID = [], DVersion = 0\<rparr>
   | Some snap \<Rightarrow> (case map_of (Snap_Flags snap) key of
       None \<Rightarrow> \<lparr>DValue = ANil, DReason = ReasonDefault, DRuleID = [], DVersion = Snap_Version snap\<rparr>
     | Some compiled \<Rightarrow> (case Evaluate E (Some compiled) ctx (Snap_Version snap) of
         Inl _ \<Rightarrow> \<lparr>DValue = ANil, DReason = ReasonError, DRuleID = [], DVersion = Snap_Version snap\<rparr>
       | Inr d \<Rightarrow> d)))"

subsection \<open>The provider\<close>

definition typed :: "Decision \<Rightarrow> any \<Rightarrow> bool \<Rightarrow> Decision" where
  "typed d def ok =
     (if ok then d
      else if DReason d \<noteq> ReasonError then d\<lparr>DReason := ReasonTypeMismatch, DValue := def\<rparr>
      else d\<lparr>DValue := def\<rparr>)"

definition BooleanEvaluation :: "('ast, 'prog) engines \<Rightarrow> 'prog Client \<Rightarrow> string \<Rightarrow> bool \<Rightarrow> ctx \<Rightarrow> Decision" where
  "BooleanEvaluation E c key def ctx = (let d = sdk_Evaluate E c key ctx
     in typed d (ABool def) (case DValue d of ABool _ \<Rightarrow> True | _ \<Rightarrow> False))"

definition StringEvaluation :: "('ast, 'prog) engines \<Rightarrow> 'prog Client \<Rightarrow> string \<Rightarrow> string \<Rightarrow> ctx \<Rightarrow> Decision" where
  "StringEvaluation E c key def ctx = (let d = sdk_Evaluate E c key ctx
     in typed d (AStr def) (case DValue d of AStr _ \<Rightarrow> True | _ \<Rightarrow> False))"

definition NumberEvaluation :: "('ast, 'prog) engines \<Rightarrow> 'prog Client \<Rightarrow> string \<Rightarrow> float64 \<Rightarrow> ctx \<Rightarrow> Decision" where
  "NumberEvaluation E c key def ctx = (let d = sdk_Evaluate E c key ctx
     in case DValue d of
          AF64 _ \<Rightarrow> typed d (AF64 def) True
        | AInt v \<Rightarrow> typed (d\<lparr>DValue := AF64 (float_of_int v)\<rparr>) (AF64 def) True
        | AInt64 v \<Rightarrow> typed (d\<lparr>DValue := AF64 (float_of_int v)\<rparr>) (AF64 def) True
        | _ \<Rightarrow> typed d (AF64 def) False)"

definition ObjectEvaluation :: "('ast, 'prog) engines \<Rightarrow> 'prog Client \<Rightarrow> string \<Rightarrow> any \<Rightarrow> ctx \<Rightarrow> Decision" where
  "ObjectEvaluation E c key def ctx = (let d = sdk_Evaluate E c key ctx
     in typed d def (case DValue d of AMap _ \<Rightarrow> True | _ \<Rightarrow> False))"

definition NewProvider :: "string \<Rightarrow> string" where
  "NewProvider name = (if name = [] then ''falseflag'' else name)"

subsection \<open>The SDK and the server\<close>

text \<open>Programs that are there already are not compiled again.\<close>

lemma walk_covered:
  "programs_cover out po \<Longrightarrow> walkAndCompile E po out = Inr out"
  "(\<forall>c \<in> set cs. programs_cover out c) \<Longrightarrow> walkChildren E cs out = Inr out"
proof (induction E po out and E cs out rule: walkAndCompile_walkChildren.induct)
  case (2 E k attr v vs pat salt pct cs one src key out)
  then show ?case using 2(4) [unfolded programs_cover_Predicate] by (cases k) (auto split: option.split)
qed simp_all

lemma compile_covered: "list_all (\<lambda>r. programs_cover out (When r)) rs \<Longrightarrow> compilePredicates E rs out = Inr out"
  by (induction rs) (simp_all add: walk_covered wrap_rule_def)

text \<open>Whatever strategy a tree was compiled under, compiling it as CEL gives the same tree
  and the same programs.\<close>

lemma compile_as_cel:
  assumes c: "Compile E T s src = Inr c" and t: "IR c = Some t" "unmarshal_tree r = Inr t" and env: "cel_new_env E = None"
  shows "Compile E T StrategyCEL r = Inr (c\<lparr>CStrategy := StrategyCEL\<rparr>)"
proof -
  have "validate_and_compile E StrategyCEL t = Inr (c\<lparr>CStrategy := StrategyCEL\<rparr>)"
  proof (cases s)
    case StrategyJSON
    have p: "CELPrograms c = []" "tree_ok E True t" "list_all (\<lambda>r. programs_cover (CELPrograms c) (When r)) (rules_of t)"
      using c t strategy_compiler.compile_ok [OF c]
      by (auto simp: StrategyJSON Compile_cases json_Compile_def bindE_eq_Inr compiled_ok_def)
    then have "compilePredicates E (rules_of t) [] = Inr (CELPrograms c)"
      using compile_covered [of "CELPrograms c" "rules_of t" E] by simp
    then show ?thesis using p t(1) env
      by (auto simp: validate_and_compile_def validateTreeWith_ok [symmetric] check_error_def celEnv_def)
  next
    case StrategyCEL
    then show ?thesis using c t(1) validate_and_compile_IR [of E StrategyCEL _ c t] strategy_compiler.compile_ok [OF c]
      by (auto simp: Compile_cases cel_Compile_def bindE_eq_Inr)
  next
    case StrategyTypeScript
    obtain t' where "validate_and_compile E StrategyTypeScript t' = Inr c"
      using typescript_source [of E T src c] c by (auto simp: StrategyTypeScript Compile_cases)
    then show ?thesis using validate_and_compile_IR [of E StrategyTypeScript t' c t] t(1)
      by (auto simp: validate_and_compile_def bindE_eq_Inr)
  qed (use c in \<open>simp add: Compile_cases\<close>)
  then show ?thesis using t(2) by (simp add: Compile_cases cel_Compile_def invalid_ir_def)
qed

lemma Evaluate_strategy: "Evaluate E (Some (c\<lparr>CStrategy := s\<rparr>)) ctx v = Evaluate E (Some c) ctx v"
  by (simp add: Evaluate_def split: option.split sum.split)

lemma eval_rules_version:
  "eval_rules E programs ctx def vt v rs = (eval_rules E programs ctx def vt w rs)\<lparr>DVersion := v\<rparr>"
  by (induction rs) (auto simp: serve_def split: option.split sum.split prod.split)

lemma Evaluate_version:
  "Evaluate E c ctx v = map_sum id (\<lambda>d. d\<lparr>DVersion := v\<rparr>) (Evaluate E c ctx w)"
  using eval_rules_version [of E _ ctx _ _ v _ w] by (auto simp: Evaluate_def split: option.split sum.split)

lemma compile_flags_lookup:
  assumes "map_of fs key = Some r"
    and "distinct (map fst fs)" "Compile E T StrategyCEL r = Inr c"
  shows "map_of (compile_flags E T fs) key = Some c"
  using assms
proof (induction fs)
  case (Cons f fs)
  show ?case
  proof (cases "fst f = key")
    case True
    then show ?thesis using Cons.prems by (cases f) (auto simp: compile_flags_def)
  next
    case False
    then have "map_of (compile_flags E T fs) key = Some c" using Cons by (cases f) auto
    then show ?thesis using False
      by (cases f) (auto simp: compile_flags_def map_add_def split: sum.split)
  qed
qed simp

lemma map_put_distinct: "distinct (map fst m) \<Longrightarrow> distinct (map fst (map_put k v m))"
  by (auto simp: map_put_def distinct_map inj_on_def)

lemma dec_flags_distinct: "dec_flags old j = Inr fs \<Longrightarrow> distinct (map fst old) \<Longrightarrow> distinct (map fst fs)"
proof -
  have "distinct (map fst old) \<Longrightarrow> distinct (map fst (fold (\<lambda>(k, v). map_put k (RawDoc v)) kvs old))" for kvs
    by (induction kvs arbitrary: old) (auto intro: map_put_distinct)
  then show "dec_flags old j = Inr fs \<Longrightarrow> distinct (map fst old) \<Longrightarrow> distinct (map fst fs)"
    by (auto simp: dec_flags_def split: json.splits)
qed

lemma dec_compiled_distinct: "dec_compiled old j = Inr fs \<Longrightarrow> distinct (map fst old) \<Longrightarrow> distinct (map fst fs)"
  by (auto simp: dec_compiled_def split: json.splits prod.splits option.splits
      elim!: foldE_invariant [where P = "\<lambda>fs. distinct (map fst fs)"] intro: dec_flags_distinct)

lemma decode_poll_distinct:
  assumes "decode_poll_body r = Inr b"
  shows "distinct (map fst (pb_Flags b))"
proof -
  have "distinct (map fst (pb_Flags c'))" if "distinct (map fst (pb_Flags c))" "dec_poll_field c kj = Inr c'" for c c' kj
    using that by (auto simp: dec_poll_field_def bindE_eq_Inr split: prod.splits option.splits if_splits dest: dec_compiled_distinct)
  then have "foldE dec_poll_field kvs zero_poll_body = Inr b \<Longrightarrow> distinct (map fst (pb_Flags b))" for kvs
    by (elim foldE_invariant [where P = "\<lambda>c. distinct (map fst (pb_Flags c))"]) (auto simp: zero_poll_body_def)
  then show ?thesis using assms
    by (auto simp: decode_poll_body_def zero_poll_body_def split: raw.splits json.splits)
qed

text \<open>
  C23. The SDK decides as the server does. When the snapshot a client has polled contains
  for a flag the tree that the server loads for it, the client's decision is the
  server's in value, reason and rule, whatever strategy the flag was published under;
  only the version differs: it is that of the snapshot, not of the flag. Where the
  server reports an error, the client answers with reason \<open>error\<close>.
\<close>

theorem sdk_agrees_with_server:
  assumes server: "loadEvaluation E T rq slug key d = Inr (c, version, ctx)"
    and tree: "IR c = Some t" "map_of (pb_Flags b) key = Some r" "unmarshal_tree r = Inr t"
    and poll: "decode_poll_body body = Inr b" "pollOnce E T (HttpResponse 200 body) cl = (err, cl')"
    and env: "cel_new_env E = None"
  shows "err = None \<and> sdk_Evaluate E cl' key ctx =
    (case Evaluate E (Some c) ctx version of
       Inl _ \<Rightarrow> \<lparr>DValue = ANil, DReason = ReasonError, DRuleID = [], DVersion = pb_Version b\<rparr>
     | Inr dec \<Rightarrow> dec\<lparr>DVersion := pb_Version b\<rparr>)"
proof -
  obtain s src where "Compile E T s src = Inr c"
    using server by (auto simp: loadEvaluation_def bindE_eq_Inr or_respond_eq split: prod.splits)
  then have "Compile E T StrategyCEL r = Inr (c\<lparr>CStrategy := StrategyCEL\<rparr>)" using compile_as_cel tree(1,3) env by blast
  then have "map_of (compile_flags E T (pb_Flags b)) key = Some (c\<lparr>CStrategy := StrategyCEL\<rparr>)"
    by (rule compile_flags_lookup [OF tree(2) decode_poll_distinct [OF poll(1)]])
  then show ?thesis using poll Evaluate_version [of E "Some c" ctx "pb_Version b" version]
    by (auto simp: pollOnce_def sdk_Evaluate_def snapshot_of_def Evaluate_strategy split: sum.split)
qed

subsection \<open>Polling keeps the last good snapshot\<close>

text \<open>A poll is good when it is answered 200 with a snapshot that decodes.\<close>

definition good_poll :: "http_result \<Rightarrow> poll_body option" where
  "good_poll h = (case h of
     HttpResponse status body \<Rightarrow> if status = 200 then (case decode_poll_body body of Inr b \<Rightarrow> Some b | Inl _ \<Rightarrow> None) else None
   | HttpFailed _ \<Rightarrow> None)"

fun ticks :: "wakeup list \<Rightarrow> http_result list" where
  "ticks (Tick h # ws) = h # ticks ws"
| "ticks _ = []"

lemma pollOnce_good:
  "snd (pollOnce E T h c) = (case good_poll h of None \<Rightarrow> c | Some b \<Rightarrow> c\<lparr>cl_snap := Some (snapshot_of E T b)\<rparr>)"
  by (simp add: pollOnce_def good_poll_def split: http_result.split sum.split)

lemma sdk_loop_good:
  "sdk_loop E T ws c = (case List.map_filter good_poll (ticks ws) of
     [] \<Rightarrow> c | b # bs \<Rightarrow> c\<lparr>cl_snap := Some (snapshot_of E T (last (b # bs)))\<rparr>)"
  by (induction ws arbitrary: c rule: ticks.induct) (auto simp: pollOnce_good map_filter_simps split: option.split list.split)

text \<open>
  C24. A client serves the last good snapshot. However the polls after \<open>Start\<close> go, until
  the client is stopped or its context ends, the client has the snapshot of the last poll that
  was answered 200 with a decodable body; polls that fail, find no snapshot, or are
  answered with anything else change nothing. \<open>Start\<close> starts polling only when its
  own poll reports no error and the interval is positive.
\<close>

theorem sdk_last_good_snapshot:
  assumes "sdk_Start E T h c = ((err, polling), c1)"
  shows "cl_snap (sdk_loop E T ws c1) =
      (case List.map_filter good_poll (h # ticks ws) of
         [] \<Rightarrow> cl_snap c | b # bs \<Rightarrow> Some (snapshot_of E T (last (b # bs)))) \<and>
    (polling \<longleftrightarrow> err = None \<and> PollInterval (cl_opts c) > 0)"
proof -
  have "c1 = snd (pollOnce E T h c)" "err = fst (pollOnce E T h c)"
      "polling \<longleftrightarrow> err = None \<and> PollInterval (cl_opts c1) > 0"
    using assms by (auto simp: sdk_Start_def split: prod.splits option.splits)
  then show ?thesis
    by (auto simp: sdk_loop_good pollOnce_good map_filter_simps split: option.split list.split)
qed

subsection \<open>Types of the provider's answers\<close>


definition sample_client :: "bool Client" where
  "sample_client = \<lparr>cl_opts = \<lparr>BaseURL = ''http://api'', ProjectSlug = ''shop'', PollInterval = 5\<rparr>,
     cl_snap = None, cl_stopped = False\<rparr>"

definition sample_tree :: json where
  "sample_tree = JObj [(''value_type'', JStr ''boolean''), (''default'', JBool False),
     (''rules'', JArr [JObj [(''id'', JStr ''r1''), (''when'', JObj [(''kind'', JStr ''eq''), (''attr'', JStr ''plan''),
       (''value'', JStr ''pro'')]), (''value'', JBool True)]])]"

definition sample_poll :: http_result where
  "sample_poll = HttpResponse 200 (RawDoc (JObj [(''version'', JNum ''4''), (''id'', JStr ''s1''),
     (''compiled'', JObj [(''flags'', JObj [(''dark'', sample_tree)])])]))"


theorem sdk_last_good_snapshot_witness:
  "\<exists>err c1. sdk_Start sample_engines sample_ts sample_poll sample_client = ((err, True), c1) \<and>
     cl_snap (sdk_loop sample_engines sample_ts [Tick (HttpFailed ''timeout''), Tick (HttpResponse 404 RawNil), StopClosed] c1) =
       cl_snap c1 \<and> cl_snap c1 \<noteq> None"
proof -
  have "case sdk_Start sample_engines sample_ts sample_poll sample_client of ((err, polling), c1) \<Rightarrow> polling" by code_simp
  then obtain err c1 where c1: "sdk_Start sample_engines sample_ts sample_poll sample_client = ((err, True), c1)"
    by (auto split: prod.splits)
  have "good_poll sample_poll \<noteq> None" by code_simp
  moreover have "good_poll (HttpFailed ''timeout'') = None" "good_poll (HttpResponse 404 RawNil) = None"
    by (simp_all add: good_poll_def)
  ultimately show ?thesis
    using c1 sdk_last_good_snapshot [OF c1, of "[Tick (HttpFailed ''timeout''), Tick (HttpResponse 404 RawNil), StopClosed]"]
      sdk_last_good_snapshot [OF c1, of "[]"]
    by (auto simp: map_filter_simps)
qed

definition sample_served_db :: database where
  "sample_served_db = sample_db\<lparr>flag_versions := [\<lparr>fv_id = 3, fv_flag_id = 2, fv_version = 1, fv_strategy = ''json'',
     fv_source = sample_tree, fv_compiled = sample_tree, fv_published_at = 3000, fv_source_text = None\<rparr>]\<rparr>"

theorem sdk_agrees_with_server_witness:
  "\<exists>c ctx. loadEvaluation sample_engines sample_ts (sample_request sample_context) ''shop'' ''dark'' sample_served_db = Inr (c, 1, ctx) \<and>
     is_ok (Evaluate sample_engines (Some c) ctx 1) \<and>
     sdk_Evaluate sample_engines (snd (pollOnce sample_engines sample_ts sample_poll sample_client)) ''dark'' ctx =
       (case Evaluate sample_engines (Some c) ctx 1 of
          Inl _ \<Rightarrow> \<lparr>DValue = ANil, DReason = ReasonError, DRuleID = [], DVersion = 4\<rparr>
        | Inr dec \<Rightarrow> dec\<lparr>DVersion := 4\<rparr>)"
proof -
  have "case loadEvaluation sample_engines sample_ts (sample_request sample_context) ''shop'' ''dark'' sample_served_db of
      Inl _ \<Rightarrow> False
    | Inr (c, v, ctx) \<Rightarrow> v = 1 \<and> is_ok (Evaluate sample_engines (Some c) ctx 1) \<and>
        (case IR c of None \<Rightarrow> False | Some t \<Rightarrow> unmarshal_tree (RawDoc sample_tree) = Inr t)" by code_simp
  then obtain c ctx t where c: "loadEvaluation sample_engines sample_ts (sample_request sample_context) ''shop'' ''dark'' sample_served_db =
      Inr (c, 1, ctx)" "is_ok (Evaluate sample_engines (Some c) ctx 1)" "IR c = Some t" "unmarshal_tree (RawDoc sample_tree) = Inr t"
    by (auto split: sum.splits option.splits)
  obtain body where body: "sample_poll = HttpResponse 200 body" by (simp add: sample_poll_def)
  have "case decode_poll_body (RawDoc (JObj [(''version'', JNum ''4''), (''id'', JStr ''s1''),
     (''compiled'', JObj [(''flags'', JObj [(''dark'', sample_tree)])])])) of Inl _ \<Rightarrow> False
    | Inr b \<Rightarrow> pb_Version b = 4 \<and> map_of (pb_Flags b) ''dark'' = Some (RawDoc sample_tree)" by code_simp
  then obtain b where b: "decode_poll_body body = Inr b" "pb_Version b = 4" "map_of (pb_Flags b) ''dark'' = Some (RawDoc sample_tree)"
    using body by (auto simp: sample_poll_def split: sum.splits)
  have "cel_new_env sample_engines = None" by (simp add: sample_engines_def)
  then show ?thesis
    using sdk_agrees_with_server [OF c(1,3) b(3) c(4) b(1) prod.collapse [symmetric, of "pollOnce sample_engines sample_ts (HttpResponse 200 body) sample_client"], unfolded b(2)]
      c(1,2) body by auto
qed

end
