(* ===== verification/Appconfig.thy ===== *)
theory Appconfig
  imports Go_Json
begin

text \<open>
  Runtime configuration from the environment, \<open>internal/appconfig\<close>, with the functions
  of \<open>strconv\<close> and \<open>time\<close> it calls. The environment is a map from names to values.
\<close>

type_synonym env = "string \<rightharpoonup> string"

subsection \<open>Booleans and durations\<close>

definition ParseBool :: "string \<Rightarrow> bool option" where
  "ParseBool s =
     (if s \<in> set [''1'', ''t'', ''T'', ''TRUE'', ''true'', ''True''] then Some True
      else if s \<in> set [''0'', ''f'', ''F'', ''FALSE'', ''false'', ''False''] then Some False
      else None)"

text \<open>\<open>leadingInt\<close>: the value of the leading digits, \<open>None\<close> above \<open>2 ^ 63\<close>.\<close>

fun leadingInt :: "int \<Rightarrow> string \<Rightarrow> (int \<times> string) option" where
  "leadingInt x [] = Some (x, [])"
| "leadingInt x (c # s) =
     (if is_digit c then
        if x > 2 ^ 63 div 10 then None
        else let y = x * 10 + (int (of_char c) - 48) in if y > 2 ^ 63 then None else leadingInt y s
      else Some (x, c # s))"

text \<open>\<open>leadingFraction\<close>: the digits that fit, their scale, and the rest.\<close>

fun leadingFraction :: "int \<Rightarrow> int \<Rightarrow> bool \<Rightarrow> string \<Rightarrow> int \<times> int \<times> string" where
  "leadingFraction x scale overflow [] = (x, scale, [])"
| "leadingFraction x scale overflow (c # s) =
     (if is_digit c then
        if overflow \<or> x > (2 ^ 63 - 1) div 10 then leadingFraction x scale True s
        else let y = x * 10 + (int (of_char c) - 48)
             in if y > 2 ^ 63 then leadingFraction x scale True s else leadingFraction y (scale * 10) False s
      else (x, scale, c # s))"

definition duration_units :: "(string \<times> int) list" where
  "duration_units = [(''ns'', 1), (''us'', 1000), ([CHR 0xC2, CHR 0xB5, CHR ''s''], 1000),
     ([CHR 0xCE, CHR 0xBC, CHR ''s''], 1000), (''ms'', 1000000), (''s'', 1000000000),
     (''m'', 60000000000), (''h'', 3600000000000)]"

text \<open>\<open>uint64(float64(f) * (float64(unit) / scale))\<close>\<close>

definition scaled_fraction :: "int \<Rightarrow> int \<Rightarrow> int \<Rightarrow> int" where
  "scaled_fraction f unit scale =
     (let r = (\<lambda>x. case round64 x of None \<Rightarrow> 0 | Some y \<Rightarrow> y)
      in \<lfloor>r (r (of_int f) * r (r (of_int unit) / r (of_int scale)))\<rfloor>)"

definition unit_char :: "char \<Rightarrow> bool" where
  "unit_char c \<longleftrightarrow> \<not> (c = CHR ''.'' \<or> is_digit c)"

text \<open>One number with its unit.\<close>

definition duration_part :: "string \<Rightarrow> (int \<times> string) option" where
  "duration_part s =
     (if s = [] \<or> unit_char (hd s) then None
      else case leadingInt 0 s of
        None \<Rightarrow> None
      | Some (v, s1) \<Rightarrow>
         (let pre = (length s \<noteq> length s1);
              (f, scale, s2, post) = (case s1 of
                  c # s' \<Rightarrow> if c = CHR ''.'' then (case leadingFraction 0 1 False s' of
                      (f, scale, s2) \<Rightarrow> (f, scale, s2, length s' \<noteq> length s2)) else (0, 1, s1, False)
                | [] \<Rightarrow> (0, 1, s1, False));
              u = takeWhile unit_char s2; rest = dropWhile unit_char s2
          in if \<not> pre \<and> \<not> post \<or> u = [] then None
             else case map_of duration_units u of
               None \<Rightarrow> None
             | Some unit \<Rightarrow>
                if v > 2 ^ 63 div unit then None
                else let w = v * unit + (if f > 0 then scaled_fraction f unit scale else 0)
                     in if f > 0 \<and> w > 2 ^ 63 then None else Some (w, rest)))"

lemma leadingInt_rest: "leadingInt x s = Some (v, r) \<Longrightarrow> length r \<le> length s"
  by (induction x s rule: leadingInt.induct) (auto simp: Let_def split: if_splits)

lemma leadingFraction_rest: "leadingFraction x k b s = (v, l, r) \<Longrightarrow> length r \<le> length s"
  by (induction x k b s rule: leadingFraction.induct) (auto simp: Let_def split: if_splits)

lemma dropWhile_shorter: "takeWhile P s \<noteq> [] \<Longrightarrow> length (dropWhile P s) < length s"
  by (cases s) (auto split: if_splits simp: length_dropWhile_le le_imp_less_Suc)

lemma duration_part_shorter: "duration_part s = Some (w, r) \<Longrightarrow> length r < length s"
  by (auto simp: duration_part_def Let_def split: if_splits option.splits prod.splits list.splits
      dest!: leadingInt_rest leadingFraction_rest dropWhile_shorter intro: le_less_trans [OF length_dropWhile_le])

function duration_loop :: "int \<Rightarrow> string \<Rightarrow> int option" where
  "duration_loop d s =
     (if s = [] then Some d
      else case duration_part s of
        None \<Rightarrow> None
      | Some (v, r) \<Rightarrow>
         (let d' = (d + v) mod 2 ^ 64 in if d' > 2 ^ 63 then None else duration_loop d' r))"
  by auto
termination by (relation "measure (\<lambda>(d, s). length s)") (auto dest: duration_part_shorter)

declare duration_loop.simps [simp del]

definition ParseDuration :: "string \<Rightarrow> string + int" where
  "ParseDuration s =
     (let (neg, s1) = (case s of c # r \<Rightarrow> if c = CHR ''-'' \<or> c = CHR ''+'' then (c = CHR ''-'', r) else (False, s) | [] \<Rightarrow> (False, s));
          bad = Inl (''time: invalid duration '' @ fmt_q s)
      in if s1 = ''0'' then Inr 0
         else if s1 = [] then bad
         else case duration_loop 0 s1 of
           None \<Rightarrow> bad
         | Some d \<Rightarrow> if neg then Inr (- d) else if d > 2 ^ 63 - 1 then bad else Inr d)"

subsection \<open>Variables\<close>

definition getEnv :: "env \<Rightarrow> string \<Rightarrow> string \<Rightarrow> string" where
  "getEnv env key fallback = (case env key of Some v \<Rightarrow> if v \<noteq> [] then v else fallback | None \<Rightarrow> fallback)"

definition os_Getenv :: "env \<Rightarrow> string \<Rightarrow> string" where
  "os_Getenv env key = (case env key of Some v \<Rightarrow> v | None \<Rightarrow> [])"

definition getEnvBool :: "env \<Rightarrow> string \<Rightarrow> bool \<Rightarrow> bool" where
  "getEnvBool env key fallback = (case env key of
     None \<Rightarrow> fallback
   | Some v \<Rightarrow> if v = [] then fallback else case ParseBool v of None \<Rightarrow> fallback | Some b \<Rightarrow> b)"

definition getEnvDuration :: "env \<Rightarrow> string \<Rightarrow> int \<Rightarrow> string + int" where
  "getEnvDuration env key fallback = (case env key of
     None \<Rightarrow> Inr fallback
   | Some v \<Rightarrow> if v = [] then Inr fallback else ParseDuration v)"

subsection \<open>Configurations\<close>

record APIConfig =
  api_Addr :: string
  api_RPCAddr :: string
  api_DatabaseURL :: string

record ProxyConfig =
  px_Addr :: string
  px_APIBaseURL :: string
  px_ProjectSlug :: string
  px_PollInterval :: int

record OperatorConfig =
  op_MetricsAddr :: string
  op_HealthProbeAddr :: string
  op_LeaderElect :: bool
  op_APIBaseURL :: string
  op_Actor :: string

record MCPConfig =
  mcp_Addr :: string
  mcp_HealthAddr :: string
  mcp_APIBaseURL :: string
  mcp_Actor :: string

definition LoadAPI :: "env \<Rightarrow> string + APIConfig" where
  "LoadAPI env = Inr \<lparr>api_Addr = getEnv env ''FALSEFLAG_API_ADDR'' '':8080'',
     api_RPCAddr = getEnv env ''FALSEFLAG_API_RPC_ADDR'' '':8090'',
     api_DatabaseURL = os_Getenv env ''FALSEFLAG_DATABASE_URL''\<rparr>"

definition LoadProxy :: "env \<Rightarrow> string + ProxyConfig" where
  "LoadProxy env = bindE (getEnvDuration env ''FALSEFLAG_PROXY_POLL_INTERVAL'' 0) (\<lambda>pollInterval.
     Inr \<lparr>px_Addr = getEnv env ''FALSEFLAG_PROXY_ADDR'' '':8081'',
       px_APIBaseURL = getEnv env ''FALSEFLAG_API_BASE_URL'' ''http://localhost:8080'',
       px_ProjectSlug = os_Getenv env ''FALSEFLAG_PROXY_PROJECT_SLUG'',
       px_PollInterval = pollInterval\<rparr>)"

definition LoadOperator :: "env \<Rightarrow> string + OperatorConfig" where
  "LoadOperator env = Inr \<lparr>op_MetricsAddr = getEnv env ''FALSEFLAG_OPERATOR_METRICS_ADDR'' '':8082'',
     op_HealthProbeAddr = getEnv env ''FALSEFLAG_OPERATOR_HEALTH_ADDR'' '':8083'',
     op_LeaderElect = getEnvBool env ''FALSEFLAG_OPERATOR_LEADER_ELECT'' False,
     op_APIBaseURL = getEnv env ''FALSEFLAG_API_BASE_URL'' ''http://falseflag-api.default.svc.cluster.local:8090'',
     op_Actor = getEnv env ''FALSEFLAG_OPERATOR_ACTOR'' ''controller/falseflag-operator''\<rparr>"

definition LoadMCP :: "env \<Rightarrow> string + MCPConfig" where
  "LoadMCP env = Inr \<lparr>mcp_Addr = getEnv env ''FALSEFLAG_MCP_ADDR'' '':8091'',
     mcp_HealthAddr = getEnv env ''FALSEFLAG_MCP_HEALTH_ADDR'' '':8092'',
     mcp_APIBaseURL = getEnv env ''FALSEFLAG_API_RPC_ADDR'' ''http://localhost:8090'',
     mcp_Actor = getEnv env ''FALSEFLAG_MCP_ACTOR'' ''mcp/falseflag-mcp''\<rparr>"

end
