(* ===== verification/Proxy.thy ===== *)
theory Proxy
  imports Sdk Appconfig
begin

text \<open>
  The evaluation proxy, \<open>internal/proxy\<close>: an HTTP server around the client of the SDK.
  The state of a proxy is its configuration and its client, \<open>None\<close> when no project is
  configured.
\<close>

subsection \<open>State\<close>

record 'prog Proxy =
  pr_cfg :: ProxyConfig
  pr_client :: "'prog Client option"

definition proxy_New :: "ProxyConfig \<Rightarrow> string + 'prog Proxy" where
  "proxy_New cfg =
     (if px_ProjectSlug cfg \<noteq> [] \<and> px_APIBaseURL cfg \<noteq> [] then
        bindE (NewClient \<lparr>BaseURL = px_APIBaseURL cfg, ProjectSlug = px_ProjectSlug cfg, PollInterval = px_PollInterval cfg\<rparr>)
          (\<lambda>client. Inr \<lparr>pr_cfg = cfg, pr_client = Some client\<rparr>)
      else Inr \<lparr>pr_cfg = cfg, pr_client = None\<rparr>)"

text \<open>\<open>Run\<close> up to the point where the goroutine of the client has met the given wakeups: an
  error of the first poll is logged only.\<close>

definition proxy_Run :: "('ast, 'prog) engines \<Rightarrow> ts_engine \<Rightarrow> http_result \<Rightarrow> wakeup list \<Rightarrow> 'prog Proxy \<Rightarrow> 'prog Proxy" where
  "proxy_Run E T h ws p = (case pr_client p of
     None \<Rightarrow> p
   | Some c \<Rightarrow> (case sdk_Start E T h c of
       ((err, polling), c') \<Rightarrow> p\<lparr>pr_client := Some (if polling then sdk_loop E T ws c' else c')\<rparr>))"

subsection \<open>Handlers\<close>

record SnapshotInfo =
  si_ID :: string
  si_Version :: int
  si_CreatedAt :: time
  si_FlagCount :: nat
  si_ProjectSlug :: string

datatype proxy_body =
    PxHealth string string string
  | PxReady string string bool
  | PxError string string
  | PxDecision Decision
  | PxSnapshot SnapshotInfo

type_synonym proxy_response = "int \<times> proxy_body"

definition writeJSONError :: "int \<Rightarrow> string \<Rightarrow> string \<Rightarrow> proxy_response" where
  "writeJSONError status code msg = (status, PxError code msg)"

definition handleHealth :: "string \<Rightarrow> proxy_response" where
  "handleHealth version = (200, PxHealth ''ok'' ''falseflag-proxy'' version)"

definition handleReady :: "'prog Proxy \<Rightarrow> proxy_response" where
  "handleReady p = (200, PxReady ''ok'' (px_ProjectSlug (pr_cfg p))
     (case pr_client p of None \<Rightarrow> False | Some c \<Rightarrow> cl_snap c \<noteq> None))"

record EvaluateRequest =
  er_Key :: string
  er_DefaultValue :: any
  er_Context :: ctx

definition dec_evaluate_field :: "EvaluateRequest \<Rightarrow> string \<times> json \<Rightarrow> string + EvaluateRequest" where
  "dec_evaluate_field r kj = (case kj of (k, j) \<Rightarrow>
     case field_name [''key'', ''default_value'', ''context''] k of
       None \<Rightarrow> Inr r
     | Some f \<Rightarrow>
        if f = ''key'' then bindE (dec_string (er_Key r) j) (\<lambda>x. Inr (r\<lparr>er_Key := x\<rparr>))
        else if f = ''default_value'' then bindE (any_of_json j) (\<lambda>x. Inr (r\<lparr>er_DefaultValue := x\<rparr>))
        else bindE (dec_context (er_Context r) j) (\<lambda>x. Inr (r\<lparr>er_Context := x\<rparr>)))"

definition decode_EvaluateRequest :: "raw \<Rightarrow> string + EvaluateRequest" where
  "decode_EvaluateRequest body = (let zero = \<lparr>er_Key = [], er_DefaultValue = ANil, er_Context = []\<rparr> in case body of
     RawNil \<Rightarrow> Inl ''EOF''
   | RawBytes _ \<Rightarrow> Inl ''invalid character''
   | RawDoc JNull \<Rightarrow> Inr zero
   | RawDoc (JObj kvs) \<Rightarrow> foldE dec_evaluate_field kvs zero
   | RawDoc _ \<Rightarrow> Inl ''json: cannot unmarshal into Go value of type proxy.EvaluateRequest'')"

definition handleEvaluate :: "('ast, 'prog) engines \<Rightarrow> raw \<Rightarrow> 'prog Proxy \<Rightarrow> proxy_response" where
  "handleEvaluate E body p = (case pr_client p of
     None \<Rightarrow> writeJSONError 503 ''no_project_configured'' ''proxy was started without FALSEFLAG_PROXY_PROJECT_SLUG''
   | Some c \<Rightarrow> (case decode_EvaluateRequest body of
       Inl e \<Rightarrow> writeJSONError 400 ''invalid_body'' e
     | Inr req \<Rightarrow>
        if er_Key req = [] then writeJSONError 400 ''missing_key'' ''key is required''
        else let d = sdk_Evaluate E c (er_Key req) (er_Context req)
             in (200, PxDecision (if DValue d = ANil \<and> er_DefaultValue req \<noteq> ANil
                                  then d\<lparr>DValue := er_DefaultValue req\<rparr> else d))))"

definition handleSnapshotInfo :: "'prog Proxy \<Rightarrow> proxy_response" where
  "handleSnapshotInfo p = (case pr_client p of
     None \<Rightarrow> writeJSONError 503 ''no_project_configured'' []
   | Some c \<Rightarrow> (case cl_snap c of
       None \<Rightarrow> writeJSONError 503 ''no_snapshot'' ''first poll has not completed''
     | Some snap \<Rightarrow> (200, PxSnapshot \<lparr>si_ID = Snap_ID snap, si_Version = Snap_Version snap,
         si_CreatedAt = Snap_CreatedAt snap, si_FlagCount = length (Snap_Flags snap),
         si_ProjectSlug = px_ProjectSlug (pr_cfg p)\<rparr>)))"

subsection \<open>A failed first poll is never repaired\<close>


definition sample_proxy_cfg :: ProxyConfig where
  "sample_proxy_cfg = \<lparr>px_Addr = '':8081'', px_APIBaseURL = ''http://api'', px_ProjectSlug = ''shop'', px_PollInterval = 0\<rparr>"

definition sample_evaluate_body :: raw where
  "sample_evaluate_body = RawDoc (JObj [(''key'', JStr ''dark''), (''default_value'', JBool True),
     (''context'', JObj [(''plan'', JStr ''pro'')])])"



definition sample_proxy :: "bool Proxy" where
  "sample_proxy = \<lparr>pr_cfg = sample_proxy_cfg, pr_client = Some (snd (pollOnce sample_engines sample_ts sample_poll sample_client))\<rparr>"


end
