(* ===== verification/Sqlite_Db.thy ===== *)
theory Sqlite_Db
  imports Db Go_Time "HOL-Library.List_Lexorder" "HOL-Library.Char_ord"
begin

text \<open>
  The SQL layer on SQLite, \<open>internal/db/sqlite\<close>, over the schema of
  \<open>db/migrations/sqlite\<close>: ids and times are text, a version is a 64-bit integer.
  A text column that holds a document is a \<^typ>\<open>raw\<close>, as are the byte strings with
  documents everywhere else; unlike a \<open>jsonb\<close> column it takes any text and keeps
  it as it is. Text is compared byte by byte. The constraints are checked in the order
  SQLite does: CHECK, UNIQUE (or PRIMARY KEY), then foreign keys at the end of the
  statement. Rows with equal sort keys keep the order of insertion, where SQL leaves
  it open.
\<close>

subsection \<open>Rows\<close>

record sl_project =
  slp_ID :: string
  slp_Slug :: string
  slp_DisplayName :: string
  slp_ConfigStrategy :: string
  slp_CreatedAt :: string
  slp_UpdatedAt :: string

record sl_flag =
  slf_ID :: string
  slf_ProjectID :: string
  slf_Key :: string
  slf_Name :: string
  slf_Description :: string
  slf_ValueType :: string
  slf_DefaultValue :: raw
  slf_CreatedAt :: string
  slf_UpdatedAt :: string

record sl_flag_version =
  slv_ID :: string
  slv_FlagID :: string
  slv_Version :: int
  slv_Strategy :: string
  slv_Source :: raw
  slv_Compiled :: raw
  slv_PublishedAt :: string
  slv_SourceText :: "string option"

record sl_environment =
  sle_ID :: string
  sle_ProjectID :: string
  sle_Slug :: string
  sle_Name :: string
  sle_CreatedAt :: string

record sl_segment =
  slg_ID :: string
  slg_ProjectID :: string
  slg_Key :: string
  slg_Name :: string
  slg_Description :: string
  slg_Predicate :: raw
  slg_CreatedAt :: string
  slg_UpdatedAt :: string

record sl_snapshot =
  sls_ID :: string
  sls_ProjectID :: string
  sls_EnvironmentID :: "string option"
  sls_Version :: int
  sls_Compiled :: raw
  sls_CreatedAt :: string

record sl_audit_event =
  sla_ID :: string
  sla_ProjectID :: "string option"
  sla_FlagID :: "string option"
  sla_Action :: string
  sla_Payload :: raw
  sla_CreatedAt :: string
  sla_Actor :: "string option"

record sqlite_db =
  sl_projects :: "sl_project list"
  sl_flags :: "sl_flag list"
  sl_flag_versions :: "sl_flag_version list"
  sl_environments :: "sl_environment list"
  sl_segments :: "sl_segment list"
  sl_snapshots :: "sl_snapshot list"
  sl_audit_events :: "sl_audit_event list"

definition empty_sqlite :: sqlite_db where
  "empty_sqlite = \<lparr>sl_projects = [], sl_flags = [], sl_flag_versions = [], sl_environments = [], sl_segments = [],
     sl_snapshots = [], sl_audit_events = []\<rparr>"

subsection \<open>What SQLite computes\<close>

text \<open>The default of the time columns, \<open>strftime('%Y-%m-%dT%H:%M:%fZ', 'now')\<close>.\<close>

definition strftime_now :: "time \<Rightarrow> string" where
  "strftime_now now = fmt_milli now"

text \<open>\<open>ORDER BY k DESC\<close> for text, and a \<open>LIMIT\<close>, which does not count when it is
  negative.\<close>

definition text_desc :: "('r \<Rightarrow> 'k::linorder) \<Rightarrow> 'r list \<Rightarrow> 'r list" where
  "text_desc k rs = rev (sort_key k (rev rs))"

definition sl_limit_rows :: "int \<Rightarrow> 'r list \<Rightarrow> 'r list" where
  "sl_limit_rows n rs = (if n < 0 then rs else take (nat n) rs)"

text \<open>\<open>COALESCE(MAX(version), 0) + 1\<close>, scanned into an \<open>int64\<close>: beyond it the sum is
  a real number, which does not scan.\<close>

definition sl_next_version :: "int list \<Rightarrow> sql_error + int" where
  "sl_next_version vs = (let n = (if vs = [] then 0 else Max (set vs)) + 1
                         in if n < 2 ^ 63 then Inr n else Inl (OtherSql ''converting float64 to int64''))"

definition sl_project_exists :: "sqlite_db \<Rightarrow> string \<Rightarrow> bool" where
  "sl_project_exists d i \<longleftrightarrow> i \<in> slp_ID ` set (sl_projects d)"

definition sl_flag_exists :: "sqlite_db \<Rightarrow> string \<Rightarrow> bool" where
  "sl_flag_exists d i \<longleftrightarrow> i \<in> slf_ID ` set (sl_flags d)"

definition sl_environment_exists :: "sqlite_db \<Rightarrow> string \<Rightarrow> bool" where
  "sl_environment_exists d i \<longleftrightarrow> i \<in> sle_ID ` set (sl_environments d)"

subsection \<open>Projects and environments\<close>

definition sl_q_CreateProject :: "time \<Rightarrow> string \<Rightarrow> string \<Rightarrow> string \<Rightarrow> string \<Rightarrow> sqlite_db
    \<Rightarrow> sql_error + sl_project \<times> sqlite_db" where
  "sl_q_CreateProject now i slug display_name strategy d =
     (let r = \<lparr>slp_ID = i, slp_Slug = slug, slp_DisplayName = display_name, slp_ConfigStrategy = strategy,
               slp_CreatedAt = strftime_now now, slp_UpdatedAt = strftime_now now\<rparr>
      in bindE (require (strategy_check strategy) CheckViolation) (\<lambda>_.
         bindE (require (i \<notin> slp_ID ` set (sl_projects d) \<and> slug \<notin> slp_Slug ` set (sl_projects d)) UniqueViolation) (\<lambda>_.
         Inr (r, d\<lparr>sl_projects := sl_projects d @ [r]\<rparr>))))"

definition sl_q_GetProjectBySlug :: "string \<Rightarrow> sqlite_db \<Rightarrow> sql_error + sl_project" where
  "sl_q_GetProjectBySlug slug d = one_row (filter (\<lambda>r. slp_Slug r = slug) (sl_projects d))"

definition sl_q_ListProjects :: "sqlite_db \<Rightarrow> sl_project list" where
  "sl_q_ListProjects d = text_desc slp_CreatedAt (sl_projects d)"

definition sl_q_CreateEnvironment :: "time \<Rightarrow> string \<Rightarrow> string \<Rightarrow> string \<Rightarrow> string \<Rightarrow> sqlite_db
    \<Rightarrow> sql_error + sl_environment \<times> sqlite_db" where
  "sl_q_CreateEnvironment now i pid slug name d =
     (let r = \<lparr>sle_ID = i, sle_ProjectID = pid, sle_Slug = slug, sle_Name = name, sle_CreatedAt = strftime_now now\<rparr>
      in bindE (require (i \<notin> sle_ID ` set (sl_environments d) \<and>
                  (pid, slug) \<notin> (\<lambda>r. (sle_ProjectID r, sle_Slug r)) ` set (sl_environments d)) UniqueViolation) (\<lambda>_.
         bindE (require (sl_project_exists d pid) ForeignKeyViolation) (\<lambda>_.
         Inr (r, d\<lparr>sl_environments := sl_environments d @ [r]\<rparr>))))"

definition sl_q_GetEnvironmentBySlug :: "string \<Rightarrow> string \<Rightarrow> sqlite_db \<Rightarrow> sql_error + sl_environment" where
  "sl_q_GetEnvironmentBySlug pid slug d =
     one_row (filter (\<lambda>r. sle_ProjectID r = pid \<and> sle_Slug r = slug) (sl_environments d))"

definition sl_q_ListEnvironmentsByProject :: "string \<Rightarrow> sqlite_db \<Rightarrow> sl_environment list" where
  "sl_q_ListEnvironmentsByProject pid d =
     sort_key sle_CreatedAt (filter (\<lambda>r. sle_ProjectID r = pid) (sl_environments d))"

subsection \<open>Flags and versions\<close>

definition sl_q_CreateFlag :: "time \<Rightarrow> string \<Rightarrow> string \<Rightarrow> string \<Rightarrow> string \<Rightarrow> string \<Rightarrow> string
    \<Rightarrow> raw \<Rightarrow> sqlite_db \<Rightarrow> sql_error + sl_flag \<times> sqlite_db" where
  "sl_q_CreateFlag now i pid key name description value_type default_value d =
     bindE (require (value_type_check value_type) CheckViolation) (\<lambda>_.
     bindE (require (i \<notin> slf_ID ` set (sl_flags d) \<and>
              (pid, key) \<notin> (\<lambda>r. (slf_ProjectID r, slf_Key r)) ` set (sl_flags d)) UniqueViolation) (\<lambda>_.
     bindE (require (sl_project_exists d pid) ForeignKeyViolation) (\<lambda>_.
       let r = \<lparr>slf_ID = i, slf_ProjectID = pid, slf_Key = key, slf_Name = name, slf_Description = description,
                slf_ValueType = value_type, slf_DefaultValue = default_value, slf_CreatedAt = strftime_now now,
                slf_UpdatedAt = strftime_now now\<rparr>
       in Inr (r, d\<lparr>sl_flags := sl_flags d @ [r]\<rparr>))))"

definition sl_q_GetFlagByKey :: "string \<Rightarrow> string \<Rightarrow> sqlite_db \<Rightarrow> sql_error + sl_flag" where
  "sl_q_GetFlagByKey pid key d = one_row (filter (\<lambda>r. slf_ProjectID r = pid \<and> slf_Key r = key) (sl_flags d))"

definition sl_q_ListFlagsByProject :: "string \<Rightarrow> sqlite_db \<Rightarrow> sl_flag list" where
  "sl_q_ListFlagsByProject pid d = text_desc slf_CreatedAt (filter (\<lambda>r. slf_ProjectID r = pid) (sl_flags d))"

definition sl_q_CreateFlagVersion :: "time \<Rightarrow> string \<Rightarrow> string \<Rightarrow> int \<Rightarrow> string \<Rightarrow> raw \<Rightarrow> raw
    \<Rightarrow> string option \<Rightarrow> sqlite_db \<Rightarrow> sql_error + sl_flag_version \<times> sqlite_db" where
  "sl_q_CreateFlagVersion now i fid version strategy source compiled source_text d =
     bindE (require (strategy_check strategy) CheckViolation) (\<lambda>_.
     bindE (require (i \<notin> slv_ID ` set (sl_flag_versions d) \<and>
              (fid, version) \<notin> (\<lambda>r. (slv_FlagID r, slv_Version r)) ` set (sl_flag_versions d)) UniqueViolation) (\<lambda>_.
     bindE (require (sl_flag_exists d fid) ForeignKeyViolation) (\<lambda>_.
       let r = \<lparr>slv_ID = i, slv_FlagID = fid, slv_Version = version, slv_Strategy = strategy, slv_Source = source,
                slv_Compiled = compiled, slv_PublishedAt = strftime_now now, slv_SourceText = source_text\<rparr>
       in Inr (r, d\<lparr>sl_flag_versions := sl_flag_versions d @ [r]\<rparr>))))"

definition sl_versions_of :: "sqlite_db \<Rightarrow> string \<Rightarrow> sl_flag_version list" where
  "sl_versions_of d fid = filter (\<lambda>r. slv_FlagID r = fid) (sl_flag_versions d)"

definition sl_q_GetLatestFlagVersion :: "string \<Rightarrow> sqlite_db \<Rightarrow> sql_error + sl_flag_version" where
  "sl_q_GetLatestFlagVersion fid d = one_row (order_desc slv_Version (sl_versions_of d fid))"

definition sl_q_ListFlagVersions :: "string \<Rightarrow> sqlite_db \<Rightarrow> sl_flag_version list" where
  "sl_q_ListFlagVersions fid d = order_desc slv_Version (sl_versions_of d fid)"

definition sl_q_NextFlagVersion :: "string \<Rightarrow> sqlite_db \<Rightarrow> sql_error + int" where
  "sl_q_NextFlagVersion fid d = sl_next_version (map slv_Version (sl_versions_of d fid))"

subsection \<open>Segments\<close>

definition sl_q_CreateSegment :: "time \<Rightarrow> string \<Rightarrow> string \<Rightarrow> string \<Rightarrow> string \<Rightarrow> string \<Rightarrow> raw
    \<Rightarrow> sqlite_db \<Rightarrow> sql_error + sl_segment \<times> sqlite_db" where
  "sl_q_CreateSegment now i pid key name description predicate d =
     bindE (require (i \<notin> slg_ID ` set (sl_segments d) \<and>
              (pid, key) \<notin> (\<lambda>r. (slg_ProjectID r, slg_Key r)) ` set (sl_segments d)) UniqueViolation) (\<lambda>_.
     bindE (require (sl_project_exists d pid) ForeignKeyViolation) (\<lambda>_.
       let r = \<lparr>slg_ID = i, slg_ProjectID = pid, slg_Key = key, slg_Name = name, slg_Description = description,
                slg_Predicate = predicate, slg_CreatedAt = strftime_now now, slg_UpdatedAt = strftime_now now\<rparr>
       in Inr (r, d\<lparr>sl_segments := sl_segments d @ [r]\<rparr>)))"

definition sl_q_GetSegmentByKey :: "string \<Rightarrow> string \<Rightarrow> sqlite_db \<Rightarrow> sql_error + sl_segment" where
  "sl_q_GetSegmentByKey pid key d =
     one_row (filter (\<lambda>r. slg_ProjectID r = pid \<and> slg_Key r = key) (sl_segments d))"

definition sl_q_ListSegmentsByProject :: "string \<Rightarrow> sqlite_db \<Rightarrow> sl_segment list" where
  "sl_q_ListSegmentsByProject pid d =
     sort_key slg_CreatedAt (filter (\<lambda>r. slg_ProjectID r = pid) (sl_segments d))"

definition sl_q_UpdateSegment :: "string \<Rightarrow> string \<Rightarrow> raw \<Rightarrow> string \<Rightarrow> string \<Rightarrow> string
    \<Rightarrow> sqlite_db \<Rightarrow> sql_error + sl_segment \<times> sqlite_db" where
  "sl_q_UpdateSegment name description predicate updated_at pid key d =
     (let upd = (\<lambda>r. if slg_ProjectID r = pid \<and> slg_Key r = key
                     then r\<lparr>slg_Name := name, slg_Description := description, slg_Predicate := predicate,
                            slg_UpdatedAt := updated_at\<rparr>
                     else r)
      in case filter (\<lambda>r. slg_ProjectID r = pid \<and> slg_Key r = key) (sl_segments d) of
           [] \<Rightarrow> Inl NoRows
         | r # _ \<Rightarrow> Inr (upd r, d\<lparr>sl_segments := map upd (sl_segments d)\<rparr>))"

subsection \<open>Snapshots\<close>

definition sl_q_CreateSnapshot :: "time \<Rightarrow> string \<Rightarrow> string \<Rightarrow> string option \<Rightarrow> int \<Rightarrow> raw
    \<Rightarrow> sqlite_db \<Rightarrow> sql_error + sl_snapshot \<times> sqlite_db" where
  "sl_q_CreateSnapshot now i pid eid version compiled d =
     bindE (require (i \<notin> sls_ID ` set (sl_snapshots d) \<and>
              (pid, version) \<notin> (\<lambda>r. (sls_ProjectID r, sls_Version r)) ` set (sl_snapshots d)) UniqueViolation) (\<lambda>_.
     bindE (require (sl_project_exists d pid \<and> ref_ok (sl_environment_exists d) eid) ForeignKeyViolation) (\<lambda>_.
       let r = \<lparr>sls_ID = i, sls_ProjectID = pid, sls_EnvironmentID = eid, sls_Version = version,
                sls_Compiled = compiled, sls_CreatedAt = strftime_now now\<rparr>
       in Inr (r, d\<lparr>sl_snapshots := sl_snapshots d @ [r]\<rparr>)))"

definition sl_snapshots_of :: "sqlite_db \<Rightarrow> string \<Rightarrow> sl_snapshot list" where
  "sl_snapshots_of d pid = filter (\<lambda>r. sls_ProjectID r = pid) (sl_snapshots d)"

definition sl_q_GetLatestSnapshot :: "string \<Rightarrow> sqlite_db \<Rightarrow> sql_error + sl_snapshot" where
  "sl_q_GetLatestSnapshot pid d = one_row (order_desc sls_Version (sl_snapshots_of d pid))"

definition sl_q_GetSnapshotByID :: "string \<Rightarrow> string \<Rightarrow> sqlite_db \<Rightarrow> sql_error + sl_snapshot" where
  "sl_q_GetSnapshotByID pid i d = one_row (filter (\<lambda>r. sls_ProjectID r = pid \<and> sls_ID r = i) (sl_snapshots d))"

definition sl_q_ListSnapshotsByProject :: "string \<Rightarrow> int \<Rightarrow> sqlite_db \<Rightarrow> sl_snapshot list" where
  "sl_q_ListSnapshotsByProject pid n d = sl_limit_rows n (order_desc sls_Version (sl_snapshots_of d pid))"

definition sl_q_NextSnapshotVersion :: "string \<Rightarrow> sqlite_db \<Rightarrow> sql_error + int" where
  "sl_q_NextSnapshotVersion pid d = sl_next_version (map sls_Version (sl_snapshots_of d pid))"

text \<open>\<open>ROW_NUMBER() OVER (PARTITION BY fv.flag_id ORDER BY fv.version DESC)\<close>, the rows
  with number 1: the partitions come in the order of their key.\<close>

definition sl_q_ListLatestFlagVersions :: "string \<Rightarrow> sqlite_db \<Rightarrow> (string \<times> sl_flag_version) list" where
  "sl_q_ListLatestFlagVersions pid d =
     concat (map (\<lambda>f. case order_desc slv_Version (sl_versions_of d (slf_ID f)) of
                        [] \<Rightarrow> [] | v # _ \<Rightarrow> [(slf_Key f, v)])
                 (sort_key slf_ID (filter (\<lambda>f. slf_ProjectID f = pid) (sl_flags d))))"

subsection \<open>Audit events\<close>

definition sl_q_AppendAuditEvent :: "time \<Rightarrow> string \<Rightarrow> string option \<Rightarrow> string option \<Rightarrow> string
    \<Rightarrow> string option \<Rightarrow> raw \<Rightarrow> sqlite_db \<Rightarrow> sql_error + sl_audit_event \<times> sqlite_db" where
  "sl_q_AppendAuditEvent now i pid fid action actor payload d =
     bindE (require (i \<notin> sla_ID ` set (sl_audit_events d)) UniqueViolation) (\<lambda>_.
     bindE (require (ref_ok (sl_project_exists d) pid \<and> ref_ok (sl_flag_exists d) fid) ForeignKeyViolation) (\<lambda>_.
       let r = \<lparr>sla_ID = i, sla_ProjectID = pid, sla_FlagID = fid, sla_Action = action, sla_Payload = payload,
                sla_CreatedAt = strftime_now now, sla_Actor = actor\<rparr>
       in Inr (r, d\<lparr>sl_audit_events := sl_audit_events d @ [r]\<rparr>)))"

record sl_audit_query =
  slq_ProjectID :: string
  slq_Action :: "string option"
  slq_Actor :: "string option"
  slq_From :: "string option"
  slq_To :: "string option"
  slq_CursorTs :: "string option"
  slq_CursorID :: "string option"
  slq_Limit :: int

definition sl_before_cursor :: "sl_audit_query \<Rightarrow> sl_audit_event \<Rightarrow> bool" where
  "sl_before_cursor q r = (case slq_CursorTs q of
     None \<Rightarrow> True
   | Some ts \<Rightarrow> sla_CreatedAt r < ts \<or>
       (sla_CreatedAt r = ts \<and> (case slq_CursorID q of None \<Rightarrow> False | Some i \<Rightarrow> sla_ID r < i)))"

definition sl_audit_selected :: "sl_audit_query \<Rightarrow> sl_audit_event \<Rightarrow> bool" where
  "sl_audit_selected q r \<longleftrightarrow>
     sla_ProjectID r = Some (slq_ProjectID q) \<and>
     ref_ok (\<lambda>a. sla_Action r = a) (slq_Action q) \<and>
     ref_ok (\<lambda>a. sla_Actor r = Some a) (slq_Actor q) \<and>
     ref_ok (\<lambda>t. t \<le> sla_CreatedAt r) (slq_From q) \<and>
     ref_ok (\<lambda>t. sla_CreatedAt r < t) (slq_To q) \<and>
     sl_before_cursor q r"

definition sl_q_ListAuditEventsByProject :: "sl_audit_query \<Rightarrow> sqlite_db \<Rightarrow> sl_audit_event list" where
  "sl_q_ListAuditEventsByProject q d =
     sl_limit_rows (slq_Limit q) (text_desc (\<lambda>r. (sla_CreatedAt r, sla_ID r))
       (filter (sl_audit_selected q) (sl_audit_events d)))"

end
