(* ===== verification/Sqlite_Store.thy ===== *)
theory Sqlite_Store
  imports Sqlite_Db Store
begin

text \<open>
  The persistence layer on SQLite: \<open>sqliteStore\<close> and \<open>sqliteTx\<close> of
  \<open>internal/store/sqlite_*.go\<close>, with the conversions between the text columns and
  the domain types of \<open>Store\<close>, and the transactions with their retry on
  \<open>SQLITE_BUSY\<close>. The package \<open>google/uuid\<close> is the parameter \<open>U\<close>; \<open>i\<close>
  and \<open>now\<close> are what \<open>uuid.New()\<close> and the clock give an operation.
\<close>

subsection \<open>Times\<close>

text \<open>\<open>time.Parse\<close> on \<open>2006-01-02 15:04:05.999999999\<close>: the space stands for one or
  more spaces, and the fraction may be left out. The layout without a fraction reads
  the same texts.\<close>

definition parse_spaced :: "string \<Rightarrow> time option" where
  "parse_spaced s = (case drop 10 s of
     [] \<Rightarrow> None
   | c # r \<Rightarrow>
      if c \<noteq> CHR '' '' then None
      else Option.bind (parse_seconds (take 10 s @ CHR ''T'' # dropWhile (\<lambda>x. x = CHR '' '') r)) (\<lambda>(f, s1).
           case parse_fraction s1 of (ns, s2) \<Rightarrow> if s2 = [] then make_time f ns 0 else None))"

definition sqliteTimeLayouts :: "(string \<Rightarrow> time option) list" where
  "sqliteTimeLayouts = [parse_milli, parse_nano, parse_nano, parse_spaced, parse_spaced]"

fun first_layout :: "(string \<Rightarrow> time option) list \<Rightarrow> string \<Rightarrow> time" where
  "first_layout [] s = 0"
| "first_layout (p # ps) s = (case p s of Some t \<Rightarrow> t | None \<Rightarrow> first_layout ps s)"

definition sqliteParseTime :: "string \<Rightarrow> time" where
  "sqliteParseTime s = first_layout sqliteTimeLayouts s"

definition sqliteFormatTime :: "time \<Rightarrow> string" where
  "sqliteFormatTime t = fmt_milli t"

definition sqliteNowString :: "time \<Rightarrow> string" where
  "sqliteNowString now = sqliteFormatTime now"

subsection \<open>Ids, text and documents\<close>

definition sqliteUUIDString :: "uuid_text \<Rightarrow> uuid \<Rightarrow> string" where
  "sqliteUUIDString U u = uuid_String U u"

definition sqliteParseUUID :: "uuid_text \<Rightarrow> string \<Rightarrow> uuid" where
  "sqliteParseUUID U s = (case uuid_Parse U s of None \<Rightarrow> 0 | Some u \<Rightarrow> u)"

definition sqliteParseNullUUID :: "uuid_text \<Rightarrow> string option \<Rightarrow> uuid option" where
  "sqliteParseNullUUID U s = (case s of None \<Rightarrow> None | Some t \<Rightarrow> if t = [] then None else uuid_Parse U t)"

definition sqliteFromNullUUID :: "uuid_text \<Rightarrow> uuid option \<Rightarrow> string option" where
  "sqliteFromNullUUID U u = (case u of None \<Rightarrow> None | Some v \<Rightarrow> Some (uuid_String U v))"

definition sqliteStringFromString :: "string \<Rightarrow> string option" where
  "sqliteStringFromString s = (if s = [] then None else Some s)"

definition sqliteStringToString :: "string option \<Rightarrow> string" where
  "sqliteStringToString p = (case p of None \<Rightarrow> [] | Some s \<Rightarrow> s)"

definition sqliteRawMessage :: "raw \<Rightarrow> raw" where
  "sqliteRawMessage b = (if raw_empty b then RawDoc (JObj []) else b)"

definition sqliteRawMessageFrom :: "raw \<Rightarrow> raw" where
  "sqliteRawMessageFrom s = (if raw_empty s then RawDoc (JObj []) else s)"

subsection \<open>Rows\<close>

definition sqliteProjectFromRow :: "uuid_text \<Rightarrow> sl_project \<Rightarrow> Project" where
  "sqliteProjectFromRow U r = \<lparr>Project_ID = sqliteParseUUID U (slp_ID r), Project_Slug = slp_Slug r,
     Project_DisplayName = slp_DisplayName r, Project_ConfigStrategy = slp_ConfigStrategy r,
     Project_CreatedAt = sqliteParseTime (slp_CreatedAt r), Project_UpdatedAt = sqliteParseTime (slp_UpdatedAt r)\<rparr>"

definition sqliteFlagFromRow :: "uuid_text \<Rightarrow> sl_flag \<Rightarrow> Flag" where
  "sqliteFlagFromRow U r = \<lparr>Flag_ID = sqliteParseUUID U (slf_ID r), Flag_ProjectID = sqliteParseUUID U (slf_ProjectID r),
     Flag_Key = slf_Key r, Flag_Name = slf_Name r, Flag_Description = slf_Description r, Flag_ValueType = slf_ValueType r,
     Flag_DefaultValue = sqliteRawMessageFrom (slf_DefaultValue r), Flag_CreatedAt = sqliteParseTime (slf_CreatedAt r),
     Flag_UpdatedAt = sqliteParseTime (slf_UpdatedAt r)\<rparr>"

definition sqliteFlagVersionFromRow :: "uuid_text \<Rightarrow> sl_flag_version \<Rightarrow> FlagVersion" where
  "sqliteFlagVersionFromRow U r = \<lparr>FV_ID = sqliteParseUUID U (slv_ID r), FV_FlagID = sqliteParseUUID U (slv_FlagID r),
     FV_Version = slv_Version r, FV_Strategy = slv_Strategy r, FV_Source = sqliteRawMessageFrom (slv_Source r),
     FV_Compiled = sqliteRawMessageFrom (slv_Compiled r), FV_SourceText = sqliteStringToString (slv_SourceText r),
     FV_PublishedAt = sqliteParseTime (slv_PublishedAt r)\<rparr>"

definition sqliteEnvironmentFromRow :: "uuid_text \<Rightarrow> sl_environment \<Rightarrow> Environment" where
  "sqliteEnvironmentFromRow U r = \<lparr>Env_ID = sqliteParseUUID U (sle_ID r), Env_ProjectID = sqliteParseUUID U (sle_ProjectID r),
     Env_Slug = sle_Slug r, Env_Name = sle_Name r, Env_CreatedAt = sqliteParseTime (sle_CreatedAt r)\<rparr>"

definition sqliteSegmentFromRow :: "uuid_text \<Rightarrow> sl_segment \<Rightarrow> Segment" where
  "sqliteSegmentFromRow U r = \<lparr>Segment_ID = sqliteParseUUID U (slg_ID r),
     Segment_ProjectID = sqliteParseUUID U (slg_ProjectID r), Segment_Key = slg_Key r, Segment_Name = slg_Name r,
     Segment_Description = slg_Description r, Segment_Predicate = sqliteRawMessageFrom (slg_Predicate r),
     Segment_CreatedAt = sqliteParseTime (slg_CreatedAt r), Segment_UpdatedAt = sqliteParseTime (slg_UpdatedAt r)\<rparr>"

definition sqliteSnapshotFromRow :: "uuid_text \<Rightarrow> sl_snapshot \<Rightarrow> Snapshot" where
  "sqliteSnapshotFromRow U r = \<lparr>Snapshot_ID = sqliteParseUUID U (sls_ID r),
     Snapshot_ProjectID = sqliteParseUUID U (sls_ProjectID r),
     Snapshot_EnvironmentID = sqliteParseNullUUID U (sls_EnvironmentID r), Snapshot_Version = sls_Version r,
     Snapshot_Compiled = sqliteRawMessageFrom (sls_Compiled r), Snapshot_CreatedAt = sqliteParseTime (sls_CreatedAt r)\<rparr>"

definition sqliteAuditFromRow :: "uuid_text \<Rightarrow> sl_audit_event \<Rightarrow> AuditEvent" where
  "sqliteAuditFromRow U r = \<lparr>Audit_ID = sqliteParseUUID U (sla_ID r),
     Audit_ProjectID = sqliteParseNullUUID U (sla_ProjectID r), Audit_FlagID = sqliteParseNullUUID U (sla_FlagID r),
     Audit_Action = sla_Action r, Audit_Actor = sqliteStringToString (sla_Actor r),
     Audit_Payload = sqliteRawMessageFrom (sla_Payload r), Audit_CreatedAt = sqliteParseTime (sla_CreatedAt r)\<rparr>"

definition sqliteLatestFlagVersionFromRow :: "uuid_text \<Rightarrow> string \<times> sl_flag_version \<Rightarrow> LatestFlagVersion" where
  "sqliteLatestFlagVersionFromRow U kr = (case kr of (k, r) \<Rightarrow> \<lparr>Latest_FlagKey = k,
     Latest_FlagID = sqliteParseUUID U (slv_FlagID r), Latest_Version = slv_Version r, Latest_Strategy = slv_Strategy r,
     Latest_Compiled = sqliteRawMessageFrom (slv_Compiled r), Latest_PublishedAt = sqliteParseTime (slv_PublishedAt r)\<rparr>)"

subsection \<open>Operations of a transaction\<close>

type_synonym 'a sl_op = "sqlite_db \<Rightarrow> store_error + 'a \<times> sqlite_db"

definition sltx_CreateProject :: "uuid_text \<Rightarrow> time \<Rightarrow> uuid \<Rightarrow> string \<Rightarrow> string \<Rightarrow> string \<Rightarrow> Project sl_op" where
  "sltx_CreateProject U now i slug displayName strategy d =
     first (sqliteProjectFromRow U) (wrap_sql ''create project''
       (sl_q_CreateProject now (sqliteUUIDString U i) slug displayName strategy d))"

definition sltx_CreateFlag :: "uuid_text \<Rightarrow> time \<Rightarrow> uuid \<Rightarrow> CreateFlagParams \<Rightarrow> Flag sl_op" where
  "sltx_CreateFlag U now i p d =
     first (sqliteFlagFromRow U) (wrap_sql ''create flag'' (sl_q_CreateFlag now (sqliteUUIDString U i)
       (sqliteUUIDString U (cf_ProjectID p)) (cf_Key p) (cf_Name p) (cf_Description p) (cf_ValueType p)
       (sqliteRawMessage (cf_DefaultValue p)) d))"

definition sltx_CreateEnvironment :: "uuid_text \<Rightarrow> time \<Rightarrow> uuid \<Rightarrow> uuid \<Rightarrow> string \<Rightarrow> string \<Rightarrow> Environment sl_op" where
  "sltx_CreateEnvironment U now i pid slug name d =
     first (sqliteEnvironmentFromRow U) (wrap_sql ''create environment''
       (sl_q_CreateEnvironment now (sqliteUUIDString U i) (sqliteUUIDString U pid) slug name d))"

definition sltx_CreateSegment :: "uuid_text \<Rightarrow> time \<Rightarrow> uuid \<Rightarrow> CreateSegmentParams \<Rightarrow> Segment sl_op" where
  "sltx_CreateSegment U now i p d =
     first (sqliteSegmentFromRow U) (wrap_sql ''create segment'' (sl_q_CreateSegment now (sqliteUUIDString U i)
       (sqliteUUIDString U (cs_ProjectID p)) (cs_Key p) (cs_Name p) (cs_Description p)
       (sqliteRawMessage (cs_Predicate p)) d))"

definition sltx_UpdateSegment :: "uuid_text \<Rightarrow> time \<Rightarrow> UpdateSegmentParams \<Rightarrow> Segment sl_op" where
  "sltx_UpdateSegment U now p d =
     first (sqliteSegmentFromRow U) (wrap_sql ''update segment'' (sl_q_UpdateSegment (us_Name p) (us_Description p)
       (sqliteRawMessage (us_Predicate p)) (sqliteNowString now) (sqliteUUIDString U (us_ProjectID p)) (us_Key p) d))"

definition sl_publishFlagVersionTx :: "uuid_text \<Rightarrow> time \<Rightarrow> uuid \<Rightarrow> PublishFlagVersionParams \<Rightarrow> FlagVersion sl_op" where
  "sl_publishFlagVersionTx U now i p d =
     bindE (wrap_sql ''next version'' (sl_q_NextFlagVersion (sqliteUUIDString U (pv_FlagID p)) d)) (\<lambda>next.
     first (sqliteFlagVersionFromRow U) (wrap_sql ''create version'' (sl_q_CreateFlagVersion now (sqliteUUIDString U i)
       (sqliteUUIDString U (pv_FlagID p)) next (pv_Strategy p) (sqliteRawMessage (pv_Source p))
       (sqliteRawMessage (pv_Compiled p)) (sqliteStringFromString (pv_SourceText p)) d)))"

definition sltx_PublishFlagVersion :: "uuid_text \<Rightarrow> time \<Rightarrow> uuid \<Rightarrow> PublishFlagVersionParams \<Rightarrow> FlagVersion sl_op" where
  "sltx_PublishFlagVersion U now i p d = sl_publishFlagVersionTx U now i p d"

definition sltx_CompileSnapshot :: "uuid_text \<Rightarrow> time \<Rightarrow> uuid \<Rightarrow> CompileSnapshotParams \<Rightarrow> Snapshot sl_op" where
  "sltx_CompileSnapshot U now i p d =
     bindE (wrap_sql ''next snapshot version'' (sl_q_NextSnapshotVersion (sqliteUUIDString U (sp_ProjectID p)) d)) (\<lambda>next.
     first (sqliteSnapshotFromRow U) (wrap_sql ''create snapshot'' (sl_q_CreateSnapshot now (sqliteUUIDString U i)
       (sqliteUUIDString U (sp_ProjectID p)) (sqliteFromNullUUID U (sp_EnvironmentID p)) next
       (sqliteRawMessage (sp_Compiled p)) d)))"

subsection \<open>Audit\<close>

definition sqliteAuditInsertParams :: "AppendAuditParams \<Rightarrow> AppendAuditParams" where
  "sqliteAuditInsertParams p = (if raw_empty (ap_Payload p) then p\<lparr>ap_Payload := RawDoc (JObj [])\<rparr> else p)"

definition sl_append_audit_query :: "uuid_text \<Rightarrow> time \<Rightarrow> uuid \<Rightarrow> AppendAuditParams \<Rightarrow> sqlite_db
    \<Rightarrow> sql_error + sl_audit_event \<times> sqlite_db" where
  "sl_append_audit_query U now i ev d = (let p = sqliteAuditInsertParams ev in
     sl_q_AppendAuditEvent now (sqliteUUIDString U i) (sqliteFromNullUUID U (ap_ProjectID p))
       (sqliteFromNullUUID U (ap_FlagID p)) (ap_Action p) (sqliteStringFromString (ap_Actor p)) (ap_Payload p) d)"

definition sl_AppendAudit :: "uuid_text \<Rightarrow> time \<Rightarrow> uuid \<Rightarrow> AppendAuditParams \<Rightarrow> AuditEvent sl_op" where
  "sl_AppendAudit U now i p d =
     first (sqliteAuditFromRow U) (wrap_sql ''append audit'' (sl_append_audit_query U now i p d))"

definition sqliteNullableString :: "string \<Rightarrow> string option" where
  "sqliteNullableString s = (if s = [] then None else Some s)"

definition sqliteNullableTime :: "time \<Rightarrow> string option" where
  "sqliteNullableTime t = (if t = 0 then None else Some (sqliteFormatTime t))"

definition sqliteNullableCursorID :: "uuid_text \<Rightarrow> ListAuditEventsParams \<Rightarrow> string option" where
  "sqliteNullableCursorID U p = (if lp_CursorTs p = 0 then None else Some (uuid_String U (lp_CursorID p)))"

definition sl_ListAuditEvents :: "uuid_text \<Rightarrow> ListAuditEventsParams \<Rightarrow> sqlite_db \<Rightarrow> store_error + AuditEvent list" where
  "sl_ListAuditEvents U p d = Inr (map (sqliteAuditFromRow U) (sl_q_ListAuditEventsByProject
     \<lparr>slq_ProjectID = sqliteUUIDString U (lp_ProjectID p), slq_Action = sqliteNullableString (lp_Action p),
      slq_Actor = sqliteNullableString (lp_Actor p), slq_From = sqliteNullableTime (lp_From p),
      slq_To = sqliteNullableTime (lp_To p), slq_CursorTs = sqliteNullableTime (lp_CursorTs p),
      slq_CursorID = sqliteNullableCursorID U p, slq_Limit = lp_Limit p\<rparr> d))"

subsection \<open>Transactions\<close>

text \<open>What a transaction meets, for each attempt, as for Postgres: failures of BEGIN, of a
  statement and of COMMIT, cancellation during the wait, what other connections
  commit before the attempt, and the id and time of the audit row.\<close>

record sl_world =
  sw_begin :: "nat \<Rightarrow> sql_error option"
  sw_statement :: "nat \<Rightarrow> sql_error option"
  sw_commit :: "nat \<Rightarrow> sql_error option"
  sw_cancelled :: "nat \<Rightarrow> bool"
  sw_others :: "nat \<Rightarrow> sqlite_db \<Rightarrow> sqlite_db"
  sw_audit_id :: "nat \<Rightarrow> uuid"
  sw_audit_now :: "nat \<Rightarrow> time"

definition isSQLiteRetry :: "store_error \<Rightarrow> bool" where
  "isSQLiteRetry e = (case e of StoreSql _ s \<Rightarrow> s = Busy \<or> s = BusySnapshot | _ \<Rightarrow> False)"

definition runOnceTx :: "sl_world \<Rightarrow> nat \<Rightarrow> (nat \<Rightarrow> 'a sl_op) \<Rightarrow> sqlite_db \<Rightarrow> (store_error + 'a) \<times> sqlite_db" where
  "runOnceTx w n fn d =
     (case sw_begin w n of
        Some e \<Rightarrow> (Inl (StoreSql ''begin tx'' e), d)
      | None \<Rightarrow>
         (case (case sw_statement w n of Some e \<Rightarrow> Inl (StoreSql ''statement'' e) | None \<Rightarrow> fn n d) of
            Inl e \<Rightarrow> (Inl e, d)
          | Inr (a, d1) \<Rightarrow>
             (case sw_commit w n of
                Some e \<Rightarrow> (Inl (StoreSql ''commit'' e), d)
              | None \<Rightarrow> (Inr a, d1))))"

definition sl_maxRetries :: nat where "sl_maxRetries = 8"

function immediate_loop :: "sl_world \<Rightarrow> nat \<Rightarrow> (nat \<Rightarrow> 'a sl_op) \<Rightarrow> sqlite_db \<Rightarrow> (store_error + 'a) \<times> sqlite_db" where
  "immediate_loop w n fn d =
     (case runOnceTx w n fn d of
        (Inr a, d') \<Rightarrow> (Inr a, d')
      | (Inl e, d') \<Rightarrow>
          if n < sl_maxRetries \<and> isSQLiteRetry e
          then if sw_cancelled w n then (Inl CtxErr, d')
               else immediate_loop w (Suc n) fn (sw_others w (Suc n) d')
          else (Inl e, d'))"
  by pat_completeness auto
termination by (relation "measure (\<lambda>(w, n, fn, d). sl_maxRetries - n)") auto

declare immediate_loop.simps [simp del]

definition withImmediateTx :: "sl_world \<Rightarrow> (nat \<Rightarrow> 'a sl_op) \<Rightarrow> sqlite_db \<Rightarrow> (store_error + 'a) \<times> sqlite_db" where
  "withImmediateTx w fn d = immediate_loop w 0 fn d"

definition sl_WithAudit :: "uuid_text \<Rightarrow> sl_world \<Rightarrow> AppendAuditParams \<Rightarrow> (nat \<Rightarrow> 'a sl_op) \<Rightarrow> sqlite_db
    \<Rightarrow> (store_error + 'a) \<times> sqlite_db" where
  "sl_WithAudit U w ev fn d = withImmediateTx w (\<lambda>n d.
     bindE (fn n d) (\<lambda>(a, d1).
     bindE (wrap_sql ''audit append in tx'' (sl_append_audit_query U (sw_audit_now w n) (sw_audit_id w n) ev d1))
       (\<lambda>(_, d2). Inr (a, d2)))) d"

subsection \<open>Operations of the store\<close>

definition sl_CreateProject :: "uuid_text \<Rightarrow> time \<Rightarrow> uuid \<Rightarrow> string \<Rightarrow> string \<Rightarrow> string \<Rightarrow> Project sl_op" where
  "sl_CreateProject U now i slug displayName strategy d =
     first (sqliteProjectFromRow U) (wrap_sql ''create project''
       (sl_q_CreateProject now (sqliteUUIDString U i) slug displayName strategy d))"

definition sl_GetProjectBySlug :: "uuid_text \<Rightarrow> string \<Rightarrow> sqlite_db \<Rightarrow> store_error + Project" where
  "sl_GetProjectBySlug U slug d =
     bindE (wrap_get ''get project'' (sl_q_GetProjectBySlug slug d)) (\<lambda>r. Inr (sqliteProjectFromRow U r))"

definition sl_ListProjects :: "uuid_text \<Rightarrow> sqlite_db \<Rightarrow> store_error + Project list" where
  "sl_ListProjects U d = Inr (map (sqliteProjectFromRow U) (sl_q_ListProjects d))"

definition sl_CreateFlag :: "uuid_text \<Rightarrow> time \<Rightarrow> uuid \<Rightarrow> CreateFlagParams \<Rightarrow> Flag sl_op" where
  "sl_CreateFlag U now i p d =
     first (sqliteFlagFromRow U) (wrap_sql ''create flag'' (sl_q_CreateFlag now (sqliteUUIDString U i)
       (sqliteUUIDString U (cf_ProjectID p)) (cf_Key p) (cf_Name p) (cf_Description p) (cf_ValueType p)
       (sqliteRawMessage (cf_DefaultValue p)) d))"

definition sl_GetFlagByKey :: "uuid_text \<Rightarrow> uuid \<Rightarrow> string \<Rightarrow> sqlite_db \<Rightarrow> store_error + Flag" where
  "sl_GetFlagByKey U pid key d =
     bindE (wrap_get ''get flag'' (sl_q_GetFlagByKey (sqliteUUIDString U pid) key d)) (\<lambda>r. Inr (sqliteFlagFromRow U r))"

definition sl_ListFlagsByProject :: "uuid_text \<Rightarrow> uuid \<Rightarrow> sqlite_db \<Rightarrow> store_error + Flag list" where
  "sl_ListFlagsByProject U pid d = Inr (map (sqliteFlagFromRow U) (sl_q_ListFlagsByProject (sqliteUUIDString U pid) d))"

definition sl_PublishFlagVersionStandalone :: "uuid_text \<Rightarrow> sl_world \<Rightarrow> (nat \<Rightarrow> time) \<Rightarrow> (nat \<Rightarrow> uuid)
    \<Rightarrow> PublishFlagVersionParams \<Rightarrow> sqlite_db \<Rightarrow> (store_error + FlagVersion) \<times> sqlite_db" where
  "sl_PublishFlagVersionStandalone U w now i p d =
     withImmediateTx w (\<lambda>n. sl_publishFlagVersionTx U (now n) (i n) p) d"

definition sl_GetLatestFlagVersion :: "uuid_text \<Rightarrow> uuid \<Rightarrow> sqlite_db \<Rightarrow> store_error + FlagVersion" where
  "sl_GetLatestFlagVersion U fid d =
     bindE (wrap_get ''latest version'' (sl_q_GetLatestFlagVersion (sqliteUUIDString U fid) d))
       (\<lambda>r. Inr (sqliteFlagVersionFromRow U r))"

definition sl_ListFlagVersions :: "uuid_text \<Rightarrow> uuid \<Rightarrow> sqlite_db \<Rightarrow> store_error + FlagVersion list" where
  "sl_ListFlagVersions U fid d =
     Inr (map (sqliteFlagVersionFromRow U) (sl_q_ListFlagVersions (sqliteUUIDString U fid) d))"

definition sl_CreateEnvironment :: "uuid_text \<Rightarrow> time \<Rightarrow> uuid \<Rightarrow> uuid \<Rightarrow> string \<Rightarrow> string \<Rightarrow> Environment sl_op" where
  "sl_CreateEnvironment U now i pid slug name d =
     first (sqliteEnvironmentFromRow U) (wrap_sql ''create environment''
       (sl_q_CreateEnvironment now (sqliteUUIDString U i) (sqliteUUIDString U pid) slug name d))"

definition sl_GetEnvironmentBySlug :: "uuid_text \<Rightarrow> uuid \<Rightarrow> string \<Rightarrow> sqlite_db \<Rightarrow> store_error + Environment" where
  "sl_GetEnvironmentBySlug U pid slug d =
     bindE (wrap_get ''get environment'' (sl_q_GetEnvironmentBySlug (sqliteUUIDString U pid) slug d))
       (\<lambda>r. Inr (sqliteEnvironmentFromRow U r))"

definition sl_ListEnvironmentsByProject :: "uuid_text \<Rightarrow> uuid \<Rightarrow> sqlite_db \<Rightarrow> store_error + Environment list" where
  "sl_ListEnvironmentsByProject U pid d =
     Inr (map (sqliteEnvironmentFromRow U) (sl_q_ListEnvironmentsByProject (sqliteUUIDString U pid) d))"

definition sl_CreateSegment :: "uuid_text \<Rightarrow> time \<Rightarrow> uuid \<Rightarrow> CreateSegmentParams \<Rightarrow> Segment sl_op" where
  "sl_CreateSegment U now i p d =
     first (sqliteSegmentFromRow U) (wrap_sql ''create segment'' (sl_q_CreateSegment now (sqliteUUIDString U i)
       (sqliteUUIDString U (cs_ProjectID p)) (cs_Key p) (cs_Name p) (cs_Description p)
       (sqliteRawMessage (cs_Predicate p)) d))"

definition sl_GetSegmentByKey :: "uuid_text \<Rightarrow> uuid \<Rightarrow> string \<Rightarrow> sqlite_db \<Rightarrow> store_error + Segment" where
  "sl_GetSegmentByKey U pid key d =
     bindE (wrap_get ''get segment'' (sl_q_GetSegmentByKey (sqliteUUIDString U pid) key d))
       (\<lambda>r. Inr (sqliteSegmentFromRow U r))"

definition sl_ListSegmentsByProject :: "uuid_text \<Rightarrow> uuid \<Rightarrow> sqlite_db \<Rightarrow> store_error + Segment list" where
  "sl_ListSegmentsByProject U pid d =
     Inr (map (sqliteSegmentFromRow U) (sl_q_ListSegmentsByProject (sqliteUUIDString U pid) d))"

definition sl_UpdateSegment :: "uuid_text \<Rightarrow> time \<Rightarrow> UpdateSegmentParams \<Rightarrow> Segment sl_op" where
  "sl_UpdateSegment U now p d =
     first (sqliteSegmentFromRow U) (wrap_get ''update segment'' (sl_q_UpdateSegment (us_Name p) (us_Description p)
       (sqliteRawMessage (us_Predicate p)) (sqliteFormatTime now) (sqliteUUIDString U (us_ProjectID p)) (us_Key p) d))"

definition sl_CompileSnapshot :: "uuid_text \<Rightarrow> sl_world \<Rightarrow> (nat \<Rightarrow> time) \<Rightarrow> (nat \<Rightarrow> uuid)
    \<Rightarrow> CompileSnapshotParams \<Rightarrow> sqlite_db \<Rightarrow> (store_error + Snapshot) \<times> sqlite_db" where
  "sl_CompileSnapshot U w now i p d = withImmediateTx w (\<lambda>n d.
     bindE (wrap_sql ''next snapshot version'' (sl_q_NextSnapshotVersion (sqliteUUIDString U (sp_ProjectID p)) d)) (\<lambda>next.
     first (sqliteSnapshotFromRow U) (wrap_sql ''create snapshot'' (sl_q_CreateSnapshot (now n) (sqliteUUIDString U (i n))
       (sqliteUUIDString U (sp_ProjectID p)) (sqliteFromNullUUID U (sp_EnvironmentID p)) next
       (sqliteRawMessage (sp_Compiled p)) d)))) d"

definition sl_GetSnapshotByID :: "uuid_text \<Rightarrow> uuid \<Rightarrow> uuid \<Rightarrow> sqlite_db \<Rightarrow> store_error + Snapshot" where
  "sl_GetSnapshotByID U pid i d =
     bindE (wrap_get ''get snapshot'' (sl_q_GetSnapshotByID (sqliteUUIDString U pid) (sqliteUUIDString U i) d))
       (\<lambda>r. Inr (sqliteSnapshotFromRow U r))"

definition sl_GetLatestSnapshot :: "uuid_text \<Rightarrow> uuid \<Rightarrow> sqlite_db \<Rightarrow> store_error + Snapshot" where
  "sl_GetLatestSnapshot U pid d =
     bindE (wrap_get ''latest snapshot'' (sl_q_GetLatestSnapshot (sqliteUUIDString U pid) d))
       (\<lambda>r. Inr (sqliteSnapshotFromRow U r))"

definition sl_ListSnapshotsByProject :: "uuid_text \<Rightarrow> uuid \<Rightarrow> int \<Rightarrow> sqlite_db \<Rightarrow> store_error + Snapshot list" where
  "sl_ListSnapshotsByProject U pid n d =
     Inr (map (sqliteSnapshotFromRow U) (sl_q_ListSnapshotsByProject (sqliteUUIDString U pid) n d))"

definition sl_ListLatestFlagVersions :: "uuid_text \<Rightarrow> uuid \<Rightarrow> sqlite_db \<Rightarrow> store_error + LatestFlagVersion list" where
  "sl_ListLatestFlagVersions U pid d =
     Inr (map (sqliteLatestFlagVersionFromRow U) (sl_q_ListLatestFlagVersions (sqliteUUIDString U pid) d))"

subsection \<open>Emptying the database\<close>

text \<open>\<open>DELETE FROM\<close> a table, with the ON DELETE actions of the schema: rows that refer
  to a project or a flag go with it, an audit event loses the reference, as a snapshot
  loses its environment.\<close>

definition delete_from :: "string \<Rightarrow> sqlite_db \<Rightarrow> sqlite_db" where
  "delete_from t d =
     (if t = ''audit_events'' then d\<lparr>sl_audit_events := []\<rparr>
      else if t = ''snapshots'' then d\<lparr>sl_snapshots := []\<rparr>
      else if t = ''segments'' then d\<lparr>sl_segments := []\<rparr>
      else if t = ''environments'' then
        d\<lparr>sl_environments := [], sl_snapshots := map (\<lambda>r. r\<lparr>sls_EnvironmentID := None\<rparr>) (sl_snapshots d)\<rparr>
      else if t = ''flag_versions'' then d\<lparr>sl_flag_versions := []\<rparr>
      else if t = ''flags'' then
        d\<lparr>sl_flags := [], sl_flag_versions := [],
          sl_audit_events := map (\<lambda>r. r\<lparr>sla_FlagID := None\<rparr>) (sl_audit_events d)\<rparr>
      else if t = ''projects'' then
        d\<lparr>sl_projects := [], sl_flags := [], sl_flag_versions := [], sl_environments := [], sl_segments := [],
          sl_snapshots := [],
          sl_audit_events := map (\<lambda>r. r\<lparr>sla_ProjectID := None, sla_FlagID := None\<rparr>) (sl_audit_events d)\<rparr>
      else d)"

definition truncate_tables :: "string list" where
  "truncate_tables = [''audit_events'', ''snapshots'', ''segments'', ''environments'', ''flag_versions'', ''flags'', ''projects'']"

text \<open>One transaction, without retry; \<open>exec_err\<close> is what a DELETE may fail with.\<close>

definition sl_TruncateForTest :: "sql_error option \<Rightarrow> (string \<Rightarrow> sql_error option) \<Rightarrow> sql_error option
    \<Rightarrow> sqlite_db \<Rightarrow> (store_error + unit) \<times> sqlite_db" where
  "sl_TruncateForTest begin_err exec_err commit_err d =
     (case begin_err of
        Some e \<Rightarrow> (Inl (StoreSql ''truncate: begin'' e), d)
      | None \<Rightarrow>
         (case foldE (\<lambda>d t. case exec_err t of Some e \<Rightarrow> Inl (StoreSql (''truncate '' @ t) e)
                                             | None \<Rightarrow> Inr (delete_from t d)) truncate_tables d of
            Inl e \<Rightarrow> (Inl e, d)
          | Inr d' \<Rightarrow> (case commit_err of Some e \<Rightarrow> (Inl (StoreSql [] e), d) | None \<Rightarrow> (Inr (), d'))))"

end
