(* ===== verification/Time_Order.thy ===== *)
theory Time_Order
  imports Go_Time "HOL-Library.List_Lexorder" "HOL-Library.Char_ord"
begin

text \<open>
  Why times may be compared as text: the layout with milliseconds of the SQLite
  columns orders texts byte by byte as the times they stand for, up to the millisecond.
\<close>

subsection \<open>Texts of equal length\<close>

lemma append_less_iff:
  fixes a :: "'a::linorder list"
  shows "length a = length b \<Longrightarrow> a @ x < b @ y \<longleftrightarrow> a < b \<or> a = b \<and> x < y"
  by (induction a b rule: list_induct2) auto

lemma digit_less: "k < 10 \<Longrightarrow> m < 10 \<Longrightarrow> (char_of (48 + k) :: char) < char_of (48 + m) \<longleftrightarrow> k < (m::nat)"
  by (simp add: less_char_def)

lemma fixed_digits_less:
  "0 \<le> n \<Longrightarrow> 0 \<le> m \<Longrightarrow> n < m \<Longrightarrow> m < 10 ^ w \<Longrightarrow> fixed_digits w n < fixed_digits w m"
proof (induction w arbitrary: n m)
  case (Suc w)
  have m: "m div 10 < 10 ^ w" using Suc.prems(4) by (simp add: div_less_iff_less_mult mult.commute)
  show ?case
  proof (cases "n div 10 = m div 10")
    case True
    then have "n mod 10 < m mod 10" using Suc.prems(3) mult_div_mod_eq [of 10 n] mult_div_mod_eq [of 10 m] by linarith
    then have "nat (n mod 10) < nat (m mod 10)" by simp
    then show ?thesis using True by (simp add: append_less_iff digit_less nat_less_iff)
  next
    case False
    then have "n div 10 < m div 10" using Suc.prems(3) zdiv_mono1 [of n m 10] by simp
    then have "fixed_digits w (n div 10) < fixed_digits w (m div 10)"
      using Suc m by (simp add: pos_imp_zdiv_nonneg_iff)
    then show ?thesis by (simp add: append_less_iff)
  qed
qed simp

text \<open>One field of a layout, and what follows it.\<close>

lemma field_less:
  assumes "0 \<le> n" "0 \<le> m" "m < 10 ^ w" "n < m \<or> n = m \<and> x < y"
  shows "fixed_digits w n @ x < fixed_digits w m @ y"
  using assms fixed_digits_less [of n m w] by (auto simp: append_less_iff)

subsection \<open>The calendar\<close>

lemma sum_list_take_next:
  fixes ls :: "int list"
  assumes "list_all (\<lambda>l. 0 \<le> l) ls" "k < k'" "k' \<le> length ls"
  shows "sum_list (take k ls) + ls ! k \<le> sum_list (take k' ls)"
proof -
  have "take k' ls = take (Suc k) ls @ take (k' - Suc k) (drop (Suc k) ls)"
    using assms(2) by (metis Suc_leI le_add_diff_inverse take_add)
  moreover have "0 \<le> sum_list (take (k' - Suc k) (drop (Suc k) ls))"
    using assms(1) by (intro sum_list_nonneg) (auto simp: list_all_iff dest!: in_set_takeD in_set_dropD)
  moreover have "sum_list (take (Suc k) ls) = sum_list (take k ls) + ls ! k"
    using assms(2,3) by (simp add: take_Suc_conv_app_nth)
  ultimately show ?thesis by simp
qed

lemma month_lengths_nonneg: "list_all (\<lambda>l. 0 \<le> l) (month_lengths leap)" "length (month_lengths leap) = 12"
  "sum_list (month_lengths leap) = (if leap then 366 else 365)"
  by (simp_all add: month_lengths_def)

lemma month_before:
  assumes "1 \<le> m" "m < m'" "m' \<le> 13"
  shows "days_before_month l m + month_lengths l ! nat (m - 1) \<le> days_before_month l m'"
  unfolding days_before_month_def
  using assms by (intro sum_list_take_next) (simp_all add: month_lengths_nonneg)

lemma month_in_year:
  assumes "1 \<le> m" "m \<le> 12"
  shows "days_before_month l m + month_lengths l ! nat (m - 1) \<le> (if l then 366 else 365)"
proof -
  have "days_before_month l 13 = (if l then 366 else 365)"
    by (simp only: days_before_month_def) (simp add: month_lengths_nonneg)
  then show ?thesis using month_before [of m 13 l] assms by simp
qed

lemma days_before_month_nonneg: "0 \<le> days_before_month l m"
  unfolding days_before_month_def using month_lengths_nonneg(1) [of l]
  by (intro sum_list_nonneg) (auto simp: list_all_iff dest: in_set_takeD)

lemma div_next: "0 < q \<Longrightarrow> y div q = (y - 1) div q + (if y mod q = 0 then 1 else (0::int))"
proof -
  assume q: "0 < q"
  have "(y - 1 + 1) div q = (if (y - 1 + 1) mod q = 0 then 1 + (y - 1) div q else (y - 1) div q)"
  proof (cases "y mod q = 0")
    case True
    then obtain k where "y = q * k" by auto
    then have "(y - 1) div q = k - 1" using q by (intro int_div_pos_eq [of _ _ _ "q - 1"]) (simp_all add: algebra_simps)
    then show ?thesis using \<open>y = q * k\<close> q by simp
  next
    case False
    then have "1 \<le> y mod q" using q pos_mod_sign [of q y] by linarith
    then have "(y - 1) div q = y div q"
      using q pos_mod_bound [OF q, of y] by (intro int_div_pos_eq [of _ _ _ "y mod q - 1"]) (simp_all add: algebra_simps)
    then show ?thesis using False by simp
  qed
  then show ?thesis by simp
qed

lemma year_next: "days_before_year (y + 1) = days_before_year y + (if is_leap y then 366 else 365)"
proof -
  define p4 p100 p400 where p: "p4 \<longleftrightarrow> y mod 4 = 0" "p100 \<longleftrightarrow> y mod 100 = 0" "p400 \<longleftrightarrow> y mod 400 = 0"
  have "p400 \<Longrightarrow> p100" "p100 \<Longrightarrow> p4" unfolding p mod_eq_0_iff_dvd
    by (rule dvd_trans [of 100 400], simp, assumption) (rule dvd_trans [of 4 100], simp, assumption)
  moreover have "is_leap y \<longleftrightarrow> p4 \<and> (\<not> p100 \<or> p400)" unfolding p is_leap_def ..
  moreover have "days_before_year (y + 1) = days_before_year y + 365 + of_bool p4 - of_bool p100 + of_bool p400"
  proof -
    have d: "y div 4 = (y - 1) div 4 + of_bool p4" "y div 100 = (y - 1) div 100 + of_bool p100"
        "y div 400 = (y - 1) div 400 + of_bool p400"
      unfolding p of_bool_def by (rule div_next, simp)+
    have "days_before_year (y + 1) = 365 * y + y div 4 - y div 100 + y div 400"
      by (simp add: days_before_year_def)
    then show ?thesis unfolding d days_before_year_def by (simp only: algebra_simps)
  qed
  ultimately show ?thesis by (cases p4; cases p100; cases p400) simp_all
qed

lemma year_before: "y < y' \<Longrightarrow> days_before_year y + (if is_leap y then 366 else 365) \<le> days_before_year y'"
proof (induction "nat (y' - y)" arbitrary: y' rule: less_induct)
  case less
  show ?case
  proof (cases "y' = y + 1")
    case False
    then have "days_before_year y + (if is_leap y then 366 else 365) \<le> days_before_year (y' - 1)"
      using less by simp
    also have "\<dots> \<le> days_before_year y'" using year_next [of "y' - 1"] by simp
    finally show ?thesis .
  qed (simp add: year_next)
qed

lemma date_less:
  assumes a: "date_of_day a = (y, m, d)" and b: "date_of_day b = (y', m', d')" and "a < b"
  shows "y < y' \<or> y = y' \<and> (m < m' \<or> m = m' \<and> d < d')"
proof (rule ccontr)
  assume "\<not> ?thesis"
  then consider "y' < y" | "y = y'" "m' < m" | "y = y'" "m = m'" "d' \<le> d" by linarith
  then show False
  proof cases
    case 1
    then show False
      using year_before [OF 1] month_in_year [of m' "is_leap y'"] date_of_day [OF a] date_of_day [OF b] \<open>a < b\<close>
        days_before_month_nonneg [of "is_leap y" m]
      unfolding day_of_date_def by linarith
  next
    case 2
    then show False
      using month_before [of m' m "is_leap y"] date_of_day [OF a] date_of_day [OF b] \<open>a < b\<close>
      by (simp add: day_of_date_def)
  next
    case 3
    then show False using date_of_day(1) [OF a] date_of_day(1) [OF b] \<open>a < b\<close> by (auto simp: day_of_date_def)
  qed
qed

subsection \<open>The layout with milliseconds\<close>

definition to_millis :: "int \<Rightarrow> int" where
  "to_millis t = t - t mod 1000000"

text \<open>The fields of a time, from its number of milliseconds.\<close>

lemma millis_parts:
  shows "t div nanos_per_day = t div 1000000 div 86400000"
    and "t mod nanos_per_day div nanos_per_second = t div 1000000 div 1000 mod 86400"
    and "t mod nanos_per_second div 1000000 = t div 1000000 mod 1000"
proof -
  have mod_div: "x mod (a * b) div a = x div a mod b" if "0 < a" "0 < b" for x a b :: int
    using that by (simp add: zmod_zmult2_eq pos_mod_bound div_pos_pos_trivial)
  show "t div nanos_per_day = t div 1000000 div 86400000"
    using zdiv_zmult2_eq [of 86400000 t 1000000] by (simp add: nanos_per_day_def nanos_per_second_def)
  have s: "t div nanos_per_second = t div 1000000 div 1000"
    using zdiv_zmult2_eq [of 1000 t 1000000] by (simp add: nanos_per_second_def)
  have "t mod (nanos_per_second * 86400) div nanos_per_second = t div nanos_per_second mod 86400"
    by (rule mod_div) (simp_all add: nanos_per_second_def)
  then show "t mod nanos_per_day div nanos_per_second = t div 1000000 div 1000 mod 86400"
    by (simp add: nanos_per_day_def mult.commute s)
  have "t mod (1000000 * 1000) div 1000000 = t div 1000000 mod 1000" by (rule mod_div) simp_all
  then show "t mod nanos_per_second div 1000000 = t div 1000000 mod 1000" by (simp add: nanos_per_second_def)
qed

lemma fmt_milli_to_millis: "fmt_milli (to_millis t) = fmt_milli t"
proof -
  have "to_millis t div 1000000 = t div 1000000"
    by (simp add: to_millis_def minus_mod_eq_div_mult)
  then show ?thesis by (simp add: fmt_milli_def fmt_seconds_def millis_parts)
qed

text \<open>Lexicographic order of a count and of its digits in mixed bases.\<close>

lemma mixed_less:
  fixes k l q :: int
  assumes "0 < q" "k < l"
  shows "k div q < l div q \<or> k div q = l div q \<and> k mod q < l mod q"
proof (cases "k div q = l div q")
  case True
  then have "q * (k div q) = q * (l div q)" by simp
  then have "k mod q < l mod q" using assms(2) mult_div_mod_eq [of q k] mult_div_mod_eq [of q l] by linarith
  then show ?thesis using True by simp
next
  case False
  then show ?thesis using assms zdiv_mono1 [of k l q] by simp
qed

definition layout :: "int \<Rightarrow> int \<Rightarrow> int \<Rightarrow> int \<Rightarrow> int \<Rightarrow> int \<Rightarrow> int \<Rightarrow> string" where
  "layout y m d hh mm ss ms = fixed_digits 4 y @ ''-'' @ fixed_digits 2 m @ ''-'' @ fixed_digits 2 d @ ''T'' @
     fixed_digits 2 hh @ '':'' @ fixed_digits 2 mm @ '':'' @ fixed_digits 2 ss @ ''.'' @ fixed_digits 3 ms @ ''Z''"

lemma layout_less:
  assumes "0 \<le> y" "y' < 10000" "0 \<le> m" "m' < 100" "0 \<le> d" "d' < 100" "0 \<le> hh" "hh' < 100" "0 \<le> mm" "mm' < 100"
      "0 \<le> ss" "ss' < 100" "0 \<le> ms" "ms' < 1000"
    and "0 \<le> y'" "0 \<le> m'" "0 \<le> d'" "0 \<le> hh'" "0 \<le> mm'" "0 \<le> ss'" "0 \<le> ms'"
    and "y < y' \<or> y = y' \<and> (m < m' \<or> m = m' \<and> (d < d' \<or> d = d' \<and> (hh < hh' \<or> hh = hh' \<and>
      (mm < mm' \<or> mm = mm' \<and> (ss < ss' \<or> ss = ss' \<and> ms < ms')))))"
  shows "layout y m d hh mm ss ms < layout y' m' d' hh' mm' ss' ms'"
  unfolding layout_def using assms
  by (simp add: append_less_iff) (use fixed_digits_less in auto)

lemma date_fields:
  assumes "printable_time t" "date_of_day (t div nanos_per_day) = (y, m, d)"
  shows "0 \<le> y" "y < 10000" "0 \<le> m" "m < 100" "0 \<le> d" "d < 100"
proof -
  have day: "0 \<le> t div nanos_per_day" "t div nanos_per_day < days_before_year 10000"
    using assms(1) [unfolded printable_time_def, THEN conjunct1] assms(1) [unfolded printable_time_def, THEN conjunct2]
    by (simp_all add: nanos_per_day_def nanos_per_second_def div_less_iff_less_mult pos_imp_zdiv_nonneg_iff)
  show "0 \<le> y" "y < 10000" using year_of_day [OF assms(2) day] by simp_all
  note md = date_of_day [OF assms(2)]
  show "0 \<le> m" "m < 100" "0 \<le> d" using md by simp_all
  have "nat (m - 1) < 12" using md(3) by simp
  then have "month_lengths (is_leap y) ! nat (m - 1) \<le> 31"
    by (auto simp: month_lengths_def less_Suc_eq numeral_eq_Suc)
  then show "d < 100" using md(5) by simp
qed

lemma fmt_milli_layout:
  assumes "date_of_day (t div nanos_per_day) = (y, m, d)"
  defines "s \<equiv> t div 1000000 div 1000 mod 86400"
  shows "fmt_milli t = layout y m d (s div 3600) (s div 60 mod 60) (s mod 60) (t div 1000000 mod 1000)"
  using assms by (simp add: fmt_milli_def fmt_seconds_def layout_def millis_parts Let_def)

lemma day_time_less:
  fixes k l :: int
  assumes "k < l"
  defines "s \<equiv> k div 1000 mod 86400" and "r \<equiv> l div 1000 mod 86400"
  shows "k div 86400000 < l div 86400000 \<or> k div 86400000 = l div 86400000 \<and>
    (s div 3600 < r div 3600 \<or> s div 3600 = r div 3600 \<and> (s div 60 mod 60 < r div 60 mod 60 \<or>
     s div 60 mod 60 = r div 60 mod 60 \<and> (s mod 60 < r mod 60 \<or> s mod 60 = r mod 60 \<and> k mod 1000 < l mod 1000)))"
proof -
  have day: "x div 86400000 = x div 1000 div 86400" for x :: int using zdiv_zmult2_eq [of 86400 x 1000] by simp
  have hour: "x div 3600 = x div 60 div 60" for x :: int using zdiv_zmult2_eq [of 60 x 60] by simp
  have "s < r \<Longrightarrow> s div 3600 < r div 3600 \<or> s div 3600 = r div 3600 \<and> (s div 60 mod 60 < r div 60 mod 60 \<or>
      s div 60 mod 60 = r div 60 mod 60 \<and> s mod 60 < r mod 60)"
    using mixed_less [of 60 s r, OF zero_less_numeral] mixed_less [of 60 "s div 60" "r div 60", OF zero_less_numeral]
    unfolding hour by metis
  moreover have "k div 1000 < l div 1000 \<Longrightarrow> k div 86400000 < l div 86400000 \<or> k div 86400000 = l div 86400000 \<and> s < r"
    using mixed_less [of 86400 "k div 1000" "l div 1000", OF zero_less_numeral] unfolding day s_def r_def .
  moreover have "k div 1000 = l div 1000 \<Longrightarrow> k div 86400000 = l div 86400000 \<and> s = r"
    unfolding day s_def r_def by metis
  ultimately show ?thesis using mixed_less [of 1000 k l, OF zero_less_numeral assms(1)] by metis
qed

lemma fmt_milli_mono:
  assumes "printable_time a" "printable_time b" "a div 1000000 < b div 1000000"
  shows "fmt_milli a < fmt_milli b"
proof -
  obtain y m d where da: "date_of_day (a div nanos_per_day) = (y, m, d)" by (metis prod_cases3)
  obtain y' m' d' where db: "date_of_day (b div nanos_per_day) = (y', m', d')" by (metis prod_cases3)
  have hours: "0 \<le> s div 3600" "s div 3600 < 100" "0 \<le> s div 60 mod 60" "s div 60 mod 60 < 100" "0 \<le> s mod 60" "s mod 60 < 100"
    if "s = x mod 86400" for s x :: int
  proof -
    have "0 \<le> s" "s < 86400" using that by simp_all
    then show "0 \<le> s div 3600" "s div 3600 < 100" by (simp_all add: pos_imp_zdiv_nonneg_iff div_less_iff_less_mult)
    have "s div 60 mod 60 < 60" "s mod 60 < 60" by simp_all
    then show "s div 60 mod 60 < 100" "s mod 60 < 100" by linarith+
  qed simp_all
  have date: "a div nanos_per_day < b div nanos_per_day \<Longrightarrow> y < y' \<or> y = y' \<and> (m < m' \<or> m = m' \<and> d < d')"
      "a div nanos_per_day = b div nanos_per_day \<Longrightarrow> y = y' \<and> m = m' \<and> d = d'"
    using date_less [OF da db] da db by auto
  let ?s = "a div 1000000 div 1000 mod 86400" and ?r = "b div 1000000 div 1000 mod 86400"
  have lex: "y < y' \<or> y = y' \<and> (m < m' \<or> m = m' \<and> (d < d' \<or> d = d' \<and> (?s div 3600 < ?r div 3600 \<or>
      ?s div 3600 = ?r div 3600 \<and> (?s div 60 mod 60 < ?r div 60 mod 60 \<or> ?s div 60 mod 60 = ?r div 60 mod 60 \<and>
      (?s mod 60 < ?r mod 60 \<or> ?s mod 60 = ?r mod 60 \<and> a div 1000000 mod 1000 < b div 1000000 mod 1000)))))"
    using day_time_less [OF assms(3), folded millis_parts(1)] date by blast
  show ?thesis
    unfolding fmt_milli_layout [OF da] fmt_milli_layout [OF db]
    by (intro layout_less lex date_fields [OF assms(1) da] date_fields [OF assms(2) db] hours [OF refl]
        pos_mod_sign pos_mod_bound zero_less_numeral)
qed

lemma fmt_milli_less_iff:
  assumes "printable_time a" "printable_time b"
  shows "fmt_milli a < fmt_milli b \<longleftrightarrow> to_millis a < to_millis b"
proof -
  have t: "to_millis x = x div 1000000 * 1000000" for x by (simp add: to_millis_def minus_mod_eq_div_mult)
  have e: "fmt_milli a = fmt_milli b" if "a div 1000000 = b div 1000000"
    using that fmt_milli_to_millis [of a] fmt_milli_to_millis [of b] by (simp add: t)
  show ?thesis
  proof (cases "a div 1000000" "b div 1000000" rule: linorder_cases)
    case greater
    then show ?thesis using fmt_milli_mono [OF assms(2,1)] by (auto simp: t)
  qed (use fmt_milli_mono [OF assms] e in \<open>auto simp: t\<close>)
qed

end
