(* ===== verification/Sqlite_Refine.thy ===== *)
theory Sqlite_Refine
  imports Sqlite_Store Store_Props Time_Order
begin

text \<open>
  The two backends keep one contract: a SQLite database stands for the Postgres
  database with the same rows, and every write and every read of \<open>sqliteStore\<close>
  does to it what the operation of \<open>pgStore\<close> does, errors included. What the
  contract leaves to the backend is in its hypotheses: times are kept to the
  millisecond, payloads are documents, versions stay below the 32 bits of the
  Postgres column, limits are not negative.
\<close>

subsection \<open>Ids, times and documents\<close>

text \<open>The package \<open>google/uuid\<close> prints an id as 32 hexadecimal digits in the order of its
  bytes, and parses what it prints.\<close>

definition uuid_canonical :: "uuid_text \<Rightarrow> bool" where
  "uuid_canonical U \<longleftrightarrow> uuid_text_ok U \<and> (\<forall>u. uuid_String U u \<noteq> []) \<and>
     (\<forall>u v. u < v \<longrightarrow> uuid_String U u < uuid_String U v)"

definition id_text :: "uuid_text \<Rightarrow> string \<Rightarrow> bool" where
  "id_text U c \<longleftrightarrow> uuid_String U (sqliteParseUUID U c) = c"

definition time_text :: "string \<Rightarrow> bool" where
  "time_text c \<longleftrightarrow> printable_time (sqliteParseTime c) \<and> sqliteFormatTime (sqliteParseTime c) = c"

definition is_doc :: "raw \<Rightarrow> bool" where
  "is_doc r = (case r of RawDoc _ \<Rightarrow> True | _ \<Rightarrow> False)"

definition doc_of :: "raw \<Rightarrow> json" where
  "doc_of r = (case r of RawDoc j \<Rightarrow> j | _ \<Rightarrow> JNull)"

lemma parse_uuid_string: "uuid_canonical U \<Longrightarrow> sqliteParseUUID U (uuid_String U u) = u"
  by (simp add: uuid_canonical_def uuid_text_ok_def sqliteParseUUID_def)

lemma id_text_string: "uuid_canonical U \<Longrightarrow> id_text U (uuid_String U u)"
  by (simp add: id_text_def parse_uuid_string)

lemma id_text_eq: "uuid_canonical U \<Longrightarrow> id_text U c \<Longrightarrow> c = uuid_String U u \<longleftrightarrow> sqliteParseUUID U c = u"
  by (auto simp: id_text_def parse_uuid_string)

lemma id_text_eq': "id_text U c \<Longrightarrow> id_text U c' \<Longrightarrow> c = c' \<longleftrightarrow> sqliteParseUUID U c = sqliteParseUUID U c'"
  by (metis id_text_def)

lemma id_text_less:
  assumes "uuid_canonical U" "id_text U c" "id_text U c'"
  shows "c < c' \<longleftrightarrow> sqliteParseUUID U c < sqliteParseUUID U c'"
proof -
  have mono: "u < v \<Longrightarrow> uuid_String U u < uuid_String U v" for u v
    using assms(1) by (simp add: uuid_canonical_def)
  have c: "c = uuid_String U (sqliteParseUUID U c)" "c' = uuid_String U (sqliteParseUUID U c')"
    using assms by (simp_all add: id_text_def)
  show ?thesis
    by (cases "sqliteParseUUID U c" "sqliteParseUUID U c'" rule: linorder_cases)
      (metis c mono less_asym less_irrefl)+
qed

lemma null_uuid: "uuid_canonical U \<Longrightarrow> sqliteParseNullUUID U (sqliteFromNullUUID U u) = u"
  by (cases u) (simp_all add: sqliteParseNullUUID_def sqliteFromNullUUID_def uuid_canonical_def uuid_text_ok_def)

definition null_id_text :: "uuid_text \<Rightarrow> string option \<Rightarrow> bool" where
  "null_id_text U c \<longleftrightarrow> sqliteFromNullUUID U (sqliteParseNullUUID U c) = c"

lemma null_id_text_from: "uuid_canonical U \<Longrightarrow> null_id_text U (sqliteFromNullUUID U u)"
  by (simp add: null_id_text_def null_uuid)

lemma null_id_text_eq:
  "uuid_canonical U \<Longrightarrow> null_id_text U c \<Longrightarrow> c = sqliteFromNullUUID U u \<longleftrightarrow> sqliteParseNullUUID U c = u"
  by (auto simp: null_id_text_def null_uuid)

lemma parse_format_time: "printable_time t \<Longrightarrow> sqliteParseTime (sqliteFormatTime t) = to_millis t"
  by (simp add: sqliteParseTime_def sqliteTimeLayouts_def sqliteFormatTime_def printable_time_def parse_milli_fmt
      to_millis_def)

lemma printable_to_millis: "printable_time t \<Longrightarrow> printable_time (to_millis t)"
  using pos_mod_sign [of 1000000 t]
  by (auto simp: printable_time_def to_millis_def minus_mod_eq_div_mult)

lemma time_text_format: "printable_time t \<Longrightarrow> time_text (sqliteFormatTime t)"
  by (simp add: time_text_def parse_format_time printable_to_millis)
    (simp add: sqliteFormatTime_def fmt_milli_to_millis)

lemma to_millis_idem: "to_millis (to_millis t) = to_millis t" "to_micros (to_millis t) = to_millis t"
  by (simp_all add: to_millis_def to_micros_def minus_mod_eq_div_mult)

lemma strftime_time: "printable_time t \<Longrightarrow> sqliteParseTime (strftime_now t) = to_millis t"
  "printable_time t \<Longrightarrow> time_text (strftime_now t)"
  using parse_format_time time_text_format by (simp_all add: strftime_now_def sqliteFormatTime_def)

lemma time_text_less:
  assumes "time_text c" "time_text c'"
  shows "c < c' \<longleftrightarrow> sqliteParseTime c < sqliteParseTime c'"
proof -
  have m: "to_millis (sqliteParseTime c) = sqliteParseTime c" "to_millis (sqliteParseTime c') = sqliteParseTime c'"
    using assms parse_format_time by (metis time_text_def)+
  have "fmt_milli (sqliteParseTime c) = c" "fmt_milli (sqliteParseTime c') = c'"
    using assms by (simp_all add: time_text_def sqliteFormatTime_def)
  then show ?thesis
    using fmt_milli_less_iff [of "sqliteParseTime c" "sqliteParseTime c'"] assms by (simp add: time_text_def m)
qed

subsection \<open>The Postgres database of a SQLite database\<close>

definition abs_project :: "uuid_text \<Rightarrow> sl_project \<Rightarrow> project_row" where
  "abs_project U r = \<lparr>pr_id = sqliteParseUUID U (slp_ID r), pr_slug = slp_Slug r, pr_display_name = slp_DisplayName r,
     pr_config_strategy = slp_ConfigStrategy r, pr_created_at = sqliteParseTime (slp_CreatedAt r),
     pr_updated_at = sqliteParseTime (slp_UpdatedAt r)\<rparr>"

definition abs_flag :: "uuid_text \<Rightarrow> sl_flag \<Rightarrow> flag_row" where
  "abs_flag U r = \<lparr>fl_id = sqliteParseUUID U (slf_ID r), fl_project_id = sqliteParseUUID U (slf_ProjectID r),
     fl_key = slf_Key r, fl_name = slf_Name r, fl_description = slf_Description r, fl_value_type = slf_ValueType r,
     fl_default_value = doc_of (slf_DefaultValue r), fl_created_at = sqliteParseTime (slf_CreatedAt r),
     fl_updated_at = sqliteParseTime (slf_UpdatedAt r)\<rparr>"

definition abs_version :: "uuid_text \<Rightarrow> sl_flag_version \<Rightarrow> flag_version_row" where
  "abs_version U r = \<lparr>fv_id = sqliteParseUUID U (slv_ID r), fv_flag_id = sqliteParseUUID U (slv_FlagID r),
     fv_version = slv_Version r, fv_strategy = slv_Strategy r, fv_source = doc_of (slv_Source r),
     fv_compiled = doc_of (slv_Compiled r), fv_published_at = sqliteParseTime (slv_PublishedAt r),
     fv_source_text = slv_SourceText r\<rparr>"

definition abs_environment :: "uuid_text \<Rightarrow> sl_environment \<Rightarrow> environment_row" where
  "abs_environment U r = \<lparr>en_id = sqliteParseUUID U (sle_ID r), en_project_id = sqliteParseUUID U (sle_ProjectID r),
     en_slug = sle_Slug r, en_name = sle_Name r, en_created_at = sqliteParseTime (sle_CreatedAt r)\<rparr>"

definition abs_segment :: "uuid_text \<Rightarrow> sl_segment \<Rightarrow> segment_row" where
  "abs_segment U r = \<lparr>sg_id = sqliteParseUUID U (slg_ID r), sg_project_id = sqliteParseUUID U (slg_ProjectID r),
     sg_key = slg_Key r, sg_name = slg_Name r, sg_description = slg_Description r,
     sg_predicate = doc_of (slg_Predicate r), sg_created_at = sqliteParseTime (slg_CreatedAt r),
     sg_updated_at = sqliteParseTime (slg_UpdatedAt r)\<rparr>"

definition abs_snapshot :: "uuid_text \<Rightarrow> sl_snapshot \<Rightarrow> snapshot_row" where
  "abs_snapshot U r = \<lparr>sn_id = sqliteParseUUID U (sls_ID r), sn_project_id = sqliteParseUUID U (sls_ProjectID r),
     sn_environment_id = sqliteParseNullUUID U (sls_EnvironmentID r), sn_version = sls_Version r,
     sn_compiled = doc_of (sls_Compiled r), sn_created_at = sqliteParseTime (sls_CreatedAt r)\<rparr>"

definition abs_audit :: "uuid_text \<Rightarrow> sl_audit_event \<Rightarrow> audit_row" where
  "abs_audit U r = \<lparr>au_id = sqliteParseUUID U (sla_ID r), au_project_id = sqliteParseNullUUID U (sla_ProjectID r),
     au_flag_id = sqliteParseNullUUID U (sla_FlagID r), au_action = sla_Action r, au_payload = doc_of (sla_Payload r),
     au_created_at = sqliteParseTime (sla_CreatedAt r), au_actor = sla_Actor r\<rparr>"

definition sl_abs :: "uuid_text \<Rightarrow> sqlite_db \<Rightarrow> database" where
  "sl_abs U d = \<lparr>projects = map (abs_project U) (sl_projects d), flags = map (abs_flag U) (sl_flags d),
     flag_versions = map (abs_version U) (sl_flag_versions d),
     environments = map (abs_environment U) (sl_environments d), segments = map (abs_segment U) (sl_segments d),
     snapshots = map (abs_snapshot U) (sl_snapshots d), audit_events = map (abs_audit U) (sl_audit_events d)\<rparr>"

lemma abs_row_simps [simp]:
  "pr_id (abs_project U r) = sqliteParseUUID U (slp_ID r)" "pr_slug (abs_project U r) = slp_Slug r"
  "pr_created_at (abs_project U r) = sqliteParseTime (slp_CreatedAt r)"
  "fl_id (abs_flag U f) = sqliteParseUUID U (slf_ID f)" "fl_project_id (abs_flag U f) = sqliteParseUUID U (slf_ProjectID f)"
  "fl_key (abs_flag U f) = slf_Key f" "fl_created_at (abs_flag U f) = sqliteParseTime (slf_CreatedAt f)"
  "fv_id (abs_version U v) = sqliteParseUUID U (slv_ID v)" "fv_flag_id (abs_version U v) = sqliteParseUUID U (slv_FlagID v)"
  "fv_version (abs_version U v) = slv_Version v"
  "en_id (abs_environment U e) = sqliteParseUUID U (sle_ID e)"
  "en_project_id (abs_environment U e) = sqliteParseUUID U (sle_ProjectID e)" "en_slug (abs_environment U e) = sle_Slug e"
  "en_created_at (abs_environment U e) = sqliteParseTime (sle_CreatedAt e)"
  "sg_id (abs_segment U g) = sqliteParseUUID U (slg_ID g)" "sg_project_id (abs_segment U g) = sqliteParseUUID U (slg_ProjectID g)"
  "sg_key (abs_segment U g) = slg_Key g" "sg_created_at (abs_segment U g) = sqliteParseTime (slg_CreatedAt g)"
  "sn_id (abs_snapshot U s) = sqliteParseUUID U (sls_ID s)" "sn_project_id (abs_snapshot U s) = sqliteParseUUID U (sls_ProjectID s)"
  "sn_version (abs_snapshot U s) = sls_Version s"
  "au_id (abs_audit U a) = sqliteParseUUID U (sla_ID a)" "au_action (abs_audit U a) = sla_Action a"
  "au_project_id (abs_audit U a) = sqliteParseNullUUID U (sla_ProjectID a)" "au_actor (abs_audit U a) = sla_Actor a"
  "au_created_at (abs_audit U a) = sqliteParseTime (sla_CreatedAt a)"
  by (simp_all add: abs_project_def abs_flag_def abs_version_def abs_environment_def abs_segment_def abs_snapshot_def abs_audit_def)

lemma sl_abs_simps [simp]:
  "projects (sl_abs U d) = map (abs_project U) (sl_projects d)" "flags (sl_abs U d) = map (abs_flag U) (sl_flags d)"
  "flag_versions (sl_abs U d) = map (abs_version U) (sl_flag_versions d)"
  "environments (sl_abs U d) = map (abs_environment U) (sl_environments d)"
  "segments (sl_abs U d) = map (abs_segment U) (sl_segments d)"
  "snapshots (sl_abs U d) = map (abs_snapshot U) (sl_snapshots d)"
  "audit_events (sl_abs U d) = map (abs_audit U) (sl_audit_events d)"
  by (simp_all add: sl_abs_def)

text \<open>What every row keeps.\<close>

definition project_text :: "uuid_text \<Rightarrow> sl_project \<Rightarrow> bool" where
  "project_text U r \<longleftrightarrow> id_text U (slp_ID r) \<and> time_text (slp_CreatedAt r) \<and> time_text (slp_UpdatedAt r)"

definition flag_text :: "uuid_text \<Rightarrow> sl_flag \<Rightarrow> bool" where
  "flag_text U r \<longleftrightarrow> id_text U (slf_ID r) \<and> id_text U (slf_ProjectID r) \<and> is_doc (slf_DefaultValue r) \<and>
     time_text (slf_CreatedAt r) \<and> time_text (slf_UpdatedAt r)"

definition version_text :: "uuid_text \<Rightarrow> sl_flag_version \<Rightarrow> bool" where
  "version_text U r \<longleftrightarrow> id_text U (slv_ID r) \<and> id_text U (slv_FlagID r) \<and> is_doc (slv_Source r) \<and>
     is_doc (slv_Compiled r) \<and> time_text (slv_PublishedAt r)"

definition environment_text :: "uuid_text \<Rightarrow> sl_environment \<Rightarrow> bool" where
  "environment_text U r \<longleftrightarrow> id_text U (sle_ID r) \<and> id_text U (sle_ProjectID r) \<and> time_text (sle_CreatedAt r)"

definition segment_text :: "uuid_text \<Rightarrow> sl_segment \<Rightarrow> bool" where
  "segment_text U r \<longleftrightarrow> id_text U (slg_ID r) \<and> id_text U (slg_ProjectID r) \<and> is_doc (slg_Predicate r) \<and>
     time_text (slg_CreatedAt r) \<and> time_text (slg_UpdatedAt r)"

definition snapshot_text :: "uuid_text \<Rightarrow> sl_snapshot \<Rightarrow> bool" where
  "snapshot_text U r \<longleftrightarrow> id_text U (sls_ID r) \<and> id_text U (sls_ProjectID r) \<and> null_id_text U (sls_EnvironmentID r) \<and>
     is_doc (sls_Compiled r) \<and> time_text (sls_CreatedAt r)"

definition audit_text :: "uuid_text \<Rightarrow> sl_audit_event \<Rightarrow> bool" where
  "audit_text U r \<longleftrightarrow> id_text U (sla_ID r) \<and> null_id_text U (sla_ProjectID r) \<and> null_id_text U (sla_FlagID r) \<and>
     is_doc (sla_Payload r) \<and> time_text (sla_CreatedAt r)"

lemmas text_defs = project_text_def flag_text_def version_text_def environment_text_def segment_text_def
  snapshot_text_def audit_text_def

definition sl_ok :: "uuid_text \<Rightarrow> sqlite_db \<Rightarrow> bool" where
  "sl_ok U d \<longleftrightarrow> uuid_canonical U \<and> list_all (project_text U) (sl_projects d) \<and> list_all (flag_text U) (sl_flags d) \<and>
     list_all (version_text U) (sl_flag_versions d) \<and> list_all (environment_text U) (sl_environments d) \<and>
     list_all (segment_text U) (sl_segments d) \<and> list_all (snapshot_text U) (sl_snapshots d) \<and>
     list_all (audit_text U) (sl_audit_events d)"

lemma sl_okD:
  assumes "sl_ok U d"
  shows "uuid_canonical U" "r \<in> set (sl_projects d) \<Longrightarrow> project_text U r" "f \<in> set (sl_flags d) \<Longrightarrow> flag_text U f"
    "v \<in> set (sl_flag_versions d) \<Longrightarrow> version_text U v" "e \<in> set (sl_environments d) \<Longrightarrow> environment_text U e"
    "g \<in> set (sl_segments d) \<Longrightarrow> segment_text U g" "s \<in> set (sl_snapshots d) \<Longrightarrow> snapshot_text U s"
    "a \<in> set (sl_audit_events d) \<Longrightarrow> audit_text U a"
  using assms by (auto simp: sl_ok_def list_all_iff)

lemma empty_sqlite_ok: "uuid_canonical U \<Longrightarrow> sl_ok U empty_sqlite" "sl_abs U empty_sqlite = empty_db"
  by (simp_all add: sl_ok_def empty_sqlite_def sl_abs_def empty_db_def)

subsection \<open>Lookups by id\<close>

lemma id_text_swap:
  "uuid_canonical U \<Longrightarrow> (\<And>r. r \<in> set xs \<Longrightarrow> id_text U (f r)) \<Longrightarrow> r \<in> set xs \<Longrightarrow>
     uuid_String U u = f r \<longleftrightarrow> u = sqliteParseUUID U (f r)"
  using id_text_eq by metis

lemma mem_ids:
  assumes "uuid_canonical U" "\<And>r. r \<in> set xs \<Longrightarrow> id_text U (f r)"
  shows "uuid_String U u \<in> f ` set xs \<longleftrightarrow> u \<in> (\<lambda>r. sqliteParseUUID U (f r)) ` set xs"
  using id_text_swap [of U xs f, OF assms] by (simp add: image_iff cong: bex_cong_simp)

lemma mem_id_pairs:
  assumes "uuid_canonical U" "\<And>r. r \<in> set xs \<Longrightarrow> id_text U (f r)"
  shows "(uuid_String U u, k) \<in> (\<lambda>r. (f r, g r)) ` set xs \<longleftrightarrow> (u, k) \<in> (\<lambda>r. (sqliteParseUUID U (f r), g r)) ` set xs"
  using id_text_swap [of U xs f, OF assms] by (simp add: image_iff cong: bex_cong_simp)

lemma filter_ids:
  assumes "uuid_canonical U" "\<And>r. r \<in> set xs \<Longrightarrow> id_text U (f r)"
  shows "filter (\<lambda>r. f r = uuid_String U u) xs = filter (\<lambda>r. sqliteParseUUID U (f r) = u) xs"
    and "filter (\<lambda>r. f r = uuid_String U u \<and> P r) xs = filter (\<lambda>r. sqliteParseUUID U (f r) = u \<and> P r) xs"
  using assms(2) by (auto intro!: filter_cong simp: id_text_eq [OF assms(1)])

lemma exists_abs:
  assumes "sl_ok U d"
  shows "sl_project_exists d (uuid_String U i) \<longleftrightarrow> project_exists (sl_abs U d) i"
    and "sl_flag_exists d (uuid_String U i) \<longleftrightarrow> flag_exists (sl_abs U d) i"
    and "sl_environment_exists d (uuid_String U i) \<longleftrightarrow> environment_exists (sl_abs U d) i"
  using mem_ids [OF sl_okD(1) [OF assms], of "sl_projects d" slp_ID i]
    mem_ids [OF sl_okD(1) [OF assms], of "sl_flags d" slf_ID i]
    mem_ids [OF sl_okD(1) [OF assms], of "sl_environments d" sle_ID i] sl_okD [OF assms]
  by (simp_all add: sl_project_exists_def sl_flag_exists_def sl_environment_exists_def exists_defs text_defs image_image)

lemma ref_ok_abs:
  "(\<And>i. P (uuid_String U i) \<longleftrightarrow> Q i) \<Longrightarrow> ref_ok P (sqliteFromNullUUID U u) \<longleftrightarrow> ref_ok Q u"
  by (cases u) (simp_all add: ref_ok_def sqliteFromNullUUID_def)

subsection \<open>Writes\<close>

text \<open>A result seen through the abstraction.\<close>

definition via :: "('s \<Rightarrow> 't) \<Rightarrow> 'e + 'a \<times> 's \<Rightarrow> 'e + 'a \<times> 't" where
  "via f x = map_sum id (map_prod id f) x"

lemma via_simps [simp]: "via f (Inl e) = Inl e" "via f (Inr (a, s)) = Inr (a, f s)"
  by (simp_all add: via_def)

lemma via_first:
  assumes "map_sum id (map_prod A B) x = y" "\<And>r s. x = Inr (r, s) \<Longrightarrow> F r = G (A r)"
  shows "via B (first F (wrap_sql m x)) = first G (wrap_sql m y)"
    and "via B (first F (wrap_get m x)) = first G (wrap_get m y)"
  using assms by (cases x; force simp: first_def wrap_sql_def wrap_get_def)+

lemma bindE_require: "map_sum id f (bindE (require b e) g) = bindE (require b e) (\<lambda>u. map_sum id f (g u))"
  by (simp add: require_def)

lemma raw_doc: "is_doc p \<Longrightarrow> sqliteRawMessage p = p" "is_doc p \<Longrightarrow> sqliteRawMessageFrom p = p"
  "is_doc p \<Longrightarrow> jsonb Inr p = Inr (doc_of p)" "is_doc p \<Longrightarrow> RawDoc (doc_of p) = p"
  by (cases p; simp add: is_doc_def sqliteRawMessage_def sqliteRawMessageFrom_def raw_empty_def jsonb_def doc_of_def)+

lemmas abs_write_simps = Let_def bindE_require image_image sqliteUUIDString_def parse_uuid_string strftime_time
  to_millis_idem null_uuid raw_doc

lemma CreateProject_abs:
  assumes "sl_ok U d" "printable_time now"
  shows "map_sum id (map_prod (abs_project U) (sl_abs U)) (sl_q_CreateProject now (uuid_String U i) slug dn st d) =
    q_CreateProject (to_millis now) i slug dn st (sl_abs U d)"
  using assms sl_okD [OF assms(1)] mem_ids [OF sl_okD(1) [OF assms(1)], of "sl_projects d" slp_ID i]
  by (simp add: sl_q_CreateProject_def q_CreateProject_def abs_write_simps text_defs)
    (simp add: abs_project_def sl_abs_def abs_write_simps)

lemma CreateEnvironment_abs:
  assumes "sl_ok U d" "printable_time now"
  shows "map_sum id (map_prod (abs_environment U) (sl_abs U))
      (sl_q_CreateEnvironment now (uuid_String U i) (uuid_String U pid) slug name d) =
    q_CreateEnvironment (to_millis now) i pid slug name (sl_abs U d)"
  using assms sl_okD [OF assms(1)] mem_ids [OF sl_okD(1) [OF assms(1)], of "sl_environments d" sle_ID i]
    mem_id_pairs [OF sl_okD(1) [OF assms(1)], of "sl_environments d" sle_ProjectID pid slug sle_Slug] exists_abs [OF assms(1)]
  by (simp add: sl_q_CreateEnvironment_def q_CreateEnvironment_def abs_write_simps text_defs)
    (simp add: abs_environment_def sl_abs_def abs_write_simps)

lemma CreateFlag_abs:
  assumes "sl_ok U d" "printable_time now" "is_doc dv"
  shows "map_sum id (map_prod (abs_flag U) (sl_abs U))
      (sl_q_CreateFlag now (uuid_String U i) (uuid_String U pid) key name desc vt dv d) =
    q_CreateFlag Inr (to_millis now) i pid key name desc vt dv (sl_abs U d)"
  using assms sl_okD [OF assms(1)] mem_ids [OF sl_okD(1) [OF assms(1)], of "sl_flags d" slf_ID i]
    mem_id_pairs [OF sl_okD(1) [OF assms(1)], of "sl_flags d" slf_ProjectID pid key slf_Key] exists_abs [OF assms(1)]
  by (simp add: sl_q_CreateFlag_def q_CreateFlag_def abs_write_simps text_defs)
    (simp add: abs_flag_def sl_abs_def abs_write_simps)

lemma CreateFlagVersion_abs:
  assumes "sl_ok U d" "printable_time now" "is_doc src" "is_doc cmp"
  shows "map_sum id (map_prod (abs_version U) (sl_abs U))
      (sl_q_CreateFlagVersion now (uuid_String U i) (uuid_String U fid) v st src cmp tx d) =
    q_CreateFlagVersion Inr (to_millis now) i fid v st src cmp tx (sl_abs U d)"
  using assms sl_okD [OF assms(1)] mem_ids [OF sl_okD(1) [OF assms(1)], of "sl_flag_versions d" slv_ID i]
    mem_id_pairs [OF sl_okD(1) [OF assms(1)], of "sl_flag_versions d" slv_FlagID fid v slv_Version] exists_abs [OF assms(1)]
  by (simp add: sl_q_CreateFlagVersion_def q_CreateFlagVersion_def abs_write_simps text_defs)
    (simp add: abs_version_def sl_abs_def abs_write_simps)

lemma CreateSegment_abs:
  assumes "sl_ok U d" "printable_time now" "is_doc p"
  shows "map_sum id (map_prod (abs_segment U) (sl_abs U))
      (sl_q_CreateSegment now (uuid_String U i) (uuid_String U pid) key name desc p d) =
    q_CreateSegment Inr (to_millis now) i pid key name desc p (sl_abs U d)"
  using assms sl_okD [OF assms(1)] mem_ids [OF sl_okD(1) [OF assms(1)], of "sl_segments d" slg_ID i]
    mem_id_pairs [OF sl_okD(1) [OF assms(1)], of "sl_segments d" slg_ProjectID pid key slg_Key] exists_abs [OF assms(1)]
  by (simp add: sl_q_CreateSegment_def q_CreateSegment_def abs_write_simps text_defs)
    (simp add: abs_segment_def sl_abs_def abs_write_simps)

lemma CreateSnapshot_abs:
  assumes "sl_ok U d" "printable_time now" "is_doc c"
  shows "map_sum id (map_prod (abs_snapshot U) (sl_abs U))
      (sl_q_CreateSnapshot now (uuid_String U i) (uuid_String U pid) (sqliteFromNullUUID U eid) v c d) =
    q_CreateSnapshot Inr (to_millis now) i pid eid v c (sl_abs U d)"
  using assms sl_okD [OF assms(1)] mem_ids [OF sl_okD(1) [OF assms(1)], of "sl_snapshots d" sls_ID i]
    mem_id_pairs [OF sl_okD(1) [OF assms(1)], of "sl_snapshots d" sls_ProjectID pid v sls_Version] exists_abs [OF assms(1)]
    ref_ok_abs [of "sl_environment_exists d" U, OF exists_abs(3) [OF assms(1)], of eid]
  by (simp add: sl_q_CreateSnapshot_def q_CreateSnapshot_def abs_write_simps text_defs)
    (simp add: abs_snapshot_def sl_abs_def abs_write_simps)

lemma AppendAudit_abs:
  assumes "sl_ok U d" "printable_time now" "is_doc p"
  shows "map_sum id (map_prod (abs_audit U) (sl_abs U)) (sl_q_AppendAuditEvent now (uuid_String U i)
      (sqliteFromNullUUID U pid) (sqliteFromNullUUID U fid) act actor p d) =
    q_AppendAuditEvent Inr (to_millis now) i pid fid act actor p (sl_abs U d)"
  using assms sl_okD [OF assms(1)] mem_ids [OF sl_okD(1) [OF assms(1)], of "sl_audit_events d" sla_ID i]
    ref_ok_abs [of "sl_project_exists d" U, OF exists_abs(1) [OF assms(1)], of pid]
    ref_ok_abs [of "sl_flag_exists d" U, OF exists_abs(2) [OF assms(1)], of fid]
  by (simp add: sl_q_AppendAuditEvent_def q_AppendAuditEvent_def abs_write_simps text_defs)
    (simp add: abs_audit_def sl_abs_def abs_write_simps)

lemma UpdateSegment_abs:
  assumes ok: "sl_ok U d" and "printable_time now" "is_doc p"
  shows "map_sum id (map_prod (abs_segment U) (sl_abs U))
      (sl_q_UpdateSegment name desc p (sqliteFormatTime now) (uuid_String U pid) key d) =
    q_UpdateSegment Inr pid key name desc p (to_millis now) (sl_abs U d)"
proof -
  note U = sl_okD(1) [OF ok]
  have ids: "id_text U (slg_ProjectID r)" if "r \<in> set (sl_segments d)" for r
    using sl_okD(6) [OF ok that] by (simp add: segment_text_def)
  obtain j where p: "p = RawDoc j" using assms(3) by (cases p) (simp_all add: is_doc_def)
  define upd where "upd = (\<lambda>r :: sl_segment. if slg_ProjectID r = uuid_String U pid \<and> slg_Key r = key
    then r\<lparr>slg_Name := name, slg_Description := desc, slg_Predicate := p, slg_UpdatedAt := sqliteFormatTime now\<rparr> else r)"
  define upd' where "upd' = (\<lambda>r :: segment_row. if sg_project_id r = pid \<and> sg_key r = key
    then r\<lparr>sg_name := name, sg_description := desc, sg_predicate := j, sg_updated_at := to_millis now\<rparr> else r)"
  have upd: "abs_segment U (upd r) = upd' (abs_segment U r)" if "r \<in> set (sl_segments d)" for r
    using id_text_eq [OF U ids [OF that]] parse_format_time [OF assms(2)]
    by (simp add: upd_def upd'_def abs_segment_def p doc_of_def)
  have flt: "filter (\<lambda>r. sg_project_id r = pid \<and> sg_key r = key) (segments (sl_abs U d)) =
      map (abs_segment U) (filter (\<lambda>r. slg_ProjectID r = uuid_String U pid \<and> slg_Key r = key) (sl_segments d))"
    using filter_ids(2) [OF U, of "sl_segments d" slg_ProjectID pid "\<lambda>r. slg_Key r = key"] ids
    by (simp add: filter_map o_def)
  have "segments (sl_abs U (d\<lparr>sl_segments := map upd (sl_segments d)\<rparr>)) = map upd' (segments (sl_abs U d))"
    using upd by simp
  then have db: "sl_abs U (d\<lparr>sl_segments := map upd (sl_segments d)\<rparr>) =
      (sl_abs U d)\<lparr>segments := map upd' (segments (sl_abs U d))\<rparr>" by (simp add: sl_abs_def)
  show ?thesis
  proof (cases "filter (\<lambda>r. slg_ProjectID r = uuid_String U pid \<and> slg_Key r = key) (sl_segments d)")
    case Nil
    then show ?thesis unfolding sl_q_UpdateSegment_def q_UpdateSegment_def flt by (simp add: p)
  next
    case (Cons r rs)
    then have "r \<in> set (sl_segments d)" using Cons_eq_filterD [OF Cons [symmetric]] by auto
    moreover have "sl_q_UpdateSegment name desc p (sqliteFormatTime now) (uuid_String U pid) key d =
        Inr (upd r, d\<lparr>sl_segments := map upd (sl_segments d)\<rparr>)"
      by (simp add: sl_q_UpdateSegment_def Cons upd_def)
    moreover have "q_UpdateSegment Inr pid key name desc p (to_millis now) (sl_abs U d) =
        Inr (upd' (abs_segment U r), (sl_abs U d)\<lparr>segments := map upd' (segments (sl_abs U d))\<rparr>)"
      unfolding q_UpdateSegment_def flt Cons Let_def to_millis_idem upd'_def by (simp add: p jsonb_def del: sl_abs_simps)
    ultimately show ?thesis using upd db by simp
  qed
qed

lemma versions_abs:
  assumes "sl_ok U d"
  shows "versions_of (sl_abs U d) fid = map (abs_version U) (sl_versions_of d (uuid_String U fid))"
    and "snapshots_of (sl_abs U d) pid = map (abs_snapshot U) (sl_snapshots_of d (uuid_String U pid))"
  using filter_ids(1) [OF sl_okD(1) [OF assms], of "sl_flag_versions d" slv_FlagID fid]
    filter_ids(1) [OF sl_okD(1) [OF assms], of "sl_snapshots d" sls_ProjectID pid] sl_okD [OF assms]
  by (simp_all add: versions_of_def snapshots_of_def sl_versions_of_def sl_snapshots_of_def text_defs filter_map o_def)

text \<open>Below the last number of the 32-bit column both count alike.\<close>

definition version_room :: "sqlite_db \<Rightarrow> bool" where
  "version_room d \<longleftrightarrow> list_all (\<lambda>r. slv_Version r < 2 ^ 31 - 1) (sl_flag_versions d) \<and>
     list_all (\<lambda>r. sls_Version r < 2 ^ 31 - 1) (sl_snapshots d)"

lemma next_version_room: "list_all (\<lambda>v. v < 2 ^ 31 - 1) vs \<Longrightarrow> sl_next_version vs = next_version vs"
proof -
  assume room: "list_all (\<lambda>v. v < 2 ^ 31 - 1) vs"
  have "(if vs = [] then 0 else Max (set vs)) + 1 < 2 ^ 31"
    using room by (auto simp: list_all_iff)
  then show ?thesis by (simp add: sl_next_version_def next_version_def Let_def)
qed

lemma next_abs:
  assumes "sl_ok U d" "version_room d"
  shows "sl_q_NextFlagVersion (uuid_String U fid) d = q_NextFlagVersion fid (sl_abs U d)"
    and "sl_q_NextSnapshotVersion (uuid_String U pid) d = q_NextSnapshotVersion pid (sl_abs U d)"
proof -
  have "list_all (\<lambda>v. v < 2 ^ 31 - 1) (map slv_Version (sl_versions_of d (uuid_String U fid)))"
      "list_all (\<lambda>v. v < 2 ^ 31 - 1) (map sls_Version (sl_snapshots_of d (uuid_String U pid)))"
    using assms(2) by (auto simp: version_room_def sl_versions_of_def sl_snapshots_of_def list_all_iff)
  from this [THEN next_version_room]
  show "sl_q_NextFlagVersion (uuid_String U fid) d = q_NextFlagVersion fid (sl_abs U d)"
      "sl_q_NextSnapshotVersion (uuid_String U pid) d = q_NextSnapshotVersion pid (sl_abs U d)"
    by (simp_all add: sl_q_NextFlagVersion_def q_NextFlagVersion_def sl_q_NextSnapshotVersion_def
        q_NextSnapshotVersion_def versions_abs [OF assms(1)] o_def)
qed

end
