(* ===== verification/Backends.thy ===== *)
theory Backends
  imports Sqlite_Refine
begin

text \<open>
  The interface \<open>Tx\<close> (with \<open>AppendAudit\<close> of \<open>Store\<close>) as a datatype of
  writes with one dispatcher per backend, and the contract the backends share as a
  locale: what holds of the Postgres store after any sequence of writes holds of
  every store that refines it.
\<close>

subsection \<open>The interface\<close>

datatype store_write =
    WCreateProject string string string
  | WCreateFlag CreateFlagParams
  | WCreateEnvironment uuid string string
  | WCreateSegment CreateSegmentParams
  | WUpdateSegment UpdateSegmentParams
  | WPublishFlagVersion PublishFlagVersionParams
  | WCompileSnapshot CompileSnapshotParams
  | WAppendAudit AppendAuditParams

datatype store_value =
    VProject Project
  | VFlag Flag
  | VEnvironment Environment
  | VSegment Segment
  | VFlagVersion FlagVersion
  | VSnapshot Snapshot
  | VAuditEvent AuditEvent
  | VLatestFlagVersion LatestFlagVersion

fun pg_write :: "json_in \<Rightarrow> time \<Rightarrow> uuid \<Rightarrow> store_write \<Rightarrow> store_value op" where
  "pg_write J now i (WCreateProject slug name st) d = first VProject (tx_CreateProject now i slug name st d)"
| "pg_write J now i (WCreateFlag p) d = first VFlag (tx_CreateFlag J now i p d)"
| "pg_write J now i (WCreateEnvironment pid slug name) d = first VEnvironment (tx_CreateEnvironment now i pid slug name d)"
| "pg_write J now i (WCreateSegment p) d = first VSegment (tx_CreateSegment J now i p d)"
| "pg_write J now i (WUpdateSegment p) d = first VSegment (tx_UpdateSegment J now p d)"
| "pg_write J now i (WPublishFlagVersion p) d = first VFlagVersion (tx_PublishFlagVersion J now i p d)"
| "pg_write J now i (WCompileSnapshot p) d = first VSnapshot (tx_CompileSnapshot J now i p d)"
| "pg_write J now i (WAppendAudit p) d = first VAuditEvent (AppendAudit J now i p d)"

fun sl_write :: "uuid_text \<Rightarrow> time \<Rightarrow> uuid \<Rightarrow> store_write \<Rightarrow> store_value sl_op" where
  "sl_write U now i (WCreateProject slug name st) d = first VProject (sltx_CreateProject U now i slug name st d)"
| "sl_write U now i (WCreateFlag p) d = first VFlag (sltx_CreateFlag U now i p d)"
| "sl_write U now i (WCreateEnvironment pid slug name) d = first VEnvironment (sltx_CreateEnvironment U now i pid slug name d)"
| "sl_write U now i (WCreateSegment p) d = first VSegment (sltx_CreateSegment U now i p d)"
| "sl_write U now i (WUpdateSegment p) d = first VSegment (sltx_UpdateSegment U now p d)"
| "sl_write U now i (WPublishFlagVersion p) d = first VFlagVersion (sltx_PublishFlagVersion U now i p d)"
| "sl_write U now i (WCompileSnapshot p) d = first VSnapshot (sltx_CompileSnapshot U now i p d)"
| "sl_write U now i (WAppendAudit p) d = first VAuditEvent (sl_AppendAudit U now i p d)"

text \<open>The documents of a write.\<close>

fun write_docs :: "store_write \<Rightarrow> bool" where
  "write_docs (WCreateFlag p) \<longleftrightarrow> is_doc (cf_DefaultValue p)"
| "write_docs (WCreateSegment p) \<longleftrightarrow> is_doc (cs_Predicate p)"
| "write_docs (WUpdateSegment p) \<longleftrightarrow> is_doc (us_Predicate p)"
| "write_docs (WPublishFlagVersion p) \<longleftrightarrow> is_doc (pv_Source p) \<and> is_doc (pv_Compiled p)"
| "write_docs (WCompileSnapshot p) \<longleftrightarrow> is_doc (sp_Compiled p)"
| "write_docs (WAppendAudit p) \<longleftrightarrow> is_doc (ap_Payload p) \<or> raw_empty (ap_Payload p)"
| "write_docs _ \<longleftrightarrow> True"

subsection \<open>SQLite refines Postgres\<close>

lemma from_row_abs:
  "sqliteProjectFromRow U r = projectFromRow (abs_project U r)"
  "sqliteEnvironmentFromRow U e = environmentFromRow (abs_environment U e)"
  "is_doc (slf_DefaultValue f) \<Longrightarrow> sqliteFlagFromRow U f = flagFromRow (abs_flag U f)"
  "is_doc (slv_Source v) \<Longrightarrow> is_doc (slv_Compiled v) \<Longrightarrow> sqliteFlagVersionFromRow U v = flagVersionFromRow (abs_version U v)"
  "is_doc (slg_Predicate g) \<Longrightarrow> sqliteSegmentFromRow U g = segmentFromRow (abs_segment U g)"
  "is_doc (sls_Compiled s) \<Longrightarrow> sqliteSnapshotFromRow U s = snapshotFromRow (abs_snapshot U s)"
  "is_doc (sla_Payload a) \<Longrightarrow> sqliteAuditFromRow U a = auditFromRow (abs_audit U a)"
  "is_doc (slv_Compiled v) \<Longrightarrow> sqliteLatestFlagVersionFromRow U (k, v) = latestFlagVersionFromRow (k, abs_version U v)"
  by (simp_all add: sqliteProjectFromRow_def projectFromRow_def abs_project_def sqliteEnvironmentFromRow_def
      environmentFromRow_def abs_environment_def sqliteFlagFromRow_def flagFromRow_def abs_flag_def
      sqliteFlagVersionFromRow_def flagVersionFromRow_def abs_version_def sqliteSegmentFromRow_def segmentFromRow_def
      abs_segment_def sqliteSnapshotFromRow_def snapshotFromRow_def abs_snapshot_def sqliteAuditFromRow_def auditFromRow_def
      abs_audit_def sqliteLatestFlagVersionFromRow_def latestFlagVersionFromRow_def sqliteStringToString_def
      textToString_def raw_doc)

text \<open>The row a write returns is the row it stored, with the documents it was given.\<close>

lemma sl_row_docs:
  "sl_q_CreateFlag now i pid key name desc vt dv d = Inr (f, d') \<Longrightarrow> slf_DefaultValue f = dv"
  "sl_q_CreateFlagVersion now i fid n st src cmp tx d = Inr (v, d') \<Longrightarrow> slv_Source v = src \<and> slv_Compiled v = cmp"
  "sl_q_CreateSegment now i pid key name desc p d = Inr (g, d') \<Longrightarrow> slg_Predicate g = p"
  "sl_q_UpdateSegment name desc p t pid key d = Inr (g, d') \<Longrightarrow> slg_Predicate g = p"
  "sl_q_CreateSnapshot now i pid eid n c d = Inr (s, d') \<Longrightarrow> sls_Compiled s = c"
  "sl_q_AppendAuditEvent now i apid afid act actor pl d = Inr (a, d') \<Longrightarrow> sla_Payload a = pl"
  by (auto simp: sl_q_CreateFlag_def sl_q_CreateFlagVersion_def sl_q_CreateSegment_def sl_q_CreateSnapshot_def
      sl_q_AppendAuditEvent_def success_simps)
    (auto simp: sl_q_UpdateSegment_def Let_def split: list.splits dest!: Cons_eq_filterD [OF sym])

lemma via_via_first: "via B x = y \<Longrightarrow> via B (first F x) = first F y"
  by (cases x) (auto simp: first_def)

lemma append_audit_abs:
  assumes "sl_ok U d" "printable_time now" "is_doc (ap_Payload p) \<or> raw_empty (ap_Payload p)"
  shows "map_sum id (map_prod (abs_audit U) (sl_abs U)) (sl_append_audit_query U now i p d) =
    append_audit_query Inr (to_millis now) i p (sl_abs U d)"
proof -
  have p: "sqliteAuditInsertParams p = pgAuditInsertParams p" "is_doc (ap_Payload (pgAuditInsertParams p))"
    using assms(3) by (auto simp: sqliteAuditInsertParams_def pgAuditInsertParams_def is_doc_def)
  show ?thesis
    using AppendAudit_abs [OF assms(1,2) p(2), of i "ap_ProjectID (pgAuditInsertParams p)"]
    by (simp add: sl_append_audit_query_def append_audit_query_def p(1) Let_def sqliteUUIDString_def
        sqliteStringFromString_def textFromString_def)
qed

lemma append_audit_doc:
  assumes "is_doc (ap_Payload p) \<or> raw_empty (ap_Payload p)" "sl_append_audit_query U now i p d = Inr (r, d')"
  shows "is_doc (sla_Payload r)"
  using assms by (auto simp: sl_append_audit_query_def sqliteAuditInsertParams_def Let_def is_doc_def
      dest: sl_row_docs(6) split: if_splits)

lemma via_bindE: "x = y \<Longrightarrow> (\<And>a. via B (f a) = g a) \<Longrightarrow> via B (bindE x f) = bindE y g"
  by (cases y) simp_all

lemma sl_write_abs:
  assumes "sl_ok U d" "version_room d" "printable_time now" "write_docs w"
  shows "via (sl_abs U) (sl_write U now i w d) = pg_write Inr (to_millis now) i w (sl_abs U d)"
proof (cases w)
  case (WCreateProject slug name st)
  then show ?thesis
    using via_first(1) [OF CreateProject_abs [OF assms(1,3)], where F = "sqliteProjectFromRow U" and G = projectFromRow] from_row_abs(1)
    by (auto simp: sltx_CreateProject_def tx_CreateProject_def sqliteUUIDString_def intro!: via_via_first)
next
  case (WCreateFlag p)
  then show ?thesis
    using via_first(1) [OF CreateFlag_abs [OF assms(1,3)], where F = "sqliteFlagFromRow U" and G = flagFromRow] from_row_abs(3) sl_row_docs(1) assms(4)
    by (auto simp: sltx_CreateFlag_def tx_CreateFlag_def sqliteUUIDString_def raw_doc intro!: via_via_first)
next
  case (WCreateEnvironment pid slug name)
  then show ?thesis
    using via_first(1) [OF CreateEnvironment_abs [OF assms(1,3)], where F = "sqliteEnvironmentFromRow U" and G = environmentFromRow] from_row_abs(2)
    by (auto simp: sltx_CreateEnvironment_def tx_CreateEnvironment_def sqliteUUIDString_def intro!: via_via_first)
next
  case (WCreateSegment p)
  then show ?thesis
    using via_first(1) [OF CreateSegment_abs [OF assms(1,3)], where F = "sqliteSegmentFromRow U" and G = segmentFromRow] from_row_abs(5) sl_row_docs(3) assms(4)
    by (auto simp: sltx_CreateSegment_def tx_CreateSegment_def sqliteUUIDString_def raw_doc intro!: via_via_first)
next
  case (WUpdateSegment p)
  then show ?thesis
    using via_first(1) [OF UpdateSegment_abs [OF assms(1,3)], where F = "sqliteSegmentFromRow U" and G = segmentFromRow] from_row_abs(5) sl_row_docs(4) assms(4)
    by (auto simp: sltx_UpdateSegment_def tx_UpdateSegment_def sqliteUUIDString_def sqliteNowString_def raw_doc intro!: via_via_first)
next
  case (WPublishFlagVersion p)
  then show ?thesis
    using via_first(1) [OF CreateFlagVersion_abs [OF assms(1,3)], where F = "sqliteFlagVersionFromRow U" and G = flagVersionFromRow]
      from_row_abs(4) sl_row_docs(2) assms(4)
    by (auto simp: sltx_PublishFlagVersion_def sl_publishFlagVersionTx_def tx_PublishFlagVersion_def publishFlagVersionTx_def
        sqliteUUIDString_def next_abs [OF assms(1,2)] raw_doc sqliteStringFromString_def textFromString_def
        intro!: via_via_first via_bindE)
next
  case (WCompileSnapshot p)
  then show ?thesis
    using via_first(1) [OF CreateSnapshot_abs [OF assms(1,3)], where F = "sqliteSnapshotFromRow U" and G = snapshotFromRow]
      from_row_abs(6) sl_row_docs(5) assms(4)
    by (auto simp: sltx_CompileSnapshot_def tx_CompileSnapshot_def sqliteUUIDString_def next_abs [OF assms(1,2)] raw_doc
        intro!: via_via_first via_bindE)
next
  case (WAppendAudit p)
  then show ?thesis
    using via_first(1) [OF append_audit_abs [OF assms(1,3)], where F = "sqliteAuditFromRow U" and G = auditFromRow] from_row_abs(7)
      append_audit_doc [of p] assms(4)
    by (auto simp: sl_AppendAudit_def AppendAudit_def intro!: via_via_first)
qed

subsection \<open>The invariant of the text columns\<close>

lemma sl_ok_append:
  assumes "sl_ok U d"
  shows "project_text U r \<Longrightarrow> sl_ok U (d\<lparr>sl_projects := sl_projects d @ [r]\<rparr>)"
    "flag_text U f \<Longrightarrow> sl_ok U (d\<lparr>sl_flags := sl_flags d @ [f]\<rparr>)"
    "version_text U v \<Longrightarrow> sl_ok U (d\<lparr>sl_flag_versions := sl_flag_versions d @ [v]\<rparr>)"
    "environment_text U e \<Longrightarrow> sl_ok U (d\<lparr>sl_environments := sl_environments d @ [e]\<rparr>)"
    "segment_text U g \<Longrightarrow> sl_ok U (d\<lparr>sl_segments := sl_segments d @ [g]\<rparr>)"
    "snapshot_text U s \<Longrightarrow> sl_ok U (d\<lparr>sl_snapshots := sl_snapshots d @ [s]\<rparr>)"
    "audit_text U a \<Longrightarrow> sl_ok U (d\<lparr>sl_audit_events := sl_audit_events d @ [a]\<rparr>)"
  using assms by (simp_all add: sl_ok_def)

lemmas sl_row_texts = text_defs id_text_string null_id_text_from strftime_time time_text_format

lemma sl_append_audit_ok:
  assumes "sl_ok U d" "printable_time now" "is_doc (ap_Payload p) \<or> raw_empty (ap_Payload p)"
    and "sl_append_audit_query U now i p d = Inr (r, d')"
  shows "sl_ok U d'"
proof -
  have "sqliteAuditInsertParams p = pgAuditInsertParams p" "is_doc (ap_Payload (pgAuditInsertParams p))"
    using assms(3) by (auto simp: sqliteAuditInsertParams_def pgAuditInsertParams_def is_doc_def)
  then show ?thesis
    using assms sl_okD(1) [OF assms(1)]
    by (auto simp: sl_append_audit_query_def sl_q_AppendAuditEvent_def success_simps sqliteUUIDString_def sl_row_texts
        intro!: sl_ok_append(7))
qed

lemma sl_update_ok:
  assumes "sl_ok U d" "printable_time now" "is_doc p"
    and "sl_q_UpdateSegment name desc p (sqliteFormatTime now) pid key d = Inr (r, d')"
  shows "sl_ok U d'"
  using assms time_text_format [OF assms(2)]
  by (auto simp: sl_q_UpdateSegment_def Let_def sl_ok_def list_all_iff segment_text_def split: list.splits)

lemma sl_write_ok:
  assumes "sl_ok U d" "printable_time now" "write_docs w" "sl_write U now i w d = Inr (v, d')"
  shows "sl_ok U d'"
proof (cases w)
  case (WAppendAudit p)
  then show ?thesis using assms sl_append_audit_ok [OF assms(1,2), of p i] by (auto simp: sl_AppendAudit_def success_simps)
next
  case (WUpdateSegment p)
  then show ?thesis using assms sl_update_ok [OF assms(1,2)]
    by (auto simp: sltx_UpdateSegment_def success_simps sqliteNowString_def raw_doc)
qed (use assms sl_okD(1) [OF assms(1)] in
  \<open>auto simp: sltx_CreateProject_def sl_q_CreateProject_def sltx_CreateFlag_def sl_q_CreateFlag_def
    sltx_CreateEnvironment_def sl_q_CreateEnvironment_def sltx_CreateSegment_def sl_q_CreateSegment_def
    sltx_PublishFlagVersion_def sl_publishFlagVersionTx_def sl_q_CreateFlagVersion_def sltx_CompileSnapshot_def
    sl_q_CreateSnapshot_def success_simps sqliteUUIDString_def sl_row_texts raw_doc intro!: sl_ok_append\<close>)

subsection \<open>The contract of a backend\<close>

text \<open>The databases a sequence of successful writes reaches, each while \<open>room\<close> holds.\<close>

inductive written :: "(time \<Rightarrow> uuid \<Rightarrow> store_write \<Rightarrow> 's \<Rightarrow> store_error + store_value \<times> 's) \<Rightarrow> ('s \<Rightarrow> bool)
    \<Rightarrow> 's \<Rightarrow> 's \<Rightarrow> bool" for wr room s where
  start: "written wr room s s"
| more: "written wr room s s1 \<Longrightarrow> room s1 \<Longrightarrow> printable_time now \<Longrightarrow> write_docs w \<Longrightarrow>
    wr now i w s1 = Inr (v, s2) \<Longrightarrow> written wr room s s2"

lemma pg_write_step: "pg_write J now i w d = Inr (v, d') \<Longrightarrow> store_step J d d'"
  by (cases w) (auto simp: first_Inr intro: store_step.intros)

locale store_backend =
  fixes abs :: "'s \<Rightarrow> database" and ok :: "'s \<Rightarrow> bool" and room :: "'s \<Rightarrow> bool" and clock :: "time \<Rightarrow> time"
    and wr :: "time \<Rightarrow> uuid \<Rightarrow> store_write \<Rightarrow> 's \<Rightarrow> store_error + store_value \<times> 's"
  assumes refines: "ok s \<Longrightarrow> room s \<Longrightarrow> printable_time now \<Longrightarrow> write_docs w \<Longrightarrow>
      via abs (wr now i w s) = pg_write Inr (clock now) i w (abs s)"
    and keeps_ok: "ok s \<Longrightarrow> printable_time now \<Longrightarrow> write_docs w \<Longrightarrow> wr now i w s = Inr (v, s') \<Longrightarrow> ok s'"
begin

lemma write_step:
  assumes "ok s" "room s" "printable_time now" "write_docs w" "wr now i w s = Inr (v, s')"
  shows "store_step Inr (abs s) (abs s')"
  using pg_write_step [of Inr "clock now" i w "abs s" v "abs s'"] refines [OF assms(1-4), of i] assms(5) by simp

lemma written_keeps:
  assumes "written wr room s s'" "ok s" "db_ok (abs s)" "db_numbered (abs s)"
  shows "ok s' \<and> db_ok (abs s') \<and> db_numbered (abs s') \<and> extends (abs s) (abs s')"
  using assms
proof (induction rule: written.induct)
  case (more s1 now w i v s2)
  then have "store_step Inr (abs s1) (abs s2)" by (intro write_step) auto
  then show ?case using more keeps_ok step_db_ok step_numbered step_extends extends_trans by blast
qed (simp add: extends_refl)

end

interpretation postgres: store_backend "\<lambda>d. d" "\<lambda>d. True" "\<lambda>d. True" "\<lambda>t. t" "pg_write Inr"
proof unfold_locales
  show "via (\<lambda>d. d) (pg_write Inr now i w s) = pg_write Inr now i w s" for now i w s
    by (cases "pg_write Inr now i w s") auto
qed simp

interpretation sqlite: store_backend "sl_abs U" "sl_ok U" version_room to_millis "sl_write U" for U
  by unfold_locales (rule sl_write_abs, assumption+, rule sl_write_ok)

end
