(* ===== verification/Sqlite_Tx.thy ===== *)
theory Sqlite_Tx
  imports Backends
begin

text \<open>
  Transactions of the SQLite store: \<open>WithAudit\<close> over \<open>withImmediateTx\<close>
  simulates \<open>WithAudit\<close> of the Postgres store, with \<open>SQLITE_BUSY\<close> in the place of
  the serialization failure, attempt by attempt.
\<close>

definition pg_sql_error :: "sql_error \<Rightarrow> sql_error" where
  "pg_sql_error e = (if e = Busy \<or> e = BusySnapshot then SerializationFailure else e)"

definition pg_error :: "store_error \<Rightarrow> store_error" where
  "pg_error e = (case e of StoreSql m s \<Rightarrow> StoreSql m (pg_sql_error s) | _ \<Rightarrow> e)"

text \<open>The world of a Postgres transaction that meets the same failures; \<open>others\<close> is what the
  transactions of others do to it.\<close>

definition pg_world :: "(nat \<Rightarrow> database \<Rightarrow> database) \<Rightarrow> sl_world \<Rightarrow> tx_world" where
  "pg_world others w = \<lparr>w_begin = (\<lambda>n. map_option pg_sql_error (sw_begin w n)),
     w_statement = (\<lambda>n. map_option pg_sql_error (sw_statement w n)),
     w_commit = (\<lambda>n. map_option pg_sql_error (sw_commit w n)), w_cancelled = sw_cancelled w, w_others = others,
     w_audit_id = sw_audit_id w, w_audit_now = (\<lambda>n. to_millis (sw_audit_now w n))\<rparr>"

definition sqlite_world_ok :: "uuid_text \<Rightarrow> (nat \<Rightarrow> database \<Rightarrow> database) \<Rightarrow> sl_world \<Rightarrow> bool" where
  "sqlite_world_ok U others w \<longleftrightarrow>
     (\<forall>n. sw_begin w n \<noteq> Some SerializationFailure \<and> sw_statement w n \<noteq> Some SerializationFailure \<and>
        sw_commit w n \<noteq> Some SerializationFailure \<and> printable_time (sw_audit_now w n)) \<and>
     (\<forall>n d. sl_ok U d \<and> version_room d \<longrightarrow> sl_ok U (sw_others w n d) \<and> version_room (sw_others w n d) \<and>
        sl_abs U (sw_others w n d) = others n (sl_abs U d))"

text \<open>A write fails with a constraint or a missing row, never with a lock.\<close>

lemma one_error: "bindE (require b e) f = Inl x \<Longrightarrow> x = e \<or> b \<and> f () = Inl x"
  by (auto simp: require_def split: if_splits)

definition plain_error :: "store_error \<Rightarrow> bool" where
  "plain_error e \<longleftrightarrow> pg_error e = e \<and> \<not> isSQLiteRetry e \<and> \<not> isSerializationFailure e"

lemmas error_defs = plain_error_def pg_error_def pg_sql_error_def isSQLiteRetry_def isSerializationFailure_def

lemma plain_query:
  "sl_q_CreateProject now i slug dn st d = Inl e \<Longrightarrow> plain_error (StoreSql m e)"
  "sl_q_CreateFlag now i pid key name desc vt dv d = Inl e \<Longrightarrow> plain_error (StoreSql m e)"
  "sl_q_CreateEnvironment now i pid slug name d = Inl e \<Longrightarrow> plain_error (StoreSql m e)"
  "sl_q_CreateSegment now i pid key name desc p d = Inl e \<Longrightarrow> plain_error (StoreSql m e)"
  "sl_q_UpdateSegment name desc p t pid key d = Inl e \<Longrightarrow> plain_error (StoreSql m e)"
  "sl_q_NextFlagVersion pid d = Inl e \<Longrightarrow> plain_error (StoreSql m e)"
  "sl_q_CreateFlagVersion now i fid n st src cmp tx d = Inl e \<Longrightarrow> plain_error (StoreSql m e)"
  "sl_q_NextSnapshotVersion pid d = Inl e \<Longrightarrow> plain_error (StoreSql m e)"
  "sl_q_CreateSnapshot now i pid eid n c d = Inl e \<Longrightarrow> plain_error (StoreSql m e)"
  "sl_q_AppendAuditEvent now i apid afid act actor pl d = Inl e \<Longrightarrow> plain_error (StoreSql m e)"
  by (auto simp: sl_q_CreateProject_def sl_q_CreateFlag_def sl_q_CreateEnvironment_def sl_q_CreateSegment_def
      sl_q_UpdateSegment_def sl_q_NextFlagVersion_def sl_q_CreateFlagVersion_def sl_q_NextSnapshotVersion_def
      sl_q_CreateSnapshot_def sl_q_AppendAuditEvent_def sl_next_version_def Let_def error_defs
      dest!: one_error split: list.splits if_splits)

lemma first_Inl: "first f x = Inl e \<longleftrightarrow> x = Inl e"
  by (cases x) (auto simp: first_def)

lemma wrap_sql_Inl: "wrap_sql m x = Inl e \<longleftrightarrow> (\<exists>s. x = Inl s \<and> e = StoreSql m s)"
  by (cases x) (auto simp: wrap_sql_def)

lemma sl_write_plain: "sl_write U now i w d = Inl e \<Longrightarrow> plain_error e"
  by (cases w) (auto simp: first_Inl wrap_sql_Inl bindE_eq_Inl sltx_CreateProject_def sltx_CreateFlag_def
      sltx_CreateEnvironment_def sltx_CreateSegment_def sltx_UpdateSegment_def sltx_PublishFlagVersion_def
      sl_publishFlagVersionTx_def sltx_CompileSnapshot_def sl_AppendAudit_def sl_append_audit_query_def Let_def
      intro: plain_query)

text \<open>One attempt.\<close>

definition audited :: "uuid_text \<Rightarrow> sl_world \<Rightarrow> AppendAuditParams \<Rightarrow> (nat \<Rightarrow> 'a sl_op) \<Rightarrow> nat \<Rightarrow> 'a sl_op" where
  "audited U w ev fn n d =
     bindE (fn n d) (\<lambda>(a, d1).
     bindE (wrap_sql ''audit append in tx'' (sl_append_audit_query U (sw_audit_now w n) (sw_audit_id w n) ev d1))
       (\<lambda>(_, d2). Inr (a, d2)))"

lemma audited_abs:
  assumes "sl_ok U d" "version_room d" "printable_time now" "write_docs c"
    and "is_doc (ap_Payload ev) \<or> raw_empty (ap_Payload ev)" "printable_time (sw_audit_now w n)" "fn n = sl_write U now i c"
  shows "case audited U w ev fn n d of
      Inl e \<Rightarrow> plain_error e \<and> (pg_write Inr (to_millis now) i c (sl_abs U d) = Inl e \<or>
        (\<exists>a d1 s. pg_write Inr (to_millis now) i c (sl_abs U d) = Inr (a, d1) \<and>
          append_audit_query Inr (to_millis (sw_audit_now w n)) (sw_audit_id w n) ev d1 = Inl s \<and>
          e = StoreSql ''audit append in tx'' s))
    | Inr (a, d2) \<Rightarrow> (\<exists>d1 r. pg_write Inr (to_millis now) i c (sl_abs U d) = Inr (a, d1) \<and>
        append_audit_query Inr (to_millis (sw_audit_now w n)) (sw_audit_id w n) ev d1 = Inr (r, sl_abs U d2))"
proof (cases "sl_write U now i c d")
  case (Inl e)
  then show ?thesis
    using sl_write_abs [OF assms(1-4), of i] sl_write_plain [OF Inl] by (simp add: audited_def assms(7))
next
  case (Inr ad)
  obtain a d1 where ad: "ad = (a, d1)" by fastforce
  have pg: "pg_write Inr (to_millis now) i c (sl_abs U d) = Inr (a, sl_abs U d1)"
    using sl_write_abs [OF assms(1-4), of i] Inr ad by simp
  have ok: "sl_ok U d1" using sl_write_ok [OF assms(1,3,4)] Inr ad by simp
  note q = append_audit_abs [OF ok assms(6,5), of "sw_audit_id w n", symmetric]
  show ?thesis
  proof (cases "sl_append_audit_query U (sw_audit_now w n) (sw_audit_id w n) ev d1")
    case (Inl s)
    then have "plain_error (StoreSql ''audit append in tx'' s)"
      by (auto simp: sl_append_audit_query_def Let_def intro: plain_query)
    then show ?thesis using Inl q pg Inr ad by (simp add: audited_def assms(7) wrap_sql_def)
  next
    case (Inr rd)
    then show ?thesis using q pg \<open>sl_write U now i c d = Inr ad\<close> ad
      by (cases rd) (simp add: audited_def assms(7) wrap_sql_def)
  qed
qed

lemma once_abs:
  assumes "sl_ok U d" "version_room d" "printable_time (now n)" "write_docs c"
    and "is_doc (ap_Payload ev) \<or> raw_empty (ap_Payload ev)" "sqlite_world_ok U others w"
    and "runOnceTx w n (audited U w ev (\<lambda>n. sl_write U (now n) (i n) c)) d = (res, d')"
  shows "withAuditOnce Inr (pg_world others w) n ev (\<lambda>n. pg_write Inr (to_millis (now n)) (i n) c) (sl_abs U d) =
      (map_sum pg_error id res, sl_abs U d') \<and>
    (case res of Inl e \<Rightarrow> d' = d \<and> (isSerializationFailure (pg_error e) \<longleftrightarrow> isSQLiteRetry e) | Inr _ \<Rightarrow> True)"
proof -
  have w: "sw_begin w n \<noteq> Some SerializationFailure" "sw_statement w n \<noteq> Some SerializationFailure"
      "sw_commit w n \<noteq> Some SerializationFailure" "printable_time (sw_audit_now w n)"
    using assms(6) by (simp_all add: sqlite_world_ok_def)
  note a = audited_abs [OF assms(1,2,3,4,5) w(4), of "\<lambda>n. sl_write U (now n) (i n) c" "i n", OF refl]
  show ?thesis
    using a assms(7) w(1-3)
    by (auto simp: runOnceTx_def withAuditOnce_def pg_world_def error_defs
        split: option.splits sum.splits prod.splits if_splits)
qed

lemma loop_abs:
  assumes "write_docs c" "is_doc (ap_Payload ev) \<or> raw_empty (ap_Payload ev)" "sqlite_world_ok U others w"
    and "\<And>n. printable_time (now n)"
  shows "sl_ok U d \<Longrightarrow> version_room d \<Longrightarrow>
    immediate_loop w n (audited U w ev (\<lambda>n. sl_write U (now n) (i n) c)) d = (res, d') \<Longrightarrow>
    withAuditLoop Inr (pg_world others w) n ev (\<lambda>n. pg_write Inr (to_millis (now n)) (i n) c) (sl_abs U d) =
      (map_sum pg_error id res, sl_abs U d')"
proof (induction "sl_maxRetries - n" arbitrary: n d rule: less_induct)
  case less
  obtain r1 d1 where o: "runOnceTx w n (audited U w ev (\<lambda>n. sl_write U (now n) (i n) c)) d = (r1, d1)" by fastforce
  note once = once_abs [where now = now and i = i, OF less.prems(1,2) assms(4,1,2,3) o]
  have max: "sl_maxRetries = withAuditMaxRetries" by (simp add: sl_maxRetries_def withAuditMaxRetries_def)
  show ?case
  proof (cases r1)
    case (Inr a)
    then show ?thesis
      using less.prems(3) once o by (subst withAuditLoop.simps, subst (asm) immediate_loop.simps) auto
  next
    case (Inl e)
    have d1: "d1 = d" "isSerializationFailure (pg_error e) \<longleftrightarrow> isSQLiteRetry e" using once Inl by simp_all
    have others: "sl_ok U (sw_others w (Suc n) d)" "version_room (sw_others w (Suc n) d)"
        "sl_abs U (sw_others w (Suc n) d) = others (Suc n) (sl_abs U d)"
      using assms(3) less.prems(1,2) by (simp_all add: sqlite_world_ok_def)
    have wd: "w_cancelled (pg_world others w) = sw_cancelled w" "w_others (pg_world others w) = others"
      by (simp_all add: pg_world_def)
    show ?thesis
    proof (cases "n < sl_maxRetries \<and> isSQLiteRetry e \<and> \<not> sw_cancelled w n")
      case True
      then have "immediate_loop w (Suc n) (audited U w ev (\<lambda>n. sl_write U (now n) (i n) c)) (sw_others w (Suc n) d) = (res, d')"
        using less.prems(3) o Inl d1 by (subst (asm) immediate_loop.simps) simp
      moreover have "sl_maxRetries - Suc n < sl_maxRetries - n" using True by linarith
      ultimately have "withAuditLoop Inr (pg_world others w) (Suc n) ev (\<lambda>n. pg_write Inr (to_millis (now n)) (i n) c)
          (others (Suc n) (sl_abs U d)) = (map_sum pg_error id res, sl_abs U d')"
        using less.hyps [of "Suc n", OF _ others(1,2)] others(3) by simp
      then show ?thesis using True once Inl d1 wd max by (subst withAuditLoop.simps) simp
    next
      case False
      then have "res = (if n < sl_maxRetries \<and> isSQLiteRetry e then Inl CtxErr else Inl e) \<and> d' = d"
        using less.prems(3) o Inl d1 by (subst (asm) immediate_loop.simps) (auto split: if_splits)
      then show ?thesis using False once Inl d1 wd max by (subst withAuditLoop.simps) (auto simp: pg_error_def)
    qed
  qed
qed

lemma sl_WithAudit_audited: "sl_WithAudit U w ev fn d = immediate_loop w 0 (audited U w ev fn) d"
  by (simp add: sl_WithAudit_def withImmediateTx_def audited_def [abs_def])

end
