(* ===== verification/Sqlite_Reads.thy ===== *)
theory Sqlite_Reads
  imports Backends "HOL-Library.Multiset"
begin

text \<open>
  Reads of the SQLite store: every lookup and list of the interface \<open>Store\<close> answers
  as the Postgres store does on the database the SQLite one stands for. The lists
  ordered by a time or an id rest on the order of their texts.
\<close>

subsection \<open>Sorting by another key\<close>

lemma sort_key_map: "sort_key k (map f xs) = map f (sort_key (\<lambda>x. k (f x)) xs)"
proof (induction xs)
  case (Cons x xs)
  have "insort_key k (f x) (map f ys) = map f (insort_key (\<lambda>x. k (f x)) x ys)" for ys
    by (induction ys) simp_all
  then show ?case using Cons by simp
qed simp

lemma sorted_map_transfer:
  assumes "sorted (map k ys)" "\<And>x y. x \<in> set ys \<Longrightarrow> y \<in> set ys \<Longrightarrow> k x \<le> k y \<Longrightarrow> g x \<le> g y"
  shows "sorted (map g ys)"
  using assms by (auto simp: sorted_iff_nth_mono)

lemma sort_key_same_order:
  fixes k :: "'a \<Rightarrow> 'k::linorder" and g :: "'a \<Rightarrow> 'l::linorder"
  assumes "\<And>x y. x \<in> set xs \<Longrightarrow> y \<in> set xs \<Longrightarrow> k x < k y \<longleftrightarrow> g x < g y"
  shows "sort_key k xs = sort_key g xs"
proof (rule properties_for_sort_key [symmetric])
  have eq: "k x = k y \<longleftrightarrow> g x = g y" if "x \<in> set xs" "y \<in> set xs" for x y
    using assms [OF that] assms [OF that(2,1)] by (metis less_irrefl linorder_less_linear)
  show "filter (\<lambda>y. g x = g y) (sort_key k xs) = filter (\<lambda>y. g x = g y) xs" if "x \<in> set (sort_key k xs)" for x
  proof -
    have "filter (\<lambda>y. g x = g y) ys = filter (\<lambda>y. k y = k x) ys" if "set ys = set xs" for ys
      using that \<open>x \<in> set (sort_key k xs)\<close> eq by (auto intro!: filter_cong)
    then show ?thesis by (simp add: sort_key_stable)
  qed
  show "sorted (map g (sort_key k xs))"
    by (rule sorted_map_transfer [of k]) (use assms in \<open>auto simp: not_less [symmetric]\<close>)
qed simp

lemma text_desc_same_order:
  fixes k :: "'a \<Rightarrow> 'k::linorder" and g :: "'a \<Rightarrow> 'l::linorder"
  assumes "\<And>x y. x \<in> set xs \<Longrightarrow> y \<in> set xs \<Longrightarrow> k x < k y \<longleftrightarrow> g y < g x"
  shows "text_desc k xs = sort_key g xs"
  unfolding text_desc_def
proof (rule properties_for_sort_key [symmetric])
  have eq: "k x = k y \<longleftrightarrow> g x = g y" if "x \<in> set xs" "y \<in> set xs" for x y
    using assms [OF that] assms [OF that(2,1)] by (metis less_irrefl linorder_less_linear)
  show "filter (\<lambda>y. g x = g y) (rev (sort_key k (rev xs))) = filter (\<lambda>y. g x = g y) xs"
    if "x \<in> set (rev (sort_key k (rev xs)))" for x
  proof -
    have "filter (\<lambda>y. g x = g y) ys = filter (\<lambda>y. k y = k x) ys" if "set ys = set xs" for ys
      using that \<open>x \<in> set (rev (sort_key k (rev xs)))\<close> eq by (auto intro!: filter_cong)
    then show ?thesis by (simp add: sort_key_stable rev_filter [symmetric])
  qed
  have "sorted_wrt (\<lambda>x y. k x \<le> k y) (sort_key k (rev xs))" by (simp add: sorted_wrt_map [symmetric])
  then have "sorted_wrt (\<lambda>x y. k y \<le> k x) (rev (sort_key k (rev xs)))" by (simp add: sorted_wrt_rev)
  then have "sorted_wrt (\<lambda>x y. g x \<le> g y) (rev (sort_key k (rev xs)))"
    by (rule sorted_wrt_mono_rel [rotated]) (use assms in \<open>auto simp: not_less [symmetric]\<close>)
  then show "sorted (map g (rev (sort_key k (rev xs))))" by (simp add: sorted_wrt_map)
qed simp

subsection \<open>The interface\<close>

datatype store_read =
    RdGetProjectBySlug string
  | RdListProjects
  | RdGetFlagByKey uuid string
  | RdListFlagsByProject uuid
  | RdGetLatestFlagVersion uuid
  | RdListFlagVersions uuid
  | RdGetEnvironmentBySlug uuid string
  | RdListEnvironmentsByProject uuid
  | RdGetSegmentByKey uuid string
  | RdListSegmentsByProject uuid
  | RdGetSnapshotByID uuid uuid
  | RdGetLatestSnapshot uuid
  | RdListSnapshotsByProject uuid int
  | RdListLatestFlagVersions uuid
  | RdListAuditEvents ListAuditEventsParams

datatype store_answer = One store_value | Many "store_value list"

definition one :: "('a \<Rightarrow> store_value) \<Rightarrow> store_error + 'a \<Rightarrow> store_error + store_answer" where
  "one V x = map_sum id (\<lambda>a. One (V a)) x"

definition many :: "('a \<Rightarrow> store_value) \<Rightarrow> store_error + 'a list \<Rightarrow> store_error + store_answer" where
  "many V x = map_sum id (\<lambda>as. Many (map V as)) x"

fun pg_read :: "store_read \<Rightarrow> database \<Rightarrow> store_error + store_answer" where
  "pg_read (RdGetProjectBySlug slug) d = one VProject (GetProjectBySlug slug d)"
| "pg_read RdListProjects d = many VProject (ListProjects d)"
| "pg_read (RdGetFlagByKey pid key) d = one VFlag (GetFlagByKey pid key d)"
| "pg_read (RdListFlagsByProject pid) d = many VFlag (ListFlagsByProject pid d)"
| "pg_read (RdGetLatestFlagVersion fid) d = one VFlagVersion (GetLatestFlagVersion fid d)"
| "pg_read (RdListFlagVersions fid) d = many VFlagVersion (ListFlagVersions fid d)"
| "pg_read (RdGetEnvironmentBySlug pid slug) d = one VEnvironment (GetEnvironmentBySlug pid slug d)"
| "pg_read (RdListEnvironmentsByProject pid) d = many VEnvironment (ListEnvironmentsByProject pid d)"
| "pg_read (RdGetSegmentByKey pid key) d = one VSegment (GetSegmentByKey pid key d)"
| "pg_read (RdListSegmentsByProject pid) d = many VSegment (ListSegmentsByProject pid d)"
| "pg_read (RdGetSnapshotByID pid i) d = one VSnapshot (GetSnapshotByID pid i d)"
| "pg_read (RdGetLatestSnapshot pid) d = one VSnapshot (GetLatestSnapshot pid d)"
| "pg_read (RdListSnapshotsByProject pid n) d = many VSnapshot (ListSnapshotsByProject pid n d)"
| "pg_read (RdListLatestFlagVersions pid) d = many VLatestFlagVersion (ListLatestFlagVersions pid d)"
| "pg_read (RdListAuditEvents p) d = many VAuditEvent (ListAuditEvents p d)"

fun sl_read :: "uuid_text \<Rightarrow> store_read \<Rightarrow> sqlite_db \<Rightarrow> store_error + store_answer" where
  "sl_read U (RdGetProjectBySlug slug) d = one VProject (sl_GetProjectBySlug U slug d)"
| "sl_read U RdListProjects d = many VProject (sl_ListProjects U d)"
| "sl_read U (RdGetFlagByKey pid key) d = one VFlag (sl_GetFlagByKey U pid key d)"
| "sl_read U (RdListFlagsByProject pid) d = many VFlag (sl_ListFlagsByProject U pid d)"
| "sl_read U (RdGetLatestFlagVersion fid) d = one VFlagVersion (sl_GetLatestFlagVersion U fid d)"
| "sl_read U (RdListFlagVersions fid) d = many VFlagVersion (sl_ListFlagVersions U fid d)"
| "sl_read U (RdGetEnvironmentBySlug pid slug) d = one VEnvironment (sl_GetEnvironmentBySlug U pid slug d)"
| "sl_read U (RdListEnvironmentsByProject pid) d = many VEnvironment (sl_ListEnvironmentsByProject U pid d)"
| "sl_read U (RdGetSegmentByKey pid key) d = one VSegment (sl_GetSegmentByKey U pid key d)"
| "sl_read U (RdListSegmentsByProject pid) d = many VSegment (sl_ListSegmentsByProject U pid d)"
| "sl_read U (RdGetSnapshotByID pid i) d = one VSnapshot (sl_GetSnapshotByID U pid i d)"
| "sl_read U (RdGetLatestSnapshot pid) d = one VSnapshot (sl_GetLatestSnapshot U pid d)"
| "sl_read U (RdListSnapshotsByProject pid n) d = many VSnapshot (sl_ListSnapshotsByProject U pid n d)"
| "sl_read U (RdListLatestFlagVersions pid) d = many VLatestFlagVersion (sl_ListLatestFlagVersions U pid d)"
| "sl_read U (RdListAuditEvents p) d = many VAuditEvent (sl_ListAuditEvents U p d)"

text \<open>SQLite compares the times of a filter and a cursor to the millisecond.\<close>

fun at_millis :: "store_read \<Rightarrow> store_read" where
  "at_millis (RdListAuditEvents p) = RdListAuditEvents (p\<lparr>lp_From := to_millis (lp_From p), lp_To := to_millis (lp_To p),
     lp_CursorTs := to_millis (lp_CursorTs p)\<rparr>)"
| "at_millis r = r"

definition filter_time :: "time \<Rightarrow> bool" where
  "filter_time t \<longleftrightarrow> t = 0 \<or> printable_time t \<and> 1000000 \<le> t"

fun read_ok :: "store_read \<Rightarrow> bool" where
  "read_ok (RdListSnapshotsByProject pid n) \<longleftrightarrow> 0 \<le> n"
| "read_ok (RdListAuditEvents p) \<longleftrightarrow> 0 \<le> lp_Limit p \<and> filter_time (lp_From p) \<and> filter_time (lp_To p) \<and> filter_time (lp_CursorTs p)"
| "read_ok r \<longleftrightarrow> True"

subsection \<open>Rows by key and lists by time\<close>

lemma one_row_map: "one_row (map f rs) = map_sum id f (one_row rs)"
  by (cases rs) (simp_all add: one_row_def)

lemma one_row_set: "one_row rs = Inr r \<Longrightarrow> r \<in> set rs"
  by (cases rs) (auto simp: one_row_def)

lemma wrap_get_map: "wrap_get m (map_sum id f x) = map_sum id f (wrap_get m x)"
  by (cases x) (simp_all add: wrap_get_def)

lemma get_abs:
  assumes "\<And>r. r \<in> set rs \<Longrightarrow> F r = G (A r)"
  shows "bindE (wrap_get m (one_row rs)) (\<lambda>r. Inr (F r)) = bindE (wrap_get m (one_row (map A rs))) (\<lambda>r. Inr (G r))"
  using assms one_row_set [of rs] by (cases "one_row rs") (auto simp: one_row_map wrap_get_def)

lemma order_desc_map: "order_desc k (map f xs) = map f (order_desc (\<lambda>x. k (f x)) xs)"
  by (simp add: order_desc_def sort_key_map)

lemma text_desc_time:
  assumes "\<And>r. r \<in> set xs \<Longrightarrow> time_text (k r)"
  shows "text_desc k xs = order_desc (\<lambda>r. sqliteParseTime (k r)) xs"
  unfolding order_desc_def by (rule text_desc_same_order) (simp add: assms time_text_less)

lemma sort_key_time:
  assumes "\<And>r. r \<in> set xs \<Longrightarrow> time_text (k r)"
  shows "sort_key k xs = sort_key (\<lambda>r. sqliteParseTime (k r)) xs"
  by (rule sort_key_same_order) (simp add: assms time_text_less)

lemma sort_key_id:
  assumes "uuid_canonical U" "\<And>r. r \<in> set xs \<Longrightarrow> id_text U (k r)"
  shows "sort_key k xs = sort_key (\<lambda>r. sqliteParseUUID U (k r)) xs"
  by (rule sort_key_same_order) (simp add: assms id_text_less)

text \<open>The rows of a table that belong to an id.\<close>

lemma rows_abs:
  assumes "sl_ok U d"
  shows "filter (\<lambda>r. fl_project_id r = pid \<and> fl_key r = key) (flags (sl_abs U d)) =
      map (abs_flag U) (filter (\<lambda>r. slf_ProjectID r = uuid_String U pid \<and> slf_Key r = key) (sl_flags d))"
    and "filter (\<lambda>r. fl_project_id r = pid) (flags (sl_abs U d)) =
      map (abs_flag U) (filter (\<lambda>r. slf_ProjectID r = uuid_String U pid) (sl_flags d))"
    and "filter (\<lambda>r. en_project_id r = pid \<and> en_slug r = key) (environments (sl_abs U d)) =
      map (abs_environment U) (filter (\<lambda>r. sle_ProjectID r = uuid_String U pid \<and> sle_Slug r = key) (sl_environments d))"
    and "filter (\<lambda>r. en_project_id r = pid) (environments (sl_abs U d)) =
      map (abs_environment U) (filter (\<lambda>r. sle_ProjectID r = uuid_String U pid) (sl_environments d))"
    and "filter (\<lambda>r. sg_project_id r = pid \<and> sg_key r = key) (segments (sl_abs U d)) =
      map (abs_segment U) (filter (\<lambda>r. slg_ProjectID r = uuid_String U pid \<and> slg_Key r = key) (sl_segments d))"
    and "filter (\<lambda>r. sg_project_id r = pid) (segments (sl_abs U d)) =
      map (abs_segment U) (filter (\<lambda>r. slg_ProjectID r = uuid_String U pid) (sl_segments d))"
    and "filter (\<lambda>r. sn_project_id r = pid \<and> sn_id r = i) (snapshots (sl_abs U d)) =
      map (abs_snapshot U) (filter (\<lambda>r. sls_ProjectID r = uuid_String U pid \<and> sls_ID r = uuid_String U i) (sl_snapshots d))"
    and "filter (\<lambda>r. pr_slug r = key) (projects (sl_abs U d)) =
      map (abs_project U) (filter (\<lambda>r. slp_Slug r = key) (sl_projects d))"
proof -
  note U = sl_okD(1) [OF assms]
  note ok = sl_okD [OF assms] and eq = id_text_eq [OF U]
  show "filter (\<lambda>r. fl_project_id r = pid \<and> fl_key r = key) (flags (sl_abs U d)) =
      map (abs_flag U) (filter (\<lambda>r. slf_ProjectID r = uuid_String U pid \<and> slf_Key r = key) (sl_flags d))"
    "filter (\<lambda>r. fl_project_id r = pid) (flags (sl_abs U d)) =
      map (abs_flag U) (filter (\<lambda>r. slf_ProjectID r = uuid_String U pid) (sl_flags d))"
    using ok(3) eq by (auto simp: filter_map o_def flag_text_def intro!: arg_cong [of _ _ "map (abs_flag U)"] filter_cong)
  show "filter (\<lambda>r. en_project_id r = pid \<and> en_slug r = key) (environments (sl_abs U d)) =
      map (abs_environment U) (filter (\<lambda>r. sle_ProjectID r = uuid_String U pid \<and> sle_Slug r = key) (sl_environments d))"
    "filter (\<lambda>r. en_project_id r = pid) (environments (sl_abs U d)) =
      map (abs_environment U) (filter (\<lambda>r. sle_ProjectID r = uuid_String U pid) (sl_environments d))"
    using ok(5) eq
    by (auto simp: filter_map o_def environment_text_def intro!: arg_cong [of _ _ "map (abs_environment U)"] filter_cong)
  show "filter (\<lambda>r. sg_project_id r = pid \<and> sg_key r = key) (segments (sl_abs U d)) =
      map (abs_segment U) (filter (\<lambda>r. slg_ProjectID r = uuid_String U pid \<and> slg_Key r = key) (sl_segments d))"
    "filter (\<lambda>r. sg_project_id r = pid) (segments (sl_abs U d)) =
      map (abs_segment U) (filter (\<lambda>r. slg_ProjectID r = uuid_String U pid) (sl_segments d))"
    using ok(6) eq
    by (auto simp: filter_map o_def segment_text_def intro!: arg_cong [of _ _ "map (abs_segment U)"] filter_cong)
  show "filter (\<lambda>r. sn_project_id r = pid \<and> sn_id r = i) (snapshots (sl_abs U d)) =
      map (abs_snapshot U) (filter (\<lambda>r. sls_ProjectID r = uuid_String U pid \<and> sls_ID r = uuid_String U i) (sl_snapshots d))"
    using ok(7) eq
    by (auto simp: filter_map o_def snapshot_text_def intro!: arg_cong [of _ _ "map (abs_snapshot U)"] filter_cong)
qed (simp add: filter_map o_def)

lemmas get_defs = GetProjectBySlug_def sl_GetProjectBySlug_def q_GetProjectBySlug_def sl_q_GetProjectBySlug_def
  GetFlagByKey_def sl_GetFlagByKey_def q_GetFlagByKey_def sl_q_GetFlagByKey_def
  GetLatestFlagVersion_def sl_GetLatestFlagVersion_def q_GetLatestFlagVersion_def sl_q_GetLatestFlagVersion_def
  GetEnvironmentBySlug_def sl_GetEnvironmentBySlug_def q_GetEnvironmentBySlug_def sl_q_GetEnvironmentBySlug_def
  GetSegmentByKey_def sl_GetSegmentByKey_def q_GetSegmentByKey_def sl_q_GetSegmentByKey_def
  GetSnapshotByID_def sl_GetSnapshotByID_def q_GetSnapshotByID_def sl_q_GetSnapshotByID_def
  GetLatestSnapshot_def sl_GetLatestSnapshot_def q_GetLatestSnapshot_def sl_q_GetLatestSnapshot_def sqliteUUIDString_def

lemma order_desc_set: "set (order_desc k xs) = set xs"
  by (simp add: order_desc_def)

lemma gets_abs:
  assumes ok: "sl_ok U d"
  shows "sl_GetProjectBySlug U slug d = GetProjectBySlug slug (sl_abs U d)"
    and "sl_GetFlagByKey U pid key d = GetFlagByKey pid key (sl_abs U d)"
    and "sl_GetLatestFlagVersion U fid d = GetLatestFlagVersion fid (sl_abs U d)"
    and "sl_GetEnvironmentBySlug U pid key d = GetEnvironmentBySlug pid key (sl_abs U d)"
    and "sl_GetSegmentByKey U pid key d = GetSegmentByKey pid key (sl_abs U d)"
    and "sl_GetSnapshotByID U pid i d = GetSnapshotByID pid i (sl_abs U d)"
    and "sl_GetLatestSnapshot U pid d = GetLatestSnapshot pid (sl_abs U d)"
  unfolding get_defs rows_abs [OF ok] versions_abs [OF ok] order_desc_map abs_row_simps
  using sl_okD [OF ok]
  by (auto intro!: get_abs from_row_abs simp: text_defs order_desc_set sl_versions_of_def sl_snapshots_of_def)

lemmas list_defs = ListProjects_def sl_ListProjects_def q_ListProjects_def sl_q_ListProjects_def
  ListFlagsByProject_def sl_ListFlagsByProject_def q_ListFlagsByProject_def sl_q_ListFlagsByProject_def
  ListFlagVersions_def sl_ListFlagVersions_def q_ListFlagVersions_def sl_q_ListFlagVersions_def
  ListEnvironmentsByProject_def sl_ListEnvironmentsByProject_def q_ListEnvironmentsByProject_def
  sl_q_ListEnvironmentsByProject_def ListSegmentsByProject_def sl_ListSegmentsByProject_def q_ListSegmentsByProject_def
  sl_q_ListSegmentsByProject_def sqliteUUIDString_def

lemma lists_abs:
  assumes ok: "sl_ok U d"
  shows "sl_ListProjects U d = ListProjects (sl_abs U d)"
    and "sl_ListFlagsByProject U pid d = ListFlagsByProject pid (sl_abs U d)"
    and "sl_ListFlagVersions U fid d = ListFlagVersions fid (sl_abs U d)"
    and "sl_ListEnvironmentsByProject U pid d = ListEnvironmentsByProject pid (sl_abs U d)"
    and "sl_ListSegmentsByProject U pid d = ListSegmentsByProject pid (sl_abs U d)"
proof -
  have times: "text_desc slp_CreatedAt (sl_projects d) = order_desc (\<lambda>r. sqliteParseTime (slp_CreatedAt r)) (sl_projects d)"
    "text_desc slf_CreatedAt (filter P (sl_flags d)) = order_desc (\<lambda>r. sqliteParseTime (slf_CreatedAt r)) (filter P (sl_flags d))"
    "sort_key sle_CreatedAt (filter Q (sl_environments d)) = sort_key (\<lambda>r. sqliteParseTime (sle_CreatedAt r)) (filter Q (sl_environments d))"
    "sort_key slg_CreatedAt (filter R (sl_segments d)) = sort_key (\<lambda>r. sqliteParseTime (slg_CreatedAt r)) (filter R (sl_segments d))"
    for P Q R
    using sl_okD [OF ok] by (auto intro!: text_desc_time sort_key_time simp: text_defs)
  note abs = times rows_abs [OF ok] versions_abs [OF ok] order_desc_map sort_key_map abs_row_simps sl_abs_simps
  show "sl_ListProjects U d = ListProjects (sl_abs U d)" unfolding list_defs abs by (simp add: from_row_abs)
  show "sl_ListFlagsByProject U pid d = ListFlagsByProject pid (sl_abs U d)"
    unfolding list_defs rows_abs [OF ok] order_desc_map sort_key_map abs_row_simps times
    using sl_okD [OF ok] by (auto simp: order_desc_set text_defs from_row_abs)
  show "sl_ListFlagVersions U fid d = ListFlagVersions fid (sl_abs U d)"
    unfolding list_defs versions_abs [OF ok] order_desc_map abs_row_simps
    using sl_okD [OF ok] by (auto simp: order_desc_set text_defs from_row_abs sl_versions_of_def)
  show "sl_ListEnvironmentsByProject U pid d = ListEnvironmentsByProject pid (sl_abs U d)"
    unfolding list_defs rows_abs [OF ok] sort_key_map abs_row_simps times
    using sl_okD [OF ok] by (auto simp: text_defs from_row_abs)
  show "sl_ListSegmentsByProject U pid d = ListSegmentsByProject pid (sl_abs U d)"
    unfolding list_defs rows_abs [OF ok] sort_key_map abs_row_simps times
    using sl_okD [OF ok] by (auto simp: text_defs from_row_abs)
qed

lemma list_snapshots_abs:
  assumes "sl_ok U d" "0 \<le> n"
  shows "sl_ListSnapshotsByProject U pid n d = ListSnapshotsByProject pid n (sl_abs U d)"
  unfolding sl_ListSnapshotsByProject_def ListSnapshotsByProject_def sl_q_ListSnapshotsByProject_def
    q_ListSnapshotsByProject_def versions_abs [OF assms(1)] order_desc_map abs_row_simps sqliteUUIDString_def
  using assms(2) sl_okD(7) [OF assms(1)]
  by (auto simp: sl_limit_rows_def limit_rows_def wrap_sql_def take_map text_defs sl_snapshots_of_def
      order_desc_set from_row_abs dest!: in_set_takeD)

lemma list_latest_abs:
  assumes ok: "sl_ok U d"
  shows "sl_ListLatestFlagVersions U pid d = ListLatestFlagVersions pid (sl_abs U d)"
proof -
  define fs where "fs = filter (\<lambda>f. slf_ProjectID f = uuid_String U pid) (sl_flags d)"
  define srt where "srt = sort_key (\<lambda>f. sqliteParseUUID U (slf_ID f)) fs"
  have fs: "f \<in> set srt \<Longrightarrow> flag_text U f" for f using sl_okD(3) [OF ok] by (auto simp: fs_def srt_def)
  have srt: "sort_key slf_ID fs = srt" unfolding srt_def
    using sl_okD(3) [OF ok] by (intro sort_key_id [OF sl_okD(1) [OF ok]]) (auto simp: fs_def flag_text_def)
  have one: "map (sqliteLatestFlagVersionFromRow U) (case order_desc slv_Version (sl_versions_of d (slf_ID f)) of
        [] \<Rightarrow> [] | v # _ \<Rightarrow> [(slf_Key f, v)]) =
      map latestFlagVersionFromRow (case order_desc fv_version (versions_of (sl_abs U d) (sqliteParseUUID U (slf_ID f))) of
        [] \<Rightarrow> [] | v # _ \<Rightarrow> [(slf_Key f, v)])" if "flag_text U f" for f
  proof -
    have id: "uuid_String U (sqliteParseUUID U (slf_ID f)) = slf_ID f" using that by (simp add: flag_text_def id_text_def)
    have docs: "is_doc (slv_Compiled v)" if "v \<in> set (order_desc slv_Version (sl_versions_of d (slf_ID f)))" for v
      using that sl_okD(4) [OF ok, of v] by (simp add: order_desc_set sl_versions_of_def version_text_def)
    show ?thesis
      unfolding versions_abs [OF ok] order_desc_map abs_row_simps id
      using docs from_row_abs(8) by (cases "order_desc slv_Version (sl_versions_of d (slf_ID f))") simp_all
  qed
  have "sl_ListLatestFlagVersions U pid d = Inr (concat (map (\<lambda>f. map (sqliteLatestFlagVersionFromRow U)
      (case order_desc slv_Version (sl_versions_of d (slf_ID f)) of [] \<Rightarrow> [] | v # _ \<Rightarrow> [(slf_Key f, v)])) srt))"
    unfolding sl_ListLatestFlagVersions_def sl_q_ListLatestFlagVersions_def sqliteUUIDString_def fs_def [symmetric] srt
    by (simp add: map_concat o_def)
  also have "\<dots> = ListLatestFlagVersions pid (sl_abs U d)"
    unfolding ListLatestFlagVersions_def q_ListLatestFlagVersions_def rows_abs [OF ok] sort_key_map abs_row_simps
      fs_def [symmetric] srt_def [symmetric]
    using one [OF fs] by (simp add: map_concat o_def cong: map_cong list.case_cong)
  finally show ?thesis .
qed

subsection \<open>The audit log\<close>

lemma nullable_time:
  assumes "filter_time t" "time_text c"
  shows "ref_ok (\<lambda>x. x \<le> c) (sqliteNullableTime t) \<longleftrightarrow> ref_ok (\<lambda>x. x \<le> sqliteParseTime c) (timestampFromTime (to_millis t))"
    and "ref_ok (\<lambda>x. c < x) (sqliteNullableTime t) \<longleftrightarrow> ref_ok (\<lambda>x. sqliteParseTime c < x) (timestampFromTime (to_millis t))"
    and "sqliteNullableTime t = None \<longleftrightarrow> timestampFromTime (to_millis t) = None"
proof -
  have nz: "t \<noteq> 0 \<Longrightarrow> to_millis t \<noteq> 0"
    using assms(1) pos_mod_bound [of 1000000 t] by (auto simp: filter_time_def to_millis_def)
  have z: "to_millis 0 = 0" by (simp add: to_millis_def)
  have less: "c < sqliteFormatTime t \<longleftrightarrow> sqliteParseTime c < to_millis t" if "t \<noteq> 0"
    using assms that time_text_less [of c "sqliteFormatTime t"] parse_format_time time_text_format
    by (simp add: filter_time_def)
  show "ref_ok (\<lambda>x. x \<le> c) (sqliteNullableTime t) \<longleftrightarrow> ref_ok (\<lambda>x. x \<le> sqliteParseTime c) (timestampFromTime (to_millis t))"
      "ref_ok (\<lambda>x. c < x) (sqliteNullableTime t) \<longleftrightarrow> ref_ok (\<lambda>x. sqliteParseTime c < x) (timestampFromTime (to_millis t))"
      "sqliteNullableTime t = None \<longleftrightarrow> timestampFromTime (to_millis t) = None"
    using nz z less
    by (auto simp: sqliteNullableTime_def timestampFromTime_def ref_ok_def not_less [symmetric])
qed

definition sl_query :: "uuid_text \<Rightarrow> ListAuditEventsParams \<Rightarrow> sl_audit_query" where
  "sl_query U p = \<lparr>slq_ProjectID = sqliteUUIDString U (lp_ProjectID p), slq_Action = sqliteNullableString (lp_Action p),
     slq_Actor = sqliteNullableString (lp_Actor p), slq_From = sqliteNullableTime (lp_From p),
     slq_To = sqliteNullableTime (lp_To p), slq_CursorTs = sqliteNullableTime (lp_CursorTs p),
     slq_CursorID = sqliteNullableCursorID U p, slq_Limit = lp_Limit p\<rparr>"

definition pg_query :: "ListAuditEventsParams \<Rightarrow> audit_query" where
  "pg_query p = \<lparr>aq_project_id = lp_ProjectID p, aq_limit = lp_Limit p, aq_action = textFromString (lp_Action p),
     aq_actor = textFromString (lp_Actor p), aq_from = timestampFromTime (lp_From p),
     aq_to = timestampFromTime (lp_To p), aq_cursor_ts = timestampFromTime (lp_CursorTs p),
     aq_cursor_id = cursorIDParam p\<rparr>"

lemma cursor_abs:
  assumes "uuid_canonical U" "audit_text U r" "filter_time (lp_CursorTs p)"
  defines "p' \<equiv> p\<lparr>lp_From := to_millis (lp_From p), lp_To := to_millis (lp_To p), lp_CursorTs := to_millis (lp_CursorTs p)\<rparr>"
  shows "sl_before_cursor (sl_query U p) r \<longleftrightarrow> before_cursor (pg_query p') (abs_audit U r)"
proof (cases "lp_CursorTs p = 0")
  case True
  then show ?thesis
    by (simp add: sl_before_cursor_def before_cursor_def sl_query_def pg_query_def p'_def sqliteNullableTime_def
        timestampFromTime_def to_millis_def)
next
  case False
  have t: "time_text (sla_CreatedAt r)" "id_text U (sla_ID r)" using assms(2) by (simp_all add: audit_text_def)
  have pr: "printable_time (lp_CursorTs p)" "to_millis (lp_CursorTs p) \<noteq> 0"
    using assms(3) False pos_mod_bound [of 1000000 "lp_CursorTs p"] by (auto simp: filter_time_def to_millis_def)
  have less: "sla_CreatedAt r < sqliteFormatTime (lp_CursorTs p) \<longleftrightarrow> sqliteParseTime (sla_CreatedAt r) < to_millis (lp_CursorTs p)"
    using time_text_less [OF t(1) time_text_format [OF pr(1)]] parse_format_time [OF pr(1)] by simp
  have eq: "sla_CreatedAt r = sqliteFormatTime (lp_CursorTs p) \<longleftrightarrow> sqliteParseTime (sla_CreatedAt r) = to_millis (lp_CursorTs p)"
    using t(1) parse_format_time [OF pr(1)] fmt_milli_to_millis [of "lp_CursorTs p"]
    by (metis time_text_def sqliteFormatTime_def)
  have id: "sla_ID r < uuid_String U (lp_CursorID p) \<longleftrightarrow> sqliteParseUUID U (sla_ID r) < lp_CursorID p"
    using id_text_less [OF assms(1) t(2) id_text_string [OF assms(1)]] by (simp add: parse_uuid_string [OF assms(1)])
  show ?thesis
    using False pr(2) less eq id
    by (simp add: sl_before_cursor_def before_cursor_def sl_query_def pg_query_def p'_def sqliteNullableTime_def
        timestampFromTime_def sqliteNullableCursorID_def cursorIDParam_def)
qed

lemma selected_abs:
  assumes "uuid_canonical U" "audit_text U r" "read_ok (RdListAuditEvents p)"
  defines "p' \<equiv> p\<lparr>lp_From := to_millis (lp_From p), lp_To := to_millis (lp_To p), lp_CursorTs := to_millis (lp_CursorTs p)\<rparr>"
  shows "sl_audit_selected (sl_query U p) r \<longleftrightarrow> audit_selected (pg_query p') (abs_audit U r)"
proof -
  have t: "time_text (sla_CreatedAt r)" "null_id_text U (sla_ProjectID r)" using assms(2) by (simp_all add: audit_text_def)
  have p: "filter_time (lp_From p)" "filter_time (lp_To p)" "filter_time (lp_CursorTs p)" using assms(3) by simp_all
  have project: "sla_ProjectID r = Some (uuid_String U (lp_ProjectID p)) \<longleftrightarrow>
      sqliteParseNullUUID U (sla_ProjectID r) = Some (lp_ProjectID p)"
    using null_id_text_eq [OF assms(1) t(2), of "Some (lp_ProjectID p)"] by (simp add: sqliteFromNullUUID_def)
  show ?thesis
    unfolding sl_audit_selected_def audit_selected_def
    using cursor_abs [OF assms(1,2) p(3)] project nullable_time(1) [OF p(1) t(1)] nullable_time(2) [OF p(2) t(1)]
    by (simp add: p'_def sl_query_def pg_query_def sqliteUUIDString_def sqliteNullableString_def textFromString_def)
qed

lemma list_audit_abs:
  assumes ok: "sl_ok U d" and "read_ok (RdListAuditEvents p)"
  defines "p' \<equiv> p\<lparr>lp_From := to_millis (lp_From p), lp_To := to_millis (lp_To p), lp_CursorTs := to_millis (lp_CursorTs p)\<rparr>"
  shows "sl_ListAuditEvents U p d = ListAuditEvents p' (sl_abs U d)"
proof -
  note U = sl_okD(1) [OF ok]
  define rs where "rs = filter (sl_audit_selected (sl_query U p)) (sl_audit_events d)"
  have rows: "audit_text U r" if "r \<in> set rs" for r using that sl_okD(8) [OF ok] by (auto simp: rs_def)
  have flt: "filter (audit_selected (pg_query p')) (audit_events (sl_abs U d)) = map (abs_audit U) rs"
    unfolding rs_def p'_def using selected_abs [OF U _ assms(2)] sl_okD(8) [OF ok]
    by (auto simp: filter_map o_def intro!: arg_cong [of _ _ "map (abs_audit U)"] filter_cong)
  have srt: "text_desc (\<lambda>r. (sla_CreatedAt r, sla_ID r)) rs = sort_key (\<lambda>r. audit_order (abs_audit U r)) rs"
  proof (rule text_desc_same_order)
    fix x y assume "x \<in> set rs" "y \<in> set rs"
    then have t: "time_text (sla_CreatedAt x)" "time_text (sla_CreatedAt y)" "id_text U (sla_ID x)" "id_text U (sla_ID y)"
      using rows by (simp_all add: audit_text_def)
    have "sla_CreatedAt x = sla_CreatedAt y \<longleftrightarrow> sqliteParseTime (sla_CreatedAt x) = sqliteParseTime (sla_CreatedAt y)"
      using t by (metis time_text_def)
    then show "(sla_CreatedAt x, sla_ID x) < (sla_CreatedAt y, sla_ID y) \<longleftrightarrow>
        audit_order (abs_audit U y) < audit_order (abs_audit U x)"
      using time_text_less [OF t(1,2)] id_text_less [OF U t(3,4)]
      by (auto simp: audit_order_def less_prod_def' word_less_def)
  qed
  have lim: "slq_Limit (sl_query U p) = lp_Limit p" "aq_limit (pg_query p') = lp_Limit p" "\<not> lp_Limit p < 0"
    using assms(2) by (simp_all add: sl_query_def pg_query_def p'_def)
  show ?thesis
    unfolding sl_ListAuditEvents_def ListAuditEvents_def sl_q_ListAuditEventsByProject_def q_ListAuditEventsByProject_def
      sl_query_def [symmetric] pg_query_def [symmetric] flt srt rs_def [symmetric] sort_key_map lim(1,2)
      sl_limit_rows_def limit_rows_def if_not_P [OF lim(3)]
    using rows by (auto simp: wrap_sql_def take_map audit_text_def from_row_abs dest!: in_set_takeD)
qed

text \<open>Every read.\<close>

lemma sl_read_abs:
  assumes "sl_ok U d" "read_ok r"
  shows "sl_read U r d = pg_read (at_millis r) (sl_abs U d)"
  using assms
  by (cases r) (simp_all add: gets_abs lists_abs list_snapshots_abs list_latest_abs list_audit_abs)

end
