(* ===== verification/Sqlite_Props.thy ===== *)
theory Sqlite_Props
  imports Sqlite_Tx Sqlite_Reads
begin

text \<open>
  What the SQLite backend guarantees, stated over its operations and those of the
  Postgres backend, with a database in SQLite's columns as the common example.
\<close>

subsection \<open>An example\<close>

text \<open>Ids in decimal, with leading zeros: a printer and a parser with the laws the
  store relies on.\<close>

definition decimal_uuids :: uuid_text where
  "decimal_uuids = \<lparr>uuid_String = (\<lambda>u. fixed_digits 39 (uint u)),
     uuid_Parse = (\<lambda>s. Some (word_of_int (int_of_digits s)))\<rparr>"

lemma decimal_uuids_canonical: "uuid_canonical decimal_uuids"
proof -
  have b: "0 \<le> uint u" "uint u < 10 ^ 39" for u :: uuid
    using uint_lt2p [of u] uint_ge_0 [of u] by (simp_all add: order.strict_trans [of "uint u" "2 ^ 128"])
  have "fixed_digits 39 n \<noteq> []" for n using length_fixed_digits [of 39 n] by (metis list.size(3) zero_neq_numeral)
  then show ?thesis
    using b by (simp add: uuid_canonical_def uuid_text_ok_def decimal_uuids_def int_of_digits_fixed fixed_digits_less word_less_def)
qed

definition sample_sqlite :: sqlite_db where
  "sample_sqlite = empty_sqlite
    \<lparr>sl_projects := [\<lparr>slp_ID = uuid_String decimal_uuids 1, slp_Slug = ''shop'', slp_DisplayName = ''Shop'',
       slp_ConfigStrategy = ''json'', slp_CreatedAt = strftime_now 5000000, slp_UpdatedAt = strftime_now 5000000\<rparr>],
     sl_flags := [\<lparr>slf_ID = uuid_String decimal_uuids 2, slf_ProjectID = uuid_String decimal_uuids 1, slf_Key = ''new-checkout'',
       slf_Name = ''New checkout'', slf_Description = [], slf_ValueType = ''boolean'', slf_DefaultValue = RawDoc (JBool False),
       slf_CreatedAt = strftime_now 6000000, slf_UpdatedAt = strftime_now 6000000\<rparr>],
     sl_audit_events := [\<lparr>sla_ID = uuid_String decimal_uuids 3, sla_ProjectID = Some (uuid_String decimal_uuids 1),
       sla_FlagID = None, sla_Action = ''create_flag'', sla_Payload = RawDoc (JObj []),
       sla_CreatedAt = strftime_now 6000000, sla_Actor = Some ''ada''\<rparr>]\<rparr>"

lemma printable_small: "0 \<le> t \<Longrightarrow> t \<le> 1000000000 \<Longrightarrow> printable_time t"
  by (simp add: printable_time_def days_before_year_def nanos_per_day_def nanos_per_second_def)

lemma sample_sqlite_ok: "sl_ok decimal_uuids sample_sqlite" "version_room sample_sqlite"
proof -
  have "null_id_text decimal_uuids (Some (uuid_String decimal_uuids 1))" "null_id_text decimal_uuids None"
    using null_id_text_from [OF decimal_uuids_canonical, of "Some 1"] null_id_text_from [OF decimal_uuids_canonical, of None]
    by (simp_all add: sqliteFromNullUUID_def)
  then show "sl_ok decimal_uuids sample_sqlite"
    by (simp add: sl_ok_def sample_sqlite_def empty_sqlite_def decimal_uuids_canonical text_defs is_doc_def
        id_text_string [OF decimal_uuids_canonical] strftime_time printable_small)
qed (simp add: version_room_def sample_sqlite_def empty_sqlite_def)

lemma sample_sqlite_abs: "db_ok (sl_abs decimal_uuids sample_sqlite)" "db_numbered (sl_abs decimal_uuids sample_sqlite)"
proof -
  have "sqliteParseNullUUID decimal_uuids (Some (uuid_String decimal_uuids 1)) = Some 1"
    using null_uuid [OF decimal_uuids_canonical, of "Some 1"] by (simp add: sqliteFromNullUUID_def)
  then show "db_ok (sl_abs decimal_uuids sample_sqlite)"
    by (simp add: db_ok_def table_defs exists_defs sample_sqlite_def empty_sqlite_def abs_project_def abs_flag_def abs_audit_def
        sl_abs_def parse_uuid_string [OF decimal_uuids_canonical] strategy_check_def value_type_check_def ref_ok_def
        sqliteParseNullUUID_def)
qed (simp add: db_numbered_def versions_of_def snapshots_of_def sample_sqlite_def empty_sqlite_def numbered_def)

definition sample_publish :: store_write where
  "sample_publish = WPublishFlagVersion \<lparr>pv_FlagID = 2, pv_Strategy = ''json'', pv_Source = RawDoc (JObj []),
     pv_Compiled = RawDoc (JObj []), pv_SourceText = []\<rparr>"

definition sample_audit_page :: store_read where
  "sample_audit_page = RdListAuditEvents \<lparr>lp_ProjectID = 1, lp_Action = [], lp_Actor = ''ada'', lp_From = 0, lp_To = 0,
     lp_CursorTs = 7000000, lp_CursorID = 9, lp_Limit = 10\<rparr>"

definition sample_sl_world :: sl_world where
  "sample_sl_world = \<lparr>sw_begin = (\<lambda>n. if n = 0 then Some Busy else None), sw_statement = (\<lambda>n. None), sw_commit = (\<lambda>n. None),
     sw_cancelled = (\<lambda>n. False), sw_others = (\<lambda>n d. d), sw_audit_id = (\<lambda>n. 7), sw_audit_now = (\<lambda>n. 8000000)\<rparr>"

definition sample_event :: AppendAuditParams where
  "sample_event = \<lparr>ap_ProjectID = Some 1, ap_FlagID = Some 2, ap_Action = ''publish_flag_version'', ap_Actor = ''ada'',
     ap_Payload = RawNil\<rparr>"

subsection \<open>Writes\<close>



text \<open>
  C31. What is proved of the Postgres store holds of every SQLite database reached by
  writes: the constraints of the schema hold of its rows, versions and snapshots are
  numbered without gaps, and published versions, snapshots and audit events are only
  added, never changed or removed.
\<close>

theorem sqlite_written_invariants:
  assumes "written (sl_write U) version_room d d'" "sl_ok U d" "db_ok (sl_abs U d)" "db_numbered (sl_abs U d)"
  shows "sl_ok U d' \<and> db_ok (sl_abs U d') \<and> db_numbered (sl_abs U d') \<and> extends (sl_abs U d) (sl_abs U d')"
  by (rule sqlite.written_keeps [OF assms])

theorem sqlite_written_invariants_witness:
  "\<exists>v d'. sl_write decimal_uuids 7000000 4 sample_publish sample_sqlite = Inr (v, d') \<and>
     db_ok (sl_abs decimal_uuids d') \<and> db_numbered (sl_abs decimal_uuids d') \<and>
     extends (sl_abs decimal_uuids sample_sqlite) (sl_abs decimal_uuids d')"
proof -
  have "\<exists>v d'. sl_write decimal_uuids 7000000 4 sample_publish sample_sqlite = Inr (v, d')"
    by (simp add: sample_publish_def sltx_PublishFlagVersion_def sl_publishFlagVersionTx_def sl_q_NextFlagVersion_def
        sl_versions_of_def sl_next_version_def sl_q_CreateFlagVersion_def sl_flag_exists_def strategy_check_def
        sample_sqlite_def empty_sqlite_def sqliteUUIDString_def wrap_sql_def first_def require_def Let_def)
  then obtain v d' where w: "sl_write decimal_uuids 7000000 4 sample_publish sample_sqlite = Inr (v, d')" by blast
  have "written (sl_write decimal_uuids) version_room sample_sqlite d'"
    by (rule written.more [where wr = "sl_write decimal_uuids" and room = version_room, OF written.start sample_sqlite_ok(2) _ _ w])
      (simp_all add: printable_small sample_publish_def is_doc_def)
  then show ?thesis
    using sqlite_written_invariants [OF _ sample_sqlite_ok(1) sample_sqlite_abs] w by blast
qed

subsection \<open>Reads\<close>

text \<open>
  C29. Every lookup and every list of the SQLite store returns what the Postgres store
  returns on the same rows: the same row or \<open>ErrNotFound\<close>, the same rows in the same
  order. The time filters and the cursor of the audit log count to the millisecond.
\<close>

theorem sqlite_read_refines:
  assumes "sl_ok U d" "read_ok r"
  shows "sl_read U r d = pg_read (at_millis r) (sl_abs U d)"
  by (rule sl_read_abs [OF assms])

theorem sqlite_read_refines_witness:
  "sl_read decimal_uuids sample_audit_page sample_sqlite =
     pg_read (at_millis sample_audit_page) (sl_abs decimal_uuids sample_sqlite) \<and>
   sl_read decimal_uuids (RdGetFlagByKey 1 ''absent'') sample_sqlite = Inl ErrNotFound"
proof
  show "sl_read decimal_uuids sample_audit_page sample_sqlite =
     pg_read (at_millis sample_audit_page) (sl_abs decimal_uuids sample_sqlite)"
    using sqlite_read_refines [OF sample_sqlite_ok(1), of sample_audit_page]
    by (simp add: sample_audit_page_def filter_time_def printable_small)
  show "sl_read decimal_uuids (RdGetFlagByKey 1 ''absent'') sample_sqlite = Inl ErrNotFound"
    using sqlite_read_refines [OF sample_sqlite_ok(1), of "RdGetFlagByKey 1 ''absent''"]
    by (simp add: GetFlagByKey_def q_GetFlagByKey_def one_row_def wrap_get_def one_def sample_sqlite_def empty_sqlite_def)
qed

subsection \<open>Transactions\<close>



subsection \<open>Times\<close>

text \<open>
  The time columns of SQLite: \<open>sqliteParseTime\<close> reads back what
  \<open>sqliteFormatTime\<close> wrote, to the millisecond, for every time of the years 1 to 9999,
  and two such texts compare, byte by byte, as the times do.
\<close>

theorem sqlite_time_columns:
  assumes "printable_time s" "printable_time t"
  shows "sqliteParseTime (sqliteFormatTime t) = to_millis t \<and>
    (sqliteFormatTime s < sqliteFormatTime t \<longleftrightarrow> to_millis s < to_millis t)"
  using parse_format_time [OF assms(2)] fmt_milli_less_iff [OF assms] by (simp add: sqliteFormatTime_def)

theorem sqlite_time_columns_witness:
  "sqliteParseTime (sqliteFormatTime 123456789) = 123000000 \<and> sqliteFormatTime 5000000 < sqliteFormatTime 123456789"
  using sqlite_time_columns [OF printable_small printable_small, of 5000000 123456789] by (simp add: to_millis_def)

text \<open>
  An empty payload is where the backends differ: \<open>sqliteRawMessage\<close> stores \<open>{}\<close> for it,
  the NOT NULL column of Postgres refuses it.
\<close>

lemma empty_default_differs:
  assumes "cf_DefaultValue p = RawNil"
  shows "tx_CreateFlag J now i p d = Inl (StoreSql ''create flag'' NotNullViolation)"
    and "sltx_CreateFlag U now i p s = sltx_CreateFlag U now i (p\<lparr>cf_DefaultValue := RawDoc (JObj [])\<rparr>) s"
  using assms by (simp_all add: tx_CreateFlag_def q_CreateFlag_def jsonb_def wrap_sql_def first_def sltx_CreateFlag_def
      sqliteRawMessage_def raw_empty_def)

lemma truncate_empties:
  "sl_TruncateForTest None (\<lambda>t. None) None d = (Inr (), empty_sqlite)"
  "snd (sl_TruncateForTest b e c d) \<in> {d, empty_sqlite}"
proof -
  show "sl_TruncateForTest None (\<lambda>t. None) None d = (Inr (), empty_sqlite)"
    by (simp add: sl_TruncateForTest_def truncate_tables_def delete_from_def empty_sqlite_def)
  show "snd (sl_TruncateForTest b e c d) \<in> {d, empty_sqlite}"
    by (auto simp: sl_TruncateForTest_def truncate_tables_def delete_from_def empty_sqlite_def split: option.splits sum.splits)
qed

end
