(* ===== verification/Rpc_Convert.thy ===== *)
theory Rpc_Convert
  imports Rest
begin

text \<open>
  The wire types of the Connect surface and the translation to them,
  \<open>internal/server/rpc/convert.go\<close> and \<open>errors.go\<close>. The package \<open>structpb\<close> is the
  parameter \<open>P\<close>: a dynamic value of the wire is of type \<open>'v\<close>, an object of type
  \<open>'s\<close>. A timestamp of the wire is the instant it stands for, an id the text
  \<open>google/uuid\<close> prints, a pointer an option. Enumerations are open, as in proto3.
\<close>

subsection \<open>Enumerations\<close>

datatype PbStrategy = STRATEGY_UNSPECIFIED | STRATEGY_JSON | STRATEGY_CEL | STRATEGY_TYPESCRIPT | STRATEGY_unknown int

datatype PbValueType = VALUE_TYPE_UNSPECIFIED | VALUE_TYPE_BOOLEAN | VALUE_TYPE_STRING | VALUE_TYPE_NUMBER
  | VALUE_TYPE_OBJECT | VALUE_TYPE_unknown int

datatype PbDecisionReason = DECISION_REASON_UNSPECIFIED | DECISION_REASON_DEFAULT | DECISION_REASON_RULE_MATCHED
  | DECISION_REASON_ROLLOUT_IN_BUCKET | DECISION_REASON_ROLLOUT_OUT_OF_BUCKET | DECISION_REASON_TYPE_MISMATCH
  | DECISION_REASON_ERROR

definition strategyFromProto :: "PbStrategy \<Rightarrow> string" where
  "strategyFromProto s = (case s of STRATEGY_JSON \<Rightarrow> ''json'' | STRATEGY_CEL \<Rightarrow> ''cel''
     | STRATEGY_TYPESCRIPT \<Rightarrow> ''typescript'' | _ \<Rightarrow> [])"

text \<open>The name of the enumerator, or the number.\<close>

definition strategy_String :: "PbStrategy \<Rightarrow> string" where
  "strategy_String s = (case s of STRATEGY_UNSPECIFIED \<Rightarrow> ''STRATEGY_UNSPECIFIED'' | STRATEGY_JSON \<Rightarrow> ''STRATEGY_JSON''
     | STRATEGY_CEL \<Rightarrow> ''STRATEGY_CEL'' | STRATEGY_TYPESCRIPT \<Rightarrow> ''STRATEGY_TYPESCRIPT'' | STRATEGY_unknown n \<Rightarrow> show_int n)"

definition strategyToProto :: "(string \<times> PbStrategy) list" where
  "strategyToProto = [(''json'', STRATEGY_JSON), (''cel'', STRATEGY_CEL), (''typescript'', STRATEGY_TYPESCRIPT)]"

definition protoStrategy :: "string \<Rightarrow> PbStrategy" where
  "protoStrategy s = (case map_of strategyToProto s of None \<Rightarrow> STRATEGY_UNSPECIFIED | Some x \<Rightarrow> x)"

definition valueTypeFromProto :: "PbValueType \<Rightarrow> string" where
  "valueTypeFromProto v = (case v of VALUE_TYPE_BOOLEAN \<Rightarrow> ''boolean'' | VALUE_TYPE_STRING \<Rightarrow> ''string''
     | VALUE_TYPE_NUMBER \<Rightarrow> ''number'' | VALUE_TYPE_OBJECT \<Rightarrow> ''object'' | _ \<Rightarrow> [])"

definition valueTypeToProto :: "(string \<times> PbValueType) list" where
  "valueTypeToProto = [(''boolean'', VALUE_TYPE_BOOLEAN), (''string'', VALUE_TYPE_STRING), (''number'', VALUE_TYPE_NUMBER),
     (''object'', VALUE_TYPE_OBJECT)]"

definition protoValueType :: "string \<Rightarrow> PbValueType" where
  "protoValueType v = (case map_of valueTypeToProto v of None \<Rightarrow> VALUE_TYPE_UNSPECIFIED | Some x \<Rightarrow> x)"

definition decisionReasonToProto :: "string \<Rightarrow> PbDecisionReason" where
  "decisionReasonToProto r =
     (if r = reason_text ReasonDefault then DECISION_REASON_DEFAULT
      else if r = reason_text ReasonRuleMatched then DECISION_REASON_RULE_MATCHED
      else if r = reason_text ReasonRolloutInBucket then DECISION_REASON_ROLLOUT_IN_BUCKET
      else if r = reason_text ReasonRolloutOutOfBucket then DECISION_REASON_ROLLOUT_OUT_OF_BUCKET
      else if r = reason_text ReasonTypeMismatch then DECISION_REASON_TYPE_MISMATCH
      else if r = reason_text ReasonError then DECISION_REASON_ERROR
      else DECISION_REASON_UNSPECIFIED)"

subsection \<open>Dynamic values\<close>

text \<open>The package \<open>structpb\<close>: \<open>NewValue\<close>, \<open>NewStruct\<close>, \<open>Value.AsInterface\<close> and
  \<open>Struct.AsMap\<close>.\<close>

record ('v, 's) structpb =
  spb_NewValue :: "any \<Rightarrow> string + 'v"
  spb_NewStruct :: "(string \<times> any) list \<Rightarrow> string + 's"
  spb_AsInterface :: "'v \<Rightarrow> any"
  spb_AsMap :: "'s \<Rightarrow> (string \<times> any) list"

definition or_nil :: "string + 'a option \<Rightarrow> 'a option" where
  "or_nil x = (case x of Inl _ \<Rightarrow> None | Inr v \<Rightarrow> v)"

definition goValueToProto :: "('v, 's) structpb \<Rightarrow> any \<Rightarrow> string + 'v" where
  "goValueToProto P v = spb_NewValue P v"

definition raw_is_null :: "raw \<Rightarrow> bool" where
  "raw_is_null r \<longleftrightarrow> r = RawDoc JNull \<or> r = RawBytes ''null''"

text \<open>A map decodes from an object or \<open>null\<close>.\<close>

definition jsonRawToStruct :: "('v, 's) structpb \<Rightarrow> raw \<Rightarrow> string + 's option" where
  "jsonRawToStruct P r =
     (if raw_empty r \<or> raw_is_null r then Inr None
      else bindE (unmarshal_any r) (\<lambda>v. case v of
        AMap m \<Rightarrow> bindE (spb_NewStruct P m) (\<lambda>s. Inr (Some s))
      | ANil \<Rightarrow> bindE (spb_NewStruct P []) (\<lambda>s. Inr (Some s))
      | _ \<Rightarrow> Inl ''json: cannot unmarshal into Go value of type map[string]interface {}''))"

definition jsonRawToValue :: "('v, 's) structpb \<Rightarrow> raw \<Rightarrow> string + 'v option" where
  "jsonRawToValue P r =
     (if raw_empty r \<or> raw_is_null r then Inr None
      else bindE (unmarshal_any r) (\<lambda>v. bindE (goValueToProto P v) (\<lambda>x. Inr (Some x))))"

text \<open>\<open>AsMap\<close> of a nil pointer is an empty map.\<close>

definition as_map :: "('v, 's) structpb \<Rightarrow> 's option \<Rightarrow> (string \<times> any) list" where
  "as_map P s = (case s of None \<Rightarrow> [] | Some x \<Rightarrow> spb_AsMap P x)"

definition structToJSONRaw :: "('v, 's) structpb \<Rightarrow> 's option \<Rightarrow> string + json" where
  "structToJSONRaw P s = (case s of
     None \<Rightarrow> Inr (JObj [])
   | Some x \<Rightarrow> (case marshal_any (AMap (spb_AsMap P x)) of None \<Rightarrow> Inl ''unsupported value'' | Some j \<Rightarrow> Inr j))"

definition valueToAny :: "('v, 's) structpb \<Rightarrow> 'v option \<Rightarrow> any" where
  "valueToAny P v = (case v of None \<Rightarrow> ANil | Some x \<Rightarrow> spb_AsInterface P x)"

subsection \<open>Messages\<close>

record PbProject =
  PbP_Id :: string
  PbP_Slug :: string
  PbP_DisplayName :: string
  PbP_ConfigStrategy :: PbStrategy
  PbP_CreatedAt :: time
  PbP_UpdatedAt :: time

record PbEnvironment =
  PbE_Id :: string
  PbE_ProjectId :: string
  PbE_Slug :: string
  PbE_Name :: string
  PbE_CreatedAt :: time

record 'v PbFlag =
  PbF_Id :: string
  PbF_ProjectId :: string
  PbF_Key :: string
  PbF_Name :: string
  PbF_Description :: string
  PbF_ValueType :: PbValueType
  PbF_DefaultValue :: "'v option"
  PbF_CreatedAt :: time
  PbF_UpdatedAt :: time

record 's PbFlagVersion =
  PbV_Id :: string
  PbV_FlagId :: string
  PbV_Version :: int
  PbV_Strategy :: PbStrategy
  PbV_Source :: "'s option"
  PbV_Compiled :: "'s option"
  PbV_SourceText :: string
  PbV_PublishedAt :: time

record 's PbSegment =
  PbSeg_Id :: string
  PbSeg_ProjectId :: string
  PbSeg_Key :: string
  PbSeg_Name :: string
  PbSeg_Description :: string
  PbSeg_Predicate :: "'s option"
  PbSeg_CreatedAt :: time
  PbSeg_UpdatedAt :: time

record 's PbSnapshot =
  PbSnap_Id :: string
  PbSnap_ProjectId :: string
  PbSnap_EnvironmentId :: "string option"
  PbSnap_Version :: int
  PbSnap_Compiled :: "'s option"
  PbSnap_CreatedAt :: time

record 's PbAuditEvent =
  PbA_Id :: string
  PbA_ProjectId :: "string option"
  PbA_FlagId :: "string option"
  PbA_Action :: string
  PbA_Actor :: "string option"
  PbA_Payload :: "'s option"
  PbA_CreatedAt :: time

record 'v PbDecision =
  PbD_Value :: "'v option"
  PbD_Reason :: PbDecisionReason
  PbD_RuleId :: "string option"
  PbD_Version :: int

datatype 'v PbTraceNode = PbTraceNode
  (PbTN_Kind: string)
  (PbTN_Result: bool)
  (PbTN_Attr: "string option")
  (PbTN_AttrValue: "'v option")
  (PbTN_Expected: "'v option")
  (PbTN_ExpectedValues: "'v list option")
  (PbTN_Pattern: "string option")
  (PbTN_Salt: "string option")
  (PbTN_Percent: "int option")
  (PbTN_Bucket: "int option")
  (PbTN_Source: "string option")
  (PbTN_Children: "'v PbTraceNode list option")

record 'v PbTraceRule =
  PbTR_RuleId :: string
  PbTR_Matched :: bool
  PbTR_Predicate :: "'v PbTraceNode"
  PbTR_Error :: "string option"

record 'v PbTrace =
  PbT_EvaluatedRules :: "'v PbTraceRule list"
  PbT_DefaultUsed :: bool
  PbT_MatchedRuleId :: "string option"

subsection \<open>Conversions\<close>

definition projectToProto :: "uuid_text \<Rightarrow> Project \<Rightarrow> PbProject" where
  "projectToProto U p = \<lparr>PbP_Id = uuid_String U (Project_ID p), PbP_Slug = Project_Slug p,
     PbP_DisplayName = Project_DisplayName p, PbP_ConfigStrategy = protoStrategy (Project_ConfigStrategy p),
     PbP_CreatedAt = Project_CreatedAt p, PbP_UpdatedAt = Project_UpdatedAt p\<rparr>"

definition environmentToProto :: "uuid_text \<Rightarrow> Environment \<Rightarrow> PbEnvironment" where
  "environmentToProto U e = \<lparr>PbE_Id = uuid_String U (Env_ID e), PbE_ProjectId = uuid_String U (Env_ProjectID e),
     PbE_Slug = Env_Slug e, PbE_Name = Env_Name e, PbE_CreatedAt = Env_CreatedAt e\<rparr>"

definition flagToProto :: "('v, 's) structpb \<Rightarrow> uuid_text \<Rightarrow> Flag \<Rightarrow> 'v PbFlag" where
  "flagToProto P U f = \<lparr>PbF_Id = uuid_String U (Flag_ID f), PbF_ProjectId = uuid_String U (Flag_ProjectID f),
     PbF_Key = Flag_Key f, PbF_Name = Flag_Name f, PbF_Description = Flag_Description f,
     PbF_ValueType = protoValueType (Flag_ValueType f), PbF_DefaultValue = or_nil (jsonRawToValue P (Flag_DefaultValue f)),
     PbF_CreatedAt = Flag_CreatedAt f, PbF_UpdatedAt = Flag_UpdatedAt f\<rparr>"

definition flagVersionToProto :: "('v, 's) structpb \<Rightarrow> uuid_text \<Rightarrow> FlagVersion \<Rightarrow> 's PbFlagVersion" where
  "flagVersionToProto P U v = \<lparr>PbV_Id = uuid_String U (FV_ID v), PbV_FlagId = uuid_String U (FV_FlagID v),
     PbV_Version = to_int32 (FV_Version v), PbV_Strategy = protoStrategy (FV_Strategy v),
     PbV_Source = or_nil (jsonRawToStruct P (FV_Source v)), PbV_Compiled = or_nil (jsonRawToStruct P (FV_Compiled v)),
     PbV_SourceText = FV_SourceText v, PbV_PublishedAt = FV_PublishedAt v\<rparr>"

definition segmentToProto :: "('v, 's) structpb \<Rightarrow> uuid_text \<Rightarrow> Segment \<Rightarrow> 's PbSegment" where
  "segmentToProto P U s = \<lparr>PbSeg_Id = uuid_String U (Segment_ID s), PbSeg_ProjectId = uuid_String U (Segment_ProjectID s),
     PbSeg_Key = Segment_Key s, PbSeg_Name = Segment_Name s, PbSeg_Description = Segment_Description s,
     PbSeg_Predicate = or_nil (jsonRawToStruct P (Segment_Predicate s)), PbSeg_CreatedAt = Segment_CreatedAt s,
     PbSeg_UpdatedAt = Segment_UpdatedAt s\<rparr>"

definition snapshotToProto :: "('v, 's) structpb \<Rightarrow> uuid_text \<Rightarrow> Snapshot \<Rightarrow> 's PbSnapshot" where
  "snapshotToProto P U s = \<lparr>PbSnap_Id = uuid_String U (Snapshot_ID s), PbSnap_ProjectId = uuid_String U (Snapshot_ProjectID s),
     PbSnap_EnvironmentId = map_option (uuid_String U) (Snapshot_EnvironmentID s),
     PbSnap_Version = to_int32 (Snapshot_Version s), PbSnap_Compiled = or_nil (jsonRawToStruct P (Snapshot_Compiled s)),
     PbSnap_CreatedAt = Snapshot_CreatedAt s\<rparr>"

definition auditEventToProto :: "('v, 's) structpb \<Rightarrow> uuid_text \<Rightarrow> AuditEvent \<Rightarrow> 's PbAuditEvent" where
  "auditEventToProto P U a = \<lparr>PbA_Id = uuid_String U (Audit_ID a), PbA_ProjectId = map_option (uuid_String U) (Audit_ProjectID a),
     PbA_FlagId = map_option (uuid_String U) (Audit_FlagID a), PbA_Action = Audit_Action a,
     PbA_Actor = unless_empty (Audit_Actor a), PbA_Payload = or_nil (jsonRawToStruct P (Audit_Payload a)),
     PbA_CreatedAt = Audit_CreatedAt a\<rparr>"

definition decisionToProto :: "('v, 's) structpb \<Rightarrow> Decision \<Rightarrow> 'v PbDecision" where
  "decisionToProto P d = \<lparr>PbD_Value = or_nil (map_sum id Some (goValueToProto P (DValue d))),
     PbD_Reason = decisionReasonToProto (reason_text (DReason d)), PbD_RuleId = unless_empty (DRuleID d),
     PbD_Version = to_int32 (DVersion d)\<rparr>"

text \<open>A value that does not convert is left out.\<close>

definition trace_value :: "('v, 's) structpb \<Rightarrow> any \<Rightarrow> 'v option" where
  "trace_value P v = (if v = ANil then None else or_nil (map_sum id Some (goValueToProto P v)))"

definition trace_values :: "('v, 's) structpb \<Rightarrow> any list \<Rightarrow> 'v list option" where
  "trace_values P vs = (if vs = [] then None
     else Some (concat (map (\<lambda>v. case goValueToProto P v of Inl _ \<Rightarrow> [] | Inr x \<Rightarrow> [x]) vs)))"

fun traceNodeToProto :: "('v, 's) structpb \<Rightarrow> TraceNode \<Rightarrow> 'v PbTraceNode" where
  "traceNodeToProto P (TraceNode kind attr attr_value expected expected_values pattern salt percent bucket source
     result children) =
     PbTraceNode kind result (unless_empty attr) (trace_value P attr_value) (trace_value P expected)
       (trace_values P expected_values) (unless_empty pattern) (unless_empty salt)
       (map_option to_int32 (unless_zero percent)) (map_option to_int32 (unless_zero bucket))
       (unless_empty source) (unless_empty (map (traceNodeToProto P) children))"

definition traceToProto :: "('v, 's) structpb \<Rightarrow> Trace \<Rightarrow> 'v PbTrace" where
  "traceToProto P t = \<lparr>PbT_EvaluatedRules = map (\<lambda>r. \<lparr>PbTR_RuleId = TRRuleID r, PbTR_Matched = TRMatched r,
       PbTR_Predicate = traceNodeToProto P (TRPredicate r), PbTR_Error = unless_empty (TRError r)\<rparr>) (EvaluatedRules t),
     PbT_DefaultUsed = DefaultUsed t, PbT_MatchedRuleId = unless_empty (MatchedRuleID t)\<rparr>"

subsection \<open>Errors\<close>

datatype connect_code = CodeInvalidArgument | CodeNotFound | CodeAlreadyExists | CodeInternal

type_synonym connect_error = "connect_code \<times> rest_error"

definition connectError :: "store_error \<Rightarrow> connect_error" where
  "connectError e =
     (if e = ErrNotFound then (CodeNotFound, EStore e)
      else if IsConflict e then (CodeAlreadyExists, EStore e)
      else (CodeInternal, EStore e))"

definition rpc_badRequest :: "rest_error \<Rightarrow> connect_error" where
  "rpc_badRequest e = (CodeInvalidArgument, e)"

definition rpc_isCompileError :: "cfg_error \<Rightarrow> bool" where
  "rpc_isCompileError e \<longleftrightarrow> error_is e ErrTypeScriptCompileFailure \<or> error_is e ErrCELCompileFailure \<or>
     error_is e ErrInvalidIR \<or> error_is e ErrInvalidPredicate \<or> error_is e ErrInvalidValueType"

definition compileErrorToConnect :: "cfg_error \<Rightarrow> connect_error" where
  "compileErrorToConnect e = (CodeInvalidArgument, EConfig e)"

end
