(* ===== verification/Rpc.thy ===== *)
theory Rpc
  imports Rpc_Convert
begin

text \<open>
  The Connect handlers, \<open>internal/server/rpc\<close>. A handler maps the message, the
  \<open>X-Actor\<close> header and the database to the response message or a Connect error, and
  the new database. The handlers share the record \<open>server\<close> with the REST surface.
\<close>

datatype ('v, 's) rpc_body =
    PbProjectResponse PbProject
  | PbProjects "PbProject list"
  | PbEnvironmentResponse PbEnvironment
  | PbEnvironments "PbEnvironment list"
  | PbFlagResponse "'v PbFlag"
  | PbFlagWithLatest "'v PbFlag" "'s PbFlagVersion option"
  | PbFlags "'v PbFlag list"
  | PbFlagVersionResponse "'s PbFlagVersion"
  | PbFlagVersions "'s PbFlagVersion list"
  | PbSegmentResponse "'s PbSegment"
  | PbSegments "'s PbSegment list"
  | PbSnapshotResponse "'s PbSnapshot"
  | PbSnapshots "'s PbSnapshot list"
  | PbDecisionResponse "'v PbDecision"
  | PbTraceResponse "'v PbDecision" "'v PbTrace"
  | PbAuditEvents "'s PbAuditEvent list"
  | PbCheck string string

type_synonym ('v, 's) rpc_result = "connect_error + ('v, 's) rpc_body"

subsection \<open>Helpers\<close>

definition or_connect :: "('e \<Rightarrow> connect_error) \<Rightarrow> 'e + 'a \<Rightarrow> connect_error + 'a" where
  "or_connect f x = (case x of Inl e \<Rightarrow> Inl (f e) | Inr a \<Rightarrow> Inr a)"

definition rpc_project :: "string \<Rightarrow> database \<Rightarrow> connect_error + Project" where
  "rpc_project slug d = or_connect connectError (GetProjectBySlug slug d)"

definition rpc_flag :: "string \<Rightarrow> string \<Rightarrow> database \<Rightarrow> connect_error + Project \<times> Flag" where
  "rpc_flag slug key d =
     bindE (rpc_project slug d) (\<lambda>proj.
     bindE (or_connect connectError (GetFlagByKey (Project_ID proj) key d)) (\<lambda>flag.
     Inr (proj, flag)))"

definition jsonOrEmpty :: "(string \<times> any) list \<Rightarrow> raw" where
  "jsonOrEmpty m = (case marshal_any (AMap m) of None \<Rightarrow> RawDoc (JObj []) | Some j \<Rightarrow> RawDoc j)"

definition rpc_mutate :: "server \<Rightarrow> AppendAuditParams \<Rightarrow> (time \<Rightarrow> uuid \<Rightarrow> 'a op) \<Rightarrow> ('a \<Rightarrow> ('v, 's) rpc_body) \<Rightarrow> database
    \<Rightarrow> ('v, 's) rpc_result \<times> database" where
  "rpc_mutate sv ev f ok d =
     (case WithAudit (sv_json sv) (sv_world sv) ev (\<lambda>n. f (sv_now sv n) (sv_new_id sv n)) (w_others (sv_world sv) 0 d) of
        (Inl e, d') \<Rightarrow> (Inl (connectError e), d')
      | (Inr a, d') \<Rightarrow> (Inr (ok a), d'))"

definition rpc_prepared :: "connect_error + 'a \<Rightarrow> ('a \<Rightarrow> database \<Rightarrow> ('v, 's) rpc_result \<times> database) \<Rightarrow> database
    \<Rightarrow> ('v, 's) rpc_result \<times> database" where
  "rpc_prepared x f d = (case x of Inl e \<Rightarrow> (Inl e, d) | Inr a \<Rightarrow> f a d)"

subsection \<open>Projects and environments\<close>

definition rpc_ListProjects :: "uuid_text \<Rightarrow> database \<Rightarrow> ('v, 's) rpc_result" where
  "rpc_ListProjects U d =
     bindE (or_connect connectError (ListProjects d)) (\<lambda>rows. Inr (PbProjects (map (projectToProto U) rows)))"

definition rpc_GetProject :: "uuid_text \<Rightarrow> string \<Rightarrow> database \<Rightarrow> ('v, 's) rpc_result" where
  "rpc_GetProject U slug d = bindE (rpc_project slug d) (\<lambda>p. Inr (PbProjectResponse (projectToProto U p)))"

definition rpc_CreateProject :: "uuid_text \<Rightarrow> server \<Rightarrow> string \<Rightarrow> string \<Rightarrow> string \<Rightarrow> PbStrategy \<Rightarrow> database
    \<Rightarrow> ('v, 's) rpc_result \<times> database" where
  "rpc_CreateProject U sv actor slug displayName strategy d =
     (let strategyStr = strategyFromProto strategy
      in rpc_prepared
           (if Valid (strategy_of strategyStr) then Inr () else Inl (rpc_badRequest (EInvalid (''invalid config_strategy '' @ fmt_q (strategy_String strategy)))))
           (\<lambda>_. rpc_mutate sv
              \<lparr>ap_ProjectID = None, ap_FlagID = None, ap_Action = ''create_project'', ap_Actor = actor,
               ap_Payload = jsonOrEmpty [(''slug'', AStr slug)]\<rparr>
              (\<lambda>now i. tx_CreateProject now i slug displayName strategyStr)
              (\<lambda>p. PbProjectResponse (projectToProto U p))) d)"

definition rpc_ListEnvironments :: "uuid_text \<Rightarrow> string \<Rightarrow> database \<Rightarrow> ('v, 's) rpc_result" where
  "rpc_ListEnvironments U slug d =
     bindE (rpc_project slug d) (\<lambda>proj.
     bindE (or_connect connectError (ListEnvironmentsByProject (Project_ID proj) d)) (\<lambda>rows.
     Inr (PbEnvironments (map (environmentToProto U) rows))))"

definition rpc_GetEnvironment :: "uuid_text \<Rightarrow> string \<Rightarrow> string \<Rightarrow> database \<Rightarrow> ('v, 's) rpc_result" where
  "rpc_GetEnvironment U slug envSlug d =
     bindE (rpc_project slug d) (\<lambda>proj.
     bindE (or_connect connectError (GetEnvironmentBySlug (Project_ID proj) envSlug d)) (\<lambda>env.
     Inr (PbEnvironmentResponse (environmentToProto U env))))"

definition rpc_CreateEnvironment :: "uuid_text \<Rightarrow> server \<Rightarrow> string \<Rightarrow> string \<Rightarrow> string \<Rightarrow> string \<Rightarrow> database
    \<Rightarrow> ('v, 's) rpc_result \<times> database" where
  "rpc_CreateEnvironment U sv actor projectSlug slug name d =
     rpc_prepared (rpc_project projectSlug d)
       (\<lambda>proj. rpc_mutate sv
          \<lparr>ap_ProjectID = Some (Project_ID proj), ap_FlagID = None, ap_Action = ''create_environment'', ap_Actor = actor,
           ap_Payload = jsonOrEmpty [(''slug'', AStr slug)]\<rparr>
          (\<lambda>now i. tx_CreateEnvironment now i (Project_ID proj) slug name)
          (\<lambda>e. PbEnvironmentResponse (environmentToProto U e))) d"

subsection \<open>Flags\<close>

definition rpc_ListFlags :: "('v, 's) structpb \<Rightarrow> uuid_text \<Rightarrow> string \<Rightarrow> database \<Rightarrow> ('v, 's) rpc_result" where
  "rpc_ListFlags P U slug d =
     bindE (rpc_project slug d) (\<lambda>proj.
     bindE (or_connect connectError (ListFlagsByProject (Project_ID proj) d)) (\<lambda>rows.
     Inr (PbFlags (map (flagToProto P U) rows))))"

definition rpc_GetFlag :: "('v, 's) structpb \<Rightarrow> uuid_text \<Rightarrow> string \<Rightarrow> string \<Rightarrow> database \<Rightarrow> ('v, 's) rpc_result" where
  "rpc_GetFlag P U slug key d =
     bindE (rpc_flag slug key d) (\<lambda>(proj, flag).
     case GetLatestFlagVersion (Flag_ID flag) d of
       Inr v \<Rightarrow> Inr (PbFlagWithLatest (flagToProto P U flag) (Some (flagVersionToProto P U v)))
     | Inl e \<Rightarrow> if e = ErrNotFound then Inr (PbFlagWithLatest (flagToProto P U flag) None) else Inl (connectError e))"

definition rpc_CreateFlag :: "('v, 's) structpb \<Rightarrow> uuid_text \<Rightarrow> server \<Rightarrow> string \<Rightarrow> string \<Rightarrow> string \<Rightarrow> string \<Rightarrow> string
    \<Rightarrow> PbValueType \<Rightarrow> 'v option \<Rightarrow> database \<Rightarrow> ('v, 's) rpc_result \<times> database" where
  "rpc_CreateFlag P U sv actor slug key name description valueType defaultValue d =
     rpc_prepared
       (bindE (rpc_project slug d) (\<lambda>proj.
        case marshal_any (valueToAny P defaultValue) of
          None \<Rightarrow> Inl (rpc_badRequest (EWrap ''encoding default_value'' (EDecode ''unsupported value'')))
        | Some defaultRaw \<Rightarrow> Inr (proj, defaultRaw)))
       (\<lambda>(proj, defaultRaw). rpc_mutate sv
          \<lparr>ap_ProjectID = Some (Project_ID proj), ap_FlagID = None, ap_Action = ''create_flag'', ap_Actor = actor,
           ap_Payload = jsonOrEmpty [(''key'', AStr key)]\<rparr>
          (\<lambda>now i. tx_CreateFlag (sv_json sv) now i
             \<lparr>cf_ProjectID = Project_ID proj, cf_Key = key, cf_Name = name, cf_Description = description,
              cf_ValueType = valueTypeFromProto valueType, cf_DefaultValue = RawDoc defaultRaw\<rparr>)
          (\<lambda>f. PbFlagResponse (flagToProto P U f))) d"

definition rpc_ListFlagVersions :: "('v, 's) structpb \<Rightarrow> uuid_text \<Rightarrow> string \<Rightarrow> string \<Rightarrow> database \<Rightarrow> ('v, 's) rpc_result" where
  "rpc_ListFlagVersions P U slug key d =
     bindE (rpc_flag slug key d) (\<lambda>(proj, flag).
     bindE (or_connect connectError (ListFlagVersions (Flag_ID flag) d)) (\<lambda>rows.
     Inr (PbFlagVersions (map (flagVersionToProto P U) rows))))"

text \<open>The resolver of segments, and the resolution of a source; as in the REST handlers
  \<open>None\<close> means that the recursion depth does not suffice.\<close>

definition rpc_ResolveSegment :: "uuid \<Rightarrow> database \<Rightarrow> resolver" where
  "rpc_ResolveSegment pid d key = (case GetSegmentByKey pid key d of
     Inl e \<Rightarrow> if e = ErrNotFound then Inl (''segment '' @ fmt_q key @ '' does not exist'')
              else Inl (''looking up segment '' @ fmt_q key)
   | Inr seg \<Rightarrow> (case unmarshal_predicate (Segment_Predicate seg) of
       Inl e \<Rightarrow> Inl (''decoding segment '' @ fmt_q key @ '' predicate: '' @ e)
     | Inr p \<Rightarrow> Inr (Some p)))"

definition rpc_resolveSegmentRefs :: "nat \<Rightarrow> uuid \<Rightarrow> raw \<Rightarrow> database \<Rightarrow> (rest_error + raw) option" where
  "rpc_resolveSegmentRefs n pid src d = (case unmarshal_tree src of
     Inl _ \<Rightarrow> Some (Inr src)
   | Inr tree \<Rightarrow> (case ResolveSegments tree (rpc_ResolveSegment pid d) n of
       None \<Rightarrow> None
     | Some (Inl e) \<Rightarrow> Some (Inl (EConfig e))
     | Some (Inr t) \<Rightarrow> (case marshal_tree t of
         None \<Rightarrow> Some (Inl (EDecode ''invalid JSON''))
       | Some j \<Rightarrow> Some (Inr (RawDoc j)))))"

text \<open>What \<open>PublishFlagVersion\<close> stores, or the error.\<close>

definition rpc_publish_params :: "('v, 's) structpb \<Rightarrow> ('ast, 'prog) engines \<Rightarrow> ts_engine \<Rightarrow> nat \<Rightarrow> Project \<Rightarrow> Flag
    \<Rightarrow> PbStrategy \<Rightarrow> 's option \<Rightarrow> string \<Rightarrow> database \<Rightarrow> (connect_error + PublishFlagVersionParams) option" where
  "rpc_publish_params P E T n proj flag pbStrategy source sourceText d =
     (let strategyStr = strategyFromProto pbStrategy; strategy = strategy_of strategyStr;
          text = (strategy = StrategyTypeScript \<and> sourceText \<noteq> [])
      in if \<not> Valid strategy then Some (Inl (rpc_badRequest (EInvalid (''invalid strategy '' @ fmt_q (strategy_String pbStrategy)))))
         else case structToJSONRaw P source of
           Inl e \<Rightarrow> Some (Inl (rpc_badRequest (EWrap ''encoding source'' (EDecode e))))
         | Inr sourceRaw \<Rightarrow>
            (case rpc_resolveSegmentRefs n (Project_ID proj) (if text then bytes_of_text sourceText else RawDoc sourceRaw) d of
               None \<Rightarrow> None
             | Some (Inl e) \<Rightarrow> Some (Inl (rpc_badRequest e))
             | Some (Inr resolved) \<Rightarrow>
                (case Compile E T strategy resolved of
                   Inl e \<Rightarrow> Some (Inl (if rpc_isCompileError e then compileErrorToConnect e else rpc_badRequest (EConfig e)))
                 | Inr compiled \<Rightarrow>
                    (case (case IR compiled of None \<Rightarrow> Some JNull | Some t \<Rightarrow> marshal_tree t) of
                       None \<Rightarrow> Some (Inl (CodeInternal, EWrap ''encoding compiled'' (EDecode ''invalid JSON'')))
                     | Some compiledRaw \<Rightarrow> Some (Inr \<lparr>pv_FlagID = Flag_ID flag, pv_Strategy = strategyStr,
                         pv_Source = RawDoc (if text then compiledRaw else sourceRaw),
                         pv_Compiled = RawDoc compiledRaw, pv_SourceText = sourceText\<rparr>)))))"

definition rpc_PublishFlagVersion :: "('v, 's) structpb \<Rightarrow> uuid_text \<Rightarrow> ('ast, 'prog) engines \<Rightarrow> ts_engine \<Rightarrow> nat \<Rightarrow> server
    \<Rightarrow> string \<Rightarrow> string \<Rightarrow> string \<Rightarrow> PbStrategy \<Rightarrow> 's option \<Rightarrow> string \<Rightarrow> database
    \<Rightarrow> (('v, 's) rpc_result \<times> database) option" where
  "rpc_PublishFlagVersion P U E T n sv actor slug key strategy source sourceText d =
     (case rpc_flag slug key d of
        Inl e \<Rightarrow> Some (Inl e, d)
      | Inr (proj, flag) \<Rightarrow>
          map_option (\<lambda>x. rpc_prepared x (\<lambda>p. rpc_mutate sv
              \<lparr>ap_ProjectID = Some (Project_ID proj), ap_FlagID = Some (Flag_ID flag), ap_Action = ''publish_version'',
               ap_Actor = actor,
               ap_Payload = jsonOrEmpty [(''strategy'', AStr (strategyFromProto strategy)), (''flag_key'', AStr (Flag_Key flag))]\<rparr>
              (\<lambda>now i. tx_PublishFlagVersion (sv_json sv) now i p)
              (\<lambda>v. PbFlagVersionResponse (flagVersionToProto P U v))) d)
            (rpc_publish_params P E T n proj flag strategy source sourceText d))"

subsection \<open>Segments\<close>

definition rpc_ListSegments :: "('v, 's) structpb \<Rightarrow> uuid_text \<Rightarrow> string \<Rightarrow> database \<Rightarrow> ('v, 's) rpc_result" where
  "rpc_ListSegments P U slug d =
     bindE (rpc_project slug d) (\<lambda>proj.
     bindE (or_connect connectError (ListSegmentsByProject (Project_ID proj) d)) (\<lambda>rows.
     Inr (PbSegments (map (segmentToProto P U) rows))))"

definition rpc_GetSegment :: "('v, 's) structpb \<Rightarrow> uuid_text \<Rightarrow> string \<Rightarrow> string \<Rightarrow> database \<Rightarrow> ('v, 's) rpc_result" where
  "rpc_GetSegment P U slug segKey d =
     bindE (rpc_project slug d) (\<lambda>proj.
     bindE (or_connect connectError (GetSegmentByKey (Project_ID proj) segKey d)) (\<lambda>seg.
     Inr (PbSegmentResponse (segmentToProto P U seg))))"

text \<open>The argument is an interface that holds a pointer, so it is never nil itself: an
  absent predicate is an empty object.\<close>

definition normalizePredicateBytes :: "('v, 's) structpb \<Rightarrow> ('ast, 'prog) engines \<Rightarrow> 's option \<Rightarrow> rest_error + raw" where
  "normalizePredicateBytes P E s =
     (case marshal_any (AMap (as_map P s)) of
        None \<Rightarrow> Inl (EWrap ''encoding predicate'' (EDecode ''unsupported value''))
      | Some j \<Rightarrow> (case unmarshal_predicate (RawDoc j) of
          Inl e \<Rightarrow> Inl (EWrap ''decoding predicate'' (EDecode e))
        | Inr p \<Rightarrow>
           if Kind p = PredSegment then Inl (EInvalid ''segment predicate must not reference another segment'')
           else case ValidatePredicate E (Some p) True of
             Some e \<Rightarrow> Inl (EConfig e)
           | None \<Rightarrow> Inr (RawDoc j)))"

definition rpc_CreateSegment :: "('v, 's) structpb \<Rightarrow> uuid_text \<Rightarrow> ('ast, 'prog) engines \<Rightarrow> server \<Rightarrow> string \<Rightarrow> string \<Rightarrow> string
    \<Rightarrow> string \<Rightarrow> string \<Rightarrow> 's option \<Rightarrow> database \<Rightarrow> ('v, 's) rpc_result \<times> database" where
  "rpc_CreateSegment P U E sv actor slug key name description predicate d =
     rpc_prepared
       (bindE (rpc_project slug d) (\<lambda>proj.
        bindE (or_connect rpc_badRequest (normalizePredicateBytes P E predicate)) (\<lambda>predicateRaw.
        Inr (proj, predicateRaw))))
       (\<lambda>(proj, predicateRaw). rpc_mutate sv
          \<lparr>ap_ProjectID = Some (Project_ID proj), ap_FlagID = None, ap_Action = ''create_segment'', ap_Actor = actor,
           ap_Payload = jsonOrEmpty [(''key'', AStr key)]\<rparr>
          (\<lambda>now i. tx_CreateSegment (sv_json sv) now i
             \<lparr>cs_ProjectID = Project_ID proj, cs_Key = key, cs_Name = name, cs_Description = description,
              cs_Predicate = predicateRaw\<rparr>)
          (\<lambda>x. PbSegmentResponse (segmentToProto P U x))) d"

definition rpc_UpdateSegment :: "('v, 's) structpb \<Rightarrow> uuid_text \<Rightarrow> ('ast, 'prog) engines \<Rightarrow> server \<Rightarrow> string \<Rightarrow> string \<Rightarrow> string
    \<Rightarrow> string \<Rightarrow> string \<Rightarrow> 's option \<Rightarrow> database \<Rightarrow> ('v, 's) rpc_result \<times> database" where
  "rpc_UpdateSegment P U E sv actor slug segKey name description predicate d =
     rpc_prepared
       (bindE (rpc_project slug d) (\<lambda>proj.
        bindE (or_connect rpc_badRequest (normalizePredicateBytes P E predicate)) (\<lambda>predicateRaw.
        Inr (proj, predicateRaw))))
       (\<lambda>(proj, predicateRaw). rpc_mutate sv
          \<lparr>ap_ProjectID = Some (Project_ID proj), ap_FlagID = None, ap_Action = ''update_segment'', ap_Actor = actor,
           ap_Payload = jsonOrEmpty [(''key'', AStr segKey)]\<rparr>
          (\<lambda>now i. tx_UpdateSegment (sv_json sv) now
             \<lparr>us_ProjectID = Project_ID proj, us_Key = segKey, us_Name = name, us_Description = description,
              us_Predicate = predicateRaw\<rparr>)
          (\<lambda>x. PbSegmentResponse (segmentToProto P U x))) d"

subsection \<open>Snapshots\<close>

definition rpc_ListSnapshots :: "('v, 's) structpb \<Rightarrow> uuid_text \<Rightarrow> string \<Rightarrow> int \<Rightarrow> database \<Rightarrow> ('v, 's) rpc_result" where
  "rpc_ListSnapshots P U slug limit d =
     bindE (rpc_project slug d) (\<lambda>proj.
     bindE (or_connect connectError (ListSnapshotsByProject (Project_ID proj) (if limit \<le> 0 then 50 else limit) d)) (\<lambda>rows.
     Inr (PbSnapshots (map (snapshotToProto P U) rows))))"

definition rpc_GetSnapshot :: "('v, 's) structpb \<Rightarrow> uuid_text \<Rightarrow> string \<Rightarrow> string \<Rightarrow> database \<Rightarrow> ('v, 's) rpc_result" where
  "rpc_GetSnapshot P U slug i d =
     bindE (rpc_project slug d) (\<lambda>proj.
     case uuid_Parse U i of
       None \<Rightarrow> Inl (rpc_badRequest (EWrap ''invalid snapshot id'' (EDecode ''invalid UUID'')))
     | Some u \<Rightarrow>
        bindE (or_connect connectError (GetSnapshotByID (Project_ID proj) u d)) (\<lambda>snap.
        Inr (PbSnapshotResponse (snapshotToProto P U snap))))"

definition rpc_GetLatestSnapshot :: "('v, 's) structpb \<Rightarrow> uuid_text \<Rightarrow> string \<Rightarrow> database \<Rightarrow> ('v, 's) rpc_result" where
  "rpc_GetLatestSnapshot P U slug d =
     bindE (rpc_project slug d) (\<lambda>proj.
     bindE (or_connect connectError (GetLatestSnapshot (Project_ID proj) d)) (\<lambda>snap.
     Inr (PbSnapshotResponse (snapshotToProto P U snap))))"

definition rpc_snapshot_environment :: "string option \<Rightarrow> Project \<Rightarrow> database \<Rightarrow> connect_error + uuid option" where
  "rpc_snapshot_environment envSlug proj d =
     (if derefString envSlug = [] then Inr None
      else case GetEnvironmentBySlug (Project_ID proj) (derefString envSlug) d of
        Inl e \<Rightarrow> if e = ErrNotFound
                 then Inl (rpc_badRequest (EInvalid (''environment '' @ fmt_q (derefString envSlug) @ '' does not exist'')))
                 else Inl (connectError e)
      | Inr env \<Rightarrow> Inr (Some (Env_ID env)))"

fun rpc_bundle_of :: "LatestFlagVersion list \<Rightarrow> snapshotBundle \<Rightarrow> rest_error + snapshotBundle" where
  "rpc_bundle_of [] b = Inr b"
| "rpc_bundle_of (lv # lvs) b = (case unmarshal_tree (Latest_Compiled lv) of
     Inl e \<Rightarrow> Inl (EWrap (''decoding compiled IR for '' @ Latest_FlagKey lv) (EDecode e))
   | Inr tree \<Rightarrow> rpc_bundle_of lvs (map_put (Latest_FlagKey lv) tree b))"

definition rpc_compileBundle :: "uuid \<Rightarrow> database \<Rightarrow> rest_error + snapshotBundle" where
  "rpc_compileBundle pid d = (case ListLatestFlagVersions pid d of
     Inl e \<Rightarrow> Inl (EWrap ''listing latest versions'' (EStore e))
   | Inr latest \<Rightarrow> rpc_bundle_of latest [])"

text \<open>\<open>connectError\<close> of an error that may wrap one of the store.\<close>

fun wrapped_store_error :: "rest_error \<Rightarrow> store_error option" where
  "wrapped_store_error (EWrap _ e) = wrapped_store_error e"
| "wrapped_store_error (EStore e) = Some e"
| "wrapped_store_error _ = None"

definition connect_wrapped :: "rest_error \<Rightarrow> connect_error" where
  "connect_wrapped e = (case wrapped_store_error e of None \<Rightarrow> (CodeInternal, e) | Some s \<Rightarrow> (fst (connectError s), e))"

definition rpc_CompileSnapshot :: "('v, 's) structpb \<Rightarrow> uuid_text \<Rightarrow> server \<Rightarrow> string \<Rightarrow> string \<Rightarrow> string option \<Rightarrow> database
    \<Rightarrow> ('v, 's) rpc_result \<times> database" where
  "rpc_CompileSnapshot P U sv actor slug envSlug d =
     rpc_prepared
       (bindE (rpc_project slug d) (\<lambda>proj.
        bindE (rpc_snapshot_environment envSlug proj d) (\<lambda>envID.
        bindE (or_connect connect_wrapped (rpc_compileBundle (Project_ID proj) d)) (\<lambda>bundle.
        case marshal_bundle bundle of
          None \<Rightarrow> Inl (CodeInternal, EWrap ''encoding bundle'' (EDecode ''invalid JSON''))
        | Some compiledRaw \<Rightarrow> Inr (proj, envID, bundle, compiledRaw)))))
       (\<lambda>(proj, envID, bundle, compiledRaw). rpc_mutate sv
          \<lparr>ap_ProjectID = Some (Project_ID proj), ap_FlagID = None, ap_Action = ''compile_snapshot'', ap_Actor = actor,
           ap_Payload = jsonOrEmpty [(''flag_count'', AInt (int (length bundle)))]\<rparr>
          (\<lambda>now i. tx_CompileSnapshot (sv_json sv) now i
             \<lparr>sp_ProjectID = Project_ID proj, sp_EnvironmentID = envID, sp_Compiled = RawDoc compiledRaw\<rparr>)
          (\<lambda>x. PbSnapshotResponse (snapshotToProto P U x))) d"

subsection \<open>Evaluation\<close>

definition rpc_loadEvaluation :: "('v, 's) structpb \<Rightarrow> ('ast, 'prog) engines \<Rightarrow> ts_engine \<Rightarrow> string \<Rightarrow> string \<Rightarrow> 's option
    \<Rightarrow> database \<Rightarrow> connect_error + 'prog Compiled \<times> int \<times> ctx" where
  "rpc_loadEvaluation P E T slug key ctxStruct d =
     bindE (rpc_flag slug key d) (\<lambda>(proj, flag).
     bindE (or_connect connectError (GetLatestFlagVersion (Flag_ID flag) d)) (\<lambda>version.
     bindE (or_connect (\<lambda>e. (CodeInternal, EWrap ''rehydrating IR'' (EConfig e)))
              (Compile E T (strategy_of (FV_Strategy version)) (FV_Compiled version))) (\<lambda>compiled.
     Inr (compiled, FV_Version version, as_map P ctxStruct))))"

definition rpc_Evaluate :: "('v, 's) structpb \<Rightarrow> ('ast, 'prog) engines \<Rightarrow> ts_engine \<Rightarrow> string \<Rightarrow> string \<Rightarrow> 's option
    \<Rightarrow> database \<Rightarrow> ('v, 's) rpc_result" where
  "rpc_Evaluate P E T slug key ctxStruct d =
     bindE (rpc_loadEvaluation P E T slug key ctxStruct d) (\<lambda>(compiled, version, ctx).
     bindE (or_connect (\<lambda>e. (CodeInternal, EEval e)) (Evaluate E (Some compiled) ctx version)) (\<lambda>dec.
     Inr (PbDecisionResponse (decisionToProto P dec))))"

definition rpc_EvaluateWithTrace :: "('v, 's) structpb \<Rightarrow> ('ast, 'prog) engines \<Rightarrow> ts_engine \<Rightarrow> string \<Rightarrow> string \<Rightarrow> 's option
    \<Rightarrow> database \<Rightarrow> ('v, 's) rpc_result" where
  "rpc_EvaluateWithTrace P E T slug key ctxStruct d =
     bindE (rpc_loadEvaluation P E T slug key ctxStruct d) (\<lambda>(compiled, version, ctx).
     bindE (or_connect (\<lambda>e. (CodeInternal, EEval e)) (EvaluateWithTrace E (Some compiled) ctx version)) (\<lambda>(dec, trace).
     Inr (PbTraceResponse (decisionToProto P dec) (traceToProto P trace))))"

subsection \<open>Audit log and health\<close>

text \<open>One row more than the limit is read, and dropped; the cursor of the message is not
  used. \<open>limit + 1\<close> wraps at 32 bits.\<close>

definition rpc_ListAuditEvents :: "('v, 's) structpb \<Rightarrow> uuid_text \<Rightarrow> string \<Rightarrow> int \<Rightarrow> string option \<Rightarrow> string option
    \<Rightarrow> time option \<Rightarrow> time option \<Rightarrow> database \<Rightarrow> ('v, 's) rpc_result" where
  "rpc_ListAuditEvents P U slug limit0 action actor from_ts to_ts d =
     (let limit = (if limit0 \<le> 0 then 100 else limit0)
      in bindE (rpc_project slug d) (\<lambda>proj.
         bindE (or_connect connectError (ListAuditEvents
           \<lparr>lp_ProjectID = Project_ID proj, lp_Action = derefString action, lp_Actor = derefString actor,
            lp_From = derefTime from_ts, lp_To = derefTime to_ts, lp_CursorTs = 0, lp_CursorID = 0,
            lp_Limit = to_int32 (limit + 1)\<rparr> d)) (\<lambda>rows.
         Inr (PbAuditEvents (map (auditEventToProto P U) (take (nat limit) rows))))))"

definition rpc_Check :: "string \<Rightarrow> ('v, 's) rpc_result" where
  "rpc_Check version = Inr (PbCheck ''falseflag-api'' version)"

subsection \<open>All calls\<close>

text \<open>The calls of the services \<open>Mount\<close> registers, with the fields of their messages.\<close>

datatype ('v, 's) rpc_call =
    RpcCheck
  | RpcListProjects
  | RpcGetProject string
  | RpcCreateProject string string PbStrategy
  | RpcListEnvironments string
  | RpcGetEnvironment string string
  | RpcCreateEnvironment string string string
  | RpcListFlags string
  | RpcGetFlag string string
  | RpcCreateFlag string string string string PbValueType "'v option"
  | RpcPublishFlagVersion string string PbStrategy "'s option" string
  | RpcListFlagVersions string string
  | RpcListSegments string
  | RpcGetSegment string string
  | RpcCreateSegment string string string string "'s option"
  | RpcUpdateSegment string string string string "'s option"
  | RpcListSnapshots string int
  | RpcGetSnapshot string string
  | RpcGetLatestSnapshot string
  | RpcCompileSnapshot string "string option"
  | RpcEvaluate string string "'s option"
  | RpcEvaluateWithTrace string string "'s option"
  | RpcListAuditEvents string int "string option" "string option" "time option" "time option"

text \<open>One call on an open store: \<open>None\<close> is a call whose segments are not resolved
  within the recursion depth.\<close>

fun rpc_dispatch :: "('v, 's) structpb \<Rightarrow> uuid_text \<Rightarrow> ('ast, 'prog) engines \<Rightarrow> ts_engine \<Rightarrow> nat \<Rightarrow> server \<Rightarrow> string
    \<Rightarrow> ('v, 's) rpc_call \<Rightarrow> database \<Rightarrow> (('v, 's) rpc_result \<times> database) option" where
  "rpc_dispatch P U E T n sv actor RpcCheck d = Some (rpc_Check (sv_version sv), d)"
| "rpc_dispatch P U E T n sv actor RpcListProjects d = Some (rpc_ListProjects U d, d)"
| "rpc_dispatch P U E T n sv actor (RpcGetProject slug) d = Some (rpc_GetProject U slug d, d)"
| "rpc_dispatch P U E T n sv actor (RpcCreateProject slug name st) d = Some (rpc_CreateProject U sv actor slug name st d)"
| "rpc_dispatch P U E T n sv actor (RpcListEnvironments slug) d = Some (rpc_ListEnvironments U slug d, d)"
| "rpc_dispatch P U E T n sv actor (RpcGetEnvironment slug env) d = Some (rpc_GetEnvironment U slug env d, d)"
| "rpc_dispatch P U E T n sv actor (RpcCreateEnvironment slug env name) d = Some (rpc_CreateEnvironment U sv actor slug env name d)"
| "rpc_dispatch P U E T n sv actor (RpcListFlags slug) d = Some (rpc_ListFlags P U slug d, d)"
| "rpc_dispatch P U E T n sv actor (RpcGetFlag slug key) d = Some (rpc_GetFlag P U slug key d, d)"
| "rpc_dispatch P U E T n sv actor (RpcCreateFlag slug key name desc vt dv) d =
     Some (rpc_CreateFlag P U sv actor slug key name desc vt dv d)"
| "rpc_dispatch P U E T n sv actor (RpcPublishFlagVersion slug key st src stext) d =
     rpc_PublishFlagVersion P U E T n sv actor slug key st src stext d"
| "rpc_dispatch P U E T n sv actor (RpcListFlagVersions slug key) d = Some (rpc_ListFlagVersions P U slug key d, d)"
| "rpc_dispatch P U E T n sv actor (RpcListSegments slug) d = Some (rpc_ListSegments P U slug d, d)"
| "rpc_dispatch P U E T n sv actor (RpcGetSegment slug key) d = Some (rpc_GetSegment P U slug key d, d)"
| "rpc_dispatch P U E T n sv actor (RpcCreateSegment slug key name desc p) d =
     Some (rpc_CreateSegment P U E sv actor slug key name desc p d)"
| "rpc_dispatch P U E T n sv actor (RpcUpdateSegment slug key name desc p) d =
     Some (rpc_UpdateSegment P U E sv actor slug key name desc p d)"
| "rpc_dispatch P U E T n sv actor (RpcListSnapshots slug limit) d = Some (rpc_ListSnapshots P U slug limit d, d)"
| "rpc_dispatch P U E T n sv actor (RpcGetSnapshot slug i) d = Some (rpc_GetSnapshot P U slug i d, d)"
| "rpc_dispatch P U E T n sv actor (RpcGetLatestSnapshot slug) d = Some (rpc_GetLatestSnapshot P U slug d, d)"
| "rpc_dispatch P U E T n sv actor (RpcCompileSnapshot slug env) d = Some (rpc_CompileSnapshot P U sv actor slug env d)"
| "rpc_dispatch P U E T n sv actor (RpcEvaluate slug key ctx) d = Some (rpc_Evaluate P E T slug key ctx d, d)"
| "rpc_dispatch P U E T n sv actor (RpcEvaluateWithTrace slug key ctx) d = Some (rpc_EvaluateWithTrace P E T slug key ctx d, d)"
| "rpc_dispatch P U E T n sv actor (RpcListAuditEvents slug limit action act from_ts to_ts) d =
     Some (rpc_ListAuditEvents P U slug limit action act from_ts to_ts d, d)"

text \<open>The handlers do not test for a missing store: without one every call but \<open>Check\<close>
  ends in a panic, which is \<open>None\<close> too. (\<open>CreateProject\<close>
  refuses an invalid strategy before it.)\<close>

definition serve_rpc :: "('v, 's) structpb \<Rightarrow> uuid_text \<Rightarrow> ('ast, 'prog) engines \<Rightarrow> ts_engine \<Rightarrow> nat \<Rightarrow> server \<Rightarrow> string
    \<Rightarrow> ('v, 's) rpc_call \<Rightarrow> database option \<Rightarrow> (('v, 's) rpc_result \<times> database option) option" where
  "serve_rpc P U E T n sv actor c s = (case s of
     Some d \<Rightarrow> map_option (\<lambda>(r, d'). (r, Some d')) (rpc_dispatch P U E T n sv actor c d)
   | None \<Rightarrow>
      (case c of
         RpcCheck \<Rightarrow> Some (rpc_Check (sv_version sv), None)
       | RpcCreateProject slug name st \<Rightarrow>
          if Valid (strategy_of (strategyFromProto st)) then None
          else Some (Inl (rpc_badRequest (EInvalid (''invalid config_strategy '' @ fmt_q (strategy_String st)))), None)
       | _ \<Rightarrow> None))"

end
