(* ===== verification/Rpc_Props.thy ===== *)
theory Rpc_Props
  imports Rpc Rest_Flow
begin

text \<open>
  The two surfaces of the control plane agree: a Connect call and the REST request
  with the same content do the same to the database and answer with the same outcome.
\<close>

subsection \<open>What store errors become\<close>

definition http_status :: "connect_code \<Rightarrow> int" where
  "http_status c = (case c of CodeInvalidArgument \<Rightarrow> 400 | CodeNotFound \<Rightarrow> 404 | CodeAlreadyExists \<Rightarrow> 409 | CodeInternal \<Rightarrow> 500)"

text \<open>Two answers with the same outcome: an error of the matching status (422 is an
  invalid argument too), or bodies made from the same values.\<close>

inductive same_body :: "('v, 's) structpb \<Rightarrow> uuid_text \<Rightarrow> body \<Rightarrow> ('v, 's) rpc_body \<Rightarrow> bool" for P U where
  "same_body P U (BProject (projectToAPI p)) (PbProjectResponse (projectToProto U p))"
| "same_body P U (BProjects (map projectToAPI ps)) (PbProjects (map (projectToProto U) ps))"
| "same_body P U (BEnvironment (environmentToAPI e)) (PbEnvironmentResponse (environmentToProto U e))"
| "same_body P U (BEnvironments (map environmentToAPI es)) (PbEnvironments (map (environmentToProto U) es))"
| "same_body P U (BFlag (flagToAPI f)) (PbFlagResponse (flagToProto P U f))"
| "same_body P U (BFlagWithLatest (flagToAPI f) (map_option flagVersionToAPI v))
    (PbFlagWithLatest (flagToProto P U f) (map_option (flagVersionToProto P U) v))"
| "same_body P U (BFlags (map flagToAPI fs)) (PbFlags (map (flagToProto P U) fs))"
| "same_body P U (BFlagVersion (flagVersionToAPI w)) (PbFlagVersionResponse (flagVersionToProto P U w))"
| "same_body P U (BFlagVersions (map flagVersionToAPI ws)) (PbFlagVersions (map (flagVersionToProto P U) ws))"
| "same_body P U (BSegment (segmentToAPI g)) (PbSegmentResponse (segmentToProto P U g))"
| "same_body P U (BSegments (map segmentToAPI gs)) (PbSegments (map (segmentToProto P U) gs))"
| "same_body P U (BSnapshot (snapshotToAPI x)) (PbSnapshotResponse (snapshotToProto P U x))"
| "same_body P U (BSnapshots (map snapshotToAPI xs)) (PbSnapshots (map (snapshotToProto P U) xs))"
| "same_body P U (BDecision (decisionToAPI dec)) (PbDecisionResponse (decisionToProto P dec))"
| "same_body P U (BTrace (decisionToAPI dec) (traceToAPI t)) (PbTraceResponse (decisionToProto P dec) (traceToProto P t))"
| "same_body P U (BAuditEvents (map auditEventToAPI as) c) (PbAuditEvents (map (auditEventToProto P U) as))"

definition is_error :: "body \<Rightarrow> bool" where
  "is_error b = (case b of BError _ \<Rightarrow> True | BCompileError _ _ \<Rightarrow> True | _ \<Rightarrow> False)"

definition same_error :: "response \<Rightarrow> connect_error \<Rightarrow> bool" where
  "same_error resp e \<longleftrightarrow> is_error (snd resp) \<and>
     (fst resp = http_status (fst e) \<or> fst resp = 422 \<and> fst e = CodeInvalidArgument)"

definition same_answer :: "('v, 's) structpb \<Rightarrow> uuid_text \<Rightarrow> response \<Rightarrow> ('v, 's) rpc_body \<Rightarrow> bool" where
  "same_answer P U resp b \<longleftrightarrow> fst resp \<in> {200, 201} \<and> same_body P U (snd resp) b"

definition same_outcome :: "('v, 's) structpb \<Rightarrow> uuid_text \<Rightarrow> response \<Rightarrow> ('v, 's) rpc_result \<Rightarrow> bool" where
  "same_outcome P U resp res = (case res of Inl e \<Rightarrow> same_error resp e | Inr b \<Rightarrow> same_answer P U resp b)"

lemma same_error_simps [simp]:
  "same_error (writeError s e) (c, e') \<longleftrightarrow> s = http_status c \<or> s = 422 \<and> c = CodeInvalidArgument"
  "same_error (badRequest e) (rpc_badRequest e')"
  "same_error (writeStoreErr x) (connectError x)"
  "same_error (notFoundOrError ErrNotFound) (connectError ErrNotFound)"
  "same_error (writeCompileError ce) (compileErrorToConnect ce)"
  by (auto simp: same_error_def writeError_def badRequest_def rpc_badRequest_def writeStoreErr_def connectError_def
      http_status_def is_error_def notFoundOrError_def writeCompileError_def compileErrorToConnect_def)

subsection \<open>Requests with the same content\<close>

inductive same_request :: "('v, 's) structpb \<Rightarrow> uuid_text \<Rightarrow> request \<Rightarrow> rest_call \<Rightarrow> ('v, 's) rpc_call \<Rightarrow> bool" for P U rq where
  "same_request P U rq RListProjects RpcListProjects"
| "same_request P U rq (RGetProject slug) (RpcGetProject slug)"
| "decode_CreateProjectRequest (rq_body rq) = Inr p \<Longrightarrow> CPR_ConfigStrategy p = strategyFromProto st \<Longrightarrow>
    same_request P U rq RCreateProject (RpcCreateProject (CPR_Slug p) (CPR_DisplayName p) st)"
| "same_request P U rq (RListEnvironments slug) (RpcListEnvironments slug)"
| "same_request P U rq (RGetEnvironment slug e) (RpcGetEnvironment slug e)"
| "decode_CreateEnvironmentRequest (rq_body rq) = Inr q \<Longrightarrow>
    same_request P U rq (RCreateEnvironment slug) (RpcCreateEnvironment slug (CER_Slug q) (CER_Name q))"
| "same_request P U rq (RListFlags slug) (RpcListFlags slug)"
| "same_request P U rq (RGetFlag slug key) (RpcGetFlag slug key)"
| "decode_CreateFlagRequest (rq_body rq) = Inr f \<Longrightarrow> CFR_ValueType f = valueTypeFromProto vt \<Longrightarrow>
    marshal_any (CFR_DefaultValue f) = marshal_any (valueToAny P dv) \<Longrightarrow>
    same_request P U rq (RCreateFlag slug) (RpcCreateFlag slug (CFR_Key f) (CFR_Name f) (derefString (CFR_Description f)) vt dv)"
| "decode_PublishFlagVersionRequest (rq_body rq) = Inr v \<Longrightarrow> PVR_Strategy v = strategyFromProto st \<Longrightarrow>
    (case structToJSONRaw P src of Inl e \<Rightarrow> None | Inr j \<Rightarrow> Some j) = marshal_any (PVR_Source v) \<Longrightarrow>
    same_request P U rq (RPublishFlagVersion slug key)
      (RpcPublishFlagVersion slug key st src (derefString (PVR_SourceText v)))"
| "same_request P U rq (RListFlagVersions slug key) (RpcListFlagVersions slug key)"
| "same_request P U rq (RListSegments slug) (RpcListSegments slug)"
| "same_request P U rq (RGetSegment slug key) (RpcGetSegment slug key)"
| "decode_CreateSegmentRequest (rq_body rq) = Inr g \<Longrightarrow> CSR_Predicate g \<noteq> ANil \<Longrightarrow>
    marshal_any (CSR_Predicate g) = marshal_any (AMap (as_map P pr)) \<Longrightarrow>
    same_request P U rq (RCreateSegment slug) (RpcCreateSegment slug (CSR_Key g) (CSR_Name g) (derefString (CSR_Description g)) pr)"
| "decode_UpdateSegmentRequest (rq_body rq) = Inr u \<Longrightarrow> USR_Predicate u \<noteq> ANil \<Longrightarrow>
    marshal_any (USR_Predicate u) = marshal_any (AMap (as_map P pr)) \<Longrightarrow>
    same_request P U rq (RUpdateSegment slug key) (RpcUpdateSegment slug key (USR_Name u) (derefString (USR_Description u)) pr)"
| "(if 0 < n then lmt = Some n else lmt = None) \<Longrightarrow> same_request P U rq (RListSnapshots slug lmt) (RpcListSnapshots slug n)"
| "uuid_Parse U t = Some i \<Longrightarrow> same_request P U rq (RGetSnapshot slug i) (RpcGetSnapshot slug t)"
| "same_request P U rq (RGetLatestSnapshot slug) (RpcGetLatestSnapshot slug)"
| "(if rq_content_length rq > 0 then decode_CompileSnapshotRequest (rq_body rq) = Inr env else derefString env = []) \<Longrightarrow>
    same_request P U rq (RCompileSnapshot slug) (RpcCompileSnapshot slug env)"
| "decode_EvaluationRequest (rq_body rq) = Inr (as_map P c) \<Longrightarrow>
    same_request P U rq (REvaluateFlag slug key) (RpcEvaluate slug key c)"
| "decode_EvaluationRequest (rq_body rq) = Inr (as_map P c) \<Longrightarrow>
    same_request P U rq (REvaluateFlagWithTrace slug key) (RpcEvaluateWithTrace slug key c)"
| "derefString (ALP_Cursor a) = [] \<Longrightarrow> (if 0 < n then ALP_Limit a = Some n else ALP_Limit a = None) \<Longrightarrow>
    same_request P U rq (RListAuditEvents slug a)
      (RpcListAuditEvents slug n (ALP_Action a) (ALP_Actor a) (ALP_From a) (ALP_To a))"

subsection \<open>Handlers in step\<close>

text \<open>The errors a handler meets on the way agree, the values satisfy \<open>R\<close>.\<close>

abbreviation in_step :: "('a \<Rightarrow> 'b \<Rightarrow> bool) \<Rightarrow> response + 'a \<Rightarrow> connect_error + 'b \<Rightarrow> bool" where
  "in_step R \<equiv> rel_sum same_error R"

lemma in_step_bind:
  "in_step (=) x y \<Longrightarrow> (\<And>a. y = Inr a \<Longrightarrow> in_step Q (f a) (g a)) \<Longrightarrow> in_step Q (bindE x f) (bindE y g)"
  by (auto elim!: rel_sum.cases)

lemma in_step_or:
  "(\<And>e. x = Inl e \<Longrightarrow> same_error (f e) (g e)) \<Longrightarrow> in_step (=) (or_respond f x) (or_connect g x)"
  by (auto simp: or_respond_def or_connect_def split: sum.splits)

lemma one_row_missing: "wrap_get m (one_row rs) = Inl e \<Longrightarrow> e = ErrNotFound"
  by (cases rs) (simp_all add: one_row_def wrap_get_def)

lemma get_missing:
  "GetProjectBySlug slug d = Inl e \<Longrightarrow> e = ErrNotFound" "GetFlagByKey pid key d = Inl e \<Longrightarrow> e = ErrNotFound"
  "GetEnvironmentBySlug pid slug d = Inl e \<Longrightarrow> e = ErrNotFound" "GetSegmentByKey pid key d = Inl e \<Longrightarrow> e = ErrNotFound"
  "GetLatestFlagVersion fid d = Inl e \<Longrightarrow> e = ErrNotFound" "GetSnapshotByID pid i d = Inl e \<Longrightarrow> e = ErrNotFound"
  "GetLatestSnapshot pid d = Inl e \<Longrightarrow> e = ErrNotFound"
  by (auto simp: GetProjectBySlug_def q_GetProjectBySlug_def GetFlagByKey_def q_GetFlagByKey_def GetEnvironmentBySlug_def
      q_GetEnvironmentBySlug_def GetSegmentByKey_def q_GetSegmentByKey_def GetLatestFlagVersion_def q_GetLatestFlagVersion_def
      GetSnapshotByID_def q_GetSnapshotByID_def GetLatestSnapshot_def q_GetLatestSnapshot_def bindE_eq_Inl
      dest: one_row_missing)

lemma limit_refused:
  "ListSnapshotsByProject pid n d = Inl e \<Longrightarrow> fst (connectError e) = CodeInternal"
  "ListAuditEvents p d = Inl e \<Longrightarrow> fst (connectError e) = CodeInternal"
  by (auto simp: ListSnapshotsByProject_def q_ListSnapshotsByProject_def ListAuditEvents_def q_ListAuditEventsByProject_def
      bindE_eq_Inl wrap_sql_def limit_rows_def connectError_def IsConflict_def split: sum.splits if_splits)

lemma list_failed:
  "fst (connectError e) = CodeInternal \<Longrightarrow> same_error (writeError 500 (EStore e)) (connectError e)"
  by (cases "connectError e") (simp add: http_status_def)

lemma in_step_get:
  "(\<And>e. x = Inl e \<Longrightarrow> e = ErrNotFound) \<Longrightarrow> in_step (=) (or_respond notFoundOrError x) (or_connect connectError x)"
  by (rule in_step_or) auto

lemma in_step_list:
  "(\<And>e. x = Inl e \<Longrightarrow> fst (connectError e) = CodeInternal) \<Longrightarrow>
   in_step (=) (or_respond (\<lambda>e. writeError 500 (EStore e)) x) (or_connect connectError x)"
  by (rule in_step_or) (auto intro: list_failed)

lemma in_step_project: "in_step (=) (get_project slug d) (rpc_project slug d)"
  unfolding get_project_def rpc_project_def by (rule in_step_get) (rule get_missing)

lemma in_step_flag: "in_step (=) (get_flag slug key d) (rpc_flag slug key d)"
  unfolding get_flag_def rpc_flag_def
  by (auto intro!: in_step_bind in_step_project in_step_get dest: get_missing)

lemmas in_steps = in_step_bind in_step_project in_step_flag in_step_get in_step_list

text \<open>A request and a call agree when both are unanswered, or leave the same database and
  have the same outcome.\<close>

definition agree :: "('v, 's) structpb \<Rightarrow> uuid_text \<Rightarrow> (response \<times> database option) option
    \<Rightarrow> (('v, 's) rpc_result \<times> database) option \<Rightarrow> bool" where
  "agree P U = rel_option (rel_prod (same_outcome P U) (\<lambda>s d. s = Some d))"

lemma reading_agrees:
  "in_step (same_answer P U) (f d) r \<Longrightarrow> agree P U (Some (reading f (Some d))) (Some (r, d))"
  by (auto simp: read_defs agree_def same_outcome_def elim!: rel_sum.cases)

lemma requireStore_agrees:
  "rel_prod (same_outcome P U) (=) (h d) r \<Longrightarrow> agree P U (Some (requireStore (Some d) h)) (Some r)"
  by (auto simp: requireStore_def agree_def split: prod.splits elim!: rel_prod.cases)

lemma mutate_agrees:
  assumes "\<And>a. same_answer P U (ok a) (ok' a)"
  shows "rel_prod (same_outcome P U) (=) (mutate sv ev f ok d) (rpc_mutate sv ev f ok' d)"
  using assms by (auto simp: mutate_def rpc_mutate_def same_outcome_def split: prod.splits sum.splits)

lemma prepared_agrees:
  assumes "in_step R x y" "\<And>a b. R a b \<Longrightarrow> rel_prod (same_outcome P U) (=) (f a d) (g b d)"
  shows "rel_prod (same_outcome P U) (=) (prepared x f d) (rpc_prepared y g d)"
  using assms by (auto simp: rpc_prepared_def same_outcome_def elim!: rel_sum.cases)

subsection \<open>Reads\<close>

lemma listings [simp]:
  "ListProjects d \<noteq> Inl e" "ListFlagsByProject pid d \<noteq> Inl e" "ListFlagVersions fid d \<noteq> Inl e"
  "ListEnvironmentsByProject pid d \<noteq> Inl e" "ListSegmentsByProject pid d \<noteq> Inl e" "ListLatestFlagVersions pid d \<noteq> Inl e"
  by (simp_all add: ListProjects_def ListFlagsByProject_def ListFlagVersions_def ListEnvironmentsByProject_def
      ListSegmentsByProject_def ListLatestFlagVersions_def)

lemma same_answer_intros:
  "same_body P U b b' \<Longrightarrow> same_answer P U (200, b) b'" "same_body P U b b' \<Longrightarrow> same_answer P U (201, b) b'"
  by (simp_all add: same_answer_def)

lemmas read_agrees = reading_agrees in_steps same_answer_intros same_body.intros

lemma project_reads_agree:
  "agree P U (Some (api_ListProjects (Some d))) (Some (rpc_ListProjects U d, d))"
  "agree P U (Some (api_GetProject slug (Some d))) (Some (rpc_GetProject U slug d, d))"
  "agree P U (Some (api_ListEnvironments slug (Some d))) (Some (rpc_ListEnvironments U slug d, d))"
  "agree P U (Some (api_GetEnvironment slug env (Some d))) (Some (rpc_GetEnvironment U slug env d, d))"
  unfolding api_ListProjects_def rpc_ListProjects_def api_GetProject_def rpc_GetProject_def api_ListEnvironments_def
    rpc_ListEnvironments_def api_GetEnvironment_def rpc_GetEnvironment_def
  by (auto intro!: read_agrees dest: get_missing)

lemma segment_reads_agree:
  "agree P U (Some (api_ListSegments slug (Some d))) (Some (rpc_ListSegments P U slug d, d))"
  "agree P U (Some (api_GetSegment slug key (Some d))) (Some (rpc_GetSegment P U slug key d, d))"
  unfolding api_ListSegments_def rpc_ListSegments_def api_GetSegment_def rpc_GetSegment_def
  by (auto intro!: read_agrees dest: get_missing)

lemma flag_reads_agree:
  "agree P U (Some (api_ListFlags slug (Some d))) (Some (rpc_ListFlags P U slug d, d))"
  "agree P U (Some (api_GetFlag slug key (Some d))) (Some (rpc_GetFlag P U slug key d, d))"
  "agree P U (Some (api_ListFlagVersions slug key (Some d))) (Some (rpc_ListFlagVersions P U slug key d, d))"
proof -
  show "agree P U (Some (api_GetFlag slug key (Some d))) (Some (rpc_GetFlag P U slug key d, d))"
    unfolding api_GetFlag_def rpc_GetFlag_def
    by (intro reading_agrees in_step_bind in_step_flag)
      (auto simp: same_answer_def dest: get_missing split: sum.splits
        intro: same_body.intros(6) [where v = "Some v" for v, simplified] same_body.intros(6) [where v = None, simplified])
qed (auto simp: api_ListFlags_def rpc_ListFlags_def api_ListFlagVersions_def rpc_ListFlagVersions_def intro!: read_agrees)

lemma snapshot_list_agrees:
  assumes "if 0 < m then lmt = Some m else lmt = None"
  shows "agree P U (Some (api_ListSnapshots slug lmt (Some d))) (Some (rpc_ListSnapshots P U slug m d, d))"
proof -
  have "(if m \<le> 0 then 50 else m) = (case lmt of None \<Rightarrow> 50 | Some k \<Rightarrow> k)"
    using assms by (auto split: if_splits)
  then show ?thesis
    unfolding api_ListSnapshots_def rpc_ListSnapshots_def by (auto intro!: read_agrees dest: limit_refused)
qed

lemma snapshot_reads_agree:
  "uuid_Parse U t = Some i \<Longrightarrow>
     agree P U (Some (api_GetSnapshot slug i (Some d))) (Some (rpc_GetSnapshot P U slug t d, d))"
  "agree P U (Some (api_GetLatestSnapshot slug (Some d))) (Some (rpc_GetLatestSnapshot P U slug d, d))"
  by (auto simp: api_GetSnapshot_def rpc_GetSnapshot_def api_GetLatestSnapshot_def rpc_GetLatestSnapshot_def
    intro!: read_agrees dest: get_missing)

lemma in_step_load:
  assumes "decode_EvaluationRequest (rq_body rq) = Inr (as_map P c)"
  shows "in_step (=) (loadEvaluation E T rq slug key d) (rpc_loadEvaluation P E T slug key c d)"
  unfolding loadEvaluation_def rpc_loadEvaluation_def
  by (auto simp: assms or_respond_def [of _ "Inr x" for x] http_status_def intro!: in_steps in_step_or dest: get_missing)

lemma evaluations_agree:
  assumes "decode_EvaluationRequest (rq_body rq) = Inr (as_map P c)"
  shows "agree P U (Some (api_EvaluateFlag E T rq slug key (Some d))) (Some (rpc_Evaluate P E T slug key c d, d))"
    "agree P U (Some (api_EvaluateFlagWithTrace E T rq slug key (Some d))) (Some (rpc_EvaluateWithTrace P E T slug key c d, d))"
  unfolding api_EvaluateFlag_def rpc_Evaluate_def api_EvaluateFlagWithTrace_def rpc_EvaluateWithTrace_def
  by (auto simp: http_status_def intro!: reading_agrees in_step_bind in_step_load [OF assms] in_step_or same_answer_intros
      same_body.intros)

subsection \<open>The audit log\<close>

lemma audit_agrees:
  assumes "derefString (ALP_Cursor p) = []" "if 0 < m then ALP_Limit p = Some m else ALP_Limit p = None"
  shows "agree P U (api_ListAuditEvents U slug p (Some d))
    (Some (rpc_ListAuditEvents P U slug m (ALP_Action p) (ALP_Actor p) (ALP_From p) (ALP_To p) d, d))"
proof -
  define l where "l = audit_limit p"
  have l: "(if m \<le> 0 then 100 else m) = l" "0 < l" using assms(2) by (auto simp: l_def audit_limit_def split: if_splits)
  have page: "\<exists>cur. audit_page U l rows = Some (BAuditEvents (map auditEventToAPI (take (nat l) rows)) cur)" for rows
    using l(2) by (auto simp: audit_page_def Let_def)
  show ?thesis
  proof (cases "rpc_project slug d")
    case (Inl e)
    then show ?thesis using in_step_project [of slug d]
      by (auto simp: api_ListAuditEvents_def rpc_ListAuditEvents_def agree_def same_outcome_def elim!: rel_sum.cases)
  next
    case (Inr proj)
    then have proj: "get_project slug d = Inr proj" using in_step_project [of slug d] by (auto elim!: rel_sum.cases)
    show ?thesis
    proof (cases "ListAuditEvents \<lparr>lp_ProjectID = Project_ID proj, lp_Action = derefString (ALP_Action p),
        lp_Actor = derefString (ALP_Actor p), lp_From = derefTime (ALP_From p), lp_To = derefTime (ALP_To p),
        lp_CursorTs = 0, lp_CursorID = 0, lp_Limit = to_int32 (l + 1)\<rparr> d")
      case (Inl e)
      then show ?thesis using proj Inr limit_refused(2) [OF Inl] assms(1) l(1)
        by (auto simp: api_ListAuditEvents_def rpc_ListAuditEvents_def audit_list_params_def l_def [symmetric] agree_def
            same_outcome_def or_connect_def list_failed)
    next
      case (Inr rows)
      then show ?thesis using proj \<open>rpc_project slug d = Inr proj\<close> page [of rows] assms(1) l(1)
        by (auto simp: api_ListAuditEvents_def rpc_ListAuditEvents_def audit_list_params_def l_def [symmetric] agree_def
            same_outcome_def or_connect_def same_answer_def intro: same_body.intros)
    qed
  qed
qed

subsection \<open>Writes\<close>

lemma jsonOrEmpty_eq: "jsonOrEmpty = mustMarshal"
  by (rule ext) (simp add: jsonOrEmpty_def mustMarshal_def)

lemma create_project_agrees:
  assumes "decode_CreateProjectRequest (rq_body rq) = Inr p" "CPR_ConfigStrategy p = strategyFromProto st"
  shows "agree P U (Some (api_CreateProject sv rq (Some d)))
    (Some (rpc_CreateProject U sv (rq_actor rq) (CPR_Slug p) (CPR_DisplayName p) st d))"
  unfolding api_CreateProject_def rpc_CreateProject_def Let_def
  by (rule requireStore_agrees, rule prepared_agrees [where R = "\<lambda>a b. a = p"])
    (auto simp: assms or_respond_def jsonOrEmpty_eq intro!: mutate_agrees same_answer_intros same_body.intros)

lemma create_environment_agrees:
  assumes "decode_CreateEnvironmentRequest (rq_body rq) = Inr q"
  shows "agree P U (Some (api_CreateEnvironment sv rq slug (Some d)))
    (Some (rpc_CreateEnvironment U sv (rq_actor rq) slug (CER_Slug q) (CER_Name q) d))"
  unfolding api_CreateEnvironment_def rpc_CreateEnvironment_def
  using in_step_project [of slug d]
  by (intro requireStore_agrees prepared_agrees [where R = "\<lambda>(proj, a) b. proj = b \<and> a = q"])
    (auto simp: assms or_respond_def jsonOrEmpty_eq intro!: mutate_agrees same_answer_intros same_body.intros
      elim!: rel_sum.cases)

lemma create_flag_agrees:
  assumes "decode_CreateFlagRequest (rq_body rq) = Inr f" "CFR_ValueType f = valueTypeFromProto vt"
    "marshal_any (CFR_DefaultValue f) = marshal_any (valueToAny P dv)"
  shows "agree P U (Some (api_CreateFlag sv rq slug (Some d)))
    (Some (rpc_CreateFlag P U sv (rq_actor rq) slug (CFR_Key f) (CFR_Name f) (derefString (CFR_Description f)) vt dv d))"
  unfolding api_CreateFlag_def rpc_CreateFlag_def
  by (intro requireStore_agrees prepared_agrees [where R = "\<lambda>(proj, a, j) b. (proj, j) = b \<and> a = f"] in_step_bind
      in_step_project)
    (auto simp: assms or_respond_def jsonOrEmpty_eq split: option.splits
      intro!: mutate_agrees same_answer_intros same_body.intros)

lemma normalize_eq:
  assumes "x \<noteq> ANil" "marshal_any x = marshal_any (AMap (as_map P s))"
  shows "normalizePredicateBytes P E s = normalizePredicate E x"
  by (simp add: normalizePredicateBytes_def normalizePredicate_def assms)

lemma create_segment_agrees:
  assumes "decode_CreateSegmentRequest (rq_body rq) = Inr g" "CSR_Predicate g \<noteq> ANil"
    "marshal_any (CSR_Predicate g) = marshal_any (AMap (as_map P pr))"
  shows "agree P U (Some (api_CreateSegment E sv rq slug (Some d)))
    (Some (rpc_CreateSegment P U E sv (rq_actor rq) slug (CSR_Key g) (CSR_Name g) (derefString (CSR_Description g)) pr d))"
  unfolding api_CreateSegment_def rpc_CreateSegment_def normalize_eq [OF assms(2,3)]
  by (intro requireStore_agrees prepared_agrees [where R = "\<lambda>(proj, a, j) b. (proj, j) = b \<and> a = g"] in_step_bind
      in_step_project)
    (auto simp: assms(1) or_respond_def or_connect_def jsonOrEmpty_eq split: sum.splits
      intro!: mutate_agrees same_answer_intros same_body.intros)

lemma update_segment_agrees:
  assumes "decode_UpdateSegmentRequest (rq_body rq) = Inr u" "USR_Predicate u \<noteq> ANil"
    "marshal_any (USR_Predicate u) = marshal_any (AMap (as_map P pr))"
  shows "agree P U (Some (api_UpdateSegment E sv rq slug key (Some d)))
    (Some (rpc_UpdateSegment P U E sv (rq_actor rq) slug key (USR_Name u) (derefString (USR_Description u)) pr d))"
  unfolding api_UpdateSegment_def rpc_UpdateSegment_def normalize_eq [OF assms(2,3)]
  by (intro requireStore_agrees prepared_agrees [where R = "\<lambda>(proj, a, j) b. (proj, j) = b \<and> a = u"] in_step_bind
      in_step_project)
    (auto simp: assms(1) or_respond_def or_connect_def jsonOrEmpty_eq split: sum.splits
      intro!: mutate_agrees same_answer_intros same_body.intros)

subsection \<open>Snapshots and versions\<close>

lemma rpc_bundle_eq: "rpc_compileBundle = compileBundle"
proof (intro ext)
  fix pid d
  have "rpc_bundle_of lvs b = bundle_of lvs b" for lvs b
    by (induction lvs arbitrary: b) (auto split: sum.splits)
  then show "rpc_compileBundle pid d = compileBundle pid d" by (simp add: rpc_compileBundle_def compileBundle_def cong: sum.case_cong)
qed

lemma bundle_failed: "compileBundle pid d = Inl e \<Longrightarrow> fst (connect_wrapped e) = CodeInternal"
proof -
  have "bundle_of lvs b = Inl e \<Longrightarrow> fst (connect_wrapped e) = CodeInternal" for lvs b
    by (induction lvs arbitrary: b) (auto simp: connect_wrapped_def split: sum.splits)
  then show "compileBundle pid d = Inl e \<Longrightarrow> fst (connect_wrapped e) = CodeInternal"
    by (auto simp: compileBundle_def split: sum.splits)
qed

lemma in_step_bundle:
  "in_step (=) (or_respond (writeError 500) (compileBundle pid d)) (or_connect connect_wrapped (rpc_compileBundle pid d))"
  unfolding rpc_bundle_eq
  by (rule in_step_or) (metis bundle_failed http_status_def connect_code.simps(16) prod.collapse same_error_simps(1))

lemma in_step_environment:
  assumes "if rq_content_length rq > 0 then decode_CompileSnapshotRequest (rq_body rq) = Inr env else derefString env = []"
  shows "in_step (=) (snapshot_environment rq proj d) (rpc_snapshot_environment env proj d)"
  using assms
  by (auto simp: snapshot_environment_def rpc_snapshot_environment_def or_respond_def dest: get_missing
      split: sum.splits if_splits)

lemma compile_snapshot_agrees:
  assumes "if rq_content_length rq > 0 then decode_CompileSnapshotRequest (rq_body rq) = Inr env else derefString env = []"
  shows "agree P U (Some (api_CompileSnapshot sv rq slug (Some d))) (Some (rpc_CompileSnapshot P U sv (rq_actor rq) slug env d))"
  unfolding api_CompileSnapshot_def rpc_CompileSnapshot_def
  by (intro requireStore_agrees prepared_agrees [where R = "(=)"] in_step_bind in_step_project
      in_step_environment [OF assms] in_step_bundle)
    (auto simp: jsonOrEmpty_eq http_status_def split: option.splits
      intro!: mutate_agrees same_answer_intros same_body.intros)

lemma rpc_resolver_eq: "rpc_ResolveSegment = storeSegmentResolver"
  by (intro ext) (simp add: rpc_ResolveSegment_def storeSegmentResolver_def)

text \<open>The two resolutions differ in the text of an error only.\<close>

lemma resolve_agrees:
  "rel_option (rel_sum (\<lambda>_ _. True) (=)) (resolveSegmentRefs n pid src d) (rpc_resolveSegmentRefs n pid src d)"
  by (auto simp: resolveSegmentRefs_def rpc_resolveSegmentRefs_def rpc_resolver_eq split: sum.splits option.splits)

lemma publish_params_agree:
  assumes "PVR_Strategy v = strategyFromProto st"
    "(case structToJSONRaw P src of Inl e \<Rightarrow> None | Inr j \<Rightarrow> Some j) = marshal_any (PVR_Source v)"
  shows "rel_option (in_step (=)) (publish_params E T n proj flag v d)
    (rpc_publish_params P E T n proj flag st src (derefString (PVR_SourceText v)) d)"
proof (cases "Valid (strategy_of (strategyFromProto st))")
  case valid: True
  show ?thesis
  proof (cases "structToJSONRaw P src")
    case (Inl e)
    then show ?thesis using valid assms by (auto simp: publish_params_def rpc_publish_params_def split: option.splits)
  next
    case (Inr j)
    then have j: "marshal_any (PVR_Source v) = Some j" using assms(2) by simp
    show ?thesis
      using resolve_agrees [of n "Project_ID proj" "publish_source v j" d] valid Inr j assms(1)
      by (cases rule: option.rel_cases)
        (auto simp: publish_params_def rpc_publish_params_def Let_def from_text_def publish_source_def http_status_def
          isCompileError_def rpc_isCompileError_def elim!: rel_sum.cases split: sum.splits option.splits)
  qed
qed (simp add: publish_params_def rpc_publish_params_def assms(1))

lemma publish_agrees:
  assumes "decode_PublishFlagVersionRequest (rq_body rq) = Inr v" "PVR_Strategy v = strategyFromProto st"
    "(case structToJSONRaw P src of Inl e \<Rightarrow> None | Inr j \<Rightarrow> Some j) = marshal_any (PVR_Source v)"
  shows "agree P U (api_PublishFlagVersion E T n sv rq slug key (Some d))
    (rpc_PublishFlagVersion P U E T n sv (rq_actor rq) slug key st src (derefString (PVR_SourceText v)) d)"
proof (cases "rpc_flag slug key d")
  case (Inl e)
  then show ?thesis using in_step_flag [of slug key d]
    by (auto simp: api_PublishFlagVersion_def rpc_PublishFlagVersion_def agree_def same_outcome_def elim!: rel_sum.cases)
next
  case (Inr pf)
  obtain proj flag where pf: "pf = (proj, flag)" by (cases pf)
  then have flag: "get_flag slug key d = Inr (proj, flag)"
    using Inr in_step_flag [of slug key d] by (auto elim!: rel_sum.cases)
  have params: "rel_option (in_step (=)) (publish_params E T n proj flag v d)
      (rpc_publish_params P E T n proj flag st src (derefString (PVR_SourceText v)) d)"
    by (rule publish_params_agree [OF assms(2,3)])
  show ?thesis
  proof (cases rule: option.rel_cases [OF params])
    case 1
    then show ?thesis by (simp add: api_PublishFlagVersion_def rpc_PublishFlagVersion_def flag Inr pf assms(1) agree_def)
  next
    case (2 x y)
    then show ?thesis
      by (auto simp: api_PublishFlagVersion_def rpc_PublishFlagVersion_def flag Inr pf assms(1,2) publish_event_def
          jsonOrEmpty_eq intro!: requireStore_agrees prepared_agrees mutate_agrees same_answer_intros same_body.intros)
  qed
qed

subsection \<open>The surfaces agree\<close>

text \<open>
  C19. The Connect surface agrees with the REST surface: for every call and request with
  the same content, on the same database, with the same actor and the same concurrent
  transactions, either neither is answered, or both leave the same database and
  have the same outcome, an error of the matching code or messages made from the same
  values.
\<close>

theorem rpc_agrees_with_rest:
  assumes "same_request P U rq c rc"
  shows "agree P U (serve_rest E T U n sv rq c (Some d)) (rpc_dispatch P U E T n sv (rq_actor rq) rc d)"
  using assms
  by cases (simp_all add: project_reads_agree segment_reads_agree flag_reads_agree snapshot_list_agrees snapshot_reads_agree
      evaluations_agree audit_agrees create_project_agrees create_environment_agrees create_flag_agrees create_segment_agrees
      update_segment_agrees compile_snapshot_agrees publish_agrees)

text \<open>For examples: dynamic values are their own messages.\<close>

definition plain_structpb :: "(any, (string \<times> any) list) structpb" where
  "plain_structpb = \<lparr>spb_NewValue = Inr, spb_NewStruct = Inr, spb_AsInterface = id, spb_AsMap = id\<rparr>"

definition sample_struct :: "(string \<times> any) list option" where
  "sample_struct = (case decode_PublishFlagVersionRequest (RawDoc sample_publish_body) of
     Inr v \<Rightarrow> (case PVR_Source v of AMap m \<Rightarrow> Some m | _ \<Rightarrow> None) | _ \<Rightarrow> None)"

lemma sample_same_request:
  "same_request plain_structpb U (sample_request sample_publish_body) (RPublishFlagVersion ''shop'' ''dark'')
     (RpcPublishFlagVersion ''shop'' ''dark'' STRATEGY_JSON sample_struct [])"
proof -
  have "case decode_PublishFlagVersionRequest (RawDoc sample_publish_body) of Inl _ \<Rightarrow> False
      | Inr v \<Rightarrow> PVR_Strategy v = ''json'' \<and> derefString (PVR_SourceText v) = [] \<and>
          (case structToJSONRaw plain_structpb sample_struct of Inl e \<Rightarrow> None | Inr j \<Rightarrow> Some j) = marshal_any (PVR_Source v)"
    by code_simp
  then obtain v where v: "decode_PublishFlagVersionRequest (rq_body (sample_request sample_publish_body)) = Inr v"
      "PVR_Strategy v = strategyFromProto STRATEGY_JSON" "derefString (PVR_SourceText v) = []"
      "(case structToJSONRaw plain_structpb sample_struct of Inl e \<Rightarrow> None | Inr j \<Rightarrow> Some j) = marshal_any (PVR_Source v)"
    by (auto simp: sample_request_def strategyFromProto_def split: sum.splits)
  show ?thesis using same_request.intros(10) [OF v(1,2,4)] v(3) by simp
qed

theorem rpc_agrees_with_rest_witness:
  "\<exists>v w d'. sample_serve (RPublishFlagVersion ''shop'' ''dark'') sample_publish_body sample_db =
       Some ((200, BFlagVersion v), Some d') \<and> AFV_Version v = 2 \<and> length (audit_events d') = 1 \<and>
     rpc_dispatch plain_structpb sample_uuids sample_engines sample_ts 3 sample_server ''ann''
       (RpcPublishFlagVersion ''shop'' ''dark'' STRATEGY_JSON sample_struct []) sample_db =
       Some (Inr (PbFlagVersionResponse w), d')"
proof -
  obtain v d' where v: "sample_serve (RPublishFlagVersion ''shop'' ''dark'') sample_publish_body sample_db =
      Some ((200, BFlagVersion v), Some d')" "AFV_Version v = 2" "length (audit_events d') = 1"
    using sample_publish_runs by (auto split: option.splits prod.splits body.splits)
  obtain res where res: "rpc_dispatch plain_structpb sample_uuids sample_engines sample_ts 3 sample_server ''ann''
      (RpcPublishFlagVersion ''shop'' ''dark'' STRATEGY_JSON sample_struct []) sample_db = Some (res, d')"
    "same_outcome plain_structpb sample_uuids (200, BFlagVersion v) res"
    using rpc_agrees_with_rest [OF sample_same_request, of sample_uuids sample_engines sample_ts 3 sample_server sample_db] v(1)
    by (auto simp: agree_def option_rel_Some1 sample_request_def)
  from res(2) obtain w where "res = Inr (PbFlagVersionResponse w)"
    by (auto simp: same_outcome_def same_answer_def same_error_def is_error_def split: sum.splits elim: same_body.cases)
  then show ?thesis using v res(1) by auto
qed

end
