(* ===== verification/Operator_Api.thy ===== *)
theory Operator_Api
  imports Rpc_Props
begin

text \<open>
  The custom resources of the operator, \<open>operator/api/v1alpha1\<close>, and their translation
  into the configuration language, \<open>internal/operator/translate\<close>. A resource is its
  metadata, what is wanted of it and what was observed; \<open>runtime.RawExtension\<close> is the
  raw JSON it holds.
\<close>

subsection \<open>Errors the operator sees\<close>

text \<open>Codes of a Connect error: those the server sends, the two more the operator knows,
  and those the client itself reports when a call gets no answer.\<close>

datatype op_code = Server connect_code | CodeFailedPrecondition | CodeAborted | Transport string

datatype op_cause = CText string | CServer rest_error

datatype op_error = OpConnect op_code op_cause | OpOther string

text \<open>The text of a condition: a literal, \<open>ce.Message()\<close> or \<open>err.Error()\<close>.\<close>

datatype op_message = MText string | MMessage op_cause | MError op_error

definition has_code :: "op_code \<Rightarrow> op_error \<Rightarrow> bool" where
  "has_code c e = (case e of OpConnect c' _ \<Rightarrow> c' = c | OpOther _ \<Rightarrow> False)"

definition invalid_argument :: "string \<Rightarrow> op_error" where
  "invalid_argument m = OpConnect (Server CodeInvalidArgument) (CText m)"

subsection \<open>Resources\<close>

record ObjectMeta =
  Meta_Name :: string
  Meta_Namespace :: string
  Meta_Generation :: int
  Meta_DeletionTimestamp :: "time option"
  Meta_Finalizers :: "string list"

record Condition =
  Cond_Type :: string
  Cond_Status :: string
  Cond_Reason :: string
  Cond_Message :: op_message
  Cond_LastTransitionTime :: time

record ('spec, 'status) resource =
  Res_Meta :: ObjectMeta
  Res_Spec :: 'spec
  Res_Status :: 'status

text \<open>The fields every status has.\<close>

record ResourceStatus =
  St_Conditions :: "Condition list"
  St_ObservedGeneration :: int
  St_LastSyncTime :: "time option"

record ProjectSpec =
  ProjectSpec_ProjectSlug :: string
  ProjectSpec_DisplayName :: string
  ProjectSpec_ConfigStrategy :: string

record EnvironmentSpec =
  EnvironmentSpec_ProjectSlug :: string
  EnvironmentSpec_Slug :: string
  EnvironmentSpec_Name :: string

record SegmentSpec =
  SegmentSpec_ProjectSlug :: string
  SegmentSpec_Key :: string
  SegmentSpec_Name :: string
  SegmentSpec_Description :: string
  SegmentSpec_Predicate :: raw

record FlagRule =
  FlagRule_ID :: string
  FlagRule_When :: raw
  FlagRule_Value :: "raw option"
  FlagRule_RolloutRef :: string

text \<open>\<open>Rules\<close> of a binding distinguishes nil, which inherits, from an empty list.\<close>

record FlagSpecBinding =
  FlagSpecBinding_Environment :: string
  FlagSpecBinding_Default :: "raw option"
  FlagSpecBinding_Rules :: "FlagRule list option"

record FlagSpec =
  FlagSpec_ProjectSlug :: string
  FlagSpec_Key :: string
  FlagSpec_Name :: string
  FlagSpec_ValueType :: string
  FlagSpec_Default :: raw
  FlagSpec_Rules :: "FlagRule list"
  FlagSpec_Bindings :: "FlagSpecBinding list"

record FlagStatus = ResourceStatus +
  FlagStatus_LastPublishedVersion :: int

record FlagBindingSpec =
  FlagBindingSpec_ProjectSlug :: string
  FlagBindingSpec_FlagKey :: string
  FlagBindingSpec_Environments :: "string list"
  FlagBindingSpec_Overrides :: "raw option"

record FlagBindingStatus = ResourceStatus +
  FlagBindingStatus_PublishedVersions :: "(string \<times> int) list"

record FlagSnapshotSpec =
  FlagSnapshotSpec_ProjectSlug :: string

record FlagSnapshotStatus = ResourceStatus +
  FlagSnapshotStatus_CompiledVersion :: int
  FlagSnapshotStatus_FlagCount :: int

record Bucketing =
  Bucketing_Attribute :: string
  Bucketing_Strategy :: string
  Bucketing_Salt :: string

record RolloutVariant =
  RolloutVariant_ID :: string
  RolloutVariant_Weight :: "32 word"
  RolloutVariant_Value :: raw

record RolloutPolicySpec =
  RolloutPolicySpec_ProjectSlug :: string
  RolloutPolicySpec_Name :: string
  RolloutPolicySpec_Bucketing :: Bucketing
  RolloutPolicySpec_Variants :: "RolloutVariant list"

type_synonym project_cr = "(ProjectSpec, ResourceStatus) resource"
type_synonym environment_cr = "(EnvironmentSpec, ResourceStatus) resource"
type_synonym segment_cr = "(SegmentSpec, ResourceStatus) resource"
type_synonym flag_cr = "(FlagSpec, FlagStatus) resource"
type_synonym flagbinding_cr = "(FlagBindingSpec, FlagBindingStatus) resource"
type_synonym flagsnapshot_cr = "(FlagSnapshotSpec, FlagSnapshotStatus) resource"
type_synonym rolloutpolicy_cr = "(RolloutPolicySpec, ResourceStatus) resource"

subsection \<open>Translation\<close>

definition op_unmarshalPredicate :: "raw \<Rightarrow> string + Predicate" where
  "op_unmarshalPredicate r =
     (if raw_empty r then Inl ''predicate is empty''
      else case unmarshal_predicate r of Inl e \<Rightarrow> Inl (''unmarshal predicate: '' @ e) | Inr p \<Rightarrow> Inr p)"

abbreviation zero_variant :: RolloutVariant where
  "zero_variant \<equiv> \<lparr>RolloutVariant_ID = [], RolloutVariant_Weight = 0, RolloutVariant_Value = RawNil\<rparr>"

text \<open>The loop keeps the first variant of the largest positive weight.\<close>

definition heaviest_variant :: "RolloutVariant list \<Rightarrow> RolloutVariant" where
  "heaviest_variant vs = foldl (\<lambda>h v. if sint (RolloutVariant_Weight h) < sint (RolloutVariant_Weight v) then v else h)
     zero_variant vs"

definition pickRolloutValue :: "rolloutpolicy_cr \<Rightarrow> string + raw" where
  "pickRolloutValue rp = (case RolloutPolicySpec_Variants (Res_Spec rp) of
     [] \<Rightarrow> Inl (''rollout policy '' @ fmt_q (RolloutPolicySpec_Name (Res_Spec rp)) @ '' has no variants'')
   | v # vs \<Rightarrow>
      let h = heaviest_variant (v # vs)
      in Inr (RolloutVariant_Value (if RolloutVariant_Value h = RawNil then v else h)))"

definition ir_rule :: "(string \<rightharpoonup> rolloutpolicy_cr) \<Rightarrow> FlagRule \<Rightarrow> string + Rule" where
  "ir_rule rollouts r =
     (case op_unmarshalPredicate (FlagRule_When r) of
        Inl e \<Rightarrow> Inl (''rule '' @ fmt_q (FlagRule_ID r) @ '' when: '' @ e)
      | Inr w \<Rightarrow>
         if FlagRule_RolloutRef r \<noteq> [] then
           (case rollouts (FlagRule_RolloutRef r) of
              None \<Rightarrow> Inl (''rule '' @ fmt_q (FlagRule_ID r) @ '' references unknown RolloutPolicy '' @ fmt_q (FlagRule_RolloutRef r))
            | Some rp \<Rightarrow> (case pickRolloutValue rp of
                Inl e \<Rightarrow> Inl (''rule '' @ fmt_q (FlagRule_ID r) @ '' rollout: '' @ e)
              | Inr x \<Rightarrow> Inr \<lparr>ID = FlagRule_ID r, When = Some w, RValue = x\<rparr>))
         else case FlagRule_Value r of
           Some x \<Rightarrow> Inr \<lparr>ID = FlagRule_ID r, When = Some w, RValue = x\<rparr>
         | None \<Rightarrow> Inl (''rule '' @ fmt_q (FlagRule_ID r) @ '' must set value or rolloutRef''))"

definition binding_default :: "flag_cr \<Rightarrow> FlagSpecBinding option \<Rightarrow> raw" where
  "binding_default f b = (case Option.bind b FlagSpecBinding_Default of None \<Rightarrow> FlagSpec_Default (Res_Spec f) | Some x \<Rightarrow> x)"

definition binding_rules :: "flag_cr \<Rightarrow> FlagSpecBinding option \<Rightarrow> FlagRule list" where
  "binding_rules f b = (case Option.bind b FlagSpecBinding_Rules of None \<Rightarrow> FlagSpec_Rules (Res_Spec f) | Some rs \<Rightarrow> rs)"

text \<open>Appending to a nil slice: without rules \<open>Rules\<close> stays nil.\<close>

definition IRForFlag :: "flag_cr option \<Rightarrow> (string \<rightharpoonup> rolloutpolicy_cr) \<Rightarrow> FlagSpecBinding option \<Rightarrow> string + RulesTree" where
  "IRForFlag flag rollouts binding = (case flag of
     None \<Rightarrow> Inl ''flag is nil''
   | Some f \<Rightarrow> bindE (mapE (ir_rule rollouts) (binding_rules f binding)) (\<lambda>rs.
       Inr \<lparr>TValueType = value_type_of (FlagSpec_ValueType (Res_Spec f)), TDefault = binding_default f binding,
         TRules = (if rs = [] then None else Some rs)\<rparr>))"

definition IRForSegment :: "segment_cr option \<Rightarrow> string + Predicate" where
  "IRForSegment seg = (case seg of
     None \<Rightarrow> Inl ''segment is nil''
   | Some s \<Rightarrow> op_unmarshalPredicate (SegmentSpec_Predicate (Res_Spec s)))"

text \<open>A document decoded into a \<open>map[string]any\<close>.\<close>

definition decode_map :: "json option \<Rightarrow> string + (string \<times> any) list" where
  "decode_map j = (case j of
     None \<Rightarrow> Inl ''invalid character''
   | Some d \<Rightarrow> bindE (unmarshal_any (RawDoc d)) (\<lambda>v. case v of
       AMap m \<Rightarrow> Inr m
     | ANil \<Rightarrow> Inr []
     | _ \<Rightarrow> Inl ''json: cannot unmarshal into Go value of type map[string]interface {}''))"

definition PublishSource :: "RulesTree \<Rightarrow> string + (string \<times> any) list" where
  "PublishSource tree = decode_map (marshal_tree tree)"

end
