(* ===== verification/Operator.thy ===== *)
theory Operator
  imports Operator_Api
begin

text \<open>
  The reconcilers, \<open>internal/operator/controllers\<close>. One call of \<open>Reconcile\<close> maps the
  state \<open>'w\<close> of the server behind the API client to the new state and to what it tells
  the controller runtime: when to run again, an error, and the resource it has written.
  The cluster is the parameter \<open>K\<close>, the answers to the calls of \<open>client.Client\<close>; the clock
  is read once per call of \<open>metav1.Now\<close>. The API client is the function \<open>api\<close>.
\<close>

subsection \<open>Results and conditions\<close>

text \<open>\<open>ctrl.Result\<close>, in nanoseconds; 0 is the empty result.\<close>

type_synonym ctrl_result = int

definition second :: int where "second = 1000000000"

definition requeueAfterSuccess :: int where "requeueAfterSuccess = 30 * second"

definition requeueAfterConflict :: int where "requeueAfterConflict = 1 * second"

definition syncedTrue :: Condition where
  "syncedTrue = \<lparr>Cond_Type = ''Synced'', Cond_Status = ''True'', Cond_Reason = ''UpstreamApplied'',
     Cond_Message = MText ''operator applied the desired state to the upstream API'', Cond_LastTransitionTime = 0\<rparr>"

definition readyTrue :: Condition where
  "readyTrue = \<lparr>Cond_Type = ''Ready'', Cond_Status = ''True'', Cond_Reason = ''AsExpected'',
     Cond_Message = MText ''resource matches the desired state'', Cond_LastTransitionTime = 0\<rparr>"

definition conditionFalse :: "string \<Rightarrow> string \<Rightarrow> op_message \<Rightarrow> Condition" where
  "conditionFalse typ reason m = \<lparr>Cond_Type = typ, Cond_Status = ''False'', Cond_Reason = reason,
     Cond_Message = m, Cond_LastTransitionTime = 0\<rparr>"

definition translateError :: "op_error option \<Rightarrow> ctrl_result \<times> Condition \<times> op_error option" where
  "translateError err = (case err of
     None \<Rightarrow> (requeueAfterSuccess, syncedTrue, None)
   | Some (OpConnect code m) \<Rightarrow>
      if code = Server CodeAlreadyExists then (requeueAfterSuccess, syncedTrue, None)
      else if code = CodeFailedPrecondition \<or> code = CodeAborted
        then (requeueAfterConflict, conditionFalse ''Synced'' ''Conflict'' (MMessage m), None)
      else if code = Server CodeInvalidArgument then (0, conditionFalse ''Ready'' ''InvalidSpec'' (MMessage m), None)
      else if code = Server CodeNotFound
        then (requeueAfterConflict, conditionFalse ''Synced'' ''UpstreamMissing'' (MMessage m), None)
      else (0, conditionFalse ''Synced'' ''Error'' (MError (OpConnect code m)), Some (OpConnect code m))
   | Some e \<Rightarrow> (0, conditionFalse ''Synced'' ''Error'' (MError e), Some e))"

text \<open>The first condition of the type is replaced; its time stays when the status does.\<close>

fun put_condition :: "time \<Rightarrow> Condition \<Rightarrow> Condition list \<Rightarrow> Condition list" where
  "put_condition now c [] = [c\<lparr>Cond_LastTransitionTime := now\<rparr>]"
| "put_condition now c (x # xs) =
     (if Cond_Type x = Cond_Type c
      then c\<lparr>Cond_LastTransitionTime := (if Cond_Status x = Cond_Status c then Cond_LastTransitionTime x else now)\<rparr> # xs
      else x # put_condition now c xs)"

definition setCondition :: "time \<Rightarrow> Condition \<Rightarrow> 'z ResourceStatus_scheme \<Rightarrow> 'z ResourceStatus_scheme" where
  "setCondition now c st = st\<lparr>St_Conditions := put_condition now c (St_Conditions st)\<rparr>"

subsection \<open>The cluster and the API\<close>

datatype kube_error = KubeNotFound | KubeError string

text \<open>The answers of the cluster during a call of \<open>Reconcile\<close>: the resource, the outcome
  of an update of it and of its status.\<close>

record 'cr kube =
  k_Get :: "kube_error + 'cr"
  k_Update :: "'cr \<Rightarrow> string option"
  k_StatusUpdate :: "'cr \<Rightarrow> string option"

text \<open>What \<open>Reconcile\<close> returns and writes.\<close>

record 'cr reconciled =
  rc_result :: ctrl_result
  rc_error :: "op_error option"
  rc_updated :: "'cr option"
  rc_status :: "'cr option"

type_synonym ('v, 's, 'w) api_client = "('v, 's) rpc_call \<Rightarrow> 'w \<Rightarrow> (op_error + ('v, 's) rpc_body) \<times> 'w"

abbreviation finished :: "ctrl_result \<Rightarrow> op_error option \<Rightarrow> 'cr reconciled" where
  "finished r e \<equiv> \<lparr>rc_result = r, rc_error = e, rc_updated = None, rc_status = None\<rparr>"

text \<open>The start of every \<open>Reconcile\<close>.\<close>

definition with_resource :: "'cr kube \<Rightarrow> ('cr \<Rightarrow> 'w \<Rightarrow> 'cr reconciled \<times> 'w) \<Rightarrow> 'w \<Rightarrow> 'cr reconciled \<times> 'w" where
  "with_resource K f w = (case k_Get K of
     Inl KubeNotFound \<Rightarrow> (finished 0 None, w)
   | Inl (KubeError e) \<Rightarrow> (finished 0 (Some (OpOther e)), w)
   | Inr cr \<Rightarrow> f cr w)"

text \<open>The end of them: the status is written; an error of that is returned unless there
  is one already.\<close>

definition write_status :: "'cr kube \<Rightarrow> ctrl_result \<Rightarrow> op_error option \<Rightarrow> 'cr \<Rightarrow> 'cr reconciled" where
  "write_status K r e cr =
     \<lparr>rc_result = r, rc_error = (case e of Some x \<Rightarrow> Some x | None \<Rightarrow> map_option OpOther (k_StatusUpdate K cr)),
      rc_updated = None, rc_status = Some cr\<rparr>"

text \<open>The conditions after the upstream call: clock readings 0, 1 and 2.\<close>

definition observe_sync :: "(nat \<Rightarrow> time) \<Rightarrow> op_error option \<Rightarrow> ObjectMeta \<Rightarrow> 'z ResourceStatus_scheme
    \<Rightarrow> 'z ResourceStatus_scheme" where
  "observe_sync now err m st =
     (let cond = fst (snd (translateError err)); st1 = setCondition (now 0) cond st
      in if Cond_Status cond = ''True''
         then (setCondition (now 1) readyTrue st1)\<lparr>St_ObservedGeneration := Meta_Generation m, St_LastSyncTime := Some (now 2)\<rparr>
         else st1)"

definition finish_sync :: "'cr kube \<Rightarrow> op_error option \<Rightarrow> 'cr \<Rightarrow> 'cr reconciled" where
  "finish_sync K err cr = write_status K (fst (translateError err)) (snd (snd (translateError err))) cr"

text \<open>An answer that is not an error, and the tolerated error of a creation.\<close>

definition call_error :: "(op_error + 'a) \<times> 'w \<Rightarrow> op_error option \<times> 'w" where
  "call_error x = (case x of (Inl e, w) \<Rightarrow> (Some e, w) | (Inr _, w) \<Rightarrow> (None, w))"

definition exists_ok :: "op_error option \<times> 'w \<Rightarrow> op_error option \<times> 'w" where
  "exists_ok x = (case x of
     (Some e, w) \<Rightarrow> if has_code (Server CodeAlreadyExists) e then (None, w) else (Some e, w)
   | (None, w) \<Rightarrow> (None, w))"

text \<open>Get; continue with \<open>found\<close>, or with \<open>missing\<close> when the server does not have it.\<close>

definition get_or :: "('v, 's, 'w) api_client \<Rightarrow> ('v, 's) rpc_call \<Rightarrow> ('w \<Rightarrow> op_error option \<times> 'w)
    \<Rightarrow> ('w \<Rightarrow> op_error option \<times> 'w) \<Rightarrow> 'w \<Rightarrow> op_error option \<times> 'w" where
  "get_or api c found missing w = (case api c w of
     (Inr _, w1) \<Rightarrow> found w1
   | (Inl e, w1) \<Rightarrow> if has_code (Server CodeNotFound) e then missing w1 else (Some e, w1))"

subsection \<open>Projects and environments\<close>

definition strategyFromString :: "string \<Rightarrow> PbStrategy" where
  "strategyFromString s =
     (if s = ''cel'' then STRATEGY_CEL else if s = ''typescript'' then STRATEGY_TYPESCRIPT
      else if s = [] \<or> s = ''json'' then STRATEGY_JSON else STRATEGY_UNSPECIFIED)"

definition project_sync :: "('v, 's, 'w) api_client \<Rightarrow> ProjectSpec \<Rightarrow> 'w \<Rightarrow> op_error option \<times> 'w" where
  "project_sync api spec = get_or api (RpcGetProject (ProjectSpec_ProjectSlug spec)) (\<lambda>w. (None, w))
     (\<lambda>w. exists_ok (call_error (api (RpcCreateProject (ProjectSpec_ProjectSlug spec) (ProjectSpec_DisplayName spec)
        (strategyFromString (ProjectSpec_ConfigStrategy spec))) w)))"

definition project_Reconcile :: "('v, 's, 'w) api_client \<Rightarrow> (nat \<Rightarrow> time) \<Rightarrow> project_cr kube \<Rightarrow> 'w
    \<Rightarrow> project_cr reconciled \<times> 'w" where
  "project_Reconcile api now K = with_resource K (\<lambda>proj w.
     let (err, w') = project_sync api (Res_Spec proj) w
     in (finish_sync K err (proj\<lparr>Res_Status := observe_sync now err (Res_Meta proj) (Res_Status proj)\<rparr>), w'))"

definition environment_sync :: "('v, 's, 'w) api_client \<Rightarrow> EnvironmentSpec \<Rightarrow> 'w \<Rightarrow> op_error option \<times> 'w" where
  "environment_sync api spec =
     get_or api (RpcGetEnvironment (EnvironmentSpec_ProjectSlug spec) (EnvironmentSpec_Slug spec)) (\<lambda>w. (None, w))
       (\<lambda>w. exists_ok (call_error (api (RpcCreateEnvironment (EnvironmentSpec_ProjectSlug spec) (EnvironmentSpec_Slug spec)
          (EnvironmentSpec_Name spec)) w)))"

definition environment_Reconcile :: "('v, 's, 'w) api_client \<Rightarrow> (nat \<Rightarrow> time) \<Rightarrow> environment_cr kube \<Rightarrow> 'w
    \<Rightarrow> environment_cr reconciled \<times> 'w" where
  "environment_Reconcile api now K = with_resource K (\<lambda>env w.
     let (err, w') = environment_sync api (Res_Spec env) w
     in (finish_sync K err (env\<lparr>Res_Status := observe_sync now err (Res_Meta env) (Res_Status env)\<rparr>), w'))"

subsection \<open>Finalizers\<close>

text \<open>A resource that is being deleted loses the finalizer, one that has none gets it;
  otherwise \<open>f\<close> reconciles it.\<close>

definition update_resource :: "'cr kube \<Rightarrow> ctrl_result \<Rightarrow> 'cr \<Rightarrow> 'cr reconciled" where
  "update_resource K r cr = (case k_Update K cr of
     Some e \<Rightarrow> \<lparr>rc_result = 0, rc_error = Some (OpOther e), rc_updated = Some cr, rc_status = None\<rparr>
   | None \<Rightarrow> \<lparr>rc_result = r, rc_error = None, rc_updated = Some cr, rc_status = None\<rparr>)"

definition deleting :: "ObjectMeta \<Rightarrow> bool" where
  "deleting m \<longleftrightarrow> (case Meta_DeletionTimestamp m of None \<Rightarrow> False | Some t \<Rightarrow> t \<noteq> 0)"

definition with_finalizer :: "string \<Rightarrow> ('spec, 'status) resource kube
    \<Rightarrow> (('spec, 'status) resource \<Rightarrow> 'w \<Rightarrow> ('spec, 'status) resource reconciled \<times> 'w)
    \<Rightarrow> ('spec, 'status) resource \<Rightarrow> 'w \<Rightarrow> ('spec, 'status) resource reconciled \<times> 'w" where
  "with_finalizer name K f cr w =
     (let m = Res_Meta cr; fs = Meta_Finalizers m
      in if deleting m then
           if name \<in> set fs
           then (update_resource K 0 (cr\<lparr>Res_Meta := m\<lparr>Meta_Finalizers := filter (\<lambda>x. x \<noteq> name) fs\<rparr>\<rparr>), w)
           else (finished 0 None, w)
         else if name \<notin> set fs
           then (update_resource K 1 (cr\<lparr>Res_Meta := m\<lparr>Meta_Finalizers := fs @ [name]\<rparr>\<rparr>), w)
         else f cr w)"

subsection \<open>Segments\<close>

definition segmentFinalizer :: string where "segmentFinalizer = ''segment.falseflag.dev/finalizer''"

definition predicateToStruct :: "('v, 's) structpb \<Rightarrow> Predicate \<Rightarrow> string + 's" where
  "predicateToStruct P p = bindE (decode_map (marshal_predicate p)) (spb_NewStruct P)"

definition segment_sync :: "('v, 's) structpb \<Rightarrow> ('v, 's, 'w) api_client \<Rightarrow> segment_cr \<Rightarrow> 'w \<Rightarrow> op_error option \<times> 'w" where
  "segment_sync P api seg w =
     (let spec = Res_Spec seg; slug = SegmentSpec_ProjectSlug spec; key = SegmentSpec_Key spec
      in case bindE (IRForSegment (Some seg)) (predicateToStruct P) of
        Inl e \<Rightarrow> (Some (invalid_argument e), w)
      | Inr s \<Rightarrow>
         get_or api (RpcGetSegment slug key)
           (\<lambda>w. call_error (api (RpcUpdateSegment slug key (SegmentSpec_Name spec) (SegmentSpec_Description spec) (Some s)) w))
           (\<lambda>w. exists_ok (call_error (api (RpcCreateSegment slug key (SegmentSpec_Name spec) (SegmentSpec_Description spec) (Some s)) w)))
           w)"

definition segment_Reconcile :: "('v, 's) structpb \<Rightarrow> ('v, 's, 'w) api_client \<Rightarrow> (nat \<Rightarrow> time) \<Rightarrow> segment_cr kube \<Rightarrow> 'w
    \<Rightarrow> segment_cr reconciled \<times> 'w" where
  "segment_Reconcile P api now K = with_resource K (with_finalizer segmentFinalizer K (\<lambda>seg w.
     let (err, w') = segment_sync P api seg w
     in (finish_sync K err (seg\<lparr>Res_Status := observe_sync now err (Res_Meta seg) (Res_Status seg)\<rparr>), w')))"

subsection \<open>Flags\<close>

definition flagFinalizer :: string where "flagFinalizer = ''flag.falseflag.dev/finalizer''"

definition valueTypeFromString :: "string \<Rightarrow> PbValueType" where
  "valueTypeFromString s =
     (if s = ''string'' then VALUE_TYPE_STRING else if s = ''number'' then VALUE_TYPE_NUMBER
      else if s = ''object'' then VALUE_TYPE_OBJECT else if s = ''boolean'' \<or> s = [] then VALUE_TYPE_BOOLEAN
      else VALUE_TYPE_UNSPECIFIED)"

text \<open>More of the package \<open>structpb\<close>: \<open>NewNullValue\<close>, \<open>Value.UnmarshalJSON\<close>, the fields of an
  object and \<open>Value.GetStructValue\<close>.\<close>

record ('v, 's) structpb_access =
  spa_NewNullValue :: 'v
  spa_UnmarshalJSON :: "raw \<Rightarrow> string + 'v"
  spa_Fields :: "'s \<Rightarrow> (string \<times> 'v) list"
  spa_GetStructValue :: "'v \<Rightarrow> 's option"

definition rawToValue :: "('v, 's) structpb_access \<Rightarrow> raw \<Rightarrow> string + 'v" where
  "rawToValue Q r =
     (if raw_empty r then Inr (spa_NewNullValue Q)
      else case spa_UnmarshalJSON Q r of Inl e \<Rightarrow> Inl (''unmarshal default: '' @ e) | Inr v \<Rightarrow> Inr v)"

definition ensureFlag :: "('v, 's) structpb_access \<Rightarrow> ('v, 's, 'w) api_client \<Rightarrow> FlagSpec \<Rightarrow> 'w \<Rightarrow> op_error option \<times> 'w" where
  "ensureFlag Q api spec = get_or api (RpcGetFlag (FlagSpec_ProjectSlug spec) (FlagSpec_Key spec)) (\<lambda>w. (None, w))
     (\<lambda>w. case rawToValue Q (FlagSpec_Default spec) of
        Inl e \<Rightarrow> (Some (invalid_argument e), w)
      | Inr v \<Rightarrow> exists_ok (call_error (api (RpcCreateFlag (FlagSpec_ProjectSlug spec) (FlagSpec_Key spec) (FlagSpec_Name spec) []
          (valueTypeFromString (FlagSpec_ValueType spec)) (Some v)) w)))"

text \<open>The policies of the namespace that belong to the flag's project and are named by a
  rule of the flag; a later one replaces an earlier one of the same name. When several
  are missing the source reports any of them.\<close>

definition needed_rollouts :: "FlagSpec \<Rightarrow> string list" where
  "needed_rollouts spec = filter (\<lambda>r. r \<noteq> []) (map FlagRule_RolloutRef (FlagSpec_Rules spec))"

definition found_rollouts :: "FlagSpec \<Rightarrow> rolloutpolicy_cr list \<Rightarrow> (string \<rightharpoonup> rolloutpolicy_cr)" where
  "found_rollouts spec items = foldl (\<lambda>out rp.
     let s = Res_Spec rp in
     if RolloutPolicySpec_ProjectSlug s \<noteq> FlagSpec_ProjectSlug spec then out
     else if RolloutPolicySpec_Name s \<in> set (needed_rollouts spec) then out(RolloutPolicySpec_Name s \<mapsto> rp)
     else out) Map.empty items"

definition resolveRollouts :: "string + rolloutpolicy_cr list \<Rightarrow> flag_cr \<Rightarrow> string + (string \<rightharpoonup> rolloutpolicy_cr)" where
  "resolveRollouts listed flag =
     (let needed = needed_rollouts (Res_Spec flag)
      in if needed = [] then Inr Map.empty
         else case listed of
           Inl e \<Rightarrow> Inl (''list rolloutpolicies: '' @ e)
         | Inr items \<Rightarrow>
            let out = found_rollouts (Res_Spec flag) items
            in case find (\<lambda>name. out name = None) needed of
                 Some name \<Rightarrow> Inl (''RolloutPolicy '' @ fmt_q name @ '' not found in namespace '' @ fmt_q (Meta_Namespace (Res_Meta flag)))
               | None \<Rightarrow> Inr out)"

text \<open>The message of a publication.\<close>

definition flag_source :: "('v, 's) structpb \<Rightarrow> flag_cr \<Rightarrow> (string \<rightharpoonup> rolloutpolicy_cr) \<Rightarrow> FlagSpecBinding option \<Rightarrow> string + 's" where
  "flag_source P flag rollouts binding =
     bindE (IRForFlag (Some flag) rollouts binding) (\<lambda>tree. bindE (PublishSource tree) (spb_NewStruct P))"

definition published_version :: "('v, 's) rpc_body \<Rightarrow> int" where
  "published_version b = (case b of PbFlagVersionResponse v \<Rightarrow> PbV_Version v | _ \<Rightarrow> 0)"

definition flag_publish :: "('v, 's) structpb \<Rightarrow> ('v, 's, 'w) api_client \<Rightarrow> flag_cr \<Rightarrow> (string \<rightharpoonup> rolloutpolicy_cr)
    \<Rightarrow> FlagSpecBinding option \<Rightarrow> 'w \<Rightarrow> (op_error + int) \<times> 'w" where
  "flag_publish P api flag rollouts binding w =
     (case flag_source P flag rollouts binding of
        Inl e \<Rightarrow> (Inl (invalid_argument e), w)
      | Inr s \<Rightarrow>
         (case api (RpcPublishFlagVersion (FlagSpec_ProjectSlug (Res_Spec flag)) (FlagSpec_Key (Res_Spec flag))
             STRATEGY_JSON (Some s) []) w of
            (Inl e, w1) \<Rightarrow> (Inl e, w1)
          | (Inr b, w1) \<Rightarrow> (Inr (published_version b), w1)))"

fun flag_publish_all :: "('v, 's) structpb \<Rightarrow> ('v, 's, 'w) api_client \<Rightarrow> flag_cr \<Rightarrow> (string \<rightharpoonup> rolloutpolicy_cr)
    \<Rightarrow> FlagSpecBinding list \<Rightarrow> int \<Rightarrow> 'w \<Rightarrow> (int \<times> op_error option) \<times> 'w" where
  "flag_publish_all P api flag rollouts [] lastVer w = ((lastVer, None), w)"
| "flag_publish_all P api flag rollouts (b # bs) lastVer w =
     (case flag_publish P api flag rollouts (Some b) w of
        (Inl e, w1) \<Rightarrow> ((lastVer, Some e), w1)
      | (Inr ver, w1) \<Rightarrow> flag_publish_all P api flag rollouts bs ver w1)"

definition flag_sync :: "('v, 's) structpb \<Rightarrow> ('v, 's) structpb_access \<Rightarrow> ('v, 's, 'w) api_client
    \<Rightarrow> string + rolloutpolicy_cr list \<Rightarrow> flag_cr \<Rightarrow> 'w \<Rightarrow> (int \<times> op_error option) \<times> 'w" where
  "flag_sync P Q api listed flag w =
     (case ensureFlag Q api (Res_Spec flag) w of
        (Some e, w1) \<Rightarrow> ((0, Some e), w1)
      | (None, w1) \<Rightarrow>
         (case resolveRollouts listed flag of
            Inl e \<Rightarrow> ((0, Some (invalid_argument e)), w1)
          | Inr rollouts \<Rightarrow>
             if FlagSpec_Bindings (Res_Spec flag) = []
             then (case flag_publish P api flag rollouts None w1 of
                     (Inl e, w2) \<Rightarrow> ((0, Some e), w2)
                   | (Inr ver, w2) \<Rightarrow> ((ver, None), w2))
             else flag_publish_all P api flag rollouts (FlagSpec_Bindings (Res_Spec flag)) 0 w1))"

definition observe_flag :: "(nat \<Rightarrow> time) \<Rightarrow> int \<Rightarrow> op_error option \<Rightarrow> ObjectMeta \<Rightarrow> FlagStatus \<Rightarrow> FlagStatus" where
  "observe_flag now lastVersion err m st =
     (let st1 = observe_sync now err m st
      in if Cond_Status (fst (snd (translateError err))) = ''True'' \<and> 0 < lastVersion
         then st1\<lparr>FlagStatus_LastPublishedVersion := lastVersion\<rparr> else st1)"

definition flag_Reconcile :: "('v, 's) structpb \<Rightarrow> ('v, 's) structpb_access \<Rightarrow> ('v, 's, 'w) api_client \<Rightarrow> (nat \<Rightarrow> time)
    \<Rightarrow> string + rolloutpolicy_cr list \<Rightarrow> flag_cr kube \<Rightarrow> 'w \<Rightarrow> flag_cr reconciled \<times> 'w" where
  "flag_Reconcile P Q api now listed K = with_resource K (with_finalizer flagFinalizer K (\<lambda>flag w.
     let ((lastVersion, err), w') = flag_sync P Q api listed flag w
     in (finish_sync K err (flag\<lparr>Res_Status := observe_flag now lastVersion err (Res_Meta flag) (Res_Status flag)\<rparr>), w')))"

subsection \<open>Flag bindings\<close>

text \<open>The flags of the namespace are listed; the first that matches is taken.\<close>

definition fetchFlag :: "string + flag_cr list \<Rightarrow> FlagBindingSpec \<Rightarrow> string + flag_cr" where
  "fetchFlag listed spec = (case listed of
     Inl e \<Rightarrow> Inl (''list flags: '' @ e)
   | Inr items \<Rightarrow>
      (case find (\<lambda>f. FlagSpec_ProjectSlug (Res_Spec f) = FlagBindingSpec_ProjectSlug spec \<and>
                      FlagSpec_Key (Res_Spec f) = FlagBindingSpec_FlagKey spec) items of
         Some f \<Rightarrow> Inr f
       | None \<Rightarrow> Inl (''flag '' @ fmt_q (FlagBindingSpec_FlagKey spec) @ '' not found for project '' @
           fmt_q (FlagBindingSpec_ProjectSlug spec))))"

text \<open>An object of raw messages; a later member replaces an earlier one. Anything else is
  no map.\<close>

definition parseOverridesJSON :: "raw \<Rightarrow> (string \<times> raw) list" where
  "parseOverridesJSON r = (case r of
     RawDoc (JObj kvs) \<Rightarrow> foldl (\<lambda>m (k, j). map_put k (RawDoc j) m) [] kvs
   | _ \<Rightarrow> [])"

definition decodeOverrides :: "FlagBindingSpec \<Rightarrow> (string \<times> raw) list" where
  "decodeOverrides spec = (case FlagBindingSpec_Overrides spec of
     None \<Rightarrow> []
   | Some r \<Rightarrow> if raw_empty r then [] else parseOverridesJSON r)"

text \<open>One version per environment; a conflict is passed over.\<close>

fun publish_environments :: "('v, 's) structpb \<Rightarrow> ('v, 's, 'w) api_client \<Rightarrow> FlagBindingSpec \<Rightarrow> flag_cr \<Rightarrow> string list
    \<Rightarrow> (string \<times> int) list \<Rightarrow> 'w \<Rightarrow> ((string \<times> int) list \<times> op_error option) \<times> 'w" where
  "publish_environments P api spec flag [] versions w = ((versions, None), w)"
| "publish_environments P api spec flag (env # envs) versions w =
     (let sb = \<lparr>FlagSpecBinding_Environment = env, FlagSpecBinding_Default = map_of (decodeOverrides spec) env,
                FlagSpecBinding_Rules = None\<rparr>
      in case flag_source P flag Map.empty (Some sb) of
           Inl e \<Rightarrow> ((versions, Some (invalid_argument e)), w)
         | Inr s \<Rightarrow>
            (case api (RpcPublishFlagVersion (FlagBindingSpec_ProjectSlug spec) (FlagBindingSpec_FlagKey spec)
                STRATEGY_JSON (Some s) []) w of
               (Inl e, w1) \<Rightarrow> if has_code (Server CodeAlreadyExists) e
                 then publish_environments P api spec flag envs versions w1
                 else ((versions, Some e), w1)
             | (Inr b, w1) \<Rightarrow> publish_environments P api spec flag envs
                 (case b of PbFlagVersionResponse v \<Rightarrow> map_put env (PbV_Version v) versions | _ \<Rightarrow> versions) w1))"

definition publishAll :: "('v, 's) structpb \<Rightarrow> ('v, 's, 'w) api_client \<Rightarrow> FlagBindingSpec \<Rightarrow> flag_cr \<Rightarrow> 'w
    \<Rightarrow> ((string \<times> int) list \<times> op_error option) \<times> 'w" where
  "publishAll P api spec flag = publish_environments P api spec flag (FlagBindingSpec_Environments spec) []"

text \<open>Clock readings: the sync condition, \<open>Ready\<close>, \<open>Published\<close>, the time of the sync.\<close>

definition observe_binding :: "(nat \<Rightarrow> time) \<Rightarrow> (string \<times> int) list \<Rightarrow> op_error option \<Rightarrow> ObjectMeta \<Rightarrow> FlagBindingStatus
    \<Rightarrow> FlagBindingStatus" where
  "observe_binding now versions err m st =
     (let cond = fst (snd (translateError err)); st1 = setCondition (now 0) cond st
      in if Cond_Status cond = ''True''
         then (setCondition (now 2) \<lparr>Cond_Type = ''Published'', Cond_Status = ''True'', Cond_Reason = ''AllEnvironmentsPublished'',
                 Cond_Message = MText (''published '' @ show_int (int (length versions)) @ '' environments''),
                 Cond_LastTransitionTime = 0\<rparr> (setCondition (now 1) readyTrue st1))
              \<lparr>St_ObservedGeneration := Meta_Generation m, St_LastSyncTime := Some (now 3),
               FlagBindingStatus_PublishedVersions := versions\<rparr>
         else st1)"

text \<open>Without the flag the outcome of the status update is ignored.\<close>

definition flagbinding_Reconcile :: "('v, 's) structpb \<Rightarrow> ('v, 's, 'w) api_client \<Rightarrow> (nat \<Rightarrow> time) \<Rightarrow> string + flag_cr list
    \<Rightarrow> flagbinding_cr kube \<Rightarrow> 'w \<Rightarrow> flagbinding_cr reconciled \<times> 'w" where
  "flagbinding_Reconcile P api now listed K = with_resource K (\<lambda>b w.
     case fetchFlag listed (Res_Spec b) of
       Inl e \<Rightarrow> (\<lparr>rc_result = requeueAfterConflict, rc_error = None, rc_updated = None,
                  rc_status = Some (b\<lparr>Res_Status := setCondition (now 0) (conditionFalse ''Ready'' ''FlagNotFound'' (MText e)) (Res_Status b)\<rparr>)\<rparr>, w)
     | Inr flag \<Rightarrow>
        let ((versions, err), w') = publishAll P api (Res_Spec b) flag w
        in (finish_sync K err (b\<lparr>Res_Status := observe_binding now versions err (Res_Meta b) (Res_Status b)\<rparr>), w'))"

subsection \<open>Rollout policies\<close>

text \<open>The weights are added in 32 bits.\<close>

fun sum_weights :: "RolloutVariant list \<Rightarrow> 32 word \<Rightarrow> string + 32 word" where
  "sum_weights [] acc = Inr acc"
| "sum_weights (v # vs) acc =
     (if RolloutVariant_Value v = RawNil then Inl (''variant '' @ fmt_q (RolloutVariant_ID v) @ '' is missing a value'')
      else sum_weights vs (acc + RolloutVariant_Weight v))"

definition validateRolloutPolicy :: "rolloutpolicy_cr \<Rightarrow> string option" where
  "validateRolloutPolicy rp =
     (if RolloutPolicySpec_Variants (Res_Spec rp) = [] then Some ''at least one variant is required''
      else case sum_weights (RolloutPolicySpec_Variants (Res_Spec rp)) 0 of
        Inl e \<Rightarrow> Some e
      | Inr n \<Rightarrow> if n = 100 then None
                     else Some (''variant weights must sum to 100, got '' @ show_int (sint n)))"

definition rolloutpolicy_Reconcile :: "(nat \<Rightarrow> time) \<Rightarrow> rolloutpolicy_cr kube \<Rightarrow> rolloutpolicy_cr reconciled" where
  "rolloutpolicy_Reconcile now K = fst (with_resource K (\<lambda>rp w.
     (case validateRolloutPolicy rp of
        Some e \<Rightarrow> \<lparr>rc_result = 0, rc_error = None, rc_updated = None,
          rc_status = Some (rp\<lparr>Res_Status := setCondition (now 1) (conditionFalse ''Resolved'' ''InvalidSpec'' (MText e))
            (setCondition (now 0) (conditionFalse ''Ready'' ''InvalidSpec'' (MText e)) (Res_Status rp))\<rparr>)\<rparr>
      | None \<Rightarrow>
         let st = setCondition (now 2) syncedTrue
               (setCondition (now 1) \<lparr>Cond_Type = ''Resolved'', Cond_Status = ''True'', Cond_Reason = ''Valid'',
                  Cond_Message = MText ''all variants are valid'', Cond_LastTransitionTime = 0\<rparr>
               (setCondition (now 0) readyTrue (Res_Status rp)));
             rp' = rp\<lparr>Res_Status := st\<lparr>St_ObservedGeneration := Meta_Generation (Res_Meta rp), St_LastSyncTime := Some (now 3)\<rparr>\<rparr>
         in (case k_StatusUpdate K rp' of
               Some e \<Rightarrow> \<lparr>rc_result = 0, rc_error = Some (OpOther e), rc_updated = None, rc_status = Some rp'\<rparr>
             | None \<Rightarrow> \<lparr>rc_result = requeueAfterSuccess, rc_error = None, rc_updated = None, rc_status = Some rp'\<rparr>), w)) ())"

subsection \<open>Snapshots\<close>

text \<open>The number of flags is taken from an object \<open>flags\<close> of the compiled document.\<close>

definition flag_count :: "('v, 's) structpb_access \<Rightarrow> 's option \<Rightarrow> int option" where
  "flag_count Q compiled = Option.bind compiled (\<lambda>s. Option.bind (map_of (spa_Fields Q s) ''flags'') (\<lambda>v.
     map_option (\<lambda>x. to_int32 (int (length (spa_Fields Q x)))) (spa_GetStructValue Q v)))"

definition observe_snapshot :: "('v, 's) structpb_access \<Rightarrow> (nat \<Rightarrow> time) \<Rightarrow> op_error + ('v, 's) rpc_body \<Rightarrow> ObjectMeta
    \<Rightarrow> FlagSnapshotStatus \<Rightarrow> FlagSnapshotStatus" where
  "observe_snapshot Q now answer m st =
     (case answer of
        Inl e \<Rightarrow> setCondition (now 1) (conditionFalse ''Compiled'' ''Unavailable'' (MText ''latest snapshot unavailable''))
          (setCondition (now 0) (fst (snd (translateError (Some e)))) st)
      | Inr (PbSnapshotResponse x) \<Rightarrow>
         let st1 = setCondition (now 2) readyTrue
               (setCondition (now 1) \<lparr>Cond_Type = ''Compiled'', Cond_Status = ''True'', Cond_Reason = ''SnapshotExists'',
                  Cond_Message = MText ''latest snapshot fetched from API'', Cond_LastTransitionTime = 0\<rparr>
               (setCondition (now 0) syncedTrue st));
             st2 = st1\<lparr>FlagSnapshotStatus_CompiledVersion := PbSnap_Version x\<rparr>;
             st3 = (case flag_count Q (PbSnap_Compiled x) of None \<Rightarrow> st2 | Some n \<Rightarrow> st2\<lparr>FlagSnapshotStatus_FlagCount := n\<rparr>)
         in st3\<lparr>St_ObservedGeneration := Meta_Generation m, St_LastSyncTime := Some (now 3)\<rparr>
      | Inr _ \<Rightarrow> setCondition (now 0) syncedTrue st)"

definition flagsnapshot_Reconcile :: "('v, 's) structpb_access \<Rightarrow> ('v, 's, 'w) api_client \<Rightarrow> (nat \<Rightarrow> time)
    \<Rightarrow> flagsnapshot_cr kube \<Rightarrow> 'w \<Rightarrow> flagsnapshot_cr reconciled \<times> 'w" where
  "flagsnapshot_Reconcile Q api now K = with_resource K (\<lambda>snap w.
     let (answer, w') = api (RpcGetLatestSnapshot (FlagSnapshotSpec_ProjectSlug (Res_Spec snap))) w;
         err = (case answer of Inl e \<Rightarrow> Some e | Inr _ \<Rightarrow> None)
     in (finish_sync K err (snap\<lparr>Res_Status := observe_snapshot Q now answer (Res_Meta snap) (Res_Status snap)\<rparr>), w'))"

end
