(* ===== verification/Operator_Upstream.thy ===== *)
theory Operator_Upstream
  imports Operator
begin

text \<open>
  The operator over the server: its API client (\<open>clientapi\<close>) calls the Connect handlers
  of the control plane with the operator's actor. What a creation promises, whether the
  row is new or was there before, is the contract \<open>upsert\<close>.
\<close>

subsection \<open>Calls over the network\<close>

text \<open>A call is served, is lost on the way, or its answer is; the client then reports a code
  of its own. A handler that runs out of stack gives no answer either.\<close>

datatype delivery = Delivered | RequestLost string | AnswerLost string

definition lost :: "string \<Rightarrow> op_error" where
  "lost c = OpConnect (Transport c) (CText c)"

definition rpc_answer :: "(('v, 's) rpc_result \<times> database) option \<Rightarrow> database \<Rightarrow> (op_error + ('v, 's) rpc_body) \<times> database" where
  "rpc_answer x d = (case x of
     None \<Rightarrow> (Inl (lost ''unavailable''), d)
   | Some (Inl (c, e), d') \<Rightarrow> (Inl (OpConnect (Server c) (CServer e)), d')
   | Some (Inr b, d') \<Rightarrow> (Inr b, d'))"

text \<open>The client of \<open>clientapi.New\<close> with the actor's interceptor: an empty actor sets no
  header, which the server reads as an empty actor. The state counts the calls, so that
  each is served with ids, a clock and concurrent transactions of its own.\<close>

definition upstream :: "('v, 's) structpb \<Rightarrow> uuid_text \<Rightarrow> ('ast, 'prog) engines \<Rightarrow> ts_engine \<Rightarrow> nat \<Rightarrow> (nat \<Rightarrow> server) \<Rightarrow> string
    \<Rightarrow> (nat \<Rightarrow> delivery) \<Rightarrow> ('v, 's, nat \<times> database) api_client" where
  "upstream P U E T n sv actor dl call w =
     (let (k, d) = w; (r, d') = rpc_answer (rpc_dispatch P U E T n (sv k) actor call d) d
      in case dl k of
           Delivered \<Rightarrow> (r, (Suc k, d'))
         | RequestLost c \<Rightarrow> (Inl (lost c), (Suc k, d))
         | AnswerLost c \<Rightarrow> (Inl (lost c), (Suc k, d')))"

lemma lost_code [simp]: "\<not> has_code (Server c) (lost m)"
  by (simp add: has_code_def lost_def)

lemma upstream_ok:
  assumes "upstream P U E T n sv actor dl call (k, d) = (Inr b, w')"
  obtains d' where "w' = (Suc k, d')" "rpc_dispatch P U E T n (sv k) actor call d = Some (Inr b, d')"
  using assms by (auto simp: upstream_def rpc_answer_def Let_def split: delivery.splits option.splits prod.splits sum.splits)

lemma upstream_code:
  assumes "upstream P U E T n sv actor dl call (k, d) = (Inl e, w')" "has_code (Server c) e"
  obtains d' x where "w' = (Suc k, d')" "rpc_dispatch P U E T n (sv k) actor call d = Some (Inl (c, x), d')"
  using assms by (auto simp: upstream_def rpc_answer_def Let_def has_code_def lost_def
      split: delivery.splits option.splits prod.splits sum.splits)

lemma upstream_create:
  assumes "upstream P U E T n sv actor dl call (k, d) = (r, w')" "is_ok r \<or> (\<exists>e. r = Inl e \<and> has_code (Server CodeAlreadyExists) e)"
  obtains x d' where "w' = (Suc k, d')" "rpc_dispatch P U E T n (sv k) actor call d = Some (x, d')"
    "is_ok x \<or> (\<exists>y. x = Inl (CodeAlreadyExists, y))"
proof (cases r)
  case (Inl e)
  then show thesis using assms that by (auto elim: upstream_code)
next
  case (Inr b)
  then show thesis using assms that by (auto elim: upstream_ok)
qed

lemma upstream_read:
  assumes "upstream P U E T n sv actor dl call (k, d) = (r, w')"
    and "rpc_dispatch P U E T n (sv k) actor call d = Some (x, d)"
  shows "w' = (Suc k, d)"
  using assms by (auto simp: upstream_def rpc_answer_def Let_def split: delivery.splits prod.splits sum.splits)

subsection \<open>Rows stay\<close>

text \<open>Nothing deletes projects, environments or flags: a row that is found stays found.\<close>

lemma step_appends:
  "store_step J d d' \<Longrightarrow> \<exists>ps es fs. projects d' = projects d @ ps \<and> environments d' = environments d @ es \<and>
     flags d' = flags d @ fs"
  by (induction rule: store_step.induct)
    (auto simp: step_defs success_simps dest!: create_project_effect create_flag_effect create_environment_effect
      create_segment_effect update_segment_effect create_version_effect create_snapshot_effect append_audit_effect)

lemma steps_append:
  "(store_step J)\<^sup>*\<^sup>* d d' \<Longrightarrow> \<exists>ps es fs. projects d' = projects d @ ps \<and> environments d' = environments d @ es \<and>
     flags d' = flags d @ fs"
proof (induction rule: rtranclp_induct)
  case (step b c)
  then show ?case using step_appends [of J b c] by fastforce
qed simp

lemma one_row_append: "one_row rs = Inr r \<Longrightarrow> one_row (rs @ ss) = Inr r"
  by (cases rs) (auto simp: one_row_def)

lemma rows_stay:
  assumes "(store_step J)\<^sup>*\<^sup>* d d'"
  shows "GetProjectBySlug slug d = Inr p \<Longrightarrow> GetProjectBySlug slug d' = Inr p"
    and "GetEnvironmentBySlug pid env d = Inr e \<Longrightarrow> GetEnvironmentBySlug pid env d' = Inr e"
    and "GetFlagByKey pid key d = Inr f \<Longrightarrow> GetFlagByKey pid key d' = Inr f"
  using steps_append [OF assms]
  by (auto simp: GetProjectBySlug_def q_GetProjectBySlug_def GetEnvironmentBySlug_def q_GetEnvironmentBySlug_def
      GetFlagByKey_def q_GetFlagByKey_def bindE_eq_Inr one_row_append)

lemma one_row_ok: "is_ok (bindE (wrap_get m (one_row (filter P rs))) (\<lambda>r. Inr (f r))) \<longleftrightarrow> (\<exists>r \<in> set rs. P r)"
  by (cases "filter P rs") (auto simp: one_row_def wrap_get_def filter_empty_conv filter_eq_Cons_iff)

lemma found_row:
  "is_ok (GetProjectBySlug slug d) \<longleftrightarrow> slug \<in> pr_slug ` set (projects d)"
  "is_ok (GetEnvironmentBySlug pid env d) \<longleftrightarrow> (pid, env) \<in> (\<lambda>r. (en_project_id r, en_slug r)) ` set (environments d)"
  "is_ok (GetFlagByKey pid key d) \<longleftrightarrow> (pid, key) \<in> (\<lambda>r. (fl_project_id r, fl_key r)) ` set (flags d)"
  by (auto simp: GetProjectBySlug_def q_GetProjectBySlug_def GetEnvironmentBySlug_def q_GetEnvironmentBySlug_def
      GetFlagByKey_def q_GetFlagByKey_def one_row_ok)

subsection \<open>Conflicts\<close>

text \<open>A failure of \<open>WithAudit\<close> is a failure of one attempt, or the request was cancelled.\<close>

lemma withAuditLoop_error:
  "withAuditLoop J w k ev fn (before_attempt w d k) = (Inl e, d') \<Longrightarrow> k \<le> withAuditMaxRetries \<Longrightarrow>
   e = CtxErr \<or> (\<exists>n \<le> withAuditMaxRetries. withAuditOnce J w n ev fn (before_attempt w d n) = (Inl e, d'))"
proof (induction "withAuditMaxRetries - k" arbitrary: k)
  case 0
  then show ?case by (subst (asm) withAuditLoop.simps) (auto split: prod.splits sum.splits if_splits)
next
  case (Suc m)
  obtain r1 d1 where o: "withAuditOnce J w k ev fn (before_attempt w d k) = (r1, d1)" by fastforce
  show ?case
  proof (cases "\<exists>e1. r1 = Inl e1 \<and> isSerializationFailure e1 \<and> \<not> w_cancelled w k \<and> k < withAuditMaxRetries")
    case True
    then have "d1 = before_attempt w d k" using withAuditOnce_cases [OF o] by auto
    then have "withAuditLoop J w (Suc k) ev fn (before_attempt w d (Suc k)) = (Inl e, d')"
      using Suc.prems(1) True o by (subst (asm) withAuditLoop.simps) auto
    then show ?thesis using Suc.hyps(1) [of "Suc k"] Suc.hyps(2) True by auto
  next
    case False
    then have "r1 = Inl e \<and> d1 = d' \<or> e = CtxErr"
      using Suc.prems(1) o by (subst (asm) withAuditLoop.simps) (auto split: sum.splits if_splits)
    then show ?thesis using o Suc.prems(2) by auto
  qed
qed

text \<open>The database reports no constraint violation but for a constraint, and other clients
  write through the store.\<close>

definition calm :: "server \<Rightarrow> bool" where
  "calm sv \<longleftrightarrow>
     (\<forall>k e. e \<in> {UniqueViolation, ForeignKeyViolation} \<longrightarrow>
        w_begin (sv_world sv) k \<noteq> Some e \<and> w_statement (sv_world sv) k \<noteq> Some e \<and> w_commit (sv_world sv) k \<noteq> Some e) \<and>
     (\<forall>j. sv_json sv j \<noteq> Inl UniqueViolation \<and> sv_json sv j \<noteq> Inl ForeignKeyViolation) \<and>
     (\<forall>k d. (store_step (sv_json sv))\<^sup>*\<^sup>* d (w_others (sv_world sv) k d))"

lemma calm_seen: "calm sv \<Longrightarrow> (store_step (sv_json sv))\<^sup>*\<^sup>* d (seen_by sv d k)"
proof -
  assume c: "calm sv"
  have "(store_step (sv_json sv))\<^sup>*\<^sup>* e (before_attempt (sv_world sv) e k)" for e
    by (induction k) (use c in \<open>auto simp: calm_def intro: rtranclp_trans\<close>)
  then show ?thesis using c unfolding seen_by_def calm_def by (meson rtranclp_trans)
qed

text \<open>A conflict comes from the write or from the audit event.\<close>

lemma rpc_mutate_conflict:
  assumes "rpc_mutate sv ev f ok d = (Inl (CodeAlreadyExists, x), d')" "calm sv"
  obtains k e where "k \<le> 8" "d' = seen_by sv d k" "f (sv_now sv k) (sv_new_id sv k) d' = Inl e" "IsConflict e"
  | k a d1 e where "k \<le> 8" "d' = seen_by sv d k" "f (sv_now sv k) (sv_new_id sv k) d' = Inr (a, d1)"
      "append_audit_query (sv_json sv) (w_audit_now (sv_world sv) k) (w_audit_id (sv_world sv) k) ev d1 = Inl e"
      "e \<in> {UniqueViolation, ForeignKeyViolation}"
proof -
  let ?D = "w_others (sv_world sv) 0 d" and ?fn = "\<lambda>n. f (sv_now sv n) (sv_new_id sv n)"
  obtain e where e: "withAuditLoop (sv_json sv) (sv_world sv) 0 ev ?fn (before_attempt (sv_world sv) ?D 0) = (Inl e, d')" "IsConflict e"
    using assms(1) by (auto simp: rpc_mutate_def WithAudit_def connectError_def split: prod.splits sum.splits if_splits)
  then obtain k where k: "k \<le> 8" "withAuditOnce (sv_json sv) (sv_world sv) k ev ?fn (seen_by sv d k) = (Inl e, d')"
    using withAuditLoop_error [OF e(1)] by (auto simp: IsConflict_def seen_by_def withAuditMaxRetries_def)
  then have d': "d' = seen_by sv d k" using withAuditOnce_cases [OF k(2)] by simp
  show thesis
  proof (cases "f (sv_now sv k) (sv_new_id sv k) d'")
    case (Inl e1)
    then have "e1 = e" using k(2) e(2) d' assms(2)
      by (auto simp: withAuditOnce_def IsConflict_def calm_def split: option.splits)
    then show thesis using that(1) [OF k(1) d' Inl] e(2) by simp
  next
    case (Inr ad)
    obtain a d1 where ad: "ad = (a, d1)" by (cases ad)
    obtain se where "append_audit_query (sv_json sv) (w_audit_now (sv_world sv) k) (w_audit_id (sv_world sv) k) ev d1 = Inl se"
        "se \<in> {UniqueViolation, ForeignKeyViolation}"
      using k(2) e(2) d' assms(2) Inr ad
      by (auto simp: withAuditOnce_def IsConflict_def calm_def split: option.splits sum.splits)
    then show thesis using that(2) [OF k(1) d' Inr [unfolded ad]] by blast
  qed
qed

lemma rpc_mutate_ok:
  assumes "rpc_mutate sv ev f ok d = (Inr b, d')"
  obtains k a where "k \<le> 8" "b = ok a"
    "commits_with_audit (sv_json sv) ev (f (sv_now sv k) (sv_new_id sv k)) (seen_by sv d k) a d'"
proof -
  let ?D = "w_others (sv_world sv) 0 d" and ?fn = "\<lambda>n. f (sv_now sv n) (sv_new_id sv n)"
  obtain a where a: "WithAudit (sv_json sv) (sv_world sv) ev ?fn ?D = (Inr a, d')" "b = ok a"
    using assms by (auto simp: rpc_mutate_def split: prod.splits sum.splits)
  then obtain k where "k \<le> 8" "commits_with_audit (sv_json sv) ev (?fn k) (before_attempt (sv_world sv) ?D k) a d'"
    using withAuditLoop_cases [of "sv_json sv" "sv_world sv" 0 ev ?fn ?D "Inr a" d']
    unfolding WithAudit_def withAuditMaxRetries_def by auto
  then show thesis using that a(2) unfolding seen_by_def by blast
qed

lemma rpc_mutate_error:
  assumes "rpc_mutate sv ev f ok d = (Inl e, d')"
  shows "\<exists>k. d' = seen_by sv d k"
proof -
  let ?D = "w_others (sv_world sv) 0 d" and ?fn = "\<lambda>n. f (sv_now sv n) (sv_new_id sv n)"
  obtain x where "WithAudit (sv_json sv) (sv_world sv) ev ?fn ?D = (Inl x, d')"
    using assms by (auto simp: rpc_mutate_def split: prod.splits sum.splits)
  then show ?thesis
    using withAuditLoop_cases [of "sv_json sv" "sv_world sv" 0 ev ?fn ?D "Inl x" d'] unfolding WithAudit_def seen_by_def by auto
qed

text \<open>Generated ids are not in use.\<close>

definition fresh :: "server \<Rightarrow> database \<Rightarrow> bool" where
  "fresh sv d \<longleftrightarrow> (\<forall>k \<le> 8. let e = seen_by sv d k; i = sv_new_id sv k in
     i \<notin> pr_id ` set (projects e) \<and> i \<notin> en_id ` set (environments e) \<and> i \<notin> fl_id ` set (flags e) \<and>
     w_audit_id (sv_world sv) k \<notin> au_id ` set (audit_events e))"

definition server_ready :: "(nat \<Rightarrow> server) \<Rightarrow> database \<Rightarrow> bool" where
  "server_ready sv d \<longleftrightarrow> (\<forall>j. calm (sv j) \<and> fresh (sv j) d)"

subsection \<open>Get or create\<close>

text \<open>
  What the reconcilers rely on when they look a resource up and create it when it is
  missing: afterwards it is there, whoever has created it, and looking it up again
  finds it without an effect.
\<close>

definition succeeded :: "op_error option \<Rightarrow> bool" where
  "succeeded err = (case err of None \<Rightarrow> True | Some e \<Rightarrow> has_code (Server CodeAlreadyExists) e)"

locale upsert =
  fixes api :: "('v, 's, 'w) api_client"
    and get create :: "('v, 's) rpc_call"
    and holds ready served :: "'w \<Rightarrow> bool"
    and same :: "'w \<Rightarrow> 'w \<Rightarrow> bool"
  assumes lookup_finds: "api get w = (Inr b, w') \<Longrightarrow> holds w'"
    and lookup_fails: "api get w = (Inl e, w') \<Longrightarrow> \<not> has_code (Server CodeAlreadyExists) e"
    and lookup_keeps: "api get w = (Inl e, w') \<Longrightarrow> ready w \<Longrightarrow> ready w'"
    and lookup_again: "holds w \<Longrightarrow> served w \<Longrightarrow> \<exists>b w'. api get w = (Inr b, w') \<and> same w w'"
    and create_makes: "api create w = (Inr b, w') \<Longrightarrow> ready w \<Longrightarrow> holds w'"
    and create_exists: "api create w = (Inl e, w') \<Longrightarrow> has_code (Server CodeAlreadyExists) e \<Longrightarrow> ready w \<Longrightarrow> holds w'"
begin

lemma create_holds: "exists_ok (call_error (api create w)) = (None, w') \<Longrightarrow> ready w \<Longrightarrow> holds w'"
  using create_makes create_exists by (auto simp: exists_ok_def call_error_def split: prod.splits sum.splits if_splits)

lemma get_or_holds:
  assumes "get_or api get (\<lambda>w. (None, w)) missing w = (err, w')" "succeeded err" "ready w"
    and "\<And>w1. ready w1 \<Longrightarrow> missing w1 = (err, w') \<Longrightarrow> holds w'"
  shows "holds w'"
proof (cases "api get w")
  case (Pair r w1)
  show ?thesis
  proof (cases r)
    case (Inl e)
    then show ?thesis using assms Pair lookup_keeps [of w e w1] lookup_fails [of w e w1]
      by (auto simp: get_or_def succeeded_def split: if_splits)
  next
    case (Inr b)
    then show ?thesis using assms Pair lookup_finds [of w b w1] by (auto simp: get_or_def)
  qed
qed

lemma ensured:
  assumes "get_or api get (\<lambda>w. (None, w)) (\<lambda>w. exists_ok (call_error (api create w))) w = (err, w')" "succeeded err" "ready w"
  shows "holds w'"
proof (rule get_or_holds [OF assms])
  fix w1 assume w1: "ready w1" "exists_ok (call_error (api create w1)) = (err, w')"
  then have "err = None" using assms(2) by (auto simp: exists_ok_def succeeded_def split: prod.splits option.splits if_splits)
  then show "holds w'" using w1 create_holds by simp
qed

lemma settled: "holds w \<Longrightarrow> served w \<Longrightarrow> \<exists>w'. get_or api get (\<lambda>w. (None, w)) missing w = (None, w') \<and> same w w'"
  using lookup_again [of w] by (auto simp: get_or_def)

end

lemma or_connect_Inr: "or_connect f x = Inr a \<longleftrightarrow> x = Inr a"
  by (auto simp: or_connect_def split: sum.splits)

lemma rpc_project_eq: "rpc_project slug d = Inr p \<longleftrightarrow> GetProjectBySlug slug d = Inr p"
  by (simp add: rpc_project_def or_connect_Inr)

lemma audit_conflict:
  assumes "append_audit_query J now i ev d = Inl e" "e \<in> {UniqueViolation, ForeignKeyViolation}"
    and "i \<notin> au_id ` set (audit_events d)" "\<And>j. J j \<noteq> Inl e"
  shows "\<not> (ref_ok (project_exists d) (ap_ProjectID ev) \<and> ref_ok (flag_exists d) (ap_FlagID ev))"
  using assms by (auto simp: append_audit_query_def q_AppendAuditEvent_def pgAuditInsertParams_def bindE_eq_Inl require_def
      jsonb_def Let_def split: raw.splits if_splits)

lemma calm_json: "calm sv \<Longrightarrow> e \<in> {UniqueViolation, ForeignKeyViolation} \<Longrightarrow> sv_json sv j \<noteq> Inl e"
  by (auto simp: calm_def)

lemma fresh_ids:
  assumes "fresh sv d" "k \<le> 8" "e = seen_by sv d k"
  shows "sv_new_id sv k \<notin> pr_id ` set (projects e)" "sv_new_id sv k \<notin> en_id ` set (environments e)"
    "sv_new_id sv k \<notin> fl_id ` set (flags e)" "w_audit_id (sv_world sv) k \<notin> au_id ` set (audit_events e)"
  using assms by (auto simp: fresh_def Let_def)

text \<open>A creation that succeeds or meets a conflict, for any of the tables: \<open>Q\<close> says that
  the row is there.\<close>

lemma mutate_holds:
  assumes m: "rpc_mutate sv ev f ok d = (r, d')" and sv: "calm sv" "fresh sv d"
    and r: "is_ok r \<or> (\<exists>x. r = Inl (CodeAlreadyExists, x))"
    and written: "\<And>k e a d1 as. k \<le> 8 \<Longrightarrow> e = seen_by sv d k \<Longrightarrow> f (sv_now sv k) (sv_new_id sv k) e = Inr (a, d1) \<Longrightarrow>
        Q (d1\<lparr>audit_events := as\<rparr>) \<and> audit_events d1 = audit_events e \<and> ref_ok (project_exists d1) (ap_ProjectID ev)"
    and conflict: "\<And>k e x. k \<le> 8 \<Longrightarrow> e = seen_by sv d k \<Longrightarrow> f (sv_now sv k) (sv_new_id sv k) e = Inl x \<Longrightarrow> IsConflict x \<Longrightarrow> Q e"
    and ev: "ap_FlagID ev = None"
  shows "Q d'"
proof -
  from r show ?thesis
  proof (elim disjE exE)
    assume "is_ok r"
    then obtain b where b: "r = Inr b" by (auto simp: is_ok_iff)
    show ?thesis using m unfolding b
    proof (cases rule: rpc_mutate_ok)
      case (1 k a)
      then show ?thesis using written [OF 1(1) refl] by (fastforce simp: commits_with_audit_def)
    qed
  next
    fix x assume x: "r = Inl (CodeAlreadyExists, x)"
    show ?thesis using m [unfolded x] sv(1)
    proof (cases rule: rpc_mutate_conflict)
      case (1 k e)
      then show ?thesis using conflict [OF 1(1,2)] by blast
    next
      case (2 k a d1 e)
      then show ?thesis using written [OF 2(1-3)] audit_conflict [OF 2(4,5)] fresh_ids(4) [OF sv(2) 2(1,2)]
          calm_json [OF sv(1) 2(5)] ev by (simp add: ref_ok_def)
    qed
  qed
qed

lemma create_project_holds:
  assumes "rpc_CreateProject U sv actor slug name st d = (r, d')" "calm sv" "fresh sv d"
    and "is_ok r \<or> (\<exists>x. r = Inl (CodeAlreadyExists, x))"
  shows "is_ok (GetProjectBySlug slug d')"
proof -
  let ?ev = "\<lparr>ap_ProjectID = None, ap_FlagID = None, ap_Action = ''create_project'', ap_Actor = actor,
     ap_Payload = jsonOrEmpty [(''slug'', AStr slug)]\<rparr>"
  let ?f = "\<lambda>now i. tx_CreateProject now i slug name (strategyFromProto st)"
  have m: "rpc_mutate sv ?ev ?f (\<lambda>p. PbProjectResponse (projectToProto U p)) d = (r, d')"
    using assms(1,4) by (auto simp: rpc_CreateProject_def rpc_prepared_def Let_def rpc_badRequest_def split: if_splits)
  show ?thesis
    by (rule mutate_holds [where Q = "\<lambda>d. is_ok (GetProjectBySlug slug d)", OF m assms(2-4)])
      (auto simp: found_row tx_CreateProject_def q_CreateProject_def first_def wrap_sql_def require_def IsConflict_def ref_ok_def
        Let_def bindE_eq_Inl dest: fresh_ids(1) [OF assms(3)] split: if_splits sum.splits)
qed

lemma project_found_exists: "GetProjectBySlug slug d = Inr p \<Longrightarrow> project_exists d (Project_ID p)"
  by (auto simp: GetProjectBySlug_def q_GetProjectBySlug_def one_row_def project_exists_def projectFromRow_def bindE_eq_Inr
      filter_eq_Cons_iff split: list.splits)

text \<open>Writes to the other tables do not change projects.\<close>

lemma project_written [simp]:
  "GetProjectBySlug slug (d\<lparr>environments := es\<rparr>) = GetProjectBySlug slug d"
  "GetProjectBySlug slug (d\<lparr>flags := fs\<rparr>) = GetProjectBySlug slug d"
  "GetProjectBySlug slug (d\<lparr>segments := ss\<rparr>) = GetProjectBySlug slug d"
  "GetProjectBySlug slug (d\<lparr>audit_events := as\<rparr>) = GetProjectBySlug slug d"
  "project_exists (d\<lparr>environments := es\<rparr>) = project_exists d"
  "project_exists (d\<lparr>flags := fs\<rparr>) = project_exists d"
  by (simp_all add: GetProjectBySlug_def q_GetProjectBySlug_def project_exists_def fun_eq_iff)

lemma create_environment_holds:
  assumes "rpc_CreateEnvironment U sv actor pslug slug name d = (r, d')" "calm sv" "fresh sv d"
    and "is_ok r \<or> (\<exists>x. r = Inl (CodeAlreadyExists, x))"
  shows "\<exists>p. GetProjectBySlug pslug d' = Inr p \<and> is_ok (GetEnvironmentBySlug (Project_ID p) slug d')"
proof -
  obtain p where p: "GetProjectBySlug pslug d = Inr p"
    using assms(1,4) get_missing(1) [of pslug d] by (cases "rpc_project pslug d")
      (auto simp: rpc_CreateEnvironment_def rpc_prepared_def rpc_project_eq rpc_project_def or_connect_def connectError_def split: sum.splits)
  let ?ev = "\<lparr>ap_ProjectID = Some (Project_ID p), ap_FlagID = None, ap_Action = ''create_environment'', ap_Actor = actor,
     ap_Payload = jsonOrEmpty [(''slug'', AStr slug)]\<rparr>"
  let ?f = "\<lambda>now i. tx_CreateEnvironment now i (Project_ID p) slug name"
  have m: "rpc_mutate sv ?ev ?f (\<lambda>x. PbEnvironmentResponse (environmentToProto U x)) d = (r, d')"
    using assms(1) p by (simp add: rpc_CreateEnvironment_def rpc_prepared_def rpc_project_eq [THEN iffD2, OF p])
  have stay: "GetProjectBySlug pslug (seen_by sv d k) = Inr p" for k
    by (rule rows_stay(1) [OF calm_seen [OF assms(2)] p])
  have "GetProjectBySlug pslug d' = Inr p \<and> is_ok (GetEnvironmentBySlug (Project_ID p) slug d')"
    by (rule mutate_holds [where Q = "\<lambda>d. GetProjectBySlug pslug d = Inr p \<and> is_ok (GetEnvironmentBySlug (Project_ID p) slug d)",
        OF m assms(2-4)])
      (use stay project_found_exists in \<open>auto simp: found_row tx_CreateEnvironment_def q_CreateEnvironment_def first_def wrap_sql_def require_def IsConflict_def
        ref_ok_def Let_def bindE_eq_Inl dest: fresh_ids(2) [OF assms(3)] split: if_splits sum.splits\<close>)
  then show ?thesis by blast
qed

lemma create_flag_holds:
  assumes "rpc_CreateFlag P U sv actor slug key name desc vt dv d = (r, d')" "calm sv" "fresh sv d"
    and "is_ok r \<or> (\<exists>x. r = Inl (CodeAlreadyExists, x))"
  shows "is_ok (rpc_flag slug key d')"
proof -
  obtain p j where p: "GetProjectBySlug slug d = Inr p" "marshal_any (valueToAny P dv) = Some j"
    using assms(1,4) get_missing(1) [of slug d] by (cases "rpc_project slug d"; cases "marshal_any (valueToAny P dv)")
      (auto simp: rpc_CreateFlag_def rpc_prepared_def rpc_project_eq rpc_project_def or_connect_def connectError_def
        rpc_badRequest_def split: sum.splits)
  let ?ev = "\<lparr>ap_ProjectID = Some (Project_ID p), ap_FlagID = None, ap_Action = ''create_flag'', ap_Actor = actor,
     ap_Payload = jsonOrEmpty [(''key'', AStr key)]\<rparr>"
  let ?f = "\<lambda>now i. tx_CreateFlag (sv_json sv) now i
     \<lparr>cf_ProjectID = Project_ID p, cf_Key = key, cf_Name = name, cf_Description = desc,
      cf_ValueType = valueTypeFromProto vt, cf_DefaultValue = RawDoc j\<rparr>"
  have m: "rpc_mutate sv ?ev ?f (\<lambda>x. PbFlagResponse (flagToProto P U x)) d = (r, d')"
    using assms(1) p(2) by (simp add: rpc_CreateFlag_def rpc_prepared_def rpc_project_eq [THEN iffD2, OF p(1)])
  have stay: "GetProjectBySlug slug (seen_by sv d k) = Inr p" for k
    by (rule rows_stay(1) [OF calm_seen [OF assms(2)] p(1)])
  let ?Q = "\<lambda>d. GetProjectBySlug slug d = Inr p \<and> is_ok (GetFlagByKey (Project_ID p) key d)"
  have "?Q d'"
  proof (rule mutate_holds [where Q = ?Q and f = ?f and ev = ?ev, OF m assms(2-4)])
    fix k e a d1 as assume k: "k \<le> 8" "e = seen_by sv d k" "?f (sv_now sv k) (sv_new_id sv k) e = Inr (a, d1)"
    show "?Q (d1\<lparr>audit_events := as\<rparr>) \<and> audit_events d1 = audit_events e \<and> ref_ok (project_exists d1) (ap_ProjectID ?ev)"
      using k(3) stay [of k] project_found_exists [OF stay] unfolding k(2)
      by (auto simp: found_row tx_CreateFlag_def success_simps ref_ok_def dest!: create_flag_effect)
  next
    fix k e x assume k: "k \<le> 8" "e = seen_by sv d k" "?f (sv_now sv k) (sv_new_id sv k) e = Inl x" "IsConflict x"
    show "?Q e"
      using k(3,4) fresh_ids(3) [OF assms(3) k(1,2)] stay [of k] project_found_exists [OF stay] calm_json [OF assms(2)] unfolding k(2)
      by (auto simp: found_row tx_CreateFlag_def q_CreateFlag_def first_def wrap_sql_def require_def IsConflict_def jsonb_def
          bindE_eq_Inl Let_def split: if_splits sum.splits)
  qed simp
  then show ?thesis by (auto simp: rpc_flag_def rpc_project_def or_connect_def is_ok_iff)
qed

subsection \<open>The server keeps the contract\<close>

lemma ready_parts: "server_ready sv d \<Longrightarrow> calm (sv j)" "server_ready sv d \<Longrightarrow> fresh (sv j) d"
  by (auto simp: server_ready_def)

text \<open>How each resource instantiates the contract: \<open>found d\<close> says that the row is there.\<close>

lemma upsert_upstream:
  fixes P :: "('v, 's) structpb" and E :: "('ast, 'prog) engines"
  assumes get: "\<And>k d. rpc_dispatch P U E T n (sv k) actor get d = Some (read d, d)" "\<And>d. is_ok (read d) \<longleftrightarrow> found d"
      "\<And>d x. read d \<noteq> Inl (CodeAlreadyExists, x)"
    and create: "\<And>k d x d'. rpc_dispatch P U E T n (sv k) actor create d = Some (x, d') \<Longrightarrow> calm (sv k) \<Longrightarrow> fresh (sv k) d \<Longrightarrow>
      is_ok x \<or> (\<exists>y. x = Inl (CodeAlreadyExists, y)) \<Longrightarrow> found d'"
  shows "upsert (upstream P U E T n sv actor dl) get create (\<lambda>(k, d). found d) (\<lambda>(k, d). server_ready sv d)
    (\<lambda>(k, d). dl k = Delivered) (\<lambda>(k, d) (k', d'). d' = d)"
proof
  let ?api = "upstream P U E T n sv actor dl"
  fix w w' :: "nat \<times> database" and b :: "('v, 's) rpc_body" and e
  obtain k d where w: "w = (k, d)" by (cases w)
  show "case w' of (k, d) \<Rightarrow> found d" if "?api get w = (Inr b, w')"
    using that unfolding w by (rule upstream_ok) (use get in \<open>auto simp: is_ok_iff\<close>)
  show "\<not> has_code (Server CodeAlreadyExists) e" if "?api get w = (Inl e, w')"
    using that get(3) unfolding w by (auto elim!: upstream_code simp: get(1))
  show "case w' of (k, d) \<Rightarrow> server_ready sv d" if "?api get w = (Inl e, w')" "case w of (k, d) \<Rightarrow> server_ready sv d"
    using that(2) upstream_read [OF that(1) [unfolded w] get(1)] by (simp add: w)
  show "\<exists>b w'. ?api get w = (Inr b, w') \<and> (case w of (k, d) \<Rightarrow> \<lambda>(k', d'). d' = d) w'"
    if "case w of (k, d) \<Rightarrow> found d" "case w of (k, d) \<Rightarrow> dl k = Delivered"
  proof -
    have "is_ok (read d)" using that(1) get(2) w by simp
    then obtain b where "read d = Inr b" by (auto simp: is_ok_iff)
    then show ?thesis using that(2) get(1) by (simp add: w upstream_def rpc_answer_def)
  qed
  show "case w' of (k, d) \<Rightarrow> found d" if "?api create w = (Inr b, w')" "case w of (k, d) \<Rightarrow> server_ready sv d"
    using that(1) unfolding w by (rule upstream_create) (use that(2) create ready_parts in \<open>auto simp: w\<close>)
  show "case w' of (k, d) \<Rightarrow> found d"
    if "?api create w = (Inl e, w')" "has_code (Server CodeAlreadyExists) e" "case w of (k, d) \<Rightarrow> server_ready sv d"
    using that(1) unfolding w by (rule upstream_create) (use that(2,3) create ready_parts in \<open>auto simp: w\<close>)
qed

lemma project_read_ok: "is_ok (rpc_GetProject U slug d) \<longleftrightarrow> is_ok (GetProjectBySlug slug d)"
  by (auto simp: rpc_GetProject_def is_ok_iff bindE_eq_Inr rpc_project_eq)

lemma get_codes:
  "GetProjectBySlug slug d = Inl e \<Longrightarrow> connectError e \<noteq> (CodeAlreadyExists, x)"
  "GetEnvironmentBySlug pid slug d = Inl e \<Longrightarrow> connectError e \<noteq> (CodeAlreadyExists, x)"
  "GetFlagByKey pid key d = Inl e \<Longrightarrow> connectError e \<noteq> (CodeAlreadyExists, x)"
  "GetLatestFlagVersion fid d = Inl e \<Longrightarrow> connectError e \<noteq> (CodeAlreadyExists, x)"
  by (drule get_missing, simp add: connectError_def)+

lemma read_codes:
  "rpc_GetProject U slug d \<noteq> Inl (CodeAlreadyExists, x)" "rpc_GetEnvironment U slug env d \<noteq> Inl (CodeAlreadyExists, x)"
  "rpc_GetFlag P U slug key d \<noteq> Inl (CodeAlreadyExists, x)"
  by (auto simp: rpc_GetProject_def rpc_GetEnvironment_def rpc_GetFlag_def rpc_flag_def rpc_project_def or_connect_def bindE_eq_Inl
      dest: get_codes split: sum.splits if_splits)

interpretation project_upsert: upsert "upstream P U E T n sv actor dl" "RpcGetProject slug" "RpcCreateProject slug name st"
  "\<lambda>(k, d). is_ok (GetProjectBySlug slug d)" "\<lambda>(k, d). server_ready sv d" "\<lambda>(k, d). dl k = Delivered"
  "\<lambda>(k, d) (k', d'). d' = d"
  for P U E T n sv actor dl slug name st
  by (rule upsert_upstream [where read = "rpc_GetProject U slug"])
    (auto simp: project_read_ok read_codes intro: create_project_holds)

definition environment_there :: "string \<Rightarrow> string \<Rightarrow> database \<Rightarrow> bool" where
  "environment_there slug env d \<longleftrightarrow> (\<exists>p. GetProjectBySlug slug d = Inr p \<and> is_ok (GetEnvironmentBySlug (Project_ID p) env d))"

lemma environment_read_ok: "is_ok (rpc_GetEnvironment U slug env d) \<longleftrightarrow> environment_there slug env d"
  by (auto simp: rpc_GetEnvironment_def is_ok_iff bindE_eq_Inr rpc_project_eq environment_there_def or_connect_Inr)

interpretation environment_upsert: upsert "upstream P U E T n sv actor dl" "RpcGetEnvironment slug env"
  "RpcCreateEnvironment slug env name" "\<lambda>(k, d). environment_there slug env d" "\<lambda>(k, d). server_ready sv d"
  "\<lambda>(k, d). dl k = Delivered" "\<lambda>(k, d) (k', d'). d' = d"
  for P U E T n sv actor dl slug env name
  by (rule upsert_upstream [where read = "rpc_GetEnvironment U slug env"])
    (auto simp: environment_read_ok environment_there_def read_codes intro: create_environment_holds)

lemma flag_read_ok: "is_ok (rpc_GetFlag P U slug key d) \<longleftrightarrow> is_ok (rpc_flag slug key d)"
proof (cases "rpc_flag slug key d")
  case (Inr pf)
  obtain p f where pf: "pf = (p, f)" by (cases pf)
  show ?thesis using get_missing(5) [of "Flag_ID f" d] Inr pf
    by (cases "GetLatestFlagVersion (Flag_ID f) d") (auto simp: rpc_GetFlag_def)
qed (simp add: rpc_GetFlag_def)

interpretation flag_upsert: upsert "upstream P U E T n sv actor dl" "RpcGetFlag slug key"
  "RpcCreateFlag slug key name desc vt dv" "\<lambda>(k, d). is_ok (rpc_flag slug key d)" "\<lambda>(k, d). server_ready sv d"
  "\<lambda>(k, d). dl k = Delivered" "\<lambda>(k, d) (k', d'). d' = d"
  for P U E T n sv actor dl slug key name desc vt dv
  by (rule upsert_upstream [where read = "rpc_GetFlag P U slug key"])
    (auto simp: flag_read_ok read_codes intro: create_flag_holds)

end
