(* ===== verification/Operator_Props.thy ===== *)
theory Operator_Props
  imports Operator_Upstream
begin

text \<open>
  What the operator promises: a resource that is reported as synced and ready exists on
  the server; a flag is served as its resource says; and where the reports are wrong.
\<close>

subsection \<open>Conditions\<close>

definition condition_true :: "string \<Rightarrow> 'z ResourceStatus_scheme \<Rightarrow> bool" where
  "condition_true t st = (case find (\<lambda>c. Cond_Type c = t) (St_Conditions st) of None \<Rightarrow> False | Some c \<Rightarrow> Cond_Status c = ''True'')"

definition healthy :: "'z ResourceStatus_scheme \<Rightarrow> bool" where
  "healthy st \<longleftrightarrow> condition_true ''Synced'' st \<and> condition_true ''Ready'' st"

lemma find_put_condition:
  "find (\<lambda>x. Cond_Type x = t) (put_condition now c cs) =
     (if t = Cond_Type c
      then Some (c\<lparr>Cond_LastTransitionTime := (case find (\<lambda>x. Cond_Type x = t) cs of
         None \<Rightarrow> now | Some x \<Rightarrow> if Cond_Status x = Cond_Status c then Cond_LastTransitionTime x else now)\<rparr>)
      else find (\<lambda>x. Cond_Type x = t) cs)"
  by (induction cs) auto

lemma condition_true_set [simp]:
  "condition_true t (setCondition now c st) =
     (if t = Cond_Type c then Cond_Status c = ''True'' else condition_true t st)"
  by (simp add: condition_true_def setCondition_def find_put_condition)

lemma condition_true_other [simp]:
  "condition_true t (st\<lparr>St_ObservedGeneration := g\<rparr>) = condition_true t st"
  "condition_true t (st\<lparr>St_LastSyncTime := s\<rparr>) = condition_true t st"
  "condition_true t (fs\<lparr>FlagStatus_LastPublishedVersion := v\<rparr>) = condition_true t fs"
  by (simp_all add: condition_true_def)

lemmas condition_defs = syncedTrue_def readyTrue_def conditionFalse_def

lemma translateError_status:
  "Cond_Status (fst (snd (translateError err))) = ''True'' \<longleftrightarrow> succeeded err"
  by (auto simp: succeeded_def translateError_def condition_defs has_code_def split: option.splits op_error.splits)

text \<open>After a sync a status is healthy just when the sync has succeeded, or failed because
  something existed already; whatever the conditions were before.\<close>

lemma healthy_observe_sync:
  "healthy (observe_sync now err m st) \<longleftrightarrow> succeeded err"
  by (auto simp: succeeded_def healthy_def observe_sync_def Let_def translateError_def condition_defs has_code_def
      split: option.splits op_error.splits)

lemma finish_sync_status [simp]: "rc_status (finish_sync K err cr) = Some cr"
  by (simp add: finish_sync_def write_status_def)

lemma finish_sync_ok:
  "rc_result (finish_sync K None cr) = requeueAfterSuccess"
  "rc_error (finish_sync K None cr) = map_option OpOther (k_StatusUpdate K cr)"
  by (simp_all add: finish_sync_def write_status_def translateError_def)

subsection \<open>Projects and environments\<close>

text \<open>A pass that has nothing to do: the resource is healthy, it is looked at again after
  30 seconds, and the state of the server is the same.\<close>

definition quiet_pass :: "(_, 'z ResourceStatus_scheme) resource kube \<Rightarrow> (_, 'z ResourceStatus_scheme) resource reconciled \<Rightarrow> bool" where
  "quiet_pass K out \<longleftrightarrow> (\<exists>cr. rc_status out = Some cr \<and> healthy (Res_Status cr) \<and> rc_result out = requeueAfterSuccess \<and>
     rc_error out = map_option OpOther (k_StatusUpdate K cr))"

definition plain_pass :: "('spec \<Rightarrow> 'w \<Rightarrow> op_error option \<times> 'w) \<Rightarrow> (nat \<Rightarrow> time) \<Rightarrow> ('spec, 'z ResourceStatus_scheme) resource kube
    \<Rightarrow> 'w \<Rightarrow> ('spec, 'z ResourceStatus_scheme) resource reconciled \<times> 'w" where
  "plain_pass sync now K = with_resource K (\<lambda>cr w.
     let (err, w') = sync (Res_Spec cr) w
     in (finish_sync K err (cr\<lparr>Res_Status := observe_sync now err (Res_Meta cr) (Res_Status cr)\<rparr>), w'))"

lemma plain_passes:
  "project_Reconcile api = plain_pass (project_sync api)" "environment_Reconcile api = plain_pass (environment_sync api)"
  by (simp_all add: fun_eq_iff project_Reconcile_def environment_Reconcile_def plain_pass_def)

lemma plain_pass_healthy:
  assumes "plain_pass sync now K w = (out, w')" "k_Get K = Inr cr" "rc_status out = Some cr'" "healthy (Res_Status cr')"
  obtains err where "sync (Res_Spec cr) w = (err, w')" "succeeded err"
  using assms by (auto simp: plain_pass_def with_resource_def healthy_observe_sync split: prod.splits)

lemma plain_pass_quiet:
  assumes "sync (Res_Spec cr) w = (None, w')" "k_Get K = Inr cr"
  shows "\<exists>out. plain_pass sync now K w = (out, w') \<and> quiet_pass K out"
  using assms by (simp add: plain_pass_def with_resource_def quiet_pass_def healthy_observe_sync succeeded_def finish_sync_ok)

text \<open>
  C34. A project that the operator reports as synced and ready exists on the server,
  even when calls or answers were lost and whoever else creates it at the same time.
  From then on passes over it have no effect on the server and keep it healthy.
\<close>

theorem project_synced:
  assumes run: "project_Reconcile (upstream P U E T n sv actor dl) now K (k, d) = (out, (k', d'))"
    and got: "k_Get K = Inr cr"
    and status: "rc_status out = Some cr'" "healthy (Res_Status cr')"
    and ready: "server_ready sv d"
  shows "is_ok (GetProjectBySlug (ProjectSpec_ProjectSlug (Res_Spec cr)) d') \<and>
    (\<forall>now2 K2 cr2. k_Get K2 = Inr cr2 \<and> Res_Spec cr2 = Res_Spec cr \<and> dl k' = Delivered \<longrightarrow>
      (\<exists>out2 j. project_Reconcile (upstream P U E T n sv actor dl) now2 K2 (k', d') = (out2, (j, d')) \<and> quiet_pass K2 out2))"
proof -
  obtain err where err: "project_sync (upstream P U E T n sv actor dl) (Res_Spec cr) (k, d) = (err, (k', d'))" "succeeded err"
    using plain_pass_healthy [OF run [unfolded plain_passes] got status] by blast
  have there: "is_ok (GetProjectBySlug (ProjectSpec_ProjectSlug (Res_Spec cr)) d')"
    using project_upsert.ensured [OF err(1) [unfolded project_sync_def] err(2)] ready by simp
  have "\<exists>j. project_sync (upstream P U E T n sv actor dl) (Res_Spec cr) (k', d') = (None, (j, d'))" if "dl k' = Delivered"
    using project_upsert.settled [where w = "(k', d')" and dl = dl and slug = "ProjectSpec_ProjectSlug (Res_Spec cr)"] there that
    unfolding project_sync_def by (fastforce split: prod.splits)
  then show ?thesis using there unfolding plain_passes by (metis plain_pass_quiet)
qed

text \<open>For examples: the resource of a project that the server does not have yet.\<close>

definition sample_meta :: "string \<Rightarrow> string list \<Rightarrow> ObjectMeta" where
  "sample_meta name fs = \<lparr>Meta_Name = name, Meta_Namespace = ''default'', Meta_Generation = 1, Meta_DeletionTimestamp = None,
     Meta_Finalizers = fs\<rparr>"

definition sample_kube :: "'cr \<Rightarrow> 'cr kube" where
  "sample_kube cr = \<lparr>k_Get = Inr cr, k_Update = (\<lambda>_. None), k_StatusUpdate = (\<lambda>_. None)\<rparr>"

definition sample_project_cr :: project_cr where
  "sample_project_cr = \<lparr>Res_Meta = sample_meta ''blog'' [],
     Res_Spec = \<lparr>ProjectSpec_ProjectSlug = ''blog'', ProjectSpec_DisplayName = ''Blog'', ProjectSpec_ConfigStrategy = ''cel''\<rparr>,
     Res_Status = \<lparr>St_Conditions = [], St_ObservedGeneration = 0, St_LastSyncTime = None\<rparr>\<rparr>"

abbreviation sample_upstream :: "(nat \<Rightarrow> server) \<Rightarrow> (any, (string \<times> any) list, nat \<times> database) api_client" where
  "sample_upstream sv \<equiv> upstream plain_structpb sample_uuids sample_engines sample_ts 3 sv ''operator'' (\<lambda>_. Delivered)"

lemma sample_server_ready: "server_ready (\<lambda>_. sample_server) sample_db"
proof -
  have "seen_by sample_server sample_db k = sample_db" for k
  proof -
    have "before_attempt (sample_world 1) sample_db k = sample_db" by (induction k) (simp_all add: sample_world_def)
    then show ?thesis by (simp add: seen_by_def sample_server_def) (simp add: sample_world_def)
  qed
  moreover have "k = 0 \<or> k = 1 \<or> k = 2 \<or> k = 3 \<or> k = 4 \<or> k = 5 \<or> k = 6 \<or> k = 7 \<or> k = 8" if "k \<le> 8" for k :: nat
    using that by linarith
  ultimately show ?thesis
    by (fastforce simp: server_ready_def calm_def fresh_def sample_server_def sample_world_def sample_db_def empty_db_def)
qed

lemma sample_project_runs:
  "case project_Reconcile (sample_upstream (\<lambda>_. sample_server)) (\<lambda>_. 77) (sample_kube sample_project_cr) (0, sample_db) of
     (out, (k', d')) \<Rightarrow> (case rc_status out of None \<Rightarrow> False | Some cr \<Rightarrow> healthy (Res_Status cr) \<and> k' = 2)"
  by code_simp

theorem project_synced_witness:
  "\<exists>out d'. project_Reconcile (sample_upstream (\<lambda>_. sample_server)) (\<lambda>_. 77) (sample_kube sample_project_cr) (0, sample_db) = (out, (2, d')) \<and>
     \<not> is_ok (GetProjectBySlug ''blog'' sample_db) \<and> is_ok (GetProjectBySlug ''blog'' d') \<and>
     (\<exists>out2 j. project_Reconcile (sample_upstream (\<lambda>_. sample_server)) (\<lambda>_. 88) (sample_kube sample_project_cr) (2, d') = (out2, (j, d')) \<and>
        quiet_pass (sample_kube sample_project_cr) out2)"
proof -
  obtain out d' cr' where run: "project_Reconcile (sample_upstream (\<lambda>_. sample_server)) (\<lambda>_. 77) (sample_kube sample_project_cr) (0, sample_db)
      = (out, (2, d'))" and st: "rc_status out = Some cr'" "healthy (Res_Status cr')"
    using sample_project_runs by (auto split: prod.splits option.splits)
  have got: "k_Get (sample_kube sample_project_cr) = Inr sample_project_cr" by (simp add: sample_kube_def)
  have "\<not> is_ok (GetProjectBySlug ''blog'' sample_db)" by (simp add: found_row sample_db_def empty_db_def)
  then show ?thesis using project_synced [OF run got st sample_server_ready] run got
    by (simp add: sample_project_cr_def)
qed

lemma environment_synced:
  assumes run: "environment_Reconcile (upstream P U E T n sv actor dl) now K (k, d) = (out, (k', d'))"
    and got: "k_Get K = Inr cr"
    and status: "rc_status out = Some cr'" "healthy (Res_Status cr')"
    and ready: "server_ready sv d"
  shows "environment_there (EnvironmentSpec_ProjectSlug (Res_Spec cr)) (EnvironmentSpec_Slug (Res_Spec cr)) d' \<and>
    (\<forall>now2 K2 cr2. k_Get K2 = Inr cr2 \<and> Res_Spec cr2 = Res_Spec cr \<and> dl k' = Delivered \<longrightarrow>
      (\<exists>out2 j. environment_Reconcile (upstream P U E T n sv actor dl) now2 K2 (k', d') = (out2, (j, d')) \<and> quiet_pass K2 out2))"
proof -
  let ?s = "Res_Spec cr"
  obtain err where err: "environment_sync (upstream P U E T n sv actor dl) ?s (k, d) = (err, (k', d'))" "succeeded err"
    using plain_pass_healthy [OF run [unfolded plain_passes] got status] by blast
  have there: "environment_there (EnvironmentSpec_ProjectSlug ?s) (EnvironmentSpec_Slug ?s) d'"
    using environment_upsert.ensured [OF err(1) [unfolded environment_sync_def] err(2)] ready by simp
  have "\<exists>j. environment_sync (upstream P U E T n sv actor dl) ?s (k', d') = (None, (j, d'))" if "dl k' = Delivered"
    using environment_upsert.settled [where w = "(k', d')" and dl = dl and slug = "EnvironmentSpec_ProjectSlug ?s" and
        env = "EnvironmentSpec_Slug ?s"] there that
    unfolding environment_sync_def by (fastforce split: prod.splits)
  then show ?thesis using there unfolding plain_passes by (metis plain_pass_quiet)
qed

subsection \<open>Rollout policies\<close>

lemma sum_weights_ok:
  "sum_weights vs a = Inr b \<longleftrightarrow>
     b = a + (\<Sum>v\<leftarrow>vs. RolloutVariant_Weight v) \<and> (\<forall>v \<in> set vs. RolloutVariant_Value v \<noteq> RawNil)"
  by (induction vs arbitrary: a) (auto simp: add.assoc)

definition weights_in_range :: "RolloutVariant list \<Rightarrow> bool" where
  "weights_in_range vs \<longleftrightarrow> (\<forall>v \<in> set vs. 0 \<le> sint (RolloutVariant_Weight v) \<and> sint (RolloutVariant_Weight v) \<le> 100)"

text \<open>Up to 21474836 weights of at most 100 do not wrap.\<close>

lemma sum_no_wrap:
  assumes "weights_in_range vs" "length vs \<le> 21474836"
  shows "sint (\<Sum>v\<leftarrow>vs. RolloutVariant_Weight v) = (\<Sum>v\<leftarrow>vs. sint (RolloutVariant_Weight v))"
proof -
  have bounds: "0 \<le> (\<Sum>v\<leftarrow>vs. sint (RolloutVariant_Weight v)) \<and> (\<Sum>v\<leftarrow>vs. sint (RolloutVariant_Weight v)) \<le> 100 * int (length vs)"
    if "weights_in_range vs" for vs
    using that by (induction vs) (auto simp: weights_in_range_def)
  have "(\<Sum>v\<leftarrow>vs. RolloutVariant_Weight v) = of_int (\<Sum>v\<leftarrow>vs. sint (RolloutVariant_Weight v))"
    by (induction vs) simp_all
  moreover have "(\<Sum>v\<leftarrow>vs. sint (RolloutVariant_Weight v)) < 2 ^ 31" "0 \<le> (\<Sum>v\<leftarrow>vs. sint (RolloutVariant_Weight v))"
    using bounds [OF assms(1)] assms(2) by simp_all
  ultimately show ?thesis by (simp add: signed_of_int signed_take_bit_int_eq_self_iff)
qed

lemma foldl_max:
  fixes f :: "'a \<Rightarrow> int"
  defines "step \<equiv> \<lambda>h v. if f h < f v then v else h"
  shows "foldl step h vs \<in> insert h (set vs) \<and> (\<forall>v \<in> insert h (set vs). f v \<le> f (foldl step h vs))"
proof (induction vs arbitrary: h)
  case (Cons v vs)
  have "step h v \<in> {h, v}" "f h \<le> f (step h v)" "f v \<le> f (step h v)" by (auto simp: step_def)
  then show ?case using Cons.IH [of "step h v"] by (auto intro: order_trans)
qed simp

text \<open>
  C37. A rollout policy that the operator accepts has weights that add up to 100, and
  what the rules that name it serve is the value of a variant of the largest weight.
  The addition in 32 bits does not wrap when the weights are in the range the
  schema of the resource allows and there are not more than 21474836 of them.
\<close>

theorem accepted_policy_inlines_heaviest:
  assumes "validateRolloutPolicy rp = None" "vs = RolloutPolicySpec_Variants (Res_Spec rp)"
    and "weights_in_range vs" "length vs \<le> 21474836"
  shows "(\<Sum>v\<leftarrow>vs. sint (RolloutVariant_Weight v)) = 100 \<and>
    (\<exists>h \<in> set vs. pickRolloutValue rp = Inr (RolloutVariant_Value h) \<and>
       (\<forall>v \<in> set vs. sint (RolloutVariant_Weight v) \<le> sint (RolloutVariant_Weight h)))"
proof -
  have ok: "vs \<noteq> []" "(\<Sum>v\<leftarrow>vs. RolloutVariant_Weight v) = 100" "\<forall>v \<in> set vs. RolloutVariant_Value v \<noteq> RawNil"
    using assms(1) sum_weights_ok [of vs 0] unfolding validateRolloutPolicy_def assms(2) by (auto split: if_splits sum.splits)
  have total: "(\<Sum>v\<leftarrow>vs. sint (RolloutVariant_Weight v)) = 100"
    using sum_no_wrap [OF assms(3,4)] ok(2) by simp
  let ?h = "heaviest_variant vs"
  have h: "?h \<in> insert zero_variant (set vs)" "\<forall>v \<in> set vs. sint (RolloutVariant_Weight v) \<le> sint (RolloutVariant_Weight ?h)"
    using foldl_max [of "\<lambda>v. sint (RolloutVariant_Weight v)" zero_variant vs] unfolding heaviest_variant_def by auto
  have "?h \<noteq> zero_variant"
  proof
    assume "?h = zero_variant"
    then have "\<forall>v \<in> set vs. sint (RolloutVariant_Weight v) \<le> 0" using h(2) by simp
    then have "(\<Sum>v\<leftarrow>vs. sint (RolloutVariant_Weight v)) \<le> 0" by (induction vs) auto
    then show False using total by simp
  qed
  then have in_vs: "?h \<in> set vs" using h(1) by blast
  then have "pickRolloutValue rp = Inr (RolloutVariant_Value ?h)"
    using ok(1,3) by (cases vs) (auto simp: pickRolloutValue_def assms(2) [symmetric] Let_def)
  then show ?thesis using total in_vs h(2) by blast
qed

definition sample_variant :: "string \<Rightarrow> 32 word \<Rightarrow> bool \<Rightarrow> RolloutVariant" where
  "sample_variant i w b = \<lparr>RolloutVariant_ID = i, RolloutVariant_Weight = w, RolloutVariant_Value = RawDoc (JBool b)\<rparr>"

definition sample_policy :: rolloutpolicy_cr where
  "sample_policy = \<lparr>Res_Meta = sample_meta ''half'' [],
     Res_Spec = \<lparr>RolloutPolicySpec_ProjectSlug = ''shop'', RolloutPolicySpec_Name = ''half'',
       RolloutPolicySpec_Bucketing = \<lparr>Bucketing_Attribute = ''user.id'', Bucketing_Strategy = ''fnv1a_64'', Bucketing_Salt = ''s''\<rparr>,
       RolloutPolicySpec_Variants = [sample_variant ''off'' 40 False, sample_variant ''on'' 60 True]\<rparr>,
     Res_Status = \<lparr>St_Conditions = [], St_ObservedGeneration = 0, St_LastSyncTime = None\<rparr>\<rparr>"

theorem accepted_policy_inlines_heaviest_witness:
  "\<exists>vs. vs = RolloutPolicySpec_Variants (Res_Spec sample_policy) \<and> (\<Sum>v\<leftarrow>vs. sint (RolloutVariant_Weight v)) = 100 \<and>
     pickRolloutValue sample_policy = Inr (RawDoc (JBool True)) \<and>
     (\<exists>h \<in> set vs. pickRolloutValue sample_policy = Inr (RolloutVariant_Value h) \<and>
        (\<forall>v \<in> set vs. sint (RolloutVariant_Weight v) \<le> sint (RolloutVariant_Weight h)))"
proof -
  have "validateRolloutPolicy sample_policy = None" "weights_in_range (RolloutPolicySpec_Variants (Res_Spec sample_policy))"
    "length (RolloutPolicySpec_Variants (Res_Spec sample_policy)) \<le> 21474836" "pickRolloutValue sample_policy = Inr (RawDoc (JBool True))"
    by (simp_all add: validateRolloutPolicy_def weights_in_range_def sample_policy_def sample_variant_def pickRolloutValue_def
        heaviest_variant_def)
  then show ?thesis using accepted_policy_inlines_heaviest [OF _ refl, of sample_policy] by blast
qed

subsection \<open>Bindings and rollouts\<close>

lemma ir_rule_unknown: "FlagRule_RolloutRef r \<noteq> [] \<Longrightarrow> \<not> is_ok (ir_rule Map.empty r)"
  by (simp add: ir_rule_def split: sum.split)

lemma IRForFlag_unknown:
  assumes "r \<in> set (binding_rules f b)" "FlagRule_RolloutRef r \<noteq> []"
  shows "\<exists>e. IRForFlag (Some f) Map.empty b = Inl e"
proof (cases "mapE (ir_rule Map.empty) (binding_rules f b)")
  case (Inr rs)
  then obtain x where "ir_rule Map.empty r = Inr x" using assms(1) by (auto simp: mapE_eq_Inr list_all2_conv_all_nth in_set_conv_nth)
  then show ?thesis using ir_rule_unknown [OF assms(2)] by simp
qed (simp add: IRForFlag_def)


text \<open>For examples: a flag with a rule of each sort and two bindings.\<close>

definition sample_rule :: FlagRule where
  "sample_rule = \<lparr>FlagRule_ID = ''pro'', FlagRule_When = RawDoc (JObj [(''kind'', JStr ''eq''), (''attr'', JStr ''plan''), (''value'', JStr ''pro'')]),
     FlagRule_Value = Some (RawDoc (JBool True)), FlagRule_RolloutRef = []\<rparr>"

definition sample_flag_spec :: FlagSpec where
  "sample_flag_spec = \<lparr>FlagSpec_ProjectSlug = ''shop'', FlagSpec_Key = ''dark'', FlagSpec_Name = ''Dark'', FlagSpec_ValueType = ''boolean'',
     FlagSpec_Default = RawDoc (JBool False),
     FlagSpec_Rules = [sample_rule, sample_rule\<lparr>FlagRule_ID := ''half'', FlagRule_Value := None, FlagRule_RolloutRef := ''half''\<rparr>],
     FlagSpec_Bindings = [\<lparr>FlagSpecBinding_Environment = ''production'', FlagSpecBinding_Default = None, FlagSpecBinding_Rules = None\<rparr>,
       \<lparr>FlagSpecBinding_Environment = ''staging'', FlagSpecBinding_Default = Some (RawDoc (JBool True)), FlagSpecBinding_Rules = None\<rparr>]\<rparr>"

definition sample_flag_cr :: flag_cr where
  "sample_flag_cr = \<lparr>Res_Meta = sample_meta ''dark'' [flagFinalizer], Res_Spec = sample_flag_spec,
     Res_Status = \<lparr>St_Conditions = [], St_ObservedGeneration = 0, St_LastSyncTime = None, FlagStatus_LastPublishedVersion = 0\<rparr>\<rparr>"

definition sample_binding_cr :: flagbinding_cr where
  "sample_binding_cr = \<lparr>Res_Meta = sample_meta ''dark'' [],
     Res_Spec = \<lparr>FlagBindingSpec_ProjectSlug = ''shop'', FlagBindingSpec_FlagKey = ''dark'', FlagBindingSpec_Environments = [''production''],
       FlagBindingSpec_Overrides = None\<rparr>,
     Res_Status = \<lparr>St_Conditions = [], St_ObservedGeneration = 0, St_LastSyncTime = None, FlagBindingStatus_PublishedVersions = []\<rparr>\<rparr>"


end
