(* ===== verification/Operator_Flow.thy ===== *)
theory Operator_Flow
  imports Operator_Props
begin

text \<open>
  From a Flag resource to the evaluation: the operator publishes the tree it translates
  the resource into, the server compiles and stores it, and evaluates it.
\<close>

subsection \<open>Publishing one version\<close>

definition alone :: "server \<Rightarrow> bool" where
  "alone sv \<longleftrightarrow> (\<forall>k e. w_others (sv_world sv) k e = e)"

lemma alone_seen: "alone sv \<Longrightarrow> seen_by sv d k = d"
proof -
  assume a: "alone sv"
  have "before_attempt (sv_world sv) d k = d" by (induction k) (use a in \<open>simp_all add: alone_def\<close>)
  then show ?thesis using a by (simp add: seen_by_def alone_def)
qed

text \<open>The REST request with the content of the operator's message.\<close>

definition operator_request :: "('v, 's) structpb \<Rightarrow> 's \<Rightarrow> PublishFlagVersionRequest" where
  "operator_request P s = \<lparr>PVR_Strategy = ''json'', PVR_Source = AMap (spb_AsMap P s), PVR_SourceText = None\<rparr>"

lemma operator_params:
  assumes "rpc_publish_params P E T n proj flag STRATEGY_JSON (Some s) [] d = Some (Inr p)"
  shows "publish_params E T n proj flag (operator_request P s) d = Some (Inr p)"
proof -
  have "rel_option (in_step (=)) (publish_params E T n proj flag (operator_request P s) d)
      (rpc_publish_params P E T n proj flag STRATEGY_JSON (Some s) (derefString (PVR_SourceText (operator_request P s))) d)"
    by (rule publish_params_agree)
      (auto simp: operator_request_def strategyFromProto_def structToJSONRaw_def split: option.splits)
  moreover have "derefString (PVR_SourceText (operator_request P s)) = []"
    by (simp add: operator_request_def derefString_def)
  ultimately show ?thesis using assms by (auto simp: option_rel_Some2 elim!: rel_sum.cases)
qed

lemma rpc_flag_written [simp]:
  "rpc_flag slug key (d\<lparr>flag_versions := vs\<rparr>) = rpc_flag slug key d"
  "rpc_flag slug key (d\<lparr>audit_events := as\<rparr>) = rpc_flag slug key d"
  by (simp_all add: rpc_flag_def rpc_project_def get_defs)

lemma published_config_written [simp]:
  "published_config E T n proj req (d\<lparr>flag_versions := vs\<rparr>) = published_config E T n proj req d"
  "published_config E T n proj req (d\<lparr>audit_events := as\<rparr>) = published_config E T n proj req d"
  "published_config E T n proj req (d\<lparr>flags := fs\<rparr>) = published_config E T n proj req d"
proof -
  have "storeSegmentResolver pid (d\<lparr>flag_versions := vs\<rparr>) = storeSegmentResolver pid d"
    "storeSegmentResolver pid (d\<lparr>audit_events := as\<rparr>) = storeSegmentResolver pid d"
    "storeSegmentResolver pid (d\<lparr>flags := fs\<rparr>) = storeSegmentResolver pid d" for pid
    by (simp_all add: storeSegmentResolver_def fun_eq_iff get_defs)
  then show "published_config E T n proj req (d\<lparr>flag_versions := vs\<rparr>) = published_config E T n proj req d"
    "published_config E T n proj req (d\<lparr>audit_events := as\<rparr>) = published_config E T n proj req d"
    "published_config E T n proj req (d\<lparr>flags := fs\<rparr>) = published_config E T n proj req d"
    by (simp_all add: published_config_def resolveSegmentRefs_def cong: option.case_cong sum.case_cong)
qed

text \<open>The flag's latest version is the compiled configuration \<open>c\<close>, with number \<open>v\<close>.\<close>

definition serves :: "('ast, 'prog) engines \<Rightarrow> ts_engine \<Rightarrow> Flag \<Rightarrow> 'prog Compiled \<Rightarrow> int \<Rightarrow> database \<Rightarrow> bool" where
  "serves E T fl c v d \<longleftrightarrow> (\<exists>x. GetLatestFlagVersion (Flag_ID fl) d = Inr x \<and> FV_Version x = v \<and>
     FV_Strategy x = ''json'' \<and> Compile E T StrategyJSON (FV_Compiled x) = Inr c)"

lemma rpc_publish_effect:
  assumes pub: "rpc_PublishFlagVersion P U E T n sv actor slug key STRATEGY_JSON (Some s) [] d = Some (Inr b, d')"
    and alone: "alone sv" and stored: "keeps_trees (sv_json sv)" and numbered: "db_numbered d"
  obtains proj fl c r as where "rpc_flag slug key d = Inr (proj, fl)"
    "published_config E T n proj (operator_request P s) d = Some c"
    "published_version b = int (length (versions_of d (Flag_ID fl))) + 1" "serves E T fl c (published_version b) d'"
    "d' = d\<lparr>flag_versions := flag_versions d @ [r], audit_events := as\<rparr>" "fv_flag_id r = Flag_ID fl" "db_numbered d'"
proof -
  obtain proj fl where g: "rpc_flag slug key d = Inr (proj, fl)"
    using pub by (auto simp: rpc_PublishFlagVersion_def split: sum.splits)
  then have g': "get_flag slug key d = Inr (proj, fl)" using in_step_flag [of slug key d] by (auto elim!: rel_sum.cases)
  let ?mut = "\<lambda>p. rpc_mutate sv \<lparr>ap_ProjectID = Some (Project_ID proj), ap_FlagID = Some (Flag_ID fl),
      ap_Action = ''publish_version'', ap_Actor = actor,
      ap_Payload = jsonOrEmpty [(''strategy'', AStr (strategyFromProto STRATEGY_JSON)), (''flag_key'', AStr (Flag_Key fl))]\<rparr>
     (\<lambda>now i. tx_PublishFlagVersion (sv_json sv) now i p) (\<lambda>v. PbFlagVersionResponse (flagVersionToProto P U v))"
  obtain y where y: "rpc_publish_params P E T n proj fl STRATEGY_JSON (Some s) [] d = Some y" "rpc_prepared y ?mut d = (Inr b, d')"
    using pub by (auto simp: rpc_PublishFlagVersion_def g)
  then obtain p where p: "rpc_publish_params P E T n proj fl STRATEGY_JSON (Some s) [] d = Some (Inr p)" and m: "?mut p d = (Inr b, d')"
    by (cases y) (simp_all add: rpc_prepared_def)
  note p' = operator_params [OF p]
  obtain c j where c: "published_config E T n proj (operator_request P s) d = Some c" "pv_Compiled p = RawDoc j"
    "Compile E T (strategy_of (PVR_Strategy (operator_request P s))) (RawDoc j) = Inr c" "\<exists>t. IR c = Some t \<and> marshal_tree t = Some j"
    "pv_FlagID p = Flag_ID fl" "pv_Strategy p = PVR_Strategy (operator_request P s)"
    by (rule publish_params_config [OF p'])
  obtain k x d1 r where x: "tx_PublishFlagVersion (sv_json sv) (sv_now sv k) (sv_new_id sv k) p d = Inr (x, d1)"
      "d' = d1\<lparr>audit_events := audit_events d1 @ [r]\<rparr>" "b = PbFlagVersionResponse (flagVersionToProto P U x)" "store_step (sv_json sv) d1 d'"
    using m by (cases rule: rpc_mutate_ok) (auto simp: commits_with_audit_def alone_seen [OF alone])
  then have x1: "publishFlagVersionTx (sv_json sv) (sv_now sv k) (sv_new_id sv k) p d = Inr (x, d1)" by (simp add: tx_PublishFlagVersion_def)
  have found: "GetLatestFlagVersion (Flag_ID fl) d' = Inr x" "FV_Strategy x = ''json''"
      "Compile E T StrategyJSON (FV_Compiled x) = Inr c"
      "FV_Version x = int (length (versions_of d (Flag_ID fl))) + 1" "FV_Version x < 2 ^ 31"
    using published_row [where slug = slug and key = key, OF x1 numbered stored c] x(2)
    by (auto simp: operator_request_def strategy_of_def)
  have v: "published_version b = FV_Version x" using found(4,5) by (simp add: x(3) published_version_def flagVersionToProto_def to_int32_id)
  obtain r1 where r1: "d1 = d\<lparr>flag_versions := flag_versions d @ [r1]\<rparr>" "fv_flag_id r1 = Flag_ID fl"
    using publish_latest_row [OF x1] c(5) by auto
  have "db_numbered d'"
    using step_numbered [OF x(4)] step_numbered [OF store_step.publish [OF x(1)]] numbered by blast
  then show thesis
    using that [where r = r1 and as = "audit_events d1 @ [r]", OF g c(1)] found v r1 x(2) by (auto simp: serves_def)
qed

subsection \<open>All bindings\<close>

text \<open>The configuration a binding of the resource stands for.\<close>

definition flag_config :: "('v, 's) structpb \<Rightarrow> ('ast, 'prog) engines \<Rightarrow> ts_engine \<Rightarrow> nat \<Rightarrow> Project \<Rightarrow> flag_cr
    \<Rightarrow> (string \<rightharpoonup> rolloutpolicy_cr) \<Rightarrow> FlagSpecBinding option \<Rightarrow> database \<Rightarrow> 'prog Compiled option" where
  "flag_config P E T n proj flag rollouts binding d = (case flag_source P flag rollouts binding of
     Inl _ \<Rightarrow> None
   | Inr s \<Rightarrow> published_config E T n proj (operator_request P s) d)"

definition servers_ok :: "(nat \<Rightarrow> server) \<Rightarrow> bool" where
  "servers_ok sv \<longleftrightarrow> (\<forall>k. alone (sv k) \<and> keeps_trees (sv_json (sv k)))"

lemma flag_config_written [simp]:
  "flag_config P E T n proj flag rollouts b (d\<lparr>flag_versions := vs, audit_events := as\<rparr>) = flag_config P E T n proj flag rollouts b d"
  by (simp add: flag_config_def cong: sum.case_cong)

lemma flag_publish_effect:
  assumes pub: "flag_publish P (upstream P U E T n sv actor dl) flag rollouts b (k, d) = (Inr v, w')"
    and sv: "servers_ok sv" and numbered: "db_numbered d"
  obtains proj fl c r as where "w' = (Suc k, d\<lparr>flag_versions := flag_versions d @ [r], audit_events := as\<rparr>)"
    "rpc_flag (FlagSpec_ProjectSlug (Res_Spec flag)) (FlagSpec_Key (Res_Spec flag)) d = Inr (proj, fl)"
    "flag_config P E T n proj flag rollouts b d = Some c" "v = int (length (versions_of d (Flag_ID fl))) + 1"
    "serves E T fl c v (snd w')" "fv_flag_id r = Flag_ID fl" "db_numbered (snd w')"
proof -
  obtain s body where s: "flag_source P flag rollouts b = Inr s" "v = published_version body"
      "upstream P U E T n sv actor dl (RpcPublishFlagVersion (FlagSpec_ProjectSlug (Res_Spec flag)) (FlagSpec_Key (Res_Spec flag))
         STRATEGY_JSON (Some s) []) (k, d) = (Inr body, w')"
    using pub by (auto simp: flag_publish_def split: sum.splits prod.splits)
  obtain d' where d': "w' = (Suc k, d')" "rpc_PublishFlagVersion P U E T n (sv k) actor (FlagSpec_ProjectSlug (Res_Spec flag))
      (FlagSpec_Key (Res_Spec flag)) STRATEGY_JSON (Some s) [] d = Some (Inr body, d')"
    using upstream_ok [OF s(3)] by auto
  have ok: "alone (sv k)" "keeps_trees (sv_json (sv k))" using sv by (auto simp: servers_ok_def)
  show thesis
    by (rule rpc_publish_effect [OF d'(2) ok numbered]) (rule that; auto simp: d'(1) s flag_config_def)
qed

abbreviation cr_flag :: "flag_cr \<Rightarrow> database \<Rightarrow> connect_error + Project \<times> Flag" where
  "cr_flag flag d \<equiv> rpc_flag (FlagSpec_ProjectSlug (Res_Spec flag)) (FlagSpec_Key (Res_Spec flag)) d"

text \<open>What a sequence of publications leaves: the last one is served.\<close>

lemma flag_publish_all_effect:
  assumes "flag_publish_all P (upstream P U E T n sv actor dl) flag rollouts bs lastVer (k, d) = ((v, None), (k', d'))"
    and "servers_ok sv" "db_numbered d" "bs \<noteq> []"
  shows "\<exists>proj fl c. cr_flag flag d' = Inr (proj, fl) \<and>
    flag_config P E T n proj flag rollouts (Some (last bs)) d' = Some c \<and> serves E T fl c v d' \<and>
    v = int (length (versions_of d' (Flag_ID fl))) \<and>
    length (versions_of d' (Flag_ID fl)) = length (versions_of d (Flag_ID fl)) + length bs \<and> cr_flag flag d' = cr_flag flag d"
  using assms
proof (induction bs arbitrary: lastVer k d)
  case (Cons b bs)
  obtain ver w1 where pub: "flag_publish P (upstream P U E T n sv actor dl) flag rollouts (Some b) (k, d) = (Inr ver, w1)"
      and rest: "flag_publish_all P (upstream P U E T n sv actor dl) flag rollouts bs ver w1 = ((v, None), (k', d'))"
    using Cons.prems(1) by (auto split: prod.splits sum.splits)
  obtain proj fl c r as where one: "w1 = (Suc k, d\<lparr>flag_versions := flag_versions d @ [r], audit_events := as\<rparr>)"
    "cr_flag flag d = Inr (proj, fl)" "flag_config P E T n proj flag rollouts (Some b) d = Some c"
    "ver = int (length (versions_of d (Flag_ID fl))) + 1" "serves E T fl c ver (snd w1)" "fv_flag_id r = Flag_ID fl" "db_numbered (snd w1)"
    by (rule flag_publish_effect [OF pub Cons.prems(2,3)])
  show ?case
  proof (cases "bs = []")
    case True
    then show ?thesis using one rest by (auto simp: versions_of_append)
  next
    case False
    then show ?thesis using Cons.IH [OF rest [unfolded one(1)] Cons.prems(2) _ False] one(1,2,6,7)
      by (auto simp: versions_of_append)
  qed
qed simp

subsection \<open>The whole pass\<close>

text \<open>Making sure of the flag does not touch versions and snapshots.\<close>

lemma create_flag_versions:
  assumes "rpc_CreateFlag P U sv actor slug key name desc vt dv d = (r, d')" "alone sv"
  shows "flag_versions d' = flag_versions d \<and> snapshots d' = snapshots d"
proof -
  have "flag_versions d' = flag_versions d \<and> snapshots d' = snapshots d"
    if m: "rpc_mutate sv ev (\<lambda>now i. tx_CreateFlag J now i cp) ok d = (r, d')" for J ev cp and ok :: "Flag \<Rightarrow> ('a, 'b) rpc_body"
  proof (cases r)
    case (Inr b)
    show ?thesis using m unfolding Inr
      by (cases rule: rpc_mutate_ok) (auto simp: commits_with_audit_def alone_seen [OF assms(2)] tx_CreateFlag_def success_simps
          dest!: create_flag_effect)
  next
    case (Inl e)
    then show ?thesis using rpc_mutate_error [of sv] m alone_seen [OF assms(2)] by fastforce
  qed
  then show ?thesis using assms(1)
    by (auto simp: rpc_CreateFlag_def rpc_prepared_def split: sum.splits)
qed

lemma ensureFlag_versions:
  assumes "ensureFlag Q (upstream P U E T n sv actor dl) spec (k, d) = (err, (k1, d1))" "servers_ok sv" "db_numbered d"
  shows "flag_versions d1 = flag_versions d" "db_numbered d1"
proof -
  let ?api = "upstream P U E T n sv actor dl" and ?slug = "FlagSpec_ProjectSlug spec" and ?key = "FlagSpec_Key spec"
  have create: "flag_versions e' = flag_versions e \<and> snapshots e' = snapshots e"
    if "?api (RpcCreateFlag ?slug ?key (FlagSpec_Name spec) [] vt dv) (j, e) = (r, (j', e'))" for vt dv j e r j' e'
  proof -
    obtain x e1 where "rpc_CreateFlag P U (sv j) actor ?slug ?key (FlagSpec_Name spec) [] vt dv e = (x, e1)" by fastforce
    moreover from this have "flag_versions e1 = flag_versions e \<and> snapshots e1 = snapshots e"
      using create_flag_versions assms(2) unfolding servers_ok_def by blast
    ultimately show ?thesis using that
      by (auto simp: upstream_def rpc_answer_def Let_def split: delivery.splits prod.splits sum.splits)
  qed
  obtain r1 where get: "?api (RpcGetFlag ?slug ?key) (k, d) = (r1, (Suc k, d))"
    using upstream_read [of P U E T n sv actor dl "RpcGetFlag ?slug ?key" k d] by (cases "?api (RpcGetFlag ?slug ?key) (k, d)") auto
  have "flag_versions d1 = flag_versions d \<and> snapshots d1 = snapshots d"
  proof (cases "case r1 of Inl e \<Rightarrow> has_code (Server CodeNotFound) e | Inr _ \<Rightarrow> False")
    case False
    then show ?thesis using assms(1) get by (auto simp: ensureFlag_def get_or_def split: sum.splits)
  next
    case True
    show ?thesis
    proof (cases "rawToValue Q (FlagSpec_Default spec)")
      case (Inl e)
      then show ?thesis using assms(1) get True by (auto simp: ensureFlag_def get_or_def split: sum.splits)
    next
      case (Inr v)
      obtain r2 j2 e2 where "?api (RpcCreateFlag ?slug ?key (FlagSpec_Name spec) [] (valueTypeFromString (FlagSpec_ValueType spec)) (Some v))
          (Suc k, d) = (r2, (j2, e2))" by (metis surj_pair)
      then show ?thesis using assms(1) get True Inr create
        by (auto simp: ensureFlag_def get_or_def exists_ok_def call_error_def split: sum.splits if_splits)
    qed
  qed
  then show "flag_versions d1 = flag_versions d" "db_numbered d1"
    using assms(3) by (auto simp: db_numbered_def versions_of_def snapshots_of_def)
qed

lemma serves_evaluates:
  assumes "cr_flag flag d = Inr (proj, fl)" "serves E T fl c v d"
  shows "rpc_Evaluate P E T (FlagSpec_ProjectSlug (Res_Spec flag)) (FlagSpec_Key (Res_Spec flag)) ctx d =
    (case Evaluate E (Some c) (as_map P ctx) v of
       Inl e \<Rightarrow> Inl (CodeInternal, EEval e)
     | Inr dec \<Rightarrow> Inr (PbDecisionResponse (decisionToProto P dec)))"
proof -
  obtain x where x: "GetLatestFlagVersion (Flag_ID fl) d = Inr x" "FV_Version x = v" "FV_Strategy x = ''json''"
      "Compile E T StrategyJSON (FV_Compiled x) = Inr c"
    using assms(2) unfolding serves_def by blast
  have "rpc_loadEvaluation P E T (FlagSpec_ProjectSlug (Res_Spec flag)) (FlagSpec_Key (Res_Spec flag)) ctx d = Inr (c, v, as_map P ctx)"
    using x by (simp add: rpc_loadEvaluation_def assms(1) or_connect_def strategy_of_def)
  then show ?thesis by (cases "Evaluate E (Some c) (as_map P ctx) v") (simp_all add: rpc_Evaluate_def or_connect_def)
qed


text \<open>For examples: every call has ids of its own.\<close>

definition sample_servers :: "nat \<Rightarrow> server" where
  "sample_servers k = sample_server\<lparr>sv_new_id := (\<lambda>j. 100 + 20 * of_nat k + of_nat j),
     sv_world := (sample_world 1)\<lparr>w_audit_id := (\<lambda>j. 2000 + 20 * of_nat k + of_nat j)\<rparr>\<rparr>"

definition plain_access :: "(any, (string \<times> any) list) structpb_access" where
  "plain_access = \<lparr>spa_NewNullValue = ANil, spa_UnmarshalJSON = unmarshal_any, spa_Fields = id,
     spa_GetStructValue = (\<lambda>v. case v of AMap m \<Rightarrow> Some m | _ \<Rightarrow> None)\<rparr>"

lemma sample_flag_runs:
  "case flag_sync plain_structpb plain_access (sample_upstream sample_servers) (Inr [sample_policy]) sample_flag_cr (0, sample_db) of
     ((v, err), (k', d')) \<Rightarrow> v = 3 \<and> err = None \<and> k' = 3"
  by code_simp


subsection \<open>A publication that loses a race\<close>

lemma observe_sync_version [simp]:
  "FlagStatus_LastPublishedVersion (observe_sync now err m st) = FlagStatus_LastPublishedVersion st"
  by (simp add: observe_sync_def setCondition_def Let_def)


definition racing_servers :: "nat \<Rightarrow> server" where
  "racing_servers k = sample_server\<lparr>sv_world := (sample_world 0)\<lparr>w_statement := (\<lambda>_. if k = 1 then Some UniqueViolation else None)\<rparr>\<rparr>"

definition unbound_flag_cr :: flag_cr where
  "unbound_flag_cr = sample_flag_cr\<lparr>Res_Spec := sample_flag_spec\<lparr>FlagSpec_Bindings := []\<rparr>\<rparr>"

lemma racing_flag_runs:
  "case flag_sync plain_structpb plain_access (sample_upstream racing_servers) (Inr [sample_policy]) unbound_flag_cr (0, sample_db) of
     ((v, err), (k', d')) \<Rightarrow> k' = 2 \<and> (case err of None \<Rightarrow> False | Some e \<Rightarrow> has_code (Server CodeAlreadyExists) e)"
  by code_simp


end
