(* ===== verification/Mcp.thy ===== *)
theory Mcp
  imports Operator_Upstream
begin

text \<open>
  The tools of the MCP server, \<open>internal/mcp\<close>: calls of the control plane on behalf of an
  agent, and the validation of a configuration. A tool maps its input and the state of
  the server to its result; a failure of the tool is a result too. The package
  \<open>protojson\<close> is a parameter.
\<close>

subsection \<open>Results\<close>

text \<open>The text of a result: literal text, a marshalled document, or a text with the message
  of a Connect error or the text of an error at the end.\<close>

datatype tool_text = TText string | TJson json | TMessage string op_cause | TError string op_error

record CallToolResult =
  CT_IsError :: bool
  CT_Content :: tool_text

definition toolError :: "tool_text \<Rightarrow> CallToolResult" where
  "toolError t = \<lparr>CT_IsError = True, CT_Content = t\<rparr>"

text \<open>The text of a code, as \<open>Code.String\<close> prints it.\<close>

definition code_String :: "op_code \<Rightarrow> string" where
  "code_String c = (case c of
     Server CodeInvalidArgument \<Rightarrow> ''invalid_argument'' | Server CodeNotFound \<Rightarrow> ''not_found''
   | Server CodeAlreadyExists \<Rightarrow> ''already_exists'' | Server CodeInternal \<Rightarrow> ''internal''
   | CodeFailedPrecondition \<Rightarrow> ''failed_precondition'' | CodeAborted \<Rightarrow> ''aborted'' | Transport s \<Rightarrow> s)"

definition connectErrToToolResult :: "op_error \<Rightarrow> CallToolResult" where
  "connectErrToToolResult err = (case err of
     OpOther m \<Rightarrow> toolError (TText (''upstream error: '' @ m))
   | OpConnect c m \<Rightarrow> toolError (TMessage
       (if c = Server CodeNotFound then ''not found: ''
        else if c = Server CodeInvalidArgument then ''invalid argument: ''
        else if c = Transport ''permission_denied'' then ''permission denied: ''
        else if c = Transport ''unavailable'' then ''upstream unavailable: ''
        else if c = Transport ''unauthenticated'' then ''unauthenticated: ''
        else ''upstream error ('' @ code_String c @ ''): '') m))"

text \<open>\<open>protojson.Marshal\<close> of a response, of a flag and of a version.\<close>

record ('v, 's) protojson =
  pj_message :: "('v, 's) rpc_body \<Rightarrow> string + json"
  pj_flag :: "'v PbFlag \<Rightarrow> string + json"
  pj_version :: "'s PbFlagVersion \<Rightarrow> string + json"

definition marshalProto :: "('v, 's) protojson \<Rightarrow> ('v, 's) rpc_body \<Rightarrow> string \<Rightarrow> CallToolResult" where
  "marshalProto J msg kind = (case pj_message J msg of
     Inl e \<Rightarrow> toolError (TText (''failed to marshal '' @ kind @ '' response: '' @ e))
   | Inr j \<Rightarrow> \<lparr>CT_IsError = False, CT_Content = TJson j\<rparr>)"

text \<open>A call of the control plane; the client may be missing.\<close>

definition tool_call :: "string \<Rightarrow> ('v, 's, 'w) api_client option \<Rightarrow> ('v, 's) rpc_call \<Rightarrow> (('v, 's) rpc_body \<Rightarrow> CallToolResult)
    \<Rightarrow> 'w \<Rightarrow> CallToolResult \<times> 'w" where
  "tool_call name client call ok w = (case client of
     None \<Rightarrow> (toolError (TText (name @ '' client unavailable'')), w)
   | Some api \<Rightarrow> (case api call w of
       (Inl e, w') \<Rightarrow> (connectErrToToolResult e, w')
     | (Inr b, w') \<Rightarrow> (ok b, w')))"

subsection \<open>Projects and flags\<close>

definition mcp_listProjects :: "('v, 's) protojson \<Rightarrow> ('v, 's, 'w) api_client option \<Rightarrow> 'w \<Rightarrow> CallToolResult \<times> 'w" where
  "mcp_listProjects J client = tool_call ''projects'' client RpcListProjects (\<lambda>b. marshalProto J b ''projects'')"

definition mcp_listFlags :: "('v, 's) protojson \<Rightarrow> ('v, 's, 'w) api_client option \<Rightarrow> string \<Rightarrow> 'w \<Rightarrow> CallToolResult \<times> 'w" where
  "mcp_listFlags J client slug = tool_call ''flags'' client (RpcListFlags slug) (\<lambda>b. marshalProto J b ''flags'')"

text \<open>A map is marshalled in the order of its keys: \<open>flag\<close>, \<open>note\<close>, \<open>published_version\<close>. The
  client decodes a \<open>GetFlagResponse\<close>, so the last branch, of another message, is never taken.\<close>

definition get_flag_result :: "('v, 's) protojson \<Rightarrow> ('v, 's) rpc_body \<Rightarrow> CallToolResult" where
  "get_flag_result J b = (case b of
     PbFlagWithLatest flag latest \<Rightarrow>
      (case pj_flag J flag of
         Inl e \<Rightarrow> toolError (TText (''failed to marshal flag: '' @ e))
       | Inr flagJSON \<Rightarrow>
          (case latest of
             None \<Rightarrow> \<lparr>CT_IsError = False, CT_Content = TJson (JObj [(''flag'', flagJSON),
               (''note'', JStr ''flag has never been published''), (''published_version'', JNull)])\<rparr>
           | Some v \<Rightarrow> (case pj_version J v of
               Inl e \<Rightarrow> toolError (TText (''failed to marshal flag version: '' @ e))
             | Inr versionJSON \<Rightarrow> \<lparr>CT_IsError = False,
                 CT_Content = TJson (JObj [(''flag'', flagJSON), (''published_version'', versionJSON)])\<rparr>)))
   | _ \<Rightarrow> toolError (TText ''failed to marshal flag: nil''))"

definition mcp_getFlag :: "('v, 's) protojson \<Rightarrow> ('v, 's, 'w) api_client option \<Rightarrow> string \<Rightarrow> string \<Rightarrow> 'w \<Rightarrow> CallToolResult \<times> 'w" where
  "mcp_getFlag J client slug key = tool_call ''flags'' client (RpcGetFlag slug key) (get_flag_result J)"

subsection \<open>Validation\<close>

record ValidateConfigSummary =
  VS_ValueType :: string
  VS_RuleCount :: int
  VS_HasRollout :: bool
  VS_HasCEL :: bool
  VS_CELPrograms :: int

fun predicateHasKind :: "Predicate option \<Rightarrow> PredicateKind \<Rightarrow> bool" where
  "predicateHasKind None kind = False"
| "predicateHasKind (Some (Predicate k attr v vs pat salt pct cs one src key)) kind =
     (if k = kind then True
      else if list_ex (\<lambda>c. predicateHasKind c kind) cs then True
      else predicateHasKind one kind)"

definition summarize :: "'prog Compiled option \<Rightarrow> ValidateConfigSummary" where
  "summarize c = (case c of
     None \<Rightarrow> \<lparr>VS_ValueType = [], VS_RuleCount = 0, VS_HasRollout = False, VS_HasCEL = False, VS_CELPrograms = 0\<rparr>
   | Some x \<Rightarrow>
      let n = int (length (CELPrograms x)) in
      (case IR x of
         None \<Rightarrow> \<lparr>VS_ValueType = [], VS_RuleCount = 0, VS_HasRollout = False, VS_HasCEL = 0 < n, VS_CELPrograms = n\<rparr>
       | Some t \<Rightarrow> \<lparr>VS_ValueType = value_type_text (TValueType t), VS_RuleCount = int (length (rules_of t)),
           VS_HasRollout = list_ex (\<lambda>r. predicateHasKind (When r) PredRollout) (rules_of t),
           VS_HasCEL = 0 < n, VS_CELPrograms = n\<rparr>))"

definition summary_json :: "ValidateConfigSummary \<Rightarrow> json" where
  "summary_json s = JObj [(''value_type'', JStr (VS_ValueType s)), (''rule_count'', JNum (show_int (VS_RuleCount s))),
     (''has_rollout'', JBool (VS_HasRollout s)), (''has_cel'', JBool (VS_HasCEL s)),
     (''cel_program_count'', JNum (show_int (VS_CELPrograms s)))]"

text \<open>\<open>ValidateConfigOutput\<close> as JSON; \<open>errors\<close> and \<open>ir_summary\<close> are left out when empty.\<close>

definition jsonResult :: "bool \<Rightarrow> string \<Rightarrow> string list \<Rightarrow> ValidateConfigSummary option \<Rightarrow> CallToolResult" where
  "jsonResult valid strategy errs summary = \<lparr>CT_IsError = False,
     CT_Content = TJson (JObj ([(''valid'', JBool valid), (''strategy'', JStr strategy)] @
       (if errs = [] then [] else [(''errors'', JArr (map JStr errs))]) @
       (case summary of None \<Rightarrow> [] | Some s \<Rightarrow> [(''ir_summary'', summary_json s)])))\<rparr>"

definition mcp_validateConfig :: "('ast, 'prog) engines \<Rightarrow> ts_engine \<Rightarrow> string \<Rightarrow> string \<Rightarrow> CallToolResult" where
  "mcp_validateConfig E T strategy source =
     (if \<not> Valid (strategy_of strategy)
      then toolError (TText (''unknown strategy: '' @ strategy @ '' (valid: json, cel, typescript)''))
      else if source = [] then jsonResult False strategy [''empty source''] None
      else case Compile E T (strategy_of strategy) (bytes_of_text source) of
        Inl e \<Rightarrow> jsonResult False strategy [error_text e] None
      | Inr c \<Rightarrow> jsonResult True strategy [] (Some (summarize (Some c))))"

subsection \<open>Evaluation and audit log\<close>

definition mcp_explainEvaluation :: "('v, 's) protojson \<Rightarrow> ('v, 's) structpb \<Rightarrow> ('v, 's, 'w) api_client option \<Rightarrow> string \<Rightarrow> string
    \<Rightarrow> (string \<times> any) list \<Rightarrow> 'w \<Rightarrow> CallToolResult \<times> 'w" where
  "mcp_explainEvaluation J P client slug key ctx w =
     (case client of
        None \<Rightarrow> (toolError (TText ''evaluation client unavailable''), w)
      | Some api \<Rightarrow>
         (case (if ctx = [] then Inr None else map_sum id Some (spb_NewStruct P ctx)) of
            Inl e \<Rightarrow> (toolError (TText (''invalid context: '' @ e)), w)
          | Inr s \<Rightarrow> tool_call ''evaluation'' (Some api) (RpcEvaluateWithTrace slug key s)
              (\<lambda>b. marshalProto J b ''evaluate-with-trace'') w))"

definition normalizeLimit :: "int \<Rightarrow> int" where
  "normalizeLimit n = (if n \<le> 0 then 50 else if 200 < n then 200 else n)"

text \<open>Parsing with the layout without a fraction accepts one all the same.\<close>

definition parseRFC3339 :: "string \<Rightarrow> string + time" where
  "parseRFC3339 s = (case parse_nano s of None \<Rightarrow> Inl ''parsing time'' | Some t \<Rightarrow> Inr t)"

record SearchAuditLogInput =
  SA_ProjectSlug :: string
  SA_Action :: string
  SA_Actor :: string
  SA_From :: string
  SA_To :: string
  SA_Limit :: int
  SA_Cursor :: string

definition time_bound :: "string \<Rightarrow> string + time option" where
  "time_bound s = (if s = [] then Inr None else bindE (parseRFC3339 s) (\<lambda>t. Inr (Some t)))"

text \<open>The cursor is put into the message, which the handler of the server does not read.\<close>

definition mcp_searchAuditLog :: "('v, 's) protojson \<Rightarrow> ('v, 's, 'w) api_client option \<Rightarrow> SearchAuditLogInput \<Rightarrow> 'w
    \<Rightarrow> CallToolResult \<times> 'w" where
  "mcp_searchAuditLog J client inp w =
     (case client of
        None \<Rightarrow> (toolError (TText ''audit client unavailable''), w)
      | Some api \<Rightarrow>
         (case time_bound (SA_From inp) of
            Inl e \<Rightarrow> (toolError (TText (''invalid from timestamp: '' @ e)), w)
          | Inr from_ts \<Rightarrow>
             (case time_bound (SA_To inp) of
                Inl e \<Rightarrow> (toolError (TText (''invalid to timestamp: '' @ e)), w)
              | Inr to_ts \<Rightarrow> tool_call ''audit'' (Some api)
                  (RpcListAuditEvents (SA_ProjectSlug inp) (normalizeLimit (SA_Limit inp)) (textFromString (SA_Action inp))
                     (textFromString (SA_Actor inp)) from_ts to_ts)
                  (\<lambda>b. marshalProto J b ''audit-events'') w)))"

subsection \<open>The server\<close>

datatype tool_input =
    ToolListProjects
  | ToolListFlags string
  | ToolGetFlag string string
  | ToolValidateConfig string string
  | ToolExplainEvaluation string string "(string \<times> any) list"
  | ToolSearchAuditLog SearchAuditLogInput

fun tool_name :: "tool_input \<Rightarrow> string" where
  "tool_name ToolListProjects = ''list_projects''"
| "tool_name (ToolListFlags _) = ''list_flags''"
| "tool_name (ToolGetFlag _ _) = ''get_flag''"
| "tool_name (ToolValidateConfig _ _) = ''validate_config''"
| "tool_name (ToolExplainEvaluation _ _ _) = ''explain_evaluation''"
| "tool_name (ToolSearchAuditLog _) = ''search_audit_log''"

definition ToolNames :: "string list" where
  "ToolNames = [''list_projects'', ''list_flags'', ''get_flag'', ''validate_config'', ''explain_evaluation'', ''search_audit_log'']"

text \<open>The tools \<open>Register\<close> attaches, each to its handler.\<close>

fun call_tool :: "('v, 's) protojson \<Rightarrow> ('v, 's) structpb \<Rightarrow> ('ast, 'prog) engines \<Rightarrow> ts_engine \<Rightarrow> ('v, 's, 'w) api_client option
    \<Rightarrow> tool_input \<Rightarrow> 'w \<Rightarrow> CallToolResult \<times> 'w" where
  "call_tool J P E T client ToolListProjects w = mcp_listProjects J client w"
| "call_tool J P E T client (ToolListFlags slug) w = mcp_listFlags J client slug w"
| "call_tool J P E T client (ToolGetFlag slug key) w = mcp_getFlag J client slug key w"
| "call_tool J P E T client (ToolValidateConfig strategy source) w = (mcp_validateConfig E T strategy source, w)"
| "call_tool J P E T client (ToolExplainEvaluation slug key ctx) w = mcp_explainEvaluation J P client slug key ctx w"
| "call_tool J P E T client (ToolSearchAuditLog inp) w = mcp_searchAuditLog J client inp w"

definition mcp_health :: "string \<Rightarrow> json" where
  "mcp_health version = JObj [(''probe'', JStr ''liveness''), (''service'', JStr ''falseflag-mcp''), (''status'', JStr ''ok''),
     (''version'', JStr version)]"

subsection \<open>Properties\<close>

lemma tool_names_registered: "tool_name i \<in> set ToolNames"
  by (cases i) (simp_all add: ToolNames_def)

text \<open>The reading calls of the control plane do not change the database.\<close>

lemma upstream_reads:
  assumes "upstream P U E T n sv actor dl call (k, d) = (r, (k', d'))"
    and "\<And>k. \<exists>x. rpc_dispatch P U E T n (sv k) actor call d = Some (x, d)"
  shows "d' = d"
  using assms upstream_read [OF assms(1)] by blast

lemma tool_call_reads:
  assumes "tool_call name (Some (upstream P U E T n sv actor dl)) call ok (k, d) = (res, (k', d'))"
    and "\<And>k. \<exists>x. rpc_dispatch P U E T n (sv k) actor call d = Some (x, d)"
  shows "d' = d"
  using assms(1) upstream_reads [OF _ assms(2)]
  by (auto simp: tool_call_def split: prod.splits sum.splits)

text \<open>
  C38. The tools of the MCP server only read: whatever an agent asks for and whatever the
  network does, the database of the control plane is unchanged, so the agent's actor
  never appears in a new audit event.
\<close>

theorem mcp_read_only:
  assumes "call_tool J P E T (Some (upstream P U E T n sv actor dl)) tool (k, d) = (res, (k', d'))"
  shows "d' = d"
  using assms
  by (cases tool)
    (auto simp: mcp_listProjects_def mcp_listFlags_def mcp_getFlag_def mcp_explainEvaluation_def mcp_searchAuditLog_def
      elim!: tool_call_reads split: sum.splits)

lemma mcp_read_runs:
  "case call_tool \<lparr>pj_message = (\<lambda>_. Inr JNull), pj_flag = (\<lambda>_. Inr JNull), pj_version = (\<lambda>_. Inr JNull)\<rparr> plain_structpb sample_engines sample_ts
       (Some (upstream plain_structpb sample_uuids sample_engines sample_ts 3 (\<lambda>_. sample_server) ''mcp'' (\<lambda>_. Delivered)))
       (ToolGetFlag ''shop'' ''dark'') (0, sample_db) of
     (res, (k', d')) \<Rightarrow> \<not> CT_IsError res \<and> k' = 1"
  by code_simp

theorem mcp_read_only_witness:
  "\<exists>res d'. call_tool \<lparr>pj_message = (\<lambda>_. Inr JNull), pj_flag = (\<lambda>_. Inr JNull), pj_version = (\<lambda>_. Inr JNull)\<rparr> plain_structpb sample_engines sample_ts
       (Some (upstream plain_structpb sample_uuids sample_engines sample_ts 3 (\<lambda>_. sample_server) ''mcp'' (\<lambda>_. Delivered)))
       (ToolGetFlag ''shop'' ''dark'') (0, sample_db) = (res, (1, d')) \<and> \<not> CT_IsError res \<and> d' = sample_db"
proof -
  let ?run = "call_tool \<lparr>pj_message = (\<lambda>_. Inr JNull), pj_flag = (\<lambda>_. Inr JNull), pj_version = (\<lambda>_. Inr JNull)\<rparr> plain_structpb sample_engines sample_ts
       (Some (upstream plain_structpb sample_uuids sample_engines sample_ts 3 (\<lambda>_. sample_server) ''mcp'' (\<lambda>_. Delivered)))
       (ToolGetFlag ''shop'' ''dark'') (0, sample_db)"
  obtain res d' where r: "?run = (res, (1, d'))" "\<not> CT_IsError res" using mcp_read_runs by (auto split: prod.splits)
  show ?thesis using mcp_read_only [OF r(1)] r by blast
qed

lemma nodes_have_kind: "n \<in> set (nodes p) \<Longrightarrow> predicateHasKind (Some p) (Kind n)"
proof (induction p rule: nodes.induct)
  case (1 k attr v vs pat salt pct cs one src key)
  let ?p = "Predicate k attr v vs pat salt pct cs one src key"
  consider "n = ?p"
    | c where "k = PredAll \<or> k = PredAny" "Some c \<in> set cs" "n \<in> set (nodes c)"
    | c where "k = PredNot" "one = Some c" "n \<in> set (nodes c)"
    using 1(3) nodes_iff [of n ?p] by auto
  then show ?case
  proof cases
    case (2 c)
    then have "list_ex (\<lambda>c. predicateHasKind c (Kind n)) cs" using 1(1) [OF 2(1,2) refl 2(3)] by (auto simp: list_ex_iff)
    then show ?thesis by simp
  next
    case (3 c)
    then show ?thesis using 1(2) [OF _ 3(1,2,3)] by simp
  qed simp
qed

lemma eval_rules_reason:
  "(\<And>r. r \<in> set rs \<Longrightarrow> DReason (serve dv vt v r) \<noteq> ReasonRolloutInBucket) \<Longrightarrow>
   DReason (eval_rules E programs ctx dv vt v rs) \<noteq> ReasonRolloutInBucket"
  by (induction rs) (auto split: prod.splits option.splits)

text \<open>
  C39. What \<open>validate_config\<close> reports: a configuration is valid just when it compiles for
  its strategy. The summary of a valid one has its value type and its number of rules;
  when it says that there is no rollout, no predicate of a rule is one and no
  evaluation has the reason of a rollout; when it says that there is no CEL, no
  predicate is an expression.
\<close>

theorem validate_config_report:
  assumes "Valid (strategy_of s)" "src \<noteq> []"
  shows "case Compile E T (strategy_of s) (bytes_of_text src) of
      Inl e \<Rightarrow> mcp_validateConfig E T s src = jsonResult False s [error_text e] None
    | Inr c \<Rightarrow> (\<exists>sum t. mcp_validateConfig E T s src = jsonResult True s [] (Some sum) \<and> IR c = Some t \<and>
        VS_ValueType sum = value_type_text (TValueType t) \<and> VS_RuleCount sum = int (length (rules_of t)) \<and>
        (VS_HasRollout sum \<or>
          (\<forall>r \<in> set (rules_of t). \<forall>p. When r = Some p \<longrightarrow> (\<forall>n \<in> set (nodes p). Kind n \<noteq> PredRollout)) \<and>
          (\<forall>ctx v d. Evaluate E (Some c) ctx v = Inr d \<longrightarrow> DReason d \<noteq> ReasonRolloutInBucket)) \<and>
        (VS_HasCEL sum \<or>
          (\<forall>r \<in> set (rules_of t). \<forall>p. When r = Some p \<longrightarrow> (\<forall>n \<in> set (nodes p). Kind n \<noteq> PredCEL))))"
proof (cases "Compile E T (strategy_of s) (bytes_of_text src)")
  case (Inl e)
  then show ?thesis using assms by (simp add: mcp_validateConfig_def)
next
  case (Inr c)
  let ?sum = "summarize (Some c)"
  obtain t where t: "IR c = Some t" using strategy_compiler.compiled_tree [OF Inr] by blast
  have sum: "VS_ValueType ?sum = value_type_text (TValueType t)" "VS_RuleCount ?sum = int (length (rules_of t))"
      "VS_HasRollout ?sum \<longleftrightarrow> list_ex (\<lambda>r. predicateHasKind (When r) PredRollout) (rules_of t)"
      "VS_HasCEL ?sum \<longleftrightarrow> CELPrograms c \<noteq> []"
    by (simp_all add: summarize_def t Let_def)
  have rollout: "\<forall>r \<in> set (rules_of t). \<forall>p. When r = Some p \<longrightarrow> (\<forall>n \<in> set (nodes p). Kind n \<noteq> PredRollout)" if "\<not> VS_HasRollout ?sum"
    using that nodes_have_kind by (fastforce simp: sum list_ex_iff)
  have reason: "DReason d \<noteq> ReasonRolloutInBucket" if "\<not> VS_HasRollout ?sum" "Evaluate E (Some c) ctx v = Inr d" for ctx v d
  proof -
    have "p \<in> set (nodes p)" for p by (cases p) simp
    then have "reasonForRule r = ReasonRuleMatched" if "r \<in> set (rules_of t)" for r
      using rollout [OF \<open>\<not> VS_HasRollout ?sum\<close>] that by (auto simp: reasonForRule_def split: option.splits)
    then have "DReason (serve dv vt v r) \<noteq> ReasonRolloutInBucket" if "r \<in> set (rules_of t)" for dv vt r
      using that by (simp add: serve_def split: sum.split)
    then show ?thesis using Evaluate_Inr [OF that(2)] t eval_rules_reason [of "rules_of t"] by fastforce
  qed
  have cel: "\<forall>r \<in> set (rules_of t). \<forall>p. When r = Some p \<longrightarrow> (\<forall>n \<in> set (nodes p). Kind n \<noteq> PredCEL)" if "\<not> VS_HasCEL ?sum"
    using that strategy_compiler.program_present [OF Inr t] by (fastforce simp: sum)
  show ?thesis using Inr assms t sum(1,2) rollout reason cel
    by (auto simp: mcp_validateConfig_def intro!: exI [of _ ?sum])
qed

definition quoted :: "string \<Rightarrow> string" where
  "quoted s = [CHR 0x22] @ s @ [CHR 0x22]"

definition sample_config :: string where
  "sample_config = concat [''{'', quoted ''value_type'', '':'', quoted ''boolean'', '','', quoted ''default'', '':false,'', quoted ''rules'',
     '':[{'', quoted ''id'', '':'', quoted ''r1'', '','', quoted ''when'', '':{'', quoted ''kind'', '':'', quoted ''always'', ''},'',
     quoted ''value'', '':true}]}'']"

lemma sample_config_compiles:
  "case Compile sample_engines sample_ts StrategyJSON (bytes_of_text sample_config) of
     Inl _ \<Rightarrow> False
   | Inr c \<Rightarrow> (case IR c of None \<Rightarrow> False | Some t \<Rightarrow> length (rules_of t) = 1)"
  by code_simp

theorem validate_config_report_witness:
  "\<exists>c sum t. Compile sample_engines sample_ts StrategyJSON (bytes_of_text sample_config) = Inr c \<and>
     mcp_validateConfig sample_engines sample_ts ''json'' sample_config = jsonResult True ''json'' [] (Some sum) \<and>
     IR c = Some t \<and> VS_RuleCount sum = int (length (rules_of t)) \<and> length (rules_of t) = 1 \<and>
     (VS_HasRollout sum \<or> (\<forall>ctx v d. Evaluate sample_engines (Some c) ctx v = Inr d \<longrightarrow> DReason d \<noteq> ReasonRolloutInBucket))"
proof -
  obtain c t where c: "Compile sample_engines sample_ts StrategyJSON (bytes_of_text sample_config) = Inr c" "IR c = Some t"
      "length (rules_of t) = 1"
    using sample_config_compiles by (auto split: sum.splits option.splits)
  have s: "strategy_of ''json'' = StrategyJSON" "Valid StrategyJSON" "sample_config \<noteq> []"
    by (simp_all add: strategy_of_def Valid_def sample_config_def)
  show ?thesis using validate_config_report [of "''json''" sample_config sample_engines sample_ts] c s by fastforce
qed

end
