(* ===== verification/Sqlite_Dsn.thy ===== *)
theory Sqlite_Dsn
  imports Store "HOL-Library.List_Lexorder" "HOL-Library.Char_ord"
begin

text \<open>
  Opening a SQLite store: \<open>sqliteDSNWithPragmas\<close> adds the pragmas the store needs to
  the query of the operator's DSN. The part of \<open>net/url\<close> it uses is modelled with it:
  \<open>ParseQuery\<close>, \<open>Values.Encode\<close> and the escapes of query components. \<open>Values\<close> is the
  list of its parameters in the order they were added.
\<close>

subsection \<open>Escapes of a query component\<close>

definition unreserved :: "char \<Rightarrow> bool" where
  "unreserved c \<longleftrightarrow> (let n = (of_char c :: nat) in
     48 \<le> n \<and> n \<le> 57 \<or> 65 \<le> n \<and> n \<le> 90 \<or> 97 \<le> n \<and> n \<le> 122 \<or> c \<in> {CHR ''-'', CHR ''_'', CHR ''.'', CHR ''~''})"

definition upper_hex :: "nat \<Rightarrow> char" where
  "upper_hex n = (if n < 10 then char_of (48 + n) else char_of (55 + n))"

definition unhex :: "char \<Rightarrow> nat option" where
  "unhex c = (let n = of_char c in
     if 48 \<le> n \<and> n \<le> 57 then Some (n - 48)
     else if 97 \<le> n \<and> n \<le> 102 then Some (n - 87)
     else if 65 \<le> n \<and> n \<le> 70 then Some (n - 55) else None)"

definition escape_char :: "char \<Rightarrow> string" where
  "escape_char c = (if unreserved c then [c] else if c = CHR '' '' then ''+''
     else [CHR ''%'', upper_hex (of_char c div 16), upper_hex (of_char c mod 16)])"

definition query_escape :: "string \<Rightarrow> string" where
  "query_escape s = concat (map escape_char s)"

fun query_unescape :: "string \<Rightarrow> string + string" where
  "query_unescape [] = Inr []"
| "query_unescape (c # r) =
     (if c = CHR ''%'' then
        (case r of a # b # r' \<Rightarrow>
           (case (unhex a, unhex b) of
              (Some x, Some y) \<Rightarrow> bindE (query_unescape r') (\<lambda>t. Inr (char_of (16 * x + y) # t))
            | _ \<Rightarrow> Inl ''invalid URL escape'')
         | _ \<Rightarrow> Inl ''invalid URL escape'')
      else bindE (query_unescape r) (\<lambda>t. Inr ((if c = CHR ''+'' then CHR '' '' else c) # t)))"

subsection \<open>Queries\<close>

type_synonym url_values = "(string \<times> string) list"

text \<open>\<open>strings.Cut\<close> at a character.\<close>

definition cut :: "char \<Rightarrow> string \<Rightarrow> string \<times> string" where
  "cut c s = (takeWhile (\<lambda>x. x \<noteq> c) s, drop 1 (dropWhile (\<lambda>x. x \<noteq> c) s))"

text \<open>\<open>url.ParseQuery\<close>: a parameter with a semicolon is an error, as is a wrong escape;
  empty parameters are skipped. Of the errors only the presence matters here.\<close>

fun parse_params :: "string list \<Rightarrow> string + url_values" where
  "parse_params [] = Inr []"
| "parse_params (p # ps) =
     (if CHR '';'' \<in> set p then Inl ''invalid semicolon separator in query''
      else if p = [] then parse_params ps
      else case cut (CHR ''='') p of (k, v) \<Rightarrow>
        bindE (query_unescape k) (\<lambda>k'. bindE (query_unescape v) (\<lambda>v'.
        bindE (parse_params ps) (\<lambda>vs. Inr ((k', v') # vs)))))"

definition ParseQuery :: "string \<Rightarrow> string + url_values" where
  "ParseQuery q = parse_params (split_on (CHR ''&'') q)"

definition values_of :: "url_values \<Rightarrow> string \<Rightarrow> string list" where
  "values_of vs k = map snd (filter (\<lambda>p. fst p = k) vs)"

definition values_Get :: "url_values \<Rightarrow> string \<Rightarrow> string" where
  "values_Get vs k = (case values_of vs k of [] \<Rightarrow> [] | v # _ \<Rightarrow> v)"

definition values_Add :: "url_values \<Rightarrow> string \<Rightarrow> string \<Rightarrow> url_values" where
  "values_Add vs k v = vs @ [(k, v)]"

definition values_Set :: "url_values \<Rightarrow> string \<Rightarrow> string \<Rightarrow> url_values" where
  "values_Set vs k v = filter (\<lambda>p. fst p \<noteq> k) vs @ [(k, v)]"

fun join_amp :: "string list \<Rightarrow> string" where
  "join_amp [] = []"
| "join_amp [p] = p"
| "join_amp (p # ps) = p @ CHR ''&'' # join_amp ps"

definition values_Encode :: "url_values \<Rightarrow> string" where
  "values_Encode vs = join_amp (map (\<lambda>(k, v). query_escape k @ CHR ''='' # query_escape v) (sort_key fst vs))"

subsection \<open>The DSN\<close>

definition requiredPragmas :: "string list" where
  "requiredPragmas = [''journal_mode(WAL)'', ''synchronous(NORMAL)'', ''foreign_keys(ON)'', ''busy_timeout(5000)'']"

definition pragma_name :: "string \<Rightarrow> string" where
  "pragma_name p = fst (cut (CHR ''('') p)"

definition with_pragmas :: "url_values \<Rightarrow> url_values" where
  "with_pragmas values =
     (let have_names = map pragma_name (values_of values ''_pragma'');
          values1 = foldl (\<lambda>vs p. if pragma_name p \<in> set have_names then vs else values_Add vs ''_pragma'' p)
                      values requiredPragmas
      in if values_Get values1 ''_txlock'' = [] then values_Set values1 ''_txlock'' ''immediate'' else values1)"

definition sqliteDSNWithPragmas :: "string \<Rightarrow> string + string" where
  "sqliteDSNWithPragmas dsn =
     (case cut (CHR ''?'') dsn of (pathPart, query) \<Rightarrow>
      (case ParseQuery query of
         Inl e \<Rightarrow> Inl (''store: sqlite dsn: parse query: '' @ e)
       | Inr values \<Rightarrow> Inr (pathPart @ ''?'' @ values_Encode (with_pragmas values))))"

subsection \<open>Encoding and parsing\<close>

lemma unhex_upper: "n < 16 \<Longrightarrow> unhex (upper_hex n) = Some n"
  by (simp add: unhex_def upper_hex_def Let_def)

lemma unreserved_not_special: "unreserved c \<Longrightarrow> c \<notin> {CHR ''%'', CHR ''+'', CHR ''&'', CHR '';'', CHR ''='', CHR ''?''}"
  by (auto simp: unreserved_def Let_def)

lemma upper_hex_not_special: "n < 16 \<Longrightarrow> upper_hex n \<notin> {CHR ''%'', CHR ''+'', CHR ''&'', CHR '';'', CHR ''='', CHR ''?''}"
  using unhex_upper [of n] by (auto simp: unhex_def Let_def)

lemma nibbles: "of_char c div 16 < (16 :: nat)" "of_char c mod 16 < (16 :: nat)"
  by (rule less_mult_imp_div_less) simp_all

lemma escape_char_unescape: "query_unescape (escape_char c @ r) = bindE (query_unescape r) (\<lambda>t. Inr (c # t))"
proof -
  have "unhex (upper_hex (of_char c div 16)) = Some (of_char c div 16)" "unhex (upper_hex (of_char c mod 16)) = Some (of_char c mod 16)"
    using nibbles [of c] by (simp_all add: unhex_upper)
  then show ?thesis
    using unreserved_not_special [of c] by (auto simp: escape_char_def)
qed

lemma query_unescape_escape: "query_unescape (query_escape s) = Inr s"
  by (induction s) (simp_all add: query_escape_def escape_char_unescape)

lemma query_escape_plain: "set (query_escape s) \<inter> {CHR ''&'', CHR '';'', CHR ''='', CHR ''?''} = {}"
proof -
  have "set (escape_char c) \<inter> {CHR ''&'', CHR '';'', CHR ''='', CHR ''?''} = {}" for c
    using unreserved_not_special [of c] upper_hex_not_special [of "of_char c div 16"]
      upper_hex_not_special [of "of_char c mod 16"] nibbles [of c]
    by (auto simp: escape_char_def)
  then show ?thesis by (auto simp: query_escape_def)
qed

lemma split_on_single: "c \<notin> set p \<Longrightarrow> split_on c p = [p]"
  by (induction p) auto

lemma split_on_append: "c \<notin> set p \<Longrightarrow> split_on c (p @ c # r) = p # split_on c r"
  by (induction p) (auto split: list.splits)

lemma split_join: "ps \<noteq> [] \<Longrightarrow> (\<And>p. p \<in> set ps \<Longrightarrow> CHR ''&'' \<notin> set p) \<Longrightarrow> split_on (CHR ''&'') (join_amp ps) = ps"
  by (induction ps rule: join_amp.induct) (simp_all add: split_on_single split_on_append)

lemma cut_append: "c \<notin> set p \<Longrightarrow> cut c (p @ c # r) = (p, r)"
proof -
  assume "c \<notin> set p"
  then have "takeWhile (\<lambda>x. x \<noteq> c) (p @ c # r) = p" "dropWhile (\<lambda>x. x \<noteq> c) (p @ c # r) = c # r"
    by (induction p) auto
  then show ?thesis by (simp add: cut_def)
qed

lemma parse_params_encoded:
  "parse_params (map (\<lambda>(k, v). query_escape k @ CHR ''='' # query_escape v) vs) = Inr vs"
proof (induction vs)
  case (Cons p vs)
  obtain k v where p: "p = (k, v)" by fastforce
  have "cut (CHR ''='') (query_escape k @ CHR ''='' # query_escape v) = (query_escape k, query_escape v)"
    using query_escape_plain [of k] by (intro cut_append) auto
  moreover have "CHR '';'' \<notin> set (query_escape k)" "CHR '';'' \<notin> set (query_escape v)"
    using query_escape_plain [of k] query_escape_plain [of v] by auto
  ultimately show ?case using Cons p by (simp add: query_unescape_escape)
qed simp

lemma parse_encode: "ParseQuery (values_Encode vs) = Inr (sort_key fst vs)"
proof (cases "vs = []")
  case True
  then show ?thesis by (simp add: ParseQuery_def values_Encode_def)
next
  case False
  have "CHR ''&'' \<notin> set p" if "p \<in> set (map (\<lambda>(k, v). query_escape k @ CHR ''='' # query_escape v) (sort_key fst vs))" for p
    using that query_escape_plain by fastforce
  moreover have "map (\<lambda>(k, v). query_escape k @ CHR ''='' # query_escape v) (sort_key fst vs) \<noteq> []" using False
    by (metis map_is_Nil_conv set_empty set_sort)
  ultimately show ?thesis
    unfolding ParseQuery_def values_Encode_def by (subst split_join) (simp_all add: parse_params_encoded)
qed

lemma values_of_sorted: "values_of (sort_key fst vs) k = values_of vs k"
  using sort_key_stable [of fst k vs] by (simp add: values_of_def)

subsection \<open>What the store opens\<close>

definition pragma_names :: "url_values \<Rightarrow> string set" where
  "pragma_names vs = set (map pragma_name (values_of vs ''_pragma''))"

text \<open>The pragmas that are added, at the end.\<close>

lemma add_pragmas:
  "foldl (\<lambda>vs p. if pragma_name p \<in> H then vs else values_Add vs k p) vs ps =
     vs @ map (Pair k) (filter (\<lambda>p. pragma_name p \<notin> H) ps)"
  by (induction ps arbitrary: vs) (simp_all add: values_Add_def)

lemma values_of_append: "values_of (vs @ ws) k = values_of vs k @ values_of ws k"
  by (simp add: values_of_def)

lemma values_of_pairs: "values_of (map (Pair k) ps) k' = (if k = k' then ps else [])"
  by (simp add: values_of_def filter_map o_def)

lemma with_pragmas_values:
  "values_of (with_pragmas vs) k =
     (if k = ''_pragma'' then values_of vs k @ filter (\<lambda>p. pragma_name p \<notin> pragma_names vs) requiredPragmas
      else if k = ''_txlock'' \<and> values_Get vs k = [] then [''immediate''] else values_of vs k)"
proof -
  define ps where "ps = filter (\<lambda>p. pragma_name p \<notin> pragma_names vs) requiredPragmas"
  have one: "foldl (\<lambda>vs p. if pragma_name p \<in> set (map pragma_name (values_of vs0 ''_pragma'')) then vs
      else values_Add vs ''_pragma'' p) vs requiredPragmas = vs @ map (Pair ''_pragma'') ps" if "vs0 = vs" for vs0
    unfolding add_pragmas ps_def pragma_names_def that by simp
  have get: "values_Get (vs @ map (Pair ''_pragma'') ps) ''_txlock'' = values_Get vs ''_txlock''"
    by (simp add: values_Get_def values_of_append values_of_pairs)
  have set: "values_of (values_Set ws ''_txlock'' v) k' = (if k' = ''_txlock'' then [v] else values_of ws k')" for ws v k'
    by (auto simp: values_Set_def values_of_def intro!: arg_cong [of _ _ "map snd"] filter_cong)
  show ?thesis
    unfolding with_pragmas_def Let_def one [OF refl] get
    by (auto simp: set values_of_append values_of_pairs ps_def [symmetric])
qed

lemma with_pragmas_names: "p \<in> set requiredPragmas \<Longrightarrow> pragma_name p \<in> pragma_names (with_pragmas vs)"
  by (cases "pragma_name p \<in> pragma_names vs") (auto simp: pragma_names_def with_pragmas_values)

lemma with_pragmas_done:
  assumes "\<forall>p \<in> set requiredPragmas. pragma_name p \<in> pragma_names vs" "values_Get vs ''_txlock'' \<noteq> []"
  shows "with_pragmas vs = vs"
proof -
  have "filter (\<lambda>p. pragma_name p \<notin> set (map pragma_name (values_of vs ''_pragma''))) requiredPragmas = []"
    using assms(1) by (auto simp: pragma_names_def filter_empty_conv)
  then show ?thesis using assms(2) by (simp add: with_pragmas_def add_pragmas Let_def)
qed

lemma sorted_names: "pragma_names (sort_key fst vs) = pragma_names vs" "values_Get (sort_key fst vs) k = values_Get vs k"
  by (simp_all add: pragma_names_def values_Get_def values_of_sorted)

text \<open>
  C32. The DSN a SQLite store is opened with. The path is the operator's. Each of the
  four pragmas is set, by the operator or by the store, a transaction lock mode is
  set, and every other parameter of the operator is kept, in order; only added pragmas
  follow the operator's own. Tuning a tuned DSN changes nothing.
\<close>

theorem sqlite_dsn_tuned:
  assumes "sqliteDSNWithPragmas dsn = Inr out"
  shows "\<exists>vs ws. ParseQuery (snd (cut (CHR ''?'') dsn)) = Inr vs \<and> ParseQuery (snd (cut (CHR ''?'') out)) = Inr ws \<and>
    fst (cut (CHR ''?'') out) = fst (cut (CHR ''?'') dsn) \<and>
    set (map pragma_name requiredPragmas) \<subseteq> pragma_names ws \<and> values_Get ws ''_txlock'' \<noteq> [] \<and>
    (\<forall>k. k \<noteq> ''_txlock'' \<longrightarrow> take (length (values_of vs k)) (values_of ws k) = values_of vs k) \<and>
    (\<forall>k. k \<notin> {''_txlock'', ''_pragma''} \<longrightarrow> values_of ws k = values_of vs k) \<and>
    sqliteDSNWithPragmas out = Inr out"
proof -
  obtain path query where c: "cut (CHR ''?'') dsn = (path, query)" by fastforce
  then obtain vs where vs: "ParseQuery query = Inr vs" and out: "out = path @ CHR ''?'' # values_Encode (with_pragmas vs)"
    using assms by (auto simp: sqliteDSNWithPragmas_def split: sum.splits)
  have "CHR ''?'' \<notin> set path" using c by (auto simp: cut_def dest: set_takeWhileD)
  then have co: "cut (CHR ''?'') out = (path, values_Encode (with_pragmas vs))" unfolding out by (rule cut_append)
  define ws where "ws = sort_key fst (with_pragmas vs)"
  have ws: "ParseQuery (values_Encode (with_pragmas vs)) = Inr ws" by (simp add: parse_encode ws_def)
  have names: "\<forall>p \<in> set requiredPragmas. pragma_name p \<in> pragma_names ws"
    by (simp add: ws_def sorted_names with_pragmas_names)
  have lock: "values_Get ws ''_txlock'' \<noteq> []"
    by (auto simp: ws_def sorted_names values_Get_def [of "with_pragmas vs"] with_pragmas_values)
      (auto simp: values_Get_def split: list.splits)
  have "values_Encode ws = values_Encode (with_pragmas vs)"
    unfolding values_Encode_def ws_def by (simp add: sort_key_id_if_sorted)
  then have "values_Encode (with_pragmas ws) = values_Encode (with_pragmas vs)"
    by (simp add: with_pragmas_done [OF names lock])
  then have "sqliteDSNWithPragmas out = Inr out"
    using co ws by (simp add: sqliteDSNWithPragmas_def out)
  then show ?thesis
    using c co vs ws names lock
    by (intro exI [of _ vs] exI [of _ ws]) (auto simp: ws_def values_of_sorted with_pragmas_values)
qed

theorem sqlite_dsn_tuned_witness:
  "\<exists>out. sqliteDSNWithPragmas ''file:/data/ff.db?cache=shared&_pragma=busy_timeout(100)'' = Inr out \<and>
     sqliteDSNWithPragmas out = Inr out"
proof -
  have "\<exists>out. sqliteDSNWithPragmas ''file:/data/ff.db?cache=shared&_pragma=busy_timeout(100)'' = Inr out"
    by (simp add: sqliteDSNWithPragmas_def cut_def ParseQuery_def)
  then show ?thesis using sqlite_dsn_tuned by blast
qed

end
