(* ===== verification/Router.thy ===== *)
theory Router
  imports Rest_Flow Sqlite_Dsn
begin

text \<open>
  From an HTTP request to a handler: the mux of \<open>restRoutes\<close> (\<open>internal/server/server.go\<close>)
  with the routes and parameter bindings of the generated server,
  \<open>internal/gen/openapi/api.gen.go\<close>. \<open>http.ServeMux\<close> and \<open>URL.Query\<close> are modelled; the
  binding of parameters by the package \<open>runtime\<close> is the parameter \<open>B\<close>.
\<close>

subsection \<open>Paths\<close>

text \<open>\<open>url.PathUnescape\<close>: the escapes of a query, but a plus stands for itself. The mux
  leaves a segment with a wrong escape as it is.\<close>

fun path_unescape :: "string \<Rightarrow> string option" where
  "path_unescape [] = Some []"
| "path_unescape (c # r) =
     (if c = CHR ''%'' then
        (case r of a # b # r' \<Rightarrow>
           (case (unhex a, unhex b) of
              (Some x, Some y) \<Rightarrow> map_option ((#) (char_of (16 * x + y))) (path_unescape r')
            | _ \<Rightarrow> None)
         | _ \<Rightarrow> None)
      else map_option ((#) c) (path_unescape r))"

definition mux_unescape :: "string \<Rightarrow> string" where
  "mux_unescape s = (case path_unescape s of None \<Rightarrow> s | Some t \<Rightarrow> t)"

text \<open>The segments of a path that starts with a slash; an empty one at the end, that is a
  slash at the end of the path, is the segment \<open>/\<close>.\<close>

definition raw_segments :: "string \<Rightarrow> string list" where
  "raw_segments p = split_on (CHR ''/'') (tl p)"

definition path_segments :: "string \<Rightarrow> string list" where
  "path_segments p = map (\<lambda>s. if s = [] then ''/'' else mux_unescape s) (raw_segments p)"

text \<open>\<open>p == cleanPath(p)\<close>\<close>

definition clean_path :: "string \<Rightarrow> bool" where
  "clean_path p \<longleftrightarrow> (case p of [] \<Rightarrow> False | c # _ \<Rightarrow> c = CHR ''/'') \<and>
     list_all (\<lambda>s. s \<noteq> []) (butlast (raw_segments p)) \<and> list_all (\<lambda>s. s \<noteq> ''.'' \<and> s \<noteq> ''..'') (raw_segments p)"

subsection \<open>The mux\<close>

datatype pat = Lit string | Wild string

type_synonym 'h entry = "pat list \<times> 'h"

definition after_lit :: "string \<Rightarrow> 'h entry list \<Rightarrow> 'h entry list" where
  "after_lit s T = concat (map (\<lambda>(ps, h). case ps of Lit l # qs \<Rightarrow> if l = s then [(qs, h)] else [] | _ \<Rightarrow> []) T)"

definition after_wild :: "'h entry list \<Rightarrow> 'h entry list" where
  "after_wild T = concat (map (\<lambda>(ps, h). case ps of Wild w # qs \<Rightarrow> [(qs, h)] | _ \<Rightarrow> []) T)"

text \<open>The tree of routes: a literal is tried before a wildcard, which does not match a
  slash at the end.\<close>

fun match_path :: "'h entry list \<Rightarrow> string list \<Rightarrow> string list \<Rightarrow> ('h \<times> string list) option" where
  "match_path T [] ms = (case filter (\<lambda>(ps, h). ps = []) T of [] \<Rightarrow> None | (ps, h) # _ \<Rightarrow> Some (h, ms))"
| "match_path T (s # ss) ms =
     (if T = [] then None
      else case match_path (after_lit s T) ss ms of
        Some r \<Rightarrow> Some r
      | None \<Rightarrow> if s = ''/'' then None else match_path (after_wild T) ss (ms @ [s]))"

definition routes_for :: "string \<Rightarrow> (string \<times> 'h entry) list \<Rightarrow> 'h entry list" where
  "routes_for m T = map snd (filter (\<lambda>(m', r). m' = m) T)"

text \<open>A route for GET serves HEAD too.\<close>

definition mux_match :: "(string \<times> 'h entry) list \<Rightarrow> string \<Rightarrow> string list \<Rightarrow> ('h \<times> string list) option" where
  "mux_match T m ss = (case match_path (routes_for m T) ss [] of
     Some r \<Rightarrow> Some r
   | None \<Rightarrow> if m = ''HEAD'' then match_path (routes_for ''GET'' T) ss [] else None)"

definition mux_allowed :: "(string \<times> 'h entry) list \<Rightarrow> string list \<Rightarrow> bool" where
  "mux_allowed T ss \<longleftrightarrow> list_ex (\<lambda>m. match_path (routes_for m T) ss [] \<noteq> None) (map fst T)"

subsection \<open>Parameters\<close>

text \<open>\<open>URL.Query\<close>: parameters that do not parse are dropped.\<close>

definition query_param :: "string \<Rightarrow> url_values" where
  "query_param p = (case parse_params [p] of Inl _ \<Rightarrow> [] | Inr vs \<Rightarrow> vs)"

definition url_Query :: "string \<Rightarrow> url_values" where
  "url_Query q = concat (map query_param (split_on (CHR ''&'') q))"

datatype bind_error = RequiredParameter | BindFailed string

text \<open>\<open>BindStyledParameterWithOptions\<close> for path parameters of the types used, and
  \<open>BindQueryParameterWithOptions\<close> for optional query parameters; the first argument is the
  name.\<close>

record param_binder =
  bd_path :: "string \<Rightarrow> string \<Rightarrow> string + string"
  bd_path_uuid :: "string \<Rightarrow> string \<Rightarrow> string + uuid"
  bd_query_string :: "string \<Rightarrow> url_values \<Rightarrow> bind_error + string option"
  bd_query_time :: "string \<Rightarrow> url_values \<Rightarrow> bind_error + time option"
  bd_query_int32 :: "string \<Rightarrow> url_values \<Rightarrow> bind_error + int option"

datatype param_error = RequiredParamError string | InvalidParamFormatError string string

definition param_error_Error :: "param_error \<Rightarrow> string" where
  "param_error_Error e = (case e of
     RequiredParamError n \<Rightarrow> ''Query argument '' @ n @ '' is required, but not found''
   | InvalidParamFormatError n m \<Rightarrow> ''Invalid format for parameter '' @ n @ '': '' @ m)"

definition path_param :: "(string \<Rightarrow> string \<Rightarrow> string + 'a) \<Rightarrow> string \<Rightarrow> (string \<Rightarrow> string) \<Rightarrow> param_error + 'a" where
  "path_param bd name pv = (case bd name (pv name) of Inl e \<Rightarrow> Inl (InvalidParamFormatError name e) | Inr v \<Rightarrow> Inr v)"

definition bound_query :: "(string \<Rightarrow> url_values \<Rightarrow> bind_error + 'a) \<Rightarrow> string \<Rightarrow> url_values \<Rightarrow> param_error + 'a" where
  "bound_query bd name q = (case bd name q of
     Inl RequiredParameter \<Rightarrow> Inl (RequiredParamError name)
   | Inl (BindFailed e) \<Rightarrow> Inl (InvalidParamFormatError name e)
   | Inr v \<Rightarrow> Inr v)"

subsection \<open>Wrappers\<close>

text \<open>A wrapper reads the values of the wildcards and the query, and calls the handler.\<close>

type_synonym wrapper = "param_binder \<Rightarrow> (string \<Rightarrow> string) \<Rightarrow> url_values \<Rightarrow> param_error + rest_call"

abbreviation with_slug :: "(string \<Rightarrow> rest_call) \<Rightarrow> wrapper" where
  "with_slug c B pv q \<equiv> bindE (path_param (bd_path B) ''slug'' pv) (\<lambda>slug. Inr (c slug))"

abbreviation with_slug_and :: "string \<Rightarrow> (string \<Rightarrow> string \<Rightarrow> rest_call) \<Rightarrow> wrapper" where
  "with_slug_and name c B pv q \<equiv> bindE (path_param (bd_path B) ''slug'' pv) (\<lambda>slug.
     bindE (path_param (bd_path B) name pv) (\<lambda>key. Inr (c slug key)))"

definition siw_GetHealth :: wrapper where "siw_GetHealth B pv q = Inr GetHealth"

definition siw_ListProjects :: wrapper where "siw_ListProjects B pv q = Inr RListProjects"

definition siw_CreateProject :: wrapper where "siw_CreateProject B pv q = Inr RCreateProject"

definition siw_GetProject :: wrapper where "siw_GetProject B pv q = with_slug RGetProject B pv q"

definition siw_ListAuditEvents :: wrapper where
  "siw_ListAuditEvents B pv q =
     bindE (path_param (bd_path B) ''slug'' pv) (\<lambda>slug.
     bindE (bound_query (bd_query_string B) ''action'' q) (\<lambda>action.
     bindE (bound_query (bd_query_string B) ''actor'' q) (\<lambda>actor.
     bindE (bound_query (bd_query_time B) ''from'' q) (\<lambda>from_ts.
     bindE (bound_query (bd_query_time B) ''to'' q) (\<lambda>to_ts.
     bindE (bound_query (bd_query_string B) ''cursor'' q) (\<lambda>cursor.
     bindE (bound_query (bd_query_int32 B) ''limit'' q) (\<lambda>limit.
     Inr (RListAuditEvents slug \<lparr>ALP_Action = action, ALP_Actor = actor, ALP_From = from_ts, ALP_To = to_ts,
       ALP_Cursor = cursor, ALP_Limit = limit\<rparr>))))))))"

definition siw_ListEnvironments :: wrapper where "siw_ListEnvironments B pv q = with_slug RListEnvironments B pv q"

definition siw_CreateEnvironment :: wrapper where "siw_CreateEnvironment B pv q = with_slug RCreateEnvironment B pv q"

definition siw_GetEnvironment :: wrapper where "siw_GetEnvironment B pv q = with_slug_and ''envSlug'' RGetEnvironment B pv q"

definition siw_ListFlags :: wrapper where "siw_ListFlags B pv q = with_slug RListFlags B pv q"

definition siw_CreateFlag :: wrapper where "siw_CreateFlag B pv q = with_slug RCreateFlag B pv q"

definition siw_GetFlag :: wrapper where "siw_GetFlag B pv q = with_slug_and ''key'' RGetFlag B pv q"

definition siw_PublishFlagVersion :: wrapper where
  "siw_PublishFlagVersion B pv q = with_slug_and ''key'' RPublishFlagVersion B pv q"

definition siw_EvaluateFlag :: wrapper where "siw_EvaluateFlag B pv q = with_slug_and ''key'' REvaluateFlag B pv q"

definition siw_EvaluateFlagWithTrace :: wrapper where
  "siw_EvaluateFlagWithTrace B pv q = with_slug_and ''key'' REvaluateFlagWithTrace B pv q"

definition siw_ListFlagVersions :: wrapper where "siw_ListFlagVersions B pv q = with_slug_and ''key'' RListFlagVersions B pv q"

definition siw_ListSegments :: wrapper where "siw_ListSegments B pv q = with_slug RListSegments B pv q"

definition siw_CreateSegment :: wrapper where "siw_CreateSegment B pv q = with_slug RCreateSegment B pv q"

definition siw_GetSegment :: wrapper where "siw_GetSegment B pv q = with_slug_and ''segKey'' RGetSegment B pv q"

definition siw_UpdateSegment :: wrapper where "siw_UpdateSegment B pv q = with_slug_and ''segKey'' RUpdateSegment B pv q"

definition siw_ListSnapshots :: wrapper where
  "siw_ListSnapshots B pv q =
     bindE (path_param (bd_path B) ''slug'' pv) (\<lambda>slug.
     bindE (bound_query (bd_query_int32 B) ''limit'' q) (\<lambda>limit.
     Inr (RListSnapshots slug limit)))"

definition siw_CompileSnapshot :: wrapper where "siw_CompileSnapshot B pv q = with_slug RCompileSnapshot B pv q"

definition siw_GetLatestSnapshot :: wrapper where "siw_GetLatestSnapshot B pv q = with_slug RGetLatestSnapshot B pv q"

definition siw_GetSnapshot :: wrapper where
  "siw_GetSnapshot B pv q =
     bindE (path_param (bd_path B) ''slug'' pv) (\<lambda>slug.
     bindE (path_param (bd_path_uuid B) ''id'' pv) (\<lambda>i. Inr (RGetSnapshot slug i)))"

lemmas wrapper_defs = siw_GetHealth_def siw_ListProjects_def siw_CreateProject_def siw_GetProject_def siw_ListAuditEvents_def
  siw_ListEnvironments_def siw_CreateEnvironment_def siw_GetEnvironment_def siw_ListFlags_def siw_CreateFlag_def siw_GetFlag_def
  siw_PublishFlagVersion_def siw_EvaluateFlag_def siw_EvaluateFlagWithTrace_def siw_ListFlagVersions_def siw_ListSegments_def
  siw_CreateSegment_def siw_GetSegment_def siw_UpdateSegment_def siw_ListSnapshots_def siw_CompileSnapshot_def
  siw_GetLatestSnapshot_def siw_GetSnapshot_def

subsection \<open>Routes\<close>

text \<open>What a route leads to: a probe of \<open>server.go\<close> or a wrapper. The pattern is kept with
  it for the names of the wildcards.\<close>

datatype target = Probe string | Wrapped wrapper

abbreviation in_project :: "pat list \<Rightarrow> pat list" where
  "in_project ps \<equiv> Lit ''v1'' # Lit ''projects'' # Wild ''slug'' # ps"

definition openapi_routes :: "(string \<times> pat list \<times> target) list" where
  "openapi_routes =
     [(''GET'', [Lit ''v1'', Lit ''health''], Wrapped siw_GetHealth),
      (''GET'', [Lit ''v1'', Lit ''projects''], Wrapped siw_ListProjects),
      (''POST'', [Lit ''v1'', Lit ''projects''], Wrapped siw_CreateProject),
      (''GET'', in_project [], Wrapped siw_GetProject),
      (''GET'', in_project [Lit ''audit-events''], Wrapped siw_ListAuditEvents),
      (''GET'', in_project [Lit ''environments''], Wrapped siw_ListEnvironments),
      (''POST'', in_project [Lit ''environments''], Wrapped siw_CreateEnvironment),
      (''GET'', in_project [Lit ''environments'', Wild ''envSlug''], Wrapped siw_GetEnvironment),
      (''GET'', in_project [Lit ''flags''], Wrapped siw_ListFlags),
      (''POST'', in_project [Lit ''flags''], Wrapped siw_CreateFlag),
      (''GET'', in_project [Lit ''flags'', Wild ''key''], Wrapped siw_GetFlag),
      (''PUT'', in_project [Lit ''flags'', Wild ''key''], Wrapped siw_PublishFlagVersion),
      (''POST'', in_project [Lit ''flags'', Wild ''key'', Lit ''evaluate''], Wrapped siw_EvaluateFlag),
      (''POST'', in_project [Lit ''flags'', Wild ''key'', Lit ''evaluate-trace''], Wrapped siw_EvaluateFlagWithTrace),
      (''GET'', in_project [Lit ''flags'', Wild ''key'', Lit ''versions''], Wrapped siw_ListFlagVersions),
      (''GET'', in_project [Lit ''segments''], Wrapped siw_ListSegments),
      (''POST'', in_project [Lit ''segments''], Wrapped siw_CreateSegment),
      (''GET'', in_project [Lit ''segments'', Wild ''segKey''], Wrapped siw_GetSegment),
      (''PUT'', in_project [Lit ''segments'', Wild ''segKey''], Wrapped siw_UpdateSegment),
      (''GET'', in_project [Lit ''snapshots''], Wrapped siw_ListSnapshots),
      (''POST'', in_project [Lit ''snapshots''], Wrapped siw_CompileSnapshot),
      (''GET'', in_project [Lit ''snapshots'', Lit ''latest''], Wrapped siw_GetLatestSnapshot),
      (''GET'', in_project [Lit ''snapshots'', Wild ''id''], Wrapped siw_GetSnapshot)]"

definition with_pattern :: "string \<times> pat list \<times> 'h \<Rightarrow> string \<times> (pat list \<times> 'h) entry" where
  "with_pattern r = (case r of (m, ps, h) \<Rightarrow> (m, (ps, (ps, h))))"

definition restRoutes :: "(string \<times> (pat list \<times> target) entry) list" where
  "restRoutes = map with_pattern
     ([(''GET'', [Lit ''healthz''], Probe ''healthz''), (''GET'', [Lit ''readyz''], Probe ''readyz'')] @ openapi_routes)"

subsection \<open>Serving\<close>

text \<open>A request as the listener reads it. The body is the first value of the stream, which
  ends after \<open>hr_value_end\<close> bytes.\<close>

record http_request =
  hr_method :: string
  hr_path :: string
  hr_query :: string
  hr_actor :: string
  hr_body :: raw
  hr_value_end :: int
  hr_content_length :: int

record healthResponse =
  hl_Status :: string
  hl_Service :: string
  hl_Version :: string
  hl_Probe :: string
  hl_Timestamp :: string

definition ServiceName :: "string \<Rightarrow> string" where
  "ServiceName suffix = (if suffix = [] then ''falseflag'' else ''falseflag-'' @ suffix)"

definition api_handleHealth :: "string \<Rightarrow> string \<Rightarrow> time \<Rightarrow> healthResponse" where
  "api_handleHealth version probe now = \<lparr>hl_Status = ''ok'', hl_Service = ServiceName ''api'', hl_Version = version,
     hl_Probe = probe, hl_Timestamp = fmt_seconds now @ ''Z''\<rparr>"

datatype http_response =
    Json response
  | ProbeAnswer int healthResponse
  | PlainText int string
  | Redirect

definition wild_names :: "pat list \<Rightarrow> string list" where
  "wild_names ps = concat (map (\<lambda>p. case p of Wild w \<Rightarrow> [w] | Lit _ \<Rightarrow> []) ps)"

text \<open>\<open>r.PathValue\<close>\<close>

definition path_value :: "pat list \<Rightarrow> string list \<Rightarrow> string \<Rightarrow> string" where
  "path_value ps ms name = (case map_of (zip (wild_names ps) ms) name of None \<Rightarrow> [] | Some v \<Rightarrow> v)"

datatype routed = Call rest_call | ToProbe string | ParamError param_error | NotFound | NotAllowed | Redirected

definition route :: "param_binder \<Rightarrow> http_request \<Rightarrow> routed" where
  "route B r =
     (let ss = path_segments (hr_path r); found = mux_match restRoutes (hr_method r) ss
      in if \<not> clean_path (hr_path r) then Redirected
         else case found of
           None \<Rightarrow> if mux_allowed restRoutes ss then NotAllowed else NotFound
         | Some ((ps, Probe p), ms) \<Rightarrow> ToProbe p
         | Some ((ps, Wrapped h), ms) \<Rightarrow>
            (case h B (path_value ps ms) (url_Query (hr_query r)) of Inl e \<Rightarrow> ParamError e | Inr c \<Rightarrow> Call c))"

text \<open>\<open>maxBodyBytes\<close>: a value that does not end within the limit is an error for the
  decoder, as is one that is no JSON.\<close>

definition maxBodyBytes :: "int \<Rightarrow> http_request \<Rightarrow> request" where
  "maxBodyBytes n r = \<lparr>rq_actor = hr_actor r,
     rq_body = (if hr_value_end r \<le> n then hr_body r else RawBytes ''http: request body too large''),
     rq_content_length = hr_content_length r\<rparr>"

definition serve_http :: "param_binder \<Rightarrow> ('ast, 'prog) engines \<Rightarrow> ts_engine \<Rightarrow> uuid_text \<Rightarrow> nat \<Rightarrow> server \<Rightarrow> http_request
    \<Rightarrow> database option \<Rightarrow> (http_response \<times> database option) option" where
  "serve_http B E T U n sv r s = (case route B r of
     Call c \<Rightarrow> map_option (\<lambda>(resp, s'). (Json resp, s')) (serve_rest E T U n sv (maxBodyBytes (64 * 1024) r) c s)
   | ToProbe p \<Rightarrow> Some (ProbeAnswer 200 (api_handleHealth (sv_version sv) p (sv_now sv 0)), s)
   | ParamError e \<Rightarrow> Some (PlainText 400 (param_error_Error e), s)
   | NotFound \<Rightarrow> Some (PlainText 404 ''404 page not found'', s)
   | NotAllowed \<Rightarrow> Some (PlainText 405 ''Method Not Allowed'', s)
   | Redirected \<Rightarrow> Some (Redirect, s))"

subsection \<open>The address of a call\<close>

definition path_escape :: "string \<Rightarrow> string" where
  "path_escape s = concat (map (\<lambda>c. if unreserved c then [c]
     else [CHR ''%'', upper_hex (of_char c div 16), upper_hex (of_char c mod 16)]) s)"

definition path_of :: "string list \<Rightarrow> string" where
  "path_of ss = concat (map (\<lambda>s. CHR ''/'' # path_escape s) ss)"

fun method_of :: "rest_call \<Rightarrow> string" where
  "method_of RCreateProject = ''POST''"
| "method_of (RCreateEnvironment _) = ''POST''"
| "method_of (RCreateFlag _) = ''POST''"
| "method_of (RPublishFlagVersion _ _) = ''PUT''"
| "method_of (REvaluateFlag _ _) = ''POST''"
| "method_of (REvaluateFlagWithTrace _ _) = ''POST''"
| "method_of (RCreateSegment _) = ''POST''"
| "method_of (RUpdateSegment _ _) = ''PUT''"
| "method_of (RCompileSnapshot _) = ''POST''"
| "method_of _ = ''GET''"

fun segments_of :: "uuid_text \<Rightarrow> rest_call \<Rightarrow> string list" where
  "segments_of U GetHealth = [''v1'', ''health'']"
| "segments_of U RListProjects = [''v1'', ''projects'']"
| "segments_of U RCreateProject = [''v1'', ''projects'']"
| "segments_of U (RGetProject slug) = [''v1'', ''projects'', slug]"
| "segments_of U (RListAuditEvents slug _) = [''v1'', ''projects'', slug, ''audit-events'']"
| "segments_of U (RListEnvironments slug) = [''v1'', ''projects'', slug, ''environments'']"
| "segments_of U (RCreateEnvironment slug) = [''v1'', ''projects'', slug, ''environments'']"
| "segments_of U (RGetEnvironment slug e) = [''v1'', ''projects'', slug, ''environments'', e]"
| "segments_of U (RListFlags slug) = [''v1'', ''projects'', slug, ''flags'']"
| "segments_of U (RCreateFlag slug) = [''v1'', ''projects'', slug, ''flags'']"
| "segments_of U (RGetFlag slug key) = [''v1'', ''projects'', slug, ''flags'', key]"
| "segments_of U (RPublishFlagVersion slug key) = [''v1'', ''projects'', slug, ''flags'', key]"
| "segments_of U (REvaluateFlag slug key) = [''v1'', ''projects'', slug, ''flags'', key, ''evaluate'']"
| "segments_of U (REvaluateFlagWithTrace slug key) = [''v1'', ''projects'', slug, ''flags'', key, ''evaluate-trace'']"
| "segments_of U (RListFlagVersions slug key) = [''v1'', ''projects'', slug, ''flags'', key, ''versions'']"
| "segments_of U (RListSegments slug) = [''v1'', ''projects'', slug, ''segments'']"
| "segments_of U (RCreateSegment slug) = [''v1'', ''projects'', slug, ''segments'']"
| "segments_of U (RGetSegment slug key) = [''v1'', ''projects'', slug, ''segments'', key]"
| "segments_of U (RUpdateSegment slug key) = [''v1'', ''projects'', slug, ''segments'', key]"
| "segments_of U (RListSnapshots slug _) = [''v1'', ''projects'', slug, ''snapshots'']"
| "segments_of U (RCompileSnapshot slug) = [''v1'', ''projects'', slug, ''snapshots'']"
| "segments_of U (RGetLatestSnapshot slug) = [''v1'', ''projects'', slug, ''snapshots'', ''latest'']"
| "segments_of U (RGetSnapshot slug i) = [''v1'', ''projects'', slug, ''snapshots'', uuid_String U i]"

definition opt_param :: "string \<Rightarrow> ('a \<Rightarrow> string) \<Rightarrow> 'a option \<Rightarrow> url_values" where
  "opt_param name f x = (case x of None \<Rightarrow> [] | Some v \<Rightarrow> [(name, f v)])"

fun query_of :: "rest_call \<Rightarrow> url_values" where
  "query_of (RListAuditEvents _ p) =
     opt_param ''action'' id (ALP_Action p) @ opt_param ''actor'' id (ALP_Actor p) @ opt_param ''from'' fmt_nano (ALP_From p) @
     opt_param ''to'' fmt_nano (ALP_To p) @ opt_param ''cursor'' id (ALP_Cursor p) @ opt_param ''limit'' show_int (ALP_Limit p)"
| "query_of (RListSnapshots _ limit) = opt_param ''limit'' show_int limit"
| "query_of _ = []"

definition http_request_of :: "uuid_text \<Rightarrow> rest_call \<Rightarrow> request \<Rightarrow> int \<Rightarrow> http_request" where
  "http_request_of U c rq n = \<lparr>hr_method = method_of c, hr_path = path_of (segments_of U c),
     hr_query = values_Encode (query_of c), hr_actor = rq_actor rq, hr_body = rq_body rq, hr_value_end = n,
     hr_content_length = rq_content_length rq\<rparr>"

text \<open>What can stand in a path: not empty, not a dot segment, not a slash alone, which the
  mux takes for the end of the path, and without percent signs, which the binding
  unescapes a second time.\<close>

definition routable_text :: "string \<Rightarrow> bool" where
  "routable_text s \<longleftrightarrow> s \<notin> {[], ''.'', ''..'', ''/''} \<and> CHR ''%'' \<notin> set s"

definition opt_ok :: "('a \<Rightarrow> bool) \<Rightarrow> 'a option \<Rightarrow> bool" where
  "opt_ok P x = (case x of None \<Rightarrow> True | Some v \<Rightarrow> P v)"

definition int32_ok :: "int \<Rightarrow> bool" where
  "int32_ok n \<longleftrightarrow> - (2 ^ 31) \<le> n \<and> n < 2 ^ 31"

fun params_ok :: "rest_call \<Rightarrow> bool" where
  "params_ok (RListAuditEvents _ p) \<longleftrightarrow> opt_ok printable_time (ALP_From p) \<and> opt_ok printable_time (ALP_To p) \<and> opt_ok int32_ok (ALP_Limit p)"
| "params_ok (RListSnapshots _ limit) \<longleftrightarrow> opt_ok int32_ok limit"
| "params_ok _ \<longleftrightarrow> True"

definition routable :: "uuid_text \<Rightarrow> rest_call \<Rightarrow> bool" where
  "routable U c \<longleftrightarrow> list_all routable_text (segments_of U c) \<and> params_ok c \<and>
     (case c of RGetSnapshot _ i \<Rightarrow> ''latest'' \<noteq> uuid_String U i | _ \<Rightarrow> True)"

text \<open>What the binding promises: a path value without escapes is bound as it is, the text of
  a UUID as that UUID; an absent optional parameter as nil, a single one as its value.\<close>

definition binds_query :: "(string \<Rightarrow> url_values \<Rightarrow> bind_error + 'a option) \<Rightarrow> ('a \<Rightarrow> string) \<Rightarrow> ('a \<Rightarrow> bool) \<Rightarrow> bool" where
  "binds_query bd f P \<longleftrightarrow> (\<forall>name q. (values_of q name = [] \<longrightarrow> bd name q = Inr None) \<and>
     (\<forall>v. values_of q name = [f v] \<and> P v \<longrightarrow> bd name q = Inr (Some v)))"

definition binding_documented :: "uuid_text \<Rightarrow> param_binder \<Rightarrow> bool" where
  "binding_documented U B \<longleftrightarrow>
     (\<forall>name v. v \<noteq> [] \<and> CHR ''%'' \<notin> set v \<longrightarrow> bd_path B name v = Inr v) \<and>
     (\<forall>name i. CHR ''%'' \<notin> set (uuid_String U i) \<longrightarrow> bd_path_uuid B name (uuid_String U i) = Inr i) \<and>
     binds_query (bd_query_string B) id (\<lambda>_. True) \<and> binds_query (bd_query_time B) fmt_nano printable_time \<and>
     binds_query (bd_query_int32 B) show_int int32_ok"

subsection \<open>Paths and queries are read back\<close>

lemma unreserved_not_slash: "unreserved c \<Longrightarrow> c \<noteq> CHR ''/''"
  by (auto simp: unreserved_def Let_def)

lemma path_unescape_escape: "path_unescape (path_escape s) = Some s"
proof (induction s)
  case (Cons c s)
  have "unhex (upper_hex (of_char c div 16)) = Some (of_char c div 16)" "unhex (upper_hex (of_char c mod 16)) = Some (of_char c mod 16)"
    using nibbles [of c] by (simp_all add: unhex_upper)
  then show ?case using Cons unreserved_not_special [of c] by (auto simp: path_escape_def)
qed (simp add: path_escape_def)

lemma slash_not_escaped: "CHR ''/'' \<notin> set (path_escape s)"
proof -
  have "upper_hex n \<noteq> CHR ''/''" if "n < 16" for n
    using unhex_upper [OF that] by (auto simp: unhex_def Let_def)
  then have "upper_hex (of_char c div 16) \<noteq> CHR ''/''" "upper_hex (of_char c mod 16) \<noteq> CHR ''/''" for c :: char
    using nibbles [of c] by blast+
  then show ?thesis using unreserved_not_slash by (auto simp: path_escape_def split: if_splits) metis+
qed

lemma split_slashes:
  "CHR ''/'' \<notin> set p \<Longrightarrow> (\<And>q. q \<in> set qs \<Longrightarrow> CHR ''/'' \<notin> set q) \<Longrightarrow>
   split_on (CHR ''/'') (p @ concat (map ((#) (CHR ''/'')) qs)) = p # qs"
  by (induction qs arbitrary: p) (simp_all add: split_on_single split_on_append)

lemma raw_segments_path_of: "ss \<noteq> [] \<Longrightarrow> raw_segments (path_of ss) = map path_escape ss"
proof (cases ss)
  case (Cons s rest)
  have "path_of rest = concat (map ((#) (CHR ''/'')) (map path_escape rest))" by (induction rest) (simp_all add: path_of_def)
  then have "raw_segments (path_of ss) = split_on (CHR ''/'') (path_escape s @ concat (map ((#) (CHR ''/'')) (map path_escape rest)))"
    by (simp add: raw_segments_def path_of_def Cons)
  also have "\<dots> = path_escape s # map path_escape rest" by (rule split_slashes) (auto simp: slash_not_escaped)
  finally show ?thesis by (simp add: Cons)
qed simp

lemma path_escape_dots: "path_escape s = t \<Longrightarrow> path_unescape t = Some u \<Longrightarrow> s = u"
  using path_unescape_escape [of s] by auto

lemma path_read_back:
  assumes "ss \<noteq> []" "list_all routable_text ss"
  shows "path_segments (path_of ss) = ss" "clean_path (path_of ss)"
proof -
  have r: "s \<notin> {[], ''.'', ''..'', ''/''}" if "s \<in> set ss" for s using assms(2) that by (auto simp: list_all_iff routable_text_def)
  have e: "path_escape s \<noteq> []" "path_escape s \<noteq> ''.''" "path_escape s \<noteq> ''..''" if "s \<in> set ss" for s
    using r [OF that] path_escape_dots [of s "[]" "[]"] path_escape_dots [of s "''.''" "''.''"] path_escape_dots [of s "''..''" "''..''"] by auto
  then show "path_segments (path_of ss) = ss"
    by (simp add: path_segments_def raw_segments_path_of [OF assms(1)] mux_unescape_def path_unescape_escape map_idI)
  have "list_all (\<lambda>s. s \<noteq> []) (butlast (map path_escape ss))" "list_all (\<lambda>s. s \<noteq> ''.'' \<and> s \<noteq> ''..'') (map path_escape ss)"
    using e by (auto simp: list_all_iff map_butlast [symmetric] dest: in_set_butlastD)
  moreover have "\<exists>r. path_of ss = CHR ''/'' # r" using assms(1) by (cases ss) (simp_all add: path_of_def)
  ultimately show "clean_path (path_of ss)" unfolding clean_path_def raw_segments_path_of [OF assms(1)] by auto
qed

lemma url_Query_parsed: "parse_params ps = Inr vs \<Longrightarrow> concat (map query_param ps) = vs"
proof (induction ps arbitrary: vs)
  case (Cons p ps)
  then show ?case by (auto simp: query_param_def bindE_eq_Inr split: if_splits prod.splits)
qed simp

lemma url_Query_encoded: "url_Query (values_Encode vs) = sort_key fst vs"
  using parse_encode [of vs] url_Query_parsed unfolding url_Query_def ParseQuery_def by blast

subsection \<open>Every call has an address that is routed to it\<close>

lemmas mux_defs = mux_match_def routes_for_def restRoutes_def openapi_routes_def with_pattern_def after_lit_def after_wild_def

lemma route_of:
  assumes "mux_match restRoutes m ss = Some ((ps, Wrapped h), ms)" "ss \<noteq> []" "list_all routable_text ss"
    "h B (path_value ps ms) (sort_key fst vs) = Inr c"
  shows "route B \<lparr>hr_method = m, hr_path = path_of ss, hr_query = values_Encode vs, hr_actor = a, hr_body = b, hr_value_end = n,
     hr_content_length = l\<rparr> = Call c"
  using assms by (simp add: route_def path_read_back url_Query_encoded)

lemma bound_opt:
  "binds_query bd f P \<Longrightarrow> values_of q name = (case x of None \<Rightarrow> [] | Some v \<Rightarrow> [f v]) \<Longrightarrow> opt_ok P x \<Longrightarrow>
   bound_query bd name q = Inr x"
  by (cases x) (auto simp: binds_query_def bound_query_def opt_ok_def)

lemma values_of_opt: "values_of (opt_param n f x) name = (if n = name then (case x of None \<Rightarrow> [] | Some v \<Rightarrow> [f v]) else [])"
  by (simp add: opt_param_def values_of_def split: option.split)

lemma bound_path: "binding_documented U B \<Longrightarrow> routable_text (pv name) \<Longrightarrow> path_param (bd_path B) name pv = Inr (pv name)"
  by (simp add: binding_documented_def routable_text_def path_param_def)

lemma routable_not_slash: "routable_text s \<Longrightarrow> s \<noteq> ''/''" by (simp add: routable_text_def)

lemma bound_params:
  assumes "binding_documented U B" "params_ok (RListAuditEvents slug p)"
  defines "q \<equiv> sort_key fst (query_of (RListAuditEvents slug p))"
  shows "bound_query (bd_query_string B) ''action'' q = Inr (ALP_Action p)" "bound_query (bd_query_string B) ''actor'' q = Inr (ALP_Actor p)"
    "bound_query (bd_query_time B) ''from'' q = Inr (ALP_From p)" "bound_query (bd_query_time B) ''to'' q = Inr (ALP_To p)"
    "bound_query (bd_query_string B) ''cursor'' q = Inr (ALP_Cursor p)" "bound_query (bd_query_int32 B) ''limit'' q = Inr (ALP_Limit p)"
  using assms(1, 2) unfolding binding_documented_def
  by (auto intro!: bound_opt simp: q_def values_of_sorted values_of_append values_of_opt opt_ok_def split: option.split)

lemma bound_limit:
  assumes "binding_documented U B" "opt_ok int32_ok limit"
  shows "bound_query (bd_query_int32 B) ''limit'' (sort_key fst (opt_param ''limit'' show_int limit)) = Inr limit"
  using assms by (intro bound_opt) (auto simp: binding_documented_def values_of_sorted values_of_opt)

lemma bound_id: "binding_documented U B \<Longrightarrow> routable_text (uuid_String U i) \<Longrightarrow> bd_path_uuid B name (uuid_String U i) = Inr i"
  by (simp add: binding_documented_def routable_text_def)

text \<open>What is left of the routes once a project is read off the path.\<close>

definition project_routes :: "(pat list \<times> wrapper) list \<Rightarrow> (pat list \<times> target) entry list" where
  "project_routes rs = map (\<lambda>(ps, h). (ps, (in_project ps, Wrapped h))) rs"

lemma match_none [simp]: "match_path [] ss ms = None" by (cases ss) simp_all

lemma case_option_same [simp]: "(case x of None \<Rightarrow> None | Some r \<Rightarrow> Some r) = x" by (cases x) simp_all

lemma match_lit: "after_wild T = [] \<Longrightarrow> match_path T (s # ss) ms = match_path (after_lit s T) ss ms"
  by (cases "match_path (after_lit s T) ss ms") (auto simp: after_lit_def)

lemma match_wild: "after_lit s T = [] \<Longrightarrow> s \<noteq> ''/'' \<Longrightarrow> match_path T (s # ss) ms = match_path (after_wild T) ss (ms @ [s])"
  by (auto simp: after_wild_def)

lemma in_project_GET:
  assumes "slug \<noteq> ''/''"
  shows "mux_match restRoutes ''GET'' (''v1'' # ''projects'' # slug # ss) = match_path (project_routes
    [([], siw_GetProject), ([Lit ''audit-events''], siw_ListAuditEvents), ([Lit ''environments''], siw_ListEnvironments),
     ([Lit ''environments'', Wild ''envSlug''], siw_GetEnvironment), ([Lit ''flags''], siw_ListFlags),
     ([Lit ''flags'', Wild ''key''], siw_GetFlag), ([Lit ''flags'', Wild ''key'', Lit ''versions''], siw_ListFlagVersions),
     ([Lit ''segments''], siw_ListSegments), ([Lit ''segments'', Wild ''segKey''], siw_GetSegment),
     ([Lit ''snapshots''], siw_ListSnapshots), ([Lit ''snapshots'', Lit ''latest''], siw_GetLatestSnapshot),
     ([Lit ''snapshots'', Wild ''id''], siw_GetSnapshot)]) ss [slug]"
  using assms by (simp add: mux_defs project_routes_def match_lit match_wild del: match_path.simps(2))

lemma in_project_POST:
  assumes "slug \<noteq> ''/''"
  shows "mux_match restRoutes ''POST'' (''v1'' # ''projects'' # slug # ss) = match_path (project_routes
    [([Lit ''environments''], siw_CreateEnvironment), ([Lit ''flags''], siw_CreateFlag),
     ([Lit ''flags'', Wild ''key'', Lit ''evaluate''], siw_EvaluateFlag),
     ([Lit ''flags'', Wild ''key'', Lit ''evaluate-trace''], siw_EvaluateFlagWithTrace),
     ([Lit ''segments''], siw_CreateSegment), ([Lit ''snapshots''], siw_CompileSnapshot)]) ss [slug]"
  using assms by (simp add: mux_defs project_routes_def match_lit match_wild del: match_path.simps(2))

lemma in_project_PUT:
  assumes "slug \<noteq> ''/''"
  shows "mux_match restRoutes ''PUT'' (''v1'' # ''projects'' # slug # ss) = match_path (project_routes
    [([Lit ''flags'', Wild ''key''], siw_PublishFlagVersion), ([Lit ''segments'', Wild ''segKey''], siw_UpdateSegment)]) ss [slug]"
  using assms by (simp add: mux_defs project_routes_def match_lit match_wild del: match_path.simps(2))

lemma outside_projects:
  "mux_match restRoutes ''GET'' [''v1'', ''health''] = Some (([Lit ''v1'', Lit ''health''], Wrapped siw_GetHealth), [])"
  "mux_match restRoutes ''GET'' [''v1'', ''projects''] = Some (([Lit ''v1'', Lit ''projects''], Wrapped siw_ListProjects), [])"
  "mux_match restRoutes ''POST'' [''v1'', ''projects''] = Some (([Lit ''v1'', Lit ''projects''], Wrapped siw_CreateProject), [])"
  by (simp_all add: mux_defs)

lemmas matched = in_project_GET in_project_POST in_project_PUT outside_projects routable_not_slash after_lit_def after_wild_def
  project_routes_def

lemma call_matched:
  assumes "binding_documented U B" "routable U c"
  shows "\<exists>ps h ms. mux_match restRoutes (method_of c) (segments_of U c) = Some ((ps, Wrapped h), ms) \<and>
     h B (path_value ps ms) (sort_key fst (query_of c)) = Inr c"
  using assms
  by (cases c) (simp_all add: routable_def matched wrapper_defs path_value_def wild_names_def
    bound_path [OF assms(1)] bound_params [OF assms(1)] bound_limit [OF assms(1)] bound_id [OF assms(1)]
    path_param_def [of "bd_path_uuid B"] del: query_of.simps(1))

lemma request_routed:
  assumes "binding_documented U B" "routable U c"
  shows "route B (http_request_of U c rq m) = Call c"
proof -
  obtain ps h ms where "mux_match restRoutes (method_of c) (segments_of U c) = Some ((ps, Wrapped h), ms)"
    "h B (path_value ps ms) (sort_key fst (query_of c)) = Inr c"
    using call_matched [OF assms] by blast
  moreover have "segments_of U c \<noteq> []" "list_all routable_text (segments_of U c)" using assms(2) by (cases c; simp add: routable_def)+
  ultimately show ?thesis unfolding http_request_of_def by (intro route_of)
qed

text \<open>C40. The router reads back what a client addresses: with a binding that does what it
  documents, the method, path and query written for any of the 23 calls of the API reach the
  wrapper of that call, with its path values and its query parameters unchanged, so serving
  the HTTP request is serving the call under the limit of the body.\<close>

theorem routed_to_call:
  assumes "binding_documented U B" "routable U c"
  shows "route B (http_request_of U c rq m) = Call c \<and>
    serve_http B E T U n sv (http_request_of U c rq m) s =
      map_option (\<lambda>(resp, s'). (Json resp, s')) (serve_rest E T U n sv (maxBodyBytes 65536 (http_request_of U c rq m)) c s)"
  using request_routed [OF assms] by (simp add: serve_http_def)

text \<open>A binding that does what is documented.\<close>

definition plain_query :: "(string \<Rightarrow> 'a option) \<Rightarrow> string \<Rightarrow> url_values \<Rightarrow> bind_error + 'a option" where
  "plain_query p name q = (case values_of q name of
     [] \<Rightarrow> Inr None
   | [v] \<Rightarrow> (case p v of None \<Rightarrow> Inl (BindFailed ''invalid value'') | Some x \<Rightarrow> Inr (Some x))
   | _ \<Rightarrow> Inl (BindFailed ''multiple values for single value parameter''))"

definition plain_binder :: "uuid_text \<Rightarrow> param_binder" where
  "plain_binder U =
     (let path = (\<lambda>v. if v = [] then Inl ''parameter is empty, can't bind its value''
        else case path_unescape v of None \<Rightarrow> Inl ''invalid URL escape'' | Some u \<Rightarrow> Inr u)
      in \<lparr>bd_path = (\<lambda>_. path),
          bd_path_uuid = (\<lambda>_ v. bindE (path v) (\<lambda>u. case uuid_Parse U u of None \<Rightarrow> Inl ''invalid UUID'' | Some i \<Rightarrow> Inr i)),
          bd_query_string = plain_query Some, bd_query_time = plain_query parse_nano, bd_query_int32 = plain_query int_of_literal\<rparr>)"

lemma path_unescape_plain: "CHR ''%'' \<notin> set s \<Longrightarrow> path_unescape s = Some s"
  by (induction s) auto

lemma plain_query_binds: "(\<And>v. P v \<Longrightarrow> p (f v) = Some v) \<Longrightarrow> binds_query (plain_query p) f P"
  by (simp add: binds_query_def plain_query_def)

lemma plain_binder_documented:
  assumes "uuid_text_ok U" "\<forall>i. uuid_String U i \<noteq> []"
  shows "binding_documented U (plain_binder U)"
proof -
  have "binds_query (plain_query parse_nano) fmt_nano printable_time"
    by (rule plain_query_binds) (simp add: printable_time_def parse_nano_fmt)
  moreover have "binds_query (plain_query int_of_literal) show_int int32_ok"
    by (rule plain_query_binds) (simp add: int32_ok_def int64_range_def int_of_literal_show_int)
  moreover have "binds_query (plain_query Some) id (\<lambda>_. True)" by (rule plain_query_binds) simp
  ultimately show ?thesis using assms by (simp add: binding_documented_def plain_binder_def Let_def path_unescape_plain uuid_text_ok_def)
qed

definition audit_call :: rest_call where
  "audit_call = RListAuditEvents ''my shop'' \<lparr>ALP_Action = None, ALP_Actor = Some ''ada & bob'', ALP_From = Some 0, ALP_To = None,
     ALP_Cursor = None, ALP_Limit = Some 2\<rparr>"

theorem routed_to_call_witness:
  "route (plain_binder sample_uuids) (http_request_of sample_uuids audit_call \<lparr>rq_actor = [], rq_body = RawNil, rq_content_length = 0\<rparr> 0) = Call audit_call \<and>
   hr_path (http_request_of sample_uuids audit_call \<lparr>rq_actor = [], rq_body = RawNil, rq_content_length = 0\<rparr> 0) = ''/v1/projects/my%20shop/audit-events''"
proof -
  have "binding_documented sample_uuids (plain_binder sample_uuids)"
    by (rule plain_binder_documented [OF sample_uuids_ok]) (simp add: sample_uuids_def)
  moreover have "routable sample_uuids audit_call" by code_simp
  moreover have "hr_path (http_request_of sample_uuids audit_call \<lparr>rq_actor = [], rq_body = RawNil, rq_content_length = 0\<rparr> 0) = ''/v1/projects/my%20shop/audit-events''"
    by code_simp
  ultimately show ?thesis using routed_to_call [of _ _ audit_call] by blast
qed

end
