(* ===== verification/Spec2Isabelle.thy ===== *)
theory Spec2Isabelle
  imports Eval_Props Trace Proxy Sqlite_Props Operator_Flow Mcp Router
begin

text \<open>
  \<^bold>\<open>FalseFlag\<close>, a feature-flag platform: a verification development of the Go
  control plane, its evaluator, its stores, its SDK, its proxy, its Kubernetes operator
  and its MCP server.

  \<^bold>\<open>The program.\<close> A flag has a value type, a default and an ordered list of rules,
  a \<^emph>\<open>rules tree\<close>. Operators write trees as JSON, JSON with CEL predicates, or
  TypeScript; the \<^emph>\<open>strategy compilers\<close> (\<open>internal/config\<close>) turn each of them
  into a validated tree and the CEL programs it needs. The \<^emph>\<open>evaluator\<close>
  (\<open>internal/eval\<close>) decides a compiled tree for a context. The \<^emph>\<open>control plane\<close>
  (\<open>internal/server\<close>) offers projects, environments, flags, segments, snapshots,
  evaluation and an audit log over REST and over Connect; both surfaces use one
  \<^emph>\<open>store\<close> (\<open>internal/store\<close> over the generated queries of \<open>internal/db\<close>), on
  Postgres or on SQLite, and every mutation runs in one transaction with its audit
  event. A \<^emph>\<open>snapshot\<close> bundles the latest tree of every flag of a project; the
  \<^emph>\<open>SDK\<close> (\<open>internal/sdkgo\<close>) polls snapshots and evaluates them in process, and the
  \<^emph>\<open>proxy\<close> (\<open>internal/proxy\<close>) serves the SDK over HTTP. The \<^emph>\<open>operator\<close>
  (\<open>internal/operator\<close>) keeps the control plane in step with Kubernetes resources
  (\<open>operator/api/v1alpha1\<close>), and the \<^emph>\<open>MCP server\<close> (\<open>internal/mcp\<close>) offers it to agents
  as tools; both call the Connect surface through \<open>clientapi\<close>.

  \<^bold>\<open>Conventions.\<close> A result with an error is a sum, a pointer an option, a string a list
  of bytes, a JSON text its syntax tree (\<open>raw\<close> is a text that may also be empty or
  malformed). A handler or a statement is a function from the state to the outcome and
  the new state. Code that is not part of the repository is an argument: the record
  \<open>engines\<close> (regular expressions and CEL), \<open>ts_engine\<close> (esbuild and goja),
  \<open>uuid_text\<close> (\<open>google/uuid\<close>), \<open>structpb\<close> and \<open>protojson\<close>, \<open>param_binder\<close> (the binding of
  request parameters), the function of type \<open>json_in\<close> by which the database stores a
  document, the answers of the cluster (\<open>kube\<close>), and the outcome of an HTTP request.
  What other clients do to the database, and which statements
  fail, are the fields of \<open>tx_world\<close> and \<open>sl_world\<close>.

  \<^bold>\<open>Library.\<close>
  \<^item> \<open>Prelude\<close>: sums, association lists, byte strings.
  \<^item> \<open>Go_Json\<close>, \<open>Json_Text\<close>, \<open>Codec\<close>: \<open>encoding/json\<close> on documents and on text,
    doubles and their shortest decimals, base 64; written texts are read back.
  \<^item> \<open>Go_Time\<close>, \<open>Time_Order\<close>: the layouts of \<open>time\<close>; texts order as the times do.

  \<^bold>\<open>Configuration.\<close>
  \<^item> \<open>Config_IR\<close>, \<open>Config_Json\<close> (\<open>ir.go\<close>, \<open>strategy.go\<close>): the tree, its decoding and
    marshalling, and that a decoded tree survives both.
  \<^item> \<open>Config_Validate\<close> (\<open>json.go\<close>, \<open>cel.go\<close>, \<open>predicate.go\<close>): validation, and that it
    accepts exactly the well-formed trees.
  \<^item> \<open>Config_Compile\<close> (\<open>json.go\<close>, \<open>cel.go\<close>, \<open>typescript.go\<close>): the three compilers,
    the contract they share (locale \<open>strategy_compiler\<close>), and that compiling
    the stored tree gives the configuration back.
  \<^item> \<open>Segments\<close> (\<open>predicate.go\<close>): resolution of segment references. The code recurses
    without a bound, so \<open>resolveOne\<close> takes a recursion depth: it suffices when stored
    segments refer to segments of smaller rank only, and no depth suffices for a cycle.

  \<^bold>\<open>Evaluation.\<close>
  \<^item> \<open>Rollout\<close> (\<open>rollout.go\<close>): FNV-1a on 64-bit words, buckets and gates.
  \<^item> \<open>Eval\<close>, \<open>Eval_Props\<close> (\<open>predicates.go\<close>, \<open>eval.go\<close>): first match, types of
    decisions, which errors a compiled flag can meet, which attributes matter.
  \<^item> \<open>Trace\<close> (\<open>trace.go\<close>): the explained evaluation agrees unless a rule fails.

  \<^bold>\<open>Stores.\<close>
  \<^item> \<open>Db\<close> (\<open>internal/db\<close>), \<open>Store\<close> (\<open>pg_*.go\<close>): every query over lists of rows with
    the constraints of the schema; every method of the Postgres store; \<open>WithAudit\<close> and
    its at most eight attempts, a recursion on the number of attempts left.
  \<^item> \<open>Store_Props\<close>, \<open>Store_Queries\<close>: atomicity of \<open>WithAudit\<close>; the invariants of
    reachable databases, by induction over a step relation; lookups after inserts
    (locale \<open>keyed_table\<close>); the latest version; pages of the audit log.
  \<^item> \<open>Sqlite_Db\<close> (\<open>internal/db/sqlite\<close>), \<open>Sqlite_Store\<close> (\<open>sqlite_*.go\<close>): the same for
    SQLite, whose rows hold ids, times and documents as text.
  \<^item> \<open>Sqlite_Refine\<close>, \<open>Backends\<close>, \<open>Sqlite_Tx\<close>, \<open>Sqlite_Reads\<close>, \<open>Sqlite_Props\<close>: the SQLite
    store refines the Postgres store, write by write, read by read and
    transaction by transaction, so that the invariants carry over (locale
    \<open>store_backend\<close>, provided by both).
  \<^item> \<open>Sqlite_Dsn\<close>: the tuning of the data source name.

  \<^bold>\<open>Surfaces.\<close>
  \<^item> \<open>Api\<close>, \<open>Rest\<close> (\<open>internal/server/handlers\<close>): wire types, decoding, and every
    handler. \<open>Rest_Props\<close>, \<open>Rest_Flow\<close>: every mutation is atomic and audited,
    responses, publishing followed by evaluation, the cursor of the audit log.
  \<^item> \<open>Rpc_Convert\<close>, \<open>Rpc\<close> (\<open>internal/server/rpc\<close>): the Connect messages and handlers.
    \<open>Rpc_Props\<close>: both surfaces agree, request by request.
  \<^item> \<open>Router\<close> (\<open>internal/gen/openapi/api.gen.go\<close>, \<open>server.go\<close>): the mux, the generated
    wrappers and the limit of the body; every call has an address that is routed to it.

  \<^bold>\<open>Clients.\<close>
  \<^item> \<open>Sdk\<close> (\<open>internal/sdkgo\<close>): polling, evaluation, the typed provider.
  \<^item> \<open>Appconfig\<close> (\<open>internal/appconfig\<close>), \<open>Proxy\<close> (\<open>internal/proxy\<close>): configuration from
    the environment, the proxy's handlers, and what a failed first poll leads to.
  \<^item> \<open>Operator_Api\<close> (\<open>operator/api/v1alpha1\<close>, \<open>translate.go\<close>), \<open>Operator\<close>
    (\<open>internal/operator/controllers\<close>): the resources, their translation into trees, and
    the seven reconcilers over a client and the answers of the cluster.
  \<^item> \<open>Operator_Upstream\<close> (\<open>clientapi\<close>): the client over the Connect handlers, with calls
    and answers that are lost; looking a row up and creating it when it is missing
    (locale \<open>upsert\<close>, provided for projects, environments and flags).
    \<open>Operator_Props\<close>, \<open>Operator_Flow\<close>: what is reported as synced exists, a flag is
    served as its resource says, policies, and the passes that publish nothing.
  \<^item> \<open>Mcp\<close> (\<open>internal/mcp/tools\<close>): the six tools only read; the report on a
    configuration is that of the compiler.

  \<^bold>\<open>Not modelled.\<close> Sockets, HTTP servers and their shutdown, logging, dialling and
  migrating a database, the Kubernetes manager (\<open>cmd\<close>, \<open>run.go\<close>, \<open>internal/logging\<close>,
  \<open>pg_migrations.go\<close>, \<open>sqlite_migrations.go\<close>): input and output only. Protobuf accessors, Connect stubs and
  deep copies: generated plumbing, whose message types are modelled where a handler uses
  them. The seed and the load generator only send requests of the REST surface. The
  JavaScript packages are not part of the Go services.
\<close>

end
